(* ===== verification/Prelude.thy ===== *)
theory Prelude
  imports Main "HOL-Library.AList"
begin

text \<open>
  The vocabulary the components share: the parts of the JavaScript standard
  library the code uses (strings as lists of characters, the insertion-ordered
  Map), the state-and-exception monad in which the effectful methods are
  written, and the hint collections the component proofs use.

  A JavaScript string is modelled by the list of its UTF-16 units, restricted
  to the units below 256 that the HOL type of characters holds.
\<close>

section \<open>Hint collections\<close>

named_theorems run_simps \<open>running the combinators of the effect monad\<close>
named_theorems keeps_intros \<open>preservation of a state invariant by the combinators\<close>
named_theorems hoare_intros \<open>triples of the combinators\<close>

section \<open>Characters\<close>

definition code_of :: "char \<Rightarrow> nat" where
  "code_of c = of_char c"

definition in_codes :: "nat \<Rightarrow> nat \<Rightarrow> char \<Rightarrow> bool" where
  "in_codes a b c \<longleftrightarrow> a \<le> code_of c \<and> code_of c \<le> b"

definition is_digit :: "char \<Rightarrow> bool" where
  "is_digit c \<longleftrightarrow> in_codes 48 57 c"

definition is_upper :: "char \<Rightarrow> bool" where
  "is_upper c \<longleftrightarrow> in_codes 65 90 c"

definition is_lower :: "char \<Rightarrow> bool" where
  "is_lower c \<longleftrightarrow> in_codes 97 122 c"

definition is_alnum :: "char \<Rightarrow> bool" where
  "is_alnum c \<longleftrightarrow> is_digit c \<or> is_upper c \<or> is_lower c"

definition is_hex_ci :: "char \<Rightarrow> bool" where
  "is_hex_ci c \<longleftrightarrow> is_digit c \<or> in_codes 65 70 c \<or> in_codes 97 102 c"

text \<open>White space as \<open>String.prototype.trim\<close> and \<open>\s\<close> see it, below code 256.\<close>

definition js_ws :: "char \<Rightarrow> bool" where
  "js_ws c \<longleftrightarrow> code_of c \<in> {9, 10, 11, 12, 13, 32, 160}"

definition to_lower :: "char \<Rightarrow> char" where
  "to_lower c = (if is_upper c then char_of (code_of c + 32) else c)"

lemmas char_class_defs =
  code_of_def in_codes_def is_digit_def is_upper_def is_lower_def is_alnum_def
  is_hex_ci_def js_ws_def to_lower_def

section \<open>Strings\<close>

definition NL :: char where "NL = CHR 0x0A"
definition CR :: char where "CR = CHR 0x0D"
definition BSL :: char where "BSL = CHR 0x5C"
definition SQ :: char where "SQ = CHR 0x27"
definition DQ :: char where "DQ = CHR 0x22"

fun starts_with :: "string \<Rightarrow> string \<Rightarrow> bool" where
  "starts_with [] s = True"
| "starts_with (p # ps) [] = False"
| "starts_with (p # ps) (c # s) = (p = c \<and> starts_with ps s)"

definition ends_with :: "string \<Rightarrow> string \<Rightarrow> bool" where
  "ends_with p s \<longleftrightarrow> starts_with (rev p) (rev s)"

fun js_includes :: "string \<Rightarrow> string \<Rightarrow> bool" where
  "js_includes p [] = (p = [])"
| "js_includes p (c # s) = (starts_with p (c # s) \<or> js_includes p s)"

definition trim_start :: "string \<Rightarrow> string" where
  "trim_start s = dropWhile js_ws s"

definition trim_end :: "string \<Rightarrow> string" where
  "trim_end s = rev (dropWhile js_ws (rev s))"

definition js_trim :: "string \<Rightarrow> string" where
  "js_trim s = trim_end (trim_start s)"

definition js_lower :: "string \<Rightarrow> string" where
  "js_lower s = map to_lower s"

text \<open>\<open>s.split(c)\<close> for a one-character separator, and \<open>xs.join(sep)\<close>.\<close>

fun js_split :: "char \<Rightarrow> string \<Rightarrow> string list" where
  "js_split c [] = [[]]"
| "js_split c (x # xs) =
     (if x = c then [] # js_split c xs
      else (case js_split c xs of [] \<Rightarrow> [[x]] | y # ys \<Rightarrow> (x # y) # ys))"

fun js_join :: "string \<Rightarrow> string list \<Rightarrow> string" where
  "js_join sep [] = []"
| "js_join sep [x] = x"
| "js_join sep (x # y # ys) = x @ sep @ js_join sep (y # ys)"

definition js_slice :: "nat \<Rightarrow> nat \<Rightarrow> string \<Rightarrow> string" where
  "js_slice a b s = take (b - a) (drop a s)"

text \<open>\<open>s.replace(/c/g, d)\<close> on single characters.\<close>

definition replace_char :: "char \<Rightarrow> char \<Rightarrow> string \<Rightarrow> string" where
  "replace_char c d s = map (\<lambda>x. if x = c then d else x) s"

text \<open>Decimal rendering of a non-negative integer, as in a template literal.\<close>

fun show_nat :: "nat \<Rightarrow> string" where
  "show_nat n = (if n < 10 then [char_of (48 + n)]
                 else show_nat (n div 10) @ [char_of (48 + n mod 10)])"

declare show_nat.simps [simp del]

definition show_int :: "int \<Rightarrow> string" where
  "show_int n = (if n < 0 then CHR ''-'' # show_nat (nat (- n)) else show_nat (nat n))"

text \<open>A string that JavaScript counts as present: neither missing nor empty.\<close>

definition truthy :: "string option \<Rightarrow> string option" where
  "truthy v = (case v of Some s \<Rightarrow> if s = [] then None else Some s | None \<Rightarrow> None)"

lemma starts_with_iff: "starts_with p s \<longleftrightarrow> (\<exists>t. s = p @ t)"
  by (induction p s rule: starts_with.induct) auto

lemma starts_with_append [simp]: "starts_with p (p @ t)"
  by (simp add: starts_with_iff)

lemma starts_with_take: "starts_with p s \<longleftrightarrow> take (length p) s = p"
  by (metis append_eq_conv_conj append_take_drop_id starts_with_iff)

lemma starts_with_shorter: "length p \<le> length a \<Longrightarrow> starts_with p (a @ b) = starts_with p a"
  by (simp add: starts_with_take)

lemma js_includes_iff: "js_includes p s \<longleftrightarrow> (\<exists>a b. s = a @ p @ b)"
proof (induction p s rule: js_includes.induct)
  case (2 p c s)
  show ?case
    by (auto simp add: starts_with_iff 2 Cons_eq_append_conv)
qed simp

lemma js_split_nonempty [simp]: "js_split c s \<noteq> []"
  by (induction s) (auto split: list.splits)

lemma js_join_Cons: "ys \<noteq> [] \<Longrightarrow> js_join sep (x # ys) = x @ sep @ js_join sep ys"
  by (cases ys) auto

lemma js_join_split [simp]: "js_join [c] (js_split c s) = s"
proof (induction s)
  case (Cons x s)
  show ?case
  proof (cases "x = c")
    case True
    then show ?thesis using Cons by (simp add: js_join_Cons)
  next
    case False
    obtain y ys where yy: "js_split c s = y # ys"
      by (cases "js_split c s") auto
    then show ?thesis using False Cons by (cases ys) auto
  qed
qed simp

lemma js_split_no_char: "c \<notin> set p \<Longrightarrow> js_split c p = [p]"
  by (induction p) auto

lemma js_split_append: "c \<notin> set p \<Longrightarrow> js_split c (p @ c # s) = p # js_split c s"
  by (induction p) auto

lemma js_split_join:
  "ls \<noteq> [] \<Longrightarrow> \<forall>l \<in> set ls. c \<notin> set l \<Longrightarrow> js_split c (js_join [c] ls) = ls"
proof (induction ls)
  case (Cons l ls)
  then show ?case
    by (cases ls) (auto simp add: js_split_no_char js_split_append)
qed simp

lemma js_join_all:
  "\<forall>x \<in> set xs. list_all P x \<Longrightarrow> list_all P sep \<Longrightarrow> list_all P (js_join sep xs)"
  by (induction sep xs rule: js_join.induct) auto

lemma js_split_no_sep: "\<forall>p \<in> set (js_split c s). c \<notin> set p"
  by (induction s) (auto split: list.splits)

lemma dropWhile_hd: "dropWhile P s \<noteq> [] \<Longrightarrow> \<not> P (hd (dropWhile P s))"
  by (rule hd_dropWhile)

lemma trim_end_ends: "trim_end s \<noteq> [] \<Longrightarrow> \<not> js_ws (last (trim_end s))"
  by (simp add: trim_end_def last_rev hd_dropWhile)

lemma trim_end_prefix: "\<exists>t. s = trim_end s @ t \<and> (\<forall>c \<in> set t. js_ws c)"
proof -
  have "rev s = takeWhile js_ws (rev s) @ dropWhile js_ws (rev s)" by simp
  then have "s = trim_end s @ rev (takeWhile js_ws (rev s))"
    unfolding trim_end_def by (metis rev_append rev_rev_ident)
  then show ?thesis by (metis set_rev set_takeWhileD)
qed

lemma hd_trim_end: "trim_end s \<noteq> [] \<Longrightarrow> hd (trim_end s) = hd s"
  using trim_end_prefix [of s] by (metis hd_append2)

text \<open>A trimmed string is one that trimming leaves alone at both ends.\<close>

definition trimmed :: "string \<Rightarrow> bool" where
  "trimmed s \<longleftrightarrow> (s \<noteq> [] \<longrightarrow> \<not> js_ws (hd s) \<and> \<not> js_ws (last s))"

lemma trimmed_js_trim [simp]: "trimmed (js_trim s)"
  unfolding trimmed_def js_trim_def
proof (intro impI conjI)
  assume ne: "trim_end (trim_start s) \<noteq> []"
  then have "trim_start s \<noteq> []"
    by (auto simp add: trim_end_def)
  then show "\<not> js_ws (hd (trim_end (trim_start s)))"
    by (simp add: hd_trim_end [OF ne]) (simp add: trim_start_def hd_dropWhile)
  show "\<not> js_ws (last (trim_end (trim_start s)))"
    using ne by (rule trim_end_ends)
qed

lemma trim_start_id: "s = [] \<or> \<not> js_ws (hd s) \<Longrightarrow> trim_start s = s"
  by (cases s) (auto simp add: trim_start_def)

lemma trim_end_id: "s = [] \<or> \<not> js_ws (last s) \<Longrightarrow> trim_end s = s"
  by (cases s rule: rev_cases) (auto simp add: trim_end_def)

lemma trimmed_trim_id: "trimmed s \<Longrightarrow> js_trim s = s"
  unfolding trimmed_def js_trim_def
  by (metis trim_end_id trim_start_id)

lemma replace_char_no: "c \<noteq> d \<Longrightarrow> c \<notin> set (replace_char c d s)"
  by (auto simp add: replace_char_def)

lemma length_replace_char [simp]: "length (replace_char c d s) = length s"
  by (simp add: replace_char_def)

lemma slash_split:
  "c \<notin> set a \<Longrightarrow> c \<notin> set b \<Longrightarrow> a @ c # x = b @ c # y \<longleftrightarrow> a = b \<and> x = y"
proof (induction a arbitrary: b)
  case Nil
  then show ?case by (cases b) auto
next
  case (Cons d a)
  then show ?case by (cases b) auto
qed

lemma split_ifI: "(b \<Longrightarrow> P x) \<Longrightarrow> (\<not> b \<Longrightarrow> P y) \<Longrightarrow> P (if b then x else y)"
  by simp

lemma digit_of_small: "n < 10 \<Longrightarrow> is_digit (char_of (48 + n :: nat))"
  by (simp add: char_class_defs)

lemma show_nat_digits: "list_all is_digit (show_nat n)"
proof (induction n rule: show_nat.induct)
  case (1 n)
  then show ?case
    by (subst show_nat.simps) (simp add: digit_of_small)
qed

definition digit_value :: "char \<Rightarrow> nat" where
  "digit_value c = code_of c - 48"

definition dec_value :: "string \<Rightarrow> nat" where
  "dec_value s = foldl (\<lambda>a c. 10 * a + digit_value c) 0 s"

lemma digit_value_of: "n < 10 \<Longrightarrow> digit_value (char_of (48 + n :: nat)) = n"
  by (simp add: digit_value_def code_of_def)

lemma dec_value_show_nat [simp]: "dec_value (show_nat n) = n"
proof (induction n rule: show_nat.induct)
  case (1 n)
  show ?case
  proof (cases "n < 10")
    case True
    then show ?thesis by (subst show_nat.simps) (simp add: dec_value_def digit_value_of)
  next
    case False
    then have "foldl (\<lambda>a c. 10 * a + digit_value c) 0 (show_nat (n div 10)) = n div 10"
      using 1 by (simp add: dec_value_def)
    then show ?thesis
      using False by (subst show_nat.simps) (simp add: dec_value_def digit_value_of)
  qed
qed

lemma show_nat_inj: "show_nat m = show_nat n \<longleftrightarrow> m = n"
  by (metis dec_value_show_nat)

lemma show_nat_nonempty [simp]: "show_nat n \<noteq> []"
  by (subst show_nat.simps) simp

lemma show_nat_length3: "n < 1000 \<Longrightarrow> length (show_nat n) \<le> 3"
proof -
  assume n: "n < 1000"
  have one: "length (show_nat k) = 1" if "k < 10" for k
    using that by (subst show_nat.simps) simp
  have two: "length (show_nat k) \<le> 2" if "k < 100" for k
    using that one [of "k div 10"] by (subst show_nat.simps) simp
  show ?thesis
    using n two [of "n div 10"] by (subst show_nat.simps) simp
qed

section \<open>Insertion-ordered maps\<close>

text \<open>
  A JavaScript \<open>Map\<close> is the list of its entries in insertion order:
  \<open>set\<close> on a present key keeps its position, on a fresh key appends, \<open>delete\<close>
  removes the entry. \<open>AList.update\<close> and \<open>AList.delete\<close> are these operations.
\<close>

type_synonym ('k, 'v) jmap = "('k \<times> 'v) list"

definition jm_get :: "'k \<Rightarrow> ('k, 'v) jmap \<Rightarrow> 'v option" where
  "jm_get k m = map_of m k"

definition jm_has :: "'k \<Rightarrow> ('k, 'v) jmap \<Rightarrow> bool" where
  "jm_has k m \<longleftrightarrow> jm_get k m \<noteq> None"

definition jm_set :: "'k \<Rightarrow> 'v \<Rightarrow> ('k, 'v) jmap \<Rightarrow> ('k, 'v) jmap" where
  "jm_set k v m = AList.update k v m"

definition jm_delete :: "'k \<Rightarrow> ('k, 'v) jmap \<Rightarrow> ('k, 'v) jmap" where
  "jm_delete k m = AList.delete k m"

definition jm_keys :: "('k, 'v) jmap \<Rightarrow> 'k list" where
  "jm_keys m = map fst m"

definition jm_values :: "('k, 'v) jmap \<Rightarrow> 'v list" where
  "jm_values m = map snd m"

definition jm_inv :: "('k, 'v) jmap \<Rightarrow> bool" where
  "jm_inv m \<longleftrightarrow> distinct (map fst m)"

text \<open>What a client of a keyed store relies on.\<close>

locale keyed_store =
  fixes get :: "'k \<Rightarrow> 'm \<Rightarrow> 'v option"
    and put :: "'k \<Rightarrow> 'v \<Rightarrow> 'm \<Rightarrow> 'm"
    and del :: "'k \<Rightarrow> 'm \<Rightarrow> 'm"
    and keys :: "'m \<Rightarrow> 'k list"
    and inv :: "'m \<Rightarrow> bool"
  assumes get_put: "get k (put k' v m) = (if k = k' then Some v else get k m)"
    and get_del: "get k (del k' m) = (if k = k' then None else get k m)"
    and in_keys: "k \<in> set (keys m) \<longleftrightarrow> get k m \<noteq> None"
    and keys_put: "keys (put k v m) = (if k \<in> set (keys m) then keys m else keys m @ [k])"
    and inv_put: "inv m \<Longrightarrow> inv (put k v m)"
    and inv_del: "inv m \<Longrightarrow> inv (del k m)"
    and inv_distinct: "inv m \<Longrightarrow> distinct (keys m)"
begin

lemma get_put_same [simp]: "get k (put k v m) = Some v"
  by (simp add: get_put)

lemma get_put_other [simp]: "k \<noteq> k' \<Longrightarrow> get k (put k' v m) = get k m"
  by (simp add: get_put)

lemma get_del_same [simp]: "get k (del k m) = None"
  by (simp add: get_del)

lemma get_del_other [simp]: "k \<noteq> k' \<Longrightarrow> get k (del k' m) = get k m"
  by (simp add: get_del)

lemma set_keys_put: "set (keys (put k v m)) = insert k (set (keys m))"
  by (simp add: keys_put insert_absorb)

lemma set_keys_del: "set (keys (del k m)) = set (keys m) - {k}"
  by (auto simp add: in_keys get_del split: if_splits)

lemma size_put: "length (keys (put k v m)) \<le> Suc (length (keys m))"
  by (simp add: keys_put)

lemma size_put_present: "get k m \<noteq> None \<Longrightarrow> keys (put k v m) = keys m"
  by (simp add: keys_put in_keys)

end

lemmas jm_defs = jm_get_def jm_has_def jm_set_def jm_delete_def jm_keys_def jm_values_def jm_inv_def

interpretation js_map: keyed_store jm_get jm_set jm_delete jm_keys jm_inv
  by unfold_locales
     (auto simp add: jm_defs AList.update_conv' AList.delete_conv' AList.update_keys
        AList.delete_keys AList.distinct_update AList.distinct_delete map_of_eq_None_iff
        distinct_removeAll
      dest: map_of_SomeD)

lemma jm_get_Nil [simp]: "jm_get k [] = None"
  by (simp add: jm_get_def)

lemma jm_get_Cons [simp]: "jm_get k ((k', v) # m) = (if k = k' then Some v else jm_get k m)"
  by (simp add: jm_get_def)

lemma jm_set_simps [simp]:
  "jm_set k v [] = [(k, v)]"
  "jm_set k v ((k', v') # m) = (if k' = k then (k, v) # m else (k', v') # jm_set k v m)"
  by (simp_all add: jm_set_def)

lemma jm_delete_simps [simp]:
  "jm_delete k [] = []"
  "jm_delete k ((k', v') # m) = (if k' = k then jm_delete k m else (k', v') # jm_delete k m)"
  by (simp_all add: jm_delete_def)

lemma jm_inv_Nil [simp]: "jm_inv []"
  by (simp add: jm_inv_def)

section \<open>Effects: state and exceptions\<close>

text \<open>
  A method that reads and writes state and may throw is a function from the
  state to its result (\<open>Inl\<close> the exception, \<open>Inr\<close> the value) and the state
  it leaves, also when it throws.
\<close>

type_synonym ('s, 'e, 'a) M = "'s \<Rightarrow> ('e + 'a) \<times> 's"

definition returnM :: "'a \<Rightarrow> ('s, 'e, 'a) M" where
  "returnM x = (\<lambda>s. (Inr x, s))"

definition throwM :: "'e \<Rightarrow> ('s, 'e, 'a) M" where
  "throwM e = (\<lambda>s. (Inl e, s))"

definition bindM :: "('s, 'e, 'a) M \<Rightarrow> ('a \<Rightarrow> ('s, 'e, 'b) M) \<Rightarrow> ('s, 'e, 'b) M" where
  "bindM m f = (\<lambda>s. case m s of (Inl e, t) \<Rightarrow> (Inl e, t) | (Inr x, t) \<Rightarrow> f x t)"

definition thenM :: "('s, 'e, 'a) M \<Rightarrow> ('s, 'e, 'b) M \<Rightarrow> ('s, 'e, 'b) M" where
  "thenM m n = bindM m (\<lambda>_. n)"

text \<open>\<open>try m catch (e) h\<close>, and \<open>try m finally n\<close>: an exception of \<open>n\<close> wins.\<close>

definition catchM :: "('s, 'e, 'a) M \<Rightarrow> ('e \<Rightarrow> ('s, 'f, 'a) M) \<Rightarrow> ('s, 'f, 'a) M" where
  "catchM m h = (\<lambda>s. case m s of (Inl e, t) \<Rightarrow> h e t | (Inr x, t) \<Rightarrow> (Inr x, t))"

definition finallyM :: "('s, 'e, 'a) M \<Rightarrow> ('s, 'e, unit) M \<Rightarrow> ('s, 'e, 'a) M" where
  "finallyM m n = (\<lambda>s. case m s of (r, t) \<Rightarrow>
     (case n t of (Inl e, u) \<Rightarrow> (Inl e, u) | (Inr _, u) \<Rightarrow> (r, u)))"

definition getM :: "('s \<Rightarrow> 'a) \<Rightarrow> ('s, 'e, 'a) M" where
  "getM f = (\<lambda>s. (Inr (f s), s))"

definition modM :: "('s \<Rightarrow> 's) \<Rightarrow> ('s, 'e, unit) M" where
  "modM f = (\<lambda>s. (Inr (), f s))"

text \<open>\<open>for (const x of xs) await f(x)\<close>: the first exception ends the loop.\<close>

fun forM :: "'a list \<Rightarrow> ('a \<Rightarrow> ('s, 'e, unit) M) \<Rightarrow> ('s, 'e, unit) M" where
  "forM [] f = returnM ()"
| "forM (x # xs) f = thenM (f x) (forM xs f)"

text \<open>The loop that collects a value per element.\<close>

fun mapM :: "'a list \<Rightarrow> ('a \<Rightarrow> ('s, 'e, 'b) M) \<Rightarrow> ('s, 'e, 'b list) M" where
  "mapM [] f = returnM []"
| "mapM (x # xs) f = bindM (f x) (\<lambda>y. bindM (mapM xs f) (\<lambda>ys. returnM (y # ys)))"

lemma run_basic [run_simps]:
  "returnM x s = (Inr x, s)"
  "throwM e s = (Inl e, s)"
  "getM f s = (Inr (f s), s)"
  "modM g s = (Inr (), g s)"
  by (simp_all add: returnM_def throwM_def getM_def modM_def)

lemma run_bind [run_simps]:
  "bindM m f s = (case m s of (Inl e, t) \<Rightarrow> (Inl e, t) | (Inr x, t) \<Rightarrow> f x t)"
  "thenM m n s = (case m s of (Inl e, t) \<Rightarrow> (Inl e, t) | (Inr x, t) \<Rightarrow> n t)"
  by (simp_all add: bindM_def thenM_def)

lemma run_catch [run_simps]:
  "catchM m h s = (case m s of (Inl e, t) \<Rightarrow> h e t | (Inr x, t) \<Rightarrow> (Inr x, t))"
  by (simp add: catchM_def)

lemma run_finally [run_simps]:
  "finallyM m n s = (case m s of (r, t) \<Rightarrow>
     (case n t of (Inl e, u) \<Rightarrow> (Inl e, u) | (Inr _, u) \<Rightarrow> (r, u)))"
  by (simp add: finallyM_def)

subsection \<open>Preservation of a predicate on the state\<close>

definition keeps :: "('s \<Rightarrow> bool) \<Rightarrow> ('s, 'e, 'a) M \<Rightarrow> bool" where
  "keeps P m \<longleftrightarrow> (\<forall>s. P s \<longrightarrow> P (snd (m s)))"

lemma keepsI [intro?]: "(\<And>s. P s \<Longrightarrow> P (snd (m s))) \<Longrightarrow> keeps P m"
  by (simp add: keeps_def)

lemma keepsD: "keeps P m \<Longrightarrow> P s \<Longrightarrow> P (snd (m s))"
  by (simp add: keeps_def)

lemma keeps_run: "keeps P m \<Longrightarrow> P s \<Longrightarrow> m s = (r, t) \<Longrightarrow> P t"
  by (metis keepsD snd_conv)

lemma keeps_basic [keeps_intros]:
  "keeps P (returnM x)" "keeps P (throwM e)" "keeps P (getM f)"
  by (simp_all add: keeps_def run_simps)

lemma keeps_modM [keeps_intros]: "(\<And>s. P s \<Longrightarrow> P (f s)) \<Longrightarrow> keeps P (modM f)"
  by (simp add: keeps_def run_simps)

lemma keeps_bindM [keeps_intros]:
  assumes "keeps P m" and "\<And>x. keeps P (f x)"
  shows "keeps P (bindM m f)"
proof
  fix s assume "P s"
  obtain r t where rt: "m s = (r, t)" by fastforce
  then have "P t" using assms(1) \<open>P s\<close> by (auto dest: keepsD)
  then show "P (snd (bindM m f s))"
    using assms(2) rt by (cases r) (auto simp add: run_simps dest: keepsD)
qed

lemma keeps_thenM [keeps_intros]: "keeps P m \<Longrightarrow> keeps P n \<Longrightarrow> keeps P (thenM m n)"
  unfolding thenM_def by (rule keeps_bindM)

lemma keeps_catchM [keeps_intros]:
  assumes "keeps P m" and "\<And>e. keeps P (h e)"
  shows "keeps P (catchM m h)"
proof
  fix s assume "P s"
  obtain r t where rt: "m s = (r, t)" by fastforce
  then have "P t" using assms(1) \<open>P s\<close> by (auto dest: keepsD)
  then show "P (snd (catchM m h s))"
    using assms(2) rt by (cases r) (auto simp add: run_simps dest: keepsD)
qed

lemma keeps_finallyM [keeps_intros]:
  assumes "keeps P m" and "keeps P n"
  shows "keeps P (finallyM m n)"
proof
  fix s assume "P s"
  obtain r t where rt: "m s = (r, t)" by fastforce
  then have "P t" using assms(1) \<open>P s\<close> by (auto dest: keepsD)
  then have "P (snd (n t))" using assms(2) by (rule keepsD [rotated])
  then show "P (snd (finallyM m n s))"
    using rt by (auto simp add: run_simps split: prod.splits sum.splits)
qed

lemma keeps_forM [keeps_intros]: "(\<And>x. x \<in> set xs \<Longrightarrow> keeps P (f x)) \<Longrightarrow> keeps P (forM xs f)"
  by (induction xs) (auto intro: keeps_intros)

lemma keeps_mapM [keeps_intros]: "(\<And>x. x \<in> set xs \<Longrightarrow> keeps P (f x)) \<Longrightarrow> keeps P (mapM xs f)"
  by (induction xs) (auto intro!: keeps_intros)

lemma keeps_if [keeps_intros]: "keeps P m \<Longrightarrow> keeps P n \<Longrightarrow> keeps P (if b then m else n)"
  by simp

lemma keeps_option [keeps_intros]:
  "keeps P m \<Longrightarrow> (\<And>x. keeps P (f x)) \<Longrightarrow> keeps P (case v of None \<Rightarrow> m | Some x \<Rightarrow> f x)"
  by (cases v) auto

subsection \<open>Triples\<close>

text \<open>
  From a state satisfying \<open>P\<close>, the computation ends in \<open>Q\<close> with its value when
  it returns and in \<open>E\<close> when it throws.
\<close>

definition hoare :: "('s \<Rightarrow> bool) \<Rightarrow> ('s, 'e, 'a) M \<Rightarrow> ('a \<Rightarrow> 's \<Rightarrow> bool) \<Rightarrow> ('s \<Rightarrow> bool) \<Rightarrow> bool" where
  "hoare P m Q E \<longleftrightarrow> (\<forall>s. P s \<longrightarrow> (case m s of (Inl e, t) \<Rightarrow> E t | (Inr x, t) \<Rightarrow> Q x t))"

lemma hoareI: "(\<And>s x t. P s \<Longrightarrow> m s = (Inr x, t) \<Longrightarrow> Q x t) \<Longrightarrow>
    (\<And>s e t. P s \<Longrightarrow> m s = (Inl e, t) \<Longrightarrow> E t) \<Longrightarrow> hoare P m Q E"
  by (auto simp add: hoare_def split: prod.splits sum.splits)

lemma hoare_snd: "hoare P m (\<lambda>_. Q) Q \<Longrightarrow> P s \<Longrightarrow> Q (snd (m s))"
  by (cases "m s"; cases "fst (m s)") (auto simp add: hoare_def)

lemma hoare_Inr: "hoare P m Q E \<Longrightarrow> P s \<Longrightarrow> m s = (Inr x, t) \<Longrightarrow> Q x t"
  by (auto simp add: hoare_def)

lemma hoare_Inl: "hoare P m Q E \<Longrightarrow> P s \<Longrightarrow> m s = (Inl e, t) \<Longrightarrow> E t"
  by (auto simp add: hoare_def)

lemma hoare_weaken:
  "hoare P m Q E \<Longrightarrow> (\<And>s. P' s \<Longrightarrow> P s) \<Longrightarrow> (\<And>x s. Q x s \<Longrightarrow> Q' x s) \<Longrightarrow> (\<And>s. E s \<Longrightarrow> E' s) \<Longrightarrow> hoare P' m Q' E'"
  by (rule hoareI) (blast dest: hoare_Inr hoare_Inl)+

lemma hoare_pre: "hoare P m Q E \<Longrightarrow> (\<And>s. P' s \<Longrightarrow> P s) \<Longrightarrow> hoare P' m Q E"
  by (simp add: hoare_def)

lemma hoare_ex: "(\<And>x. C x \<Longrightarrow> hoare (P x) m Q E) \<Longrightarrow> hoare (\<lambda>s. \<exists>x. C x \<and> P x s) m Q E"
  by (rule hoareI) (blast dest: hoare_Inr hoare_Inl)+

lemma hoare_keeps: "keeps P m \<longleftrightarrow> hoare P m (\<lambda>_. P) P"
proof
  assume k: "keeps P m"
  show "hoare P m (\<lambda>_. P) P" by (rule hoareI) (auto dest: keeps_run [OF k])
next
  assume "hoare P m (\<lambda>_. P) P"
  then show "keeps P m" by (intro keepsI) (rule hoare_snd)
qed

lemma hoare_basic [hoare_intros]:
  "(\<And>s. P s \<Longrightarrow> Q x s) \<Longrightarrow> hoare P (returnM x) Q E"
  "(\<And>s. P s \<Longrightarrow> E s) \<Longrightarrow> hoare P (throwM e) Q E"
  "(\<And>s. P s \<Longrightarrow> Q' () (g s)) \<Longrightarrow> hoare P (modM g) Q' E"
  by (simp_all add: hoare_def run_simps)

lemma hoare_getM: "(\<And>s. P s \<Longrightarrow> Q (f s) s) \<Longrightarrow> hoare P (getM f) Q E"
  by (simp add: hoare_def run_simps)

lemma bindM_Inr: "bindM m f s = (Inr y, t) \<longleftrightarrow> (\<exists>x u. m s = (Inr x, u) \<and> f x u = (Inr y, t))"
  by (auto simp add: run_simps split: prod.splits sum.splits)

lemma bindM_Inl: "bindM m f s = (Inl e, t) \<longleftrightarrow> m s = (Inl e, t) \<or> (\<exists>x u. m s = (Inr x, u) \<and> f x u = (Inl e, t))"
  by (auto simp add: run_simps split: prod.splits sum.splits)

lemma bindM_InrE:
  "bindM m f s = (Inr y, t) \<Longrightarrow> (\<And>x u. m s = (Inr x, u) \<Longrightarrow> f x u = (Inr y, t) \<Longrightarrow> R) \<Longrightarrow> R"
  unfolding bindM_Inr by blast

lemma thenM_InrE:
  "thenM m n s = (Inr y, t) \<Longrightarrow> (\<And>x u. m s = (Inr x, u) \<Longrightarrow> n u = (Inr y, t) \<Longrightarrow> R) \<Longrightarrow> R"
  unfolding thenM_def by (erule bindM_InrE) blast

lemma catchM_Inr: "catchM m h s = (Inr y, t) \<longleftrightarrow> m s = (Inr y, t) \<or> (\<exists>e u. m s = (Inl e, u) \<and> h e u = (Inr y, t))"
  by (auto simp add: run_simps split: prod.splits sum.splits)

lemma catchM_Inl: "catchM m h s = (Inl x, t) \<longleftrightarrow> (\<exists>e u. m s = (Inl e, u) \<and> h e u = (Inl x, t))"
  by (auto simp add: run_simps split: prod.splits sum.splits)

lemma hoare_bind: "hoare P m R E \<Longrightarrow> (\<And>x. hoare (R x) (f x) Q E) \<Longrightarrow> hoare P (bindM m f) Q E"
  by (rule hoareI) (unfold bindM_Inr bindM_Inl, (blast dest: hoare_Inr hoare_Inl)+)

lemma hoare_then: "hoare P m (\<lambda>_. R) E \<Longrightarrow> hoare R n Q E \<Longrightarrow> hoare P (thenM m n) Q E"
  unfolding thenM_def by (rule hoare_bind)

lemma hoare_catch: "hoare P m Q R \<Longrightarrow> (\<And>e. hoare R (h e) Q E) \<Longrightarrow> hoare P (catchM m h) Q E"
  by (rule hoareI) (unfold catchM_Inr catchM_Inl, (blast dest: hoare_Inr hoare_Inl)+)

lemma hoare_if [hoare_intros]:
  "(b \<Longrightarrow> hoare P m Q E) \<Longrightarrow> (\<not> b \<Longrightarrow> hoare P n Q E) \<Longrightarrow> hoare P (if b then m else n) Q E"
  by simp

lemma hoare_option [hoare_intros]:
  "hoare P m Q E \<Longrightarrow> (\<And>x. hoare P (f x) Q E) \<Longrightarrow> hoare P (case v of None \<Rightarrow> m | Some x \<Rightarrow> f x) Q E"
  by (cases v) auto

text \<open>Unconditional success, for steps whose exceptions are all swallowed.\<close>

definition no_throw :: "('s, 'e, 'a) M \<Rightarrow> bool" where
  "no_throw m \<longleftrightarrow> (\<forall>s. \<not> isl (fst (m s)))"

lemma no_throw_catch: "(\<And>e. no_throw (h e)) \<Longrightarrow> no_throw (catchM m h)"
  by (auto simp add: no_throw_def run_simps split: prod.splits sum.splits)

lemma no_throw_return [simp]: "no_throw (returnM x)"
  by (simp add: no_throw_def run_simps)

lemma no_throw_forM: "(\<And>x. x \<in> set xs \<Longrightarrow> no_throw (f x)) \<Longrightarrow> no_throw (forM xs f)"
proof (induction xs)
  case (Cons x xs)
  then show ?case
    by (auto simp add: no_throw_def run_simps split: prod.splits sum.splits)
       (metis fst_conv isl_def)
qed simp

end
