(* ===== verification/Sql_Splitter.thy ===== *)
theory Sql_Splitter
  imports Prelude "HOL-Library.Sublist"
begin

text \<open>
  utils/sql_splitter.ts: the state machine that cuts a pg_dump file into
  statements, and the tagged splitter that keeps COPY blocks apart. The index
  \<open>i\<close> of the code is the suffix of the text still to be read together with the
  character before it (the code reads \<open>sql[i - 1]\<close> to recognise a psql
  meta-command at the start of a line).
\<close>

section \<open>The statement splitter\<close>

text \<open>A dollar quote remembers its tag: the code's \<open>dollarTag\<close> is \<open>dollar_delim\<close> of it.\<close>

datatype sp_state = Default | SingleQuote | LineComment | BlockComment | DollarQuote string

definition is_word :: "char \<Rightarrow> bool" where
  "is_word c \<longleftrightarrow> is_alnum c \<or> c = CHR ''_''"

definition dollar_delim :: "string \<Rightarrow> string" where
  "dollar_delim tag = ''$'' @ tag @ ''$''"

text \<open>\<open>sql.slice(i).match(/^(\$[A-Za-z0-9_]*\$)/)\<close>, given the text after the first dollar.\<close>

definition dollar_tag :: "string \<Rightarrow> string option" where
  "dollar_tag s =
     (let w = takeWhile is_word s
      in case drop (length w) s of
           c # _ \<Rightarrow> (if c = CHR ''$'' then Some w else None)
         | [] \<Rightarrow> None)"

definition next_is :: "char \<Rightarrow> string \<Rightarrow> bool" where
  "next_is c s \<longleftrightarrow> (case s of [] \<Rightarrow> False | d # _ \<Rightarrow> d = c)"

definition line_start :: "char option \<Rightarrow> bool" where
  "line_start prev \<longleftrightarrow> (case prev of None \<Rightarrow> True | Some p \<Rightarrow> p = NL)"

definition skip_line :: "string \<Rightarrow> string" where
  "skip_line s = drop 1 (dropWhile (\<lambda>c. c \<noteq> NL) s)"

definition emit :: "string \<Rightarrow> string list" where
  "emit cur = (let stmt = js_trim cur in if stmt \<noteq> [] then [stmt] else [])"

definition emit_trailing :: "string \<Rightarrow> string list" where
  "emit_trailing cur = (let t = js_trim cur in if t \<noteq> [] \<and> t \<noteq> '';'' then [t] else [])"

lemma skip_line_length [simp]: "length (skip_line s) \<le> length s"
  unfolding skip_line_def by (metis diff_le_self length_drop length_dropWhile_le order_trans)

function split_loop :: "sp_state \<Rightarrow> char option \<Rightarrow> string \<Rightarrow> string \<Rightarrow> string list" where
  "split_loop st prev [] cur = emit_trailing cur"
| "split_loop Default prev (c # s) cur =
     (if c = CHR ''-'' \<and> next_is (CHR ''-'') s then split_loop LineComment (Some c) s (cur @ [c])
      else if c = CHR ''/'' \<and> next_is (CHR ''*'') s then split_loop BlockComment (Some c) s (cur @ [c])
      else if c = SQ then split_loop SingleQuote (Some c) s (cur @ [c])
      else if c = CHR ''$'' \<and> dollar_tag s \<noteq> None then
        (let tag = the (dollar_tag s); d = dollar_delim tag
         in split_loop (DollarQuote tag) (Some (CHR ''$'')) (drop (length d) (c # s)) (cur @ d))
      else if c = CHR '';'' then emit cur @ split_loop Default (Some c) s []
      else if c = BSL \<and> line_start prev then split_loop Default (Some NL) (skip_line s) cur
      else split_loop Default (Some c) s (cur @ [c]))"
| "split_loop SingleQuote prev (c # s) cur =
     (if c = SQ \<and> next_is SQ s then split_loop SingleQuote (Some SQ) (drop 1 s) (cur @ [c, SQ])
      else if c = SQ then split_loop Default (Some c) s (cur @ [c])
      else split_loop SingleQuote (Some c) s (cur @ [c]))"
| "split_loop LineComment prev (c # s) cur =
     (if c = NL then split_loop Default (Some c) s (cur @ [c])
      else split_loop LineComment (Some c) s (cur @ [c]))"
| "split_loop BlockComment prev (c # s) cur =
     (if c = CHR ''*'' \<and> next_is (CHR ''/'') s
      then split_loop Default (Some (CHR ''/'')) (drop 1 s) (cur @ [c, CHR ''/''])
      else split_loop BlockComment (Some c) s (cur @ [c]))"
| "split_loop (DollarQuote tag) prev (c # s) cur =
     (let d = dollar_delim tag
      in if starts_with d (c # s)
         then split_loop Default (Some (CHR ''$'')) (drop (length d) (c # s)) (cur @ d)
         else split_loop (DollarQuote tag) (Some c) s (cur @ [c]))"
  by pat_completeness auto

termination
  by (relation "measure (\<lambda>(st, prev, s, cur). length s)")
     (auto simp add: dollar_delim_def le_imp_less_Suc)

definition splitSqlStatements :: "string \<Rightarrow> string list" where
  "splitSqlStatements sql = split_loop Default None sql []"

section \<open>The tagged splitter\<close>

datatype SqlToken = SqlStmt string | CopyBlock string "string list"

fun istarts :: "string \<Rightarrow> string \<Rightarrow> bool" where
  "istarts [] s = True"
| "istarts (p # ps) [] = False"
| "istarts (p # ps) (c # s) = (to_lower p = to_lower c \<and> istarts ps s)"

text \<open>
  \<open>COPY_FROM_STDIN_RE\<close>, read from the right: \<open>stdin\b\<close>, \<open>\s+stdin\b\<close>,
  \<open>\sFROM\s+stdin\b\<close>, \<open>.+\sFROM\s+stdin\b\<close> and \<open>\s+.+\sFROM\s+stdin\b\<close>.
\<close>

definition re_stdin :: "string \<Rightarrow> bool" where
  "re_stdin s \<longleftrightarrow> istarts ''stdin'' s \<and>
     (case drop 5 s of [] \<Rightarrow> True | c # _ \<Rightarrow> \<not> is_word c)"

fun re_ws_stdin :: "string \<Rightarrow> bool" where
  "re_ws_stdin [] = False"
| "re_ws_stdin (c # s) = (js_ws c \<and> (re_stdin s \<or> re_ws_stdin s))"

definition re_from :: "string \<Rightarrow> bool" where
  "re_from s \<longleftrightarrow> (case s of [] \<Rightarrow> False
     | c # t \<Rightarrow> js_ws c \<and> istarts ''FROM'' t \<and> re_ws_stdin (drop 4 t))"

fun re_dots_from :: "string \<Rightarrow> bool" where
  "re_dots_from [] = False"
| "re_dots_from (c # s) = (c \<noteq> NL \<and> c \<noteq> CR \<and> (re_from s \<or> re_dots_from s))"

fun re_ws_dots_from :: "string \<Rightarrow> bool" where
  "re_ws_dots_from [] = False"
| "re_ws_dots_from (c # s) = (js_ws c \<and> (re_dots_from s \<or> re_ws_dots_from s))"

definition COPY_FROM_STDIN_RE :: "string \<Rightarrow> bool" where
  "COPY_FROM_STDIN_RE line \<longleftrightarrow>
     (let t = dropWhile js_ws line in istarts ''COPY'' t \<and> re_ws_dots_from (drop 4 t))"

text \<open>\<open>line.replace(/;\s*$/, '')\<close>\<close>

fun strip_semicolon :: "string \<Rightarrow> string" where
  "strip_semicolon [] = []"
| "strip_semicolon (c # s) =
     (if c = CHR '';'' \<and> list_all js_ws s then [] else c # strip_semicolon s)"

definition copy_end :: string where
  "copy_end = [BSL, CHR ''.'']"

text \<open>The inner loop: the rows up to the terminator, and the lines after it.\<close>

fun copy_rows :: "string list \<Rightarrow> string list \<times> string list" where
  "copy_rows [] = ([], [])"
| "copy_rows (l # ls) =
     (if l = copy_end then ([], ls)
      else (let (rows, rest) = copy_rows ls in (l # rows, rest)))"

definition flush_buffer :: "string list \<Rightarrow> SqlToken list" where
  "flush_buffer buffer =
     (if buffer = [] then [] else map SqlStmt (splitSqlStatements (js_join [NL] buffer)))"

lemma copy_rows_length: "length (snd (copy_rows ls)) \<le> length ls"
  by (induction ls) (auto split: prod.splits)

function tagged_loop :: "string list \<Rightarrow> string list \<Rightarrow> SqlToken list" where
  "tagged_loop [] buffer = flush_buffer buffer"
| "tagged_loop (line # ls) buffer =
     (if COPY_FROM_STDIN_RE line
      then flush_buffer buffer @
           CopyBlock (js_trim (strip_semicolon line)) (fst (copy_rows ls)) #
           tagged_loop (snd (copy_rows ls)) []
      else tagged_loop ls (buffer @ [line]))"
  by pat_completeness auto

termination
  by (relation "measure (\<lambda>(ls, b). length ls)") (auto simp add: copy_rows_length le_imp_less_Suc)

definition splitSqlStatementsTagged :: "string \<Rightarrow> SqlToken list" where
  "splitSqlStatementsTagged sql = tagged_loop (js_split NL sql) []"

section \<open>Statements are trimmed, non-empty parts of the text\<close>

lemma emit_good:
  "x \<in> set (emit cur) \<Longrightarrow> x \<noteq> [] \<and> trimmed x"
  "x \<in> set (emit_trailing cur) \<Longrightarrow> x \<noteq> [] \<and> trimmed x \<and> x \<noteq> '';''"
  by (auto simp add: emit_def emit_trailing_def Let_def split: if_splits)

lemma split_loop_good: "x \<in> set (split_loop st prev s cur) \<Longrightarrow> x \<noteq> [] \<and> trimmed x"
proof (induction st prev s cur rule: split_loop.induct)
  case (1 st prev cur)
  then show ?case by (auto dest: emit_good)
qed (auto simp add: Let_def dest: emit_good split: if_splits)

lemma subseq_js_trim: "subseq (js_trim s) s"
proof -
  have "suffix (trim_start s) s"
    by (simp add: trim_start_def suffix_dropWhile)
  moreover have "prefix (trim_end t) t" for t
    using trim_end_prefix [of t] by (metis prefixI)
  ultimately show ?thesis
    unfolding js_trim_def
    by (meson prefix_imp_subseq subseq_order.trans suffix_imp_subseq)
qed

lemma subseq_emit: "subseq (concat (emit cur)) cur" "subseq (concat (emit_trailing cur)) cur"
  using subseq_js_trim [of cur] by (auto simp add: emit_def emit_trailing_def Let_def)

lemma suffix_skip_line: "suffix (skip_line s) s"
  unfolding skip_line_def by (meson suffix_drop suffix_dropWhile suffix_order.trans)

lemma subseq_through: "subseq x (a @ b) \<Longrightarrow> subseq b c \<Longrightarrow> subseq x (a @ c)"
  by (meson list_emb_append_mono subseq_order.trans subseq_order.refl)

lemma dollar_tag_SomeD:
  assumes "dollar_tag s = Some w" shows "\<exists>r. s = w @ CHR ''$'' # r"
proof -
  have "w = take (length w) s" "drop (length w) s \<noteq> []" "hd (drop (length w) s) = CHR ''$''"
    using assms takeWhile_eq_take [of is_word s]
    by (auto simp add: dollar_tag_def Let_def split: list.splits if_splits)
  then show ?thesis
    by (metis append_take_drop_id list.collapse)
qed

lemma split_loop_subseq: "subseq (concat (split_loop st prev s cur)) (cur @ s)"
proof (induction st prev s cur rule: split_loop.induct)
  case (1 st prev cur)
  then show ?case by (simp add: subseq_emit)
next
  case (2 prev c s cur)
  have semi: "subseq (concat (emit cur @ x)) (cur @ c # s)" if "subseq (concat x) s" for x
    using list_emb_append_mono [OF subseq_emit(1) list_emb_Cons [OF that]] by simp
  have "subseq (skip_line s) (c # s)"
    by (intro list_emb_Cons suffix_imp_subseq suffix_skip_line)
  note meta = subseq_through [OF _ this]
  have dollar: "subseq (concat (split_loop (DollarQuote w) p (drop (length (dollar_delim w)) (c # s))
      (cur @ dollar_delim w))) (cur @ c # s)"
    if "c = CHR ''$''" "dollar_tag s = Some w" and
      IH: "subseq (concat (split_loop (DollarQuote w) p (drop (length (dollar_delim w)) (c # s))
        (cur @ dollar_delim w))) ((cur @ dollar_delim w) @ drop (length (dollar_delim w)) (c # s))"
    for w p
    using dollar_tag_SomeD [OF that(2)] IH that(1) by (auto simp add: dollar_delim_def)
  note alt = split_ifI [where P = "\<lambda>z. subseq (concat z) (cur @ c # s)"]
  note app = append_assoc append_Cons append_Nil simp_thms
  show ?case
    unfolding split_loop.simps(2)
    apply (rule alt)
    subgoal using 2(1) by (simp only: app)
    apply (rule alt)
    subgoal using 2(2) by (simp only: app)
    apply (rule alt)
    subgoal using 2(3) by (simp only: app)
    apply (rule alt)
    subgoal using 2(4) dollar by (auto simp add: Let_def)
    apply (rule alt)
    subgoal using 2(5) by (intro semi) (simp only: app)
    apply (rule alt)
    subgoal using 2(6) by (intro meta) (simp only: app)
    using 2(7) by (simp only: app)
next
  case (3 prev c s cur)
  then show ?case by (cases s) (auto simp add: next_is_def)
next
  case (5 prev c s cur)
  then show ?case by (cases s) (auto simp add: next_is_def)
next
  case (6 tag prev c s cur)
  then show ?case
    by (auto simp add: Let_def starts_with_iff)
qed auto

section \<open>Reading back a printed script\<close>

text \<open>
  The lexical pieces of a statement and their concrete text. A plain character
  opens nothing; a minus or slash is followed by a plain character; a literal
  doubles its quotes; a comment or dollar-quoted body does not contain its
  closing delimiter.
\<close>

datatype sql_piece =
    Plain char
  | Op char char
  | Quoted string
  | LineC string
  | BlockC string
  | DollarQ string string

definition escape_sq :: "string \<Rightarrow> string" where
  "escape_sq b = concat (map (\<lambda>c. if c = SQ then [SQ, SQ] else [c]) b)"

fun render_piece :: "sql_piece \<Rightarrow> string" where
  "render_piece (Plain c) = [c]"
| "render_piece (Op a c) = [a, c]"
| "render_piece (Quoted b) = SQ # escape_sq b @ [SQ]"
| "render_piece (LineC b) = ''--'' @ b @ [NL]"
| "render_piece (BlockC b) = ''/*'' @ b @ ''*/''"
| "render_piece (DollarQ t b) = dollar_delim t @ b @ dollar_delim t"

definition plain_char :: "char \<Rightarrow> bool" where
  "plain_char c \<longleftrightarrow> c \<notin> {CHR ''-'', CHR ''/'', SQ, CHR ''$'', CHR '';'', BSL}"

fun wf_piece :: "sql_piece \<Rightarrow> bool" where
  "wf_piece (Plain c) = plain_char c"
| "wf_piece (Op a c) = ((a = CHR ''-'' \<or> a = CHR ''/'') \<and> plain_char c \<and> c \<noteq> CHR ''*'')"
| "wf_piece (Quoted b) = True"
| "wf_piece (LineC b) = (NL \<notin> set b)"
| "wf_piece (BlockC b) = (\<not> js_includes ''*/'' (''*'' @ b @ ''*''))"
| "wf_piece (DollarQ t b) =
     (list_all is_word t \<and>
      (\<forall>k < length b. \<not> starts_with (dollar_delim t) (drop k (b @ dollar_delim t))))"

fun is_Quoted :: "sql_piece \<Rightarrow> bool" where
  "is_Quoted (Quoted b) = True"
| "is_Quoted _ = False"

fun wf_stmt :: "sql_piece list \<Rightarrow> bool" where
  "wf_stmt [] = True"
| "wf_stmt [p] = wf_piece p"
| "wf_stmt (p # q # r) = (wf_piece p \<and> \<not> (is_Quoted p \<and> is_Quoted q) \<and> wf_stmt (q # r))"

definition render_stmt :: "sql_piece list \<Rightarrow> string" where
  "render_stmt ps = concat (map render_piece ps)"

definition render_script :: "sql_piece list list \<Rightarrow> string" where
  "render_script sts = concat (map (\<lambda>ps. render_stmt ps @ '';'') sts)"

lemma char_names [simp]:
  "SQ \<noteq> CHR ''-''" "SQ \<noteq> CHR ''/''" "SQ \<noteq> CHR ''$''" "SQ \<noteq> CHR '';''" "SQ \<noteq> BSL"
  "CHR '';'' \<noteq> SQ" "CHR ''-'' \<noteq> SQ" "CHR ''/'' \<noteq> SQ" "CHR ''$'' \<noteq> SQ" "NL \<noteq> SQ"
  "CHR ''$'' \<noteq> BSL" "CHR ''-'' \<noteq> BSL" "CHR ''/'' \<noteq> BSL" "SQ \<noteq> NL" "CHR ''*'' \<noteq> SQ"
  "NL \<noteq> CHR ''-''"
  by (simp_all add: SQ_def BSL_def NL_def)

lemma next_is_simps [simp]:
  "\<not> next_is c []" "next_is c (d # s) = (d = c)"
  by (simp_all add: next_is_def)

lemma line_comment_run:
  "NL \<notin> set b \<Longrightarrow>
   split_loop LineComment prev (b @ NL # rest) cur = split_loop Default (Some NL) rest (cur @ b @ [NL])"
  by (induction b arbitrary: prev cur) auto

lemma block_comment_run:
  "\<not> js_includes ''*/'' (b @ ''*'') \<Longrightarrow>
   split_loop BlockComment prev (b @ CHR ''*'' # CHR ''/'' # rest) cur =
   split_loop Default (Some (CHR ''/'')) rest (cur @ b @ ''*/'')"
proof (induction b arbitrary: prev cur)
  case (Cons c b)
  have nx: "\<not> (c = CHR ''*'' \<and> next_is (CHR ''/'') (b @ CHR ''*'' # CHR ''/'' # rest))"
    using Cons.prems by (cases b) auto
  have "split_loop BlockComment prev (c # b @ CHR ''*'' # CHR ''/'' # rest) cur =
      split_loop BlockComment (Some c) (b @ CHR ''*'' # CHR ''/'' # rest) (cur @ [c])"
    by (subst split_loop.simps(5)) (simp only: if_not_P [OF nx])
  then show ?case using Cons by simp
qed simp

lemma quote_run:
  "\<not> next_is SQ rest \<Longrightarrow>
   split_loop SingleQuote prev (escape_sq b @ SQ # rest) cur =
   split_loop Default (Some SQ) rest (cur @ escape_sq b @ [SQ])"
  by (induction b arbitrary: prev cur) (auto simp add: escape_sq_def)

lemma dollar_run:
  "\<forall>k < length b. \<not> starts_with (dollar_delim t) (drop k (b @ dollar_delim t)) \<Longrightarrow>
   split_loop (DollarQuote t) prev (b @ dollar_delim t @ rest) cur =
   split_loop Default (Some (CHR ''$'')) rest (cur @ b @ dollar_delim t)"
proof (induction b arbitrary: prev cur)
  case Nil
  obtain d ds where d: "dollar_delim t = d # ds" by (simp add: dollar_delim_def)
  have "starts_with (dollar_delim t) (d # ds @ rest)"
    using starts_with_append [of "dollar_delim t" rest] by (simp add: d)
  then show ?case by (simp add: d Let_def)
next
  case (Cons c b)
  have "\<not> starts_with (dollar_delim t) (c # b @ dollar_delim t @ rest)"
  proof -
    have "\<not> starts_with (dollar_delim t) ((c # b) @ dollar_delim t)"
      using Cons.prems by force
    then show ?thesis
      using starts_with_shorter [of "dollar_delim t" "(c # b) @ dollar_delim t" rest] by simp
  qed
  moreover have "\<forall>k < length b. \<not> starts_with (dollar_delim t) (drop k (b @ dollar_delim t))"
    using Cons.prems by force
  ultimately show ?case using Cons.IH by (simp add: Let_def)
qed

lemma dollar_tag_read: "list_all is_word t \<Longrightarrow> dollar_tag (t @ CHR ''$'' # s) = Some t"
proof -
  assume "list_all is_word t"
  moreover have "\<not> is_word (CHR ''$'')" by code_simp
  ultimately have "takeWhile is_word (t @ CHR ''$'' # s) = t"
    by (simp add: list_all_iff takeWhile_append2)
  then show ?thesis by (simp add: dollar_tag_def Let_def)
qed

lemma piece_run:
  assumes "wf_piece p" and "is_Quoted p \<longrightarrow> \<not> next_is SQ rest"
  shows "\<exists>q. split_loop Default prev (render_piece p @ rest) cur =
             split_loop Default q rest (cur @ render_piece p)"
proof (cases p)
  case (Plain c)
  then show ?thesis using assms by (auto simp add: plain_char_def)
next
  case (Op a c)
  then show ?thesis using assms by (auto simp add: plain_char_def)
next
  case (Quoted b)
  then show ?thesis using assms quote_run [of rest _ b] by auto
next
  case (LineC b)
  then show ?thesis using assms line_comment_run [of "CHR ''-'' # b"] by auto
next
  case (BlockC b)
  then show ?thesis using assms block_comment_run [of "CHR ''*'' # b"] by auto
next
  case (DollarQ t b)
  then have "dollar_tag (t @ CHR ''$'' # b @ dollar_delim t @ rest) = Some t"
    using assms by (simp add: dollar_tag_read)
  moreover have "split_loop (DollarQuote t) (Some (CHR ''$'')) (b @ dollar_delim t @ rest) x =
      split_loop Default (Some (CHR ''$'')) rest (x @ b @ dollar_delim t)" for x
    using assms DollarQ by (simp add: dollar_run)
  ultimately show ?thesis using DollarQ
    by (auto simp add: dollar_delim_def [of t] Let_def)
qed

lemma render_head: "wf_piece p \<Longrightarrow> \<not> is_Quoted p \<Longrightarrow> \<not> next_is SQ (render_piece p @ s)"
  by (cases p) (auto simp add: plain_char_def dollar_delim_def)

lemma stmt_run:
  assumes "wf_stmt ps" and "\<not> next_is SQ rest"
  shows "\<exists>q. split_loop Default prev (render_stmt ps @ rest) cur =
             split_loop Default q rest (cur @ render_stmt ps)"
  using assms(1)
proof (induction ps arbitrary: prev cur)
  case (Cons p ps)
  have wf: "wf_piece p" "wf_stmt ps"
    using Cons.prems by (cases ps; simp)+
  have "is_Quoted p \<longrightarrow> \<not> next_is SQ (render_stmt ps @ rest)"
    using Cons.prems assms(2) render_head by (cases ps; cases "tl ps") (auto simp add: render_stmt_def)
  then obtain q where "split_loop Default prev (render_piece p @ render_stmt ps @ rest) cur =
      split_loop Default q (render_stmt ps @ rest) (cur @ render_piece p)"
    using piece_run [OF wf(1)] by blast
  then show ?case
    using Cons.IH [OF wf(2), of q "cur @ render_piece p"] by (auto simp add: render_stmt_def)
qed (auto simp add: render_stmt_def)

lemma script_run:
  "list_all wf_stmt sts \<Longrightarrow>
   split_loop Default prev (render_script sts) [] = filter (\<lambda>x. x \<noteq> []) (map (js_trim \<circ> render_stmt) sts)"
proof (induction sts arbitrary: prev)
  case Nil
  then show ?case by (simp add: render_script_def emit_trailing_def js_trim_def trim_start_def trim_end_def)
next
  case (Cons ps sts)
  obtain q where "split_loop Default prev (render_stmt ps @ CHR '';'' # render_script sts) [] =
      split_loop Default q (CHR '';'' # render_script sts) (render_stmt ps)"
    using stmt_run [of ps "CHR '';'' # render_script sts" prev "[]"] Cons.prems by auto
  then show ?case
    using Cons by (simp add: render_script_def emit_def Let_def)
qed

section \<open>COPY blocks\<close>

lemma copy_rows_read:
  "copy_end \<notin> set rows \<Longrightarrow> copy_rows (rows @ copy_end # ls) = (rows, ls)"
  by (induction rows) auto

lemma copy_rows_unterminated: "copy_end \<notin> set ls \<Longrightarrow> copy_rows ls = (ls, [])"
  by (induction ls) auto

lemma tagged_no_copy:
  "\<forall>l \<in> set ls. \<not> COPY_FROM_STDIN_RE l \<Longrightarrow> tagged_loop ls buffer = flush_buffer (buffer @ ls)"
  by (induction ls arbitrary: buffer) auto

lemma tagged_prefix:
  "\<forall>l \<in> set ls. \<not> COPY_FROM_STDIN_RE l \<Longrightarrow>
   tagged_loop (ls @ rest) buffer = tagged_loop rest (buffer @ ls)"
  by (induction ls arbitrary: buffer) auto

lemma tagged_all_copy_rows:
  "COPY_FROM_STDIN_RE h \<Longrightarrow> copy_end \<notin> set ls \<Longrightarrow>
   tagged_loop (h # ls) [] = [CopyBlock (js_trim (strip_semicolon h)) ls]"
  by (simp add: copy_rows_unterminated flush_buffer_def)

section \<open>Properties\<close>

text \<open>
  C4. A script printed from statements, each a sequence of lexical pieces
  (plain text, literals with doubled quotes, line and block comments, dollar
  quotes) and closed by a semicolon, splits back into exactly those statements,
  trimmed, empty ones dropped: a semicolon inside a literal, a comment or a
  dollar quote never ends a statement.
\<close>

theorem split_printed_script:
  assumes "list_all wf_stmt sts"
  shows "splitSqlStatements (render_script sts) =
         filter (\<lambda>x. x \<noteq> []) (map (js_trim \<circ> render_stmt) sts)"
  unfolding splitSqlStatements_def using assms by (rule script_run)

theorem split_printed_script_witness:
  "splitSqlStatements (render_script [[Plain (CHR ''a''), Quoted '';'', BlockC '';'', DollarQ ''f'' '';''], [LineC '';'']]) =
   [''a'' @ [SQ] @ '';'' @ [SQ] @ ''/*;*/$f$;$f$'', ''--;'']"
proof -
  have wf: "list_all wf_stmt [[Plain (CHR ''a''), Quoted '';'', BlockC '';'', DollarQ ''f'' '';''], [LineC '';'']]"
    by code_simp
  show ?thesis
    unfolding split_printed_script [OF wf] by code_simp
qed

text \<open>
  Every statement the splitter returns is non-empty and trimmed, and their
  concatenation is a subsequence of the dump: the splitter may drop characters
  (separators, surrounding white space, psql meta-commands) but it never
  invents, duplicates or reorders any.
\<close>

theorem split_parts_of_input:
  "list_all (\<lambda>x. x \<noteq> [] \<and> trimmed x) (splitSqlStatements sql) \<and>
   subseq (concat (splitSqlStatements sql)) sql"
  using split_loop_good split_loop_subseq [of Default None sql "[]"]
  by (auto simp add: splitSqlStatements_def list_all_iff)

text \<open>
  C39. A COPY block in the middle of a dump is read back whole: the lines before
  it are split as statements, its header loses the semicolon, its rows are kept
  verbatim up to the terminator line and the rest is read as if it started the
  file.
\<close>

theorem tagged_reads_copy_block:
  assumes "COPY_FROM_STDIN_RE header"
    and "\<forall>l \<in> set before. \<not> COPY_FROM_STDIN_RE l"
    and "copy_end \<notin> set rows"
    and "\<forall>l \<in> set (before @ header # rows @ after). NL \<notin> set l"
    and "after \<noteq> []"
  shows "splitSqlStatementsTagged (js_join [NL] (before @ header # rows @ copy_end # after)) =
     flush_buffer before @ CopyBlock (js_trim (strip_semicolon header)) rows #
     splitSqlStatementsTagged (js_join [NL] after)"
proof -
  have e: "NL \<notin> set copy_end" by code_simp
  have "js_split NL (js_join [NL] (before @ header # rows @ copy_end # after)) =
      before @ header # rows @ copy_end # after"
    using assms(4) e by (intro js_split_join) auto
  moreover have "js_split NL (js_join [NL] after) = after"
    using assms by (intro js_split_join) auto
  ultimately show ?thesis
    using assms tagged_prefix [OF assms(2), of "header # rows @ copy_end # after" "[]"]
    by (simp add: splitSqlStatementsTagged_def copy_rows_read)
qed

theorem tagged_reads_copy_block_witness:
  "splitSqlStatementsTagged (js_join [NL] ([''x;''] @ ''COPY t FROM stdin;'' # [''1;2''] @ copy_end # [''y'']))
   = flush_buffer [''x;''] @ CopyBlock (js_trim (strip_semicolon ''COPY t FROM stdin;'')) [''1;2''] #
     splitSqlStatementsTagged (js_join [NL] [''y''])"
proof -
  have "COPY_FROM_STDIN_RE ''COPY t FROM stdin;''" "\<forall>l \<in> set [''x;'']. \<not> COPY_FROM_STDIN_RE l"
    "copy_end \<notin> set [''1;2'']" "\<forall>l \<in> set ([''x;''] @ ''COPY t FROM stdin;'' # [''1;2''] @ [''y'']). NL \<notin> set l"
    by code_simp+
  then show ?thesis by (rule tagged_reads_copy_block) simp
qed

section \<open>Where the splitter departs from PostgreSQL\<close>

text \<open>
  A dump with CRLF line ends: the terminator line carries a carriage return, is
  not recognised, and every statement after the block is read as a row.
\<close>

lemma crlf_terminator_missed:
  "splitSqlStatementsTagged (js_join [NL] [''COPY t FROM stdin;'' @ [CR], ''1'' @ [CR], copy_end @ [CR], ''DROP TABLE u;'']) =
   [CopyBlock ''COPY t FROM stdin'' [''1'' @ [CR], copy_end @ [CR], ''DROP TABLE u;'']]"
  by code_simp

text \<open>PostgreSQL nests block comments; the splitter ends at the first close.\<close>

lemma nested_comment_ends_early:
  "splitSqlStatements ''/* a /* b */ ; c */ d;'' = [''/* a /* b */'', ''c */ d'']"
  by code_simp

text \<open>\<open>/*/\<close> opens a comment in PostgreSQL; the splitter takes it as a whole comment.\<close>

lemma slash_star_slash_closes:
  "splitSqlStatements ''/*/ a ; b */ c;'' = [''/*/ a'', ''b */ c'']"
  by code_simp

end
