(* ===== verification/Sql_Import.thy ===== *)
theory Sql_Import
  imports Sql_Splitter
begin

text \<open>
  services/sql_import_service.ts: loading a dump into a tenant. The database
  transaction, the file system and the psql process are parameters: operations
  on a state of type \<open>'w\<close> that succeed or fail with a message. The database
  state is paired with the result record the transaction callback updates.
\<close>

section \<open>Rewriting the schema\<close>

text \<open>
  \<open>sql.replace(new RegExp(pattern, 'g'), text)\<close> for a literal pattern that may
  require something of the character before the match; matches do not overlap.
  The service escapes every metacharacter of the source name, so its patterns
  are literal. The replacement is literal as long as the schema name has no dollar.
\<close>

function replace_all :: "(char option \<Rightarrow> bool) \<Rightarrow> string \<Rightarrow> string \<Rightarrow> char option \<Rightarrow> string \<Rightarrow> string" where
  "replace_all ok pat text prev [] = []"
| "replace_all ok pat text prev (c # s) =
     (if starts_with pat (c # s) \<and> ok prev
      then text @ replace_all ok pat text (Some (last pat)) (drop (length pat - 1) s)
      else c # replace_all ok pat text (Some c) s)"
  by pat_completeness auto

termination
  by (relation "measure (\<lambda>(ok, pat, text, prev, s). length s)") auto

definition word_opt :: "char option \<Rightarrow> bool" where
  "word_opt p \<longleftrightarrow> (case p of None \<Rightarrow> False | Some c \<Rightarrow> is_word c)"

definition rewriteSchema :: "string \<Rightarrow> string \<Rightarrow> string \<Rightarrow> string" where
  "rewriteSchema sql source target =
     (let quotedTarget = [DQ] @ target @ [DQ] @ ''.'';
          quoted = [DQ] @ source @ [DQ] @ ''.'';
          bare = source @ ''.'';
          sql1 = replace_all (\<lambda>_. True) quoted quotedTarget None sql
      in replace_all (\<lambda>prev. word_opt prev \<noteq> is_word (hd bare)) bare quotedTarget None sql1)"

section \<open>Statements the importer skips\<close>

definition skip_ws :: "string \<Rightarrow> string" where
  "skip_ws s = dropWhile js_ws s"

definition skip_set_search_path :: "string \<Rightarrow> bool" where
  "skip_set_search_path s \<longleftrightarrow>
     istarts ''SET'' s \<and> skip_ws (drop 3 s) \<noteq> drop 3 s \<and>
     istarts ''search_path'' (skip_ws (drop 3 s))"

definition skip_set_config :: "string \<Rightarrow> bool" where
  "skip_set_config s \<longleftrightarrow>
     istarts ''SELECT'' s \<and> skip_ws (drop 6 s) \<noteq> drop 6 s \<and>
     (let t = skip_ws (drop 6 s); u = skip_ws (drop 21 t)
      in istarts ''pg_catalog.set_config'' t \<and> starts_with ''('' u \<and>
         istarts ([SQ] @ ''search_path'' @ [SQ]) (skip_ws (drop 1 u)))"

definition skip_meta :: "string \<Rightarrow> bool" where
  "skip_meta s \<longleftrightarrow> (case s of c # d # _ \<Rightarrow> c = BSL \<and> (is_lower d \<or> is_upper d) | _ \<Rightarrow> False)"

definition shouldSkip :: "string \<Rightarrow> bool" where
  "shouldSkip stmt =
     (let s = trim_start stmt in skip_set_search_path s \<or> skip_set_config s \<or> skip_meta s)"

section \<open>Results and errors\<close>

datatype import_mode = Transactional | Psql | DryRun

record SqlImportResult =
  statementsTotal :: int
  statementsExecuted :: int
  statementsSkipped :: int
  copyBlocksExecuted :: int
  copyRowsImported :: int
  errors :: "(string \<times> string) list"
  mode :: import_mode

datatype import_error =
    FileAccess string
  | PsqlNotAvailable
  | PgConnectionNotConfigured
  | DbError string
  | FsError string
  | SpawnFailed string
  | PsqlExited "int option" string

definition empty_result :: "SqlToken list \<Rightarrow> import_mode \<Rightarrow> SqlImportResult" where
  "empty_result tokens m = \<lparr>statementsTotal = int (length tokens), statementsExecuted = 0,
     statementsSkipped = 0, copyBlocksExecuted = 0, copyRowsImported = 0, errors = [], mode = m\<rparr>"

definition is_copy :: "SqlToken \<Rightarrow> bool" where
  "is_copy t \<longleftrightarrow> (case t of CopyBlock h rows \<Rightarrow> True | SqlStmt s \<Rightarrow> False)"

definition skipped :: "SqlToken \<Rightarrow> bool" where
  "skipped t \<longleftrightarrow> (case t of CopyBlock h rows \<Rightarrow> False | SqlStmt s \<Rightarrow> shouldSkip s)"

definition executed :: "SqlToken \<Rightarrow> bool" where
  "executed t \<longleftrightarrow> (case t of CopyBlock h rows \<Rightarrow> False | SqlStmt s \<Rightarrow> \<not> shouldSkip s)"

definition row_count :: "SqlToken \<Rightarrow> nat" where
  "row_count t = (case t of CopyBlock h rows \<Rightarrow> length rows | SqlStmt s \<Rightarrow> 0)"

section \<open>The three ways of running an import\<close>

definition dry_step :: "SqlImportResult \<Rightarrow> SqlToken \<Rightarrow> SqlImportResult" where
  "dry_step r t =
     (case t of
        CopyBlock h rows \<Rightarrow> r\<lparr>copyBlocksExecuted := copyBlocksExecuted r + 1,
                              copyRowsImported := copyRowsImported r + int (length rows)\<rparr>
      | SqlStmt s \<Rightarrow>
          (if shouldSkip s then r\<lparr>statementsSkipped := statementsSkipped r + 1\<rparr>
           else r\<lparr>statementsExecuted := statementsExecuted r + 1\<rparr>))"

definition dry_run :: "SqlToken list \<Rightarrow> SqlImportResult" where
  "dry_run tokens = foldl dry_step (empty_result tokens DryRun) tokens"

text \<open>
  The transaction callback. \<open>raw q\<close> is \<open>trx.rawQuery(q)\<close>; the state pairs the
  database with the result record of the enclosing method.
\<close>

type_synonym 'w raw = "string \<Rightarrow> ('w \<times> SqlImportResult, string, unit) M"

definition lift_db :: "(string \<Rightarrow> 'w \<Rightarrow> (string + unit) \<times> 'w) \<Rightarrow> 'w raw" where
  "lift_db db q = (\<lambda>(w, r). case db q w of (x, w') \<Rightarrow> (x, (w', r)))"

definition upd :: "(SqlImportResult \<Rightarrow> SqlImportResult) \<Rightarrow> ('w \<times> SqlImportResult, 'e, unit) M" where
  "upd f = modM (\<lambda>(w, r). (w, f r))"

definition savepoint :: "nat \<Rightarrow> string" where
  "savepoint n = ''_import_sp_'' @ show_nat n"

definition exec_stmt :: "'w raw \<Rightarrow> string \<Rightarrow> nat \<Rightarrow> ('w \<times> SqlImportResult, string, unit) M" where
  "exec_stmt raw stmt n =
     (let sp = savepoint n
      in thenM (raw (''SAVEPOINT '' @ sp))
           (catchM
             (thenM (raw stmt)
               (thenM (raw (''RELEASE SAVEPOINT '' @ sp))
                 (upd (\<lambda>r. r\<lparr>statementsExecuted := statementsExecuted r + 1\<rparr>))))
             (\<lambda>err.
               thenM (raw (''ROLLBACK TO SAVEPOINT '' @ sp))
                 (thenM (raw (''RELEASE SAVEPOINT '' @ sp))
                   (upd (\<lambda>r. r\<lparr>errors := errors r @ [(take 200 stmt, err)]\<rparr>))))))"

fun run_tokens :: "'w raw \<Rightarrow> SqlToken list \<Rightarrow> nat \<Rightarrow> ('w \<times> SqlImportResult, string, unit) M" where
  "run_tokens raw [] spIndex = returnM ()"
| "run_tokens raw (CopyBlock h rows # ts) spIndex = run_tokens raw ts spIndex"
| "run_tokens raw (SqlStmt stmt # ts) spIndex =
     (if shouldSkip stmt
      then thenM (upd (\<lambda>r. r\<lparr>statementsSkipped := statementsSkipped r + 1\<rparr>)) (run_tokens raw ts spIndex)
      else thenM (exec_stmt raw stmt spIndex) (run_tokens raw ts (Suc spIndex)))"

definition import_body :: "'w raw \<Rightarrow> SqlToken list \<Rightarrow> ('w \<times> SqlImportResult, string, unit) M" where
  "import_body raw tokens =
     thenM (raw ''SET LOCAL session_replication_role = replica'')
       (thenM (run_tokens raw tokens 0)
         (raw ''SET LOCAL session_replication_role = DEFAULT''))"

text \<open>
  \<open>connection.transaction(callback)\<close> is Lucid's managed transaction, here the
  argument \<open>transaction\<close>.
\<close>

type_synonym 'w tx = "('w \<times> SqlImportResult, string, unit) M \<Rightarrow> ('w \<times> SqlImportResult, string, unit) M"

definition runTransactional ::
  "(string \<Rightarrow> 'w \<Rightarrow> (string + unit) \<times> 'w) \<Rightarrow> 'w tx \<Rightarrow> SqlToken list \<Rightarrow> ('w, import_error, SqlImportResult) M"
where
  "runTransactional db transaction tokens = (\<lambda>w.
     case transaction (import_body (lift_db db) tokens) (w, empty_result tokens Transactional) of
       (Inl m, (w', r)) \<Rightarrow> (Inl (DbError m), w')
     | (Inr _, (w', r)) \<Rightarrow> (Inr r, w'))"

record PgConnection =
  host :: "string option"
  port :: "nat option"
  user :: "string option"
  password :: "string option"
  database :: "string option"

definition falsy :: "string option \<Rightarrow> bool" where
  "falsy s \<longleftrightarrow> s = None \<or> s = Some []"

definition extractPgConfig :: "PgConnection option \<Rightarrow> import_error + string \<times> nat \<times> string \<times> string \<times> string" where
  "extractPgConfig pg =
     (case pg of
        None \<Rightarrow> Inl PgConnectionNotConfigured
      | Some p \<Rightarrow>
          (if falsy (host p) \<or> falsy (user p) \<or> falsy (database p) then Inl PgConnectionNotConfigured
           else Inr (the (host p), (case port p of None \<Rightarrow> 5432 | Some n \<Rightarrow> n), the (user p),
                     (case password p of None \<Rightarrow> [] | Some x \<Rightarrow> x), the (database p))))"

definition psqlArgs :: "string \<times> nat \<times> string \<times> string \<times> string \<Rightarrow> string \<Rightarrow> string list" where
  "psqlArgs cfg file =
     (case cfg of (h, p, u, pw, d) \<Rightarrow>
       [''-h'', h, ''-p'', show_nat p, ''-U'', u, ''-d'', d, ''-v'', ''ON_ERROR_STOP=off'', ''-f'', file])"

text \<open>What the psql process does: it cannot be started, or it ends with a code and stderr.\<close>

datatype psql_outcome = CannotSpawn string | Exited "int option" string

definition spawnPsql :: "psql_outcome \<Rightarrow> import_error + string" where
  "spawnPsql out =
     (case out of
        CannotSpawn m \<Rightarrow> Inl (SpawnFailed m)
      | Exited code stderr \<Rightarrow>
          (if code = Some 0 \<or> code = Some 3 then Inr stderr
           else Inl (PsqlExited code (take 500 stderr))))"

definition error_lines :: "string \<Rightarrow> string list" where
  "error_lines stderr =
     filter (\<lambda>l. starts_with ''ERROR:'' l \<or> starts_with ''FATAL:'' l) (map js_trim (js_split NL stderr))"

definition psql_start :: "SqlToken list \<Rightarrow> SqlImportResult" where
  "psql_start tokens =
     (empty_result tokens Psql)\<lparr>copyBlocksExecuted := int (length (filter is_copy tokens)),
        copyRowsImported := int (sum_list (map row_count tokens))\<rparr>"

definition psql_result :: "SqlToken list \<Rightarrow> string \<Rightarrow> SqlImportResult" where
  "psql_result tokens stderr =
     (let r = psql_start tokens;
          errs = map (\<lambda>l. (''(see psql stderr)'', l)) (error_lines stderr)
      in r\<lparr>errors := errs,
           statementsExecuted :=
             int (length (filter executed tokens)) + copyBlocksExecuted r - int (length errs),
           statementsSkipped := int (length (filter skipped tokens))\<rparr>)"

text \<open>The host system: the file operations and the two psql runs.\<close>

record 'w host_ops =
  h_access :: "string \<Rightarrow> 'w \<Rightarrow> (string + unit) \<times> 'w"
  h_read :: "string \<Rightarrow> 'w \<Rightarrow> (string + string) \<times> 'w"
  h_mkdtemp :: "'w \<Rightarrow> (string + string) \<times> 'w"
  h_write :: "string \<Rightarrow> string \<Rightarrow> 'w \<Rightarrow> (string + unit) \<times> 'w"
  h_unlink :: "string \<Rightarrow> 'w \<Rightarrow> (string + unit) \<times> 'w"
  h_hasPsql :: "'w \<Rightarrow> bool \<times> 'w"
  h_psql :: "string list \<Rightarrow> 'w \<Rightarrow> psql_outcome \<times> 'w"

definition fs :: "('w \<Rightarrow> (string + 'a) \<times> 'w) \<Rightarrow> ('w, import_error, 'a) M" where
  "fs f = (\<lambda>w. case f w of (Inl m, w') \<Rightarrow> (Inl (FsError m), w') | (Inr x, w') \<Rightarrow> (Inr x, w'))"

definition liftE :: "'e + 'a \<Rightarrow> ('w, 'e, 'a) M" where
  "liftE x = (\<lambda>w. (x, w))"

definition runViaPsql ::
  "'w host_ops \<Rightarrow> PgConnection option \<Rightarrow> string \<Rightarrow> string \<Rightarrow> SqlToken list \<Rightarrow> ('w, import_error, SqlImportResult) M"
where
  "runViaPsql ops pg tenant_id transformedSql tokens =
     bindM (\<lambda>w. case h_hasPsql ops w of (b, w') \<Rightarrow> (Inr b, w')) (\<lambda>available.
       if \<not> available then throwM PsqlNotAvailable
       else bindM (liftE (extractPgConfig pg)) (\<lambda>cfg.
         bindM (fs (h_mkdtemp ops)) (\<lambda>dir.
           let tmpFile = dir @ ''/'' @ tenant_id @ ''.sql'' in
           thenM (fs (h_write ops tmpFile transformedSql))
             (finallyM
               (bindM (\<lambda>w. case h_psql ops (psqlArgs cfg tmpFile) w of (out, w') \<Rightarrow> (spawnPsql out, w'))
                 (\<lambda>stderr. returnM (psql_result tokens stderr)))
               (catchM (fs (h_unlink ops tmpFile)) (\<lambda>_. returnM ()))))))"

definition import_sql ::
  "'w host_ops \<Rightarrow> (string \<Rightarrow> 'w \<Rightarrow> (string + unit) \<times> 'w) \<Rightarrow> 'w tx \<Rightarrow> PgConnection option \<Rightarrow>
   string \<Rightarrow> string \<Rightarrow> string \<Rightarrow> string \<Rightarrow> bool \<Rightarrow> ('w, import_error, SqlImportResult) M"
where
  "import_sql ops db transaction pg tenant_id schemaName filePath sourceSchema dryRun =
     thenM (\<lambda>w. case h_access ops filePath w of
              (Inl m, w') \<Rightarrow> (Inl (FileAccess m), w') | (Inr _, w') \<Rightarrow> (Inr (), w'))
       (bindM (fs (h_read ops filePath)) (\<lambda>raw_text.
         let transformed = rewriteSchema raw_text sourceSchema schemaName;
             tokens = splitSqlStatementsTagged transformed
         in if dryRun then returnM (dry_run tokens)
            else if list_ex is_copy tokens then runViaPsql ops pg tenant_id transformed tokens
            else runTransactional db transaction tokens))"

section \<open>Counting\<close>

definition handled :: "SqlImportResult \<Rightarrow> int" where
  "handled r = statementsExecuted r + statementsSkipped r + int (length (errors r))"

text \<open>
  The statements that steer the transaction succeed (PostgreSQL accepts them in
  any transaction that has not been aborted outside a savepoint).
\<close>

definition control_ok :: "(string \<Rightarrow> 'w \<Rightarrow> (string + unit) \<times> 'w) \<Rightarrow> bool" where
  "control_ok db \<longleftrightarrow>
     (\<forall>q w. starts_with ''SAVEPOINT '' q \<or> starts_with ''RELEASE SAVEPOINT '' q \<or>
            starts_with ''ROLLBACK TO SAVEPOINT '' q \<or>
            starts_with ''SET LOCAL session_replication_role = '' q \<longrightarrow>
            \<not> isl (fst (db q w)))"

lemma control_runs:
  assumes "control_ok db"
    and "starts_with ''SAVEPOINT '' q \<or> starts_with ''RELEASE SAVEPOINT '' q \<or>
         starts_with ''ROLLBACK TO SAVEPOINT '' q \<or>
         starts_with ''SET LOCAL session_replication_role = '' q"
  shows "\<exists>w'. lift_db db q (w, r) = (Inr (), (w', r))"
proof -
  have "\<not> isl (fst (db q w))"
    using assms unfolding control_ok_def by blast
  then show ?thesis
    by (cases "db q w"; cases "fst (db q w)") (auto simp add: lift_db_def)
qed

lemma lift_db_cases:
  obtains x w' where "lift_db db q (w, r) = (x, (w', r))"
  by (cases "db q w") (auto simp add: lift_db_def)

lemma exec_stmt_effect:
  assumes "control_ok db"
  obtains w' ok err where
    "exec_stmt (lift_db db) stmt n (w, r) =
       (Inr (), (w', if ok then r\<lparr>statementsExecuted := statementsExecuted r + 1\<rparr>
                     else r\<lparr>errors := errors r @ [(take 200 stmt, err)]\<rparr>))"
proof -
  have ctl: "\<exists>w'. lift_db db (''SAVEPOINT '' @ sp) (v, r) = (Inr (), (w', r))"
    "\<exists>w'. lift_db db (''RELEASE SAVEPOINT '' @ sp) (v, r) = (Inr (), (w', r))"
    "\<exists>w'. lift_db db (''ROLLBACK TO SAVEPOINT '' @ sp) (v, r) = (Inr (), (w', r))" for sp v
    by (rule control_runs [OF assms]; simp)+
  obtain w1 where w1: "lift_db db (''SAVEPOINT '' @ savepoint n) (w, r) = (Inr (), (w1, r))"
    using ctl(1) by blast
  note rel = ctl(2) [of "savepoint n"] and rb = ctl(3) [of "savepoint n"]
  obtain x w2 where x: "lift_db db stmt (w1, r) = (x, (w2, r))"
    by (rule lift_db_cases)
  show ?thesis
  proof (cases x)
    case (Inr u)
    then have "\<exists>w'. exec_stmt (lift_db db) stmt n (w, r) =
        (Inr (), (w', r\<lparr>statementsExecuted := statementsExecuted r + 1\<rparr>))"
      using rel [of w2] by (auto simp add: exec_stmt_def Let_def run_simps upd_def w1 [simplified] x [simplified])
    then show ?thesis using that [of _ True] by auto
  next
    case (Inl e)
    obtain w3 where w3: "lift_db db (''ROLLBACK TO SAVEPOINT '' @ savepoint n) (w2, r) = (Inr (), (w3, r))"
      using rb by blast
    have "\<exists>w'. exec_stmt (lift_db db) stmt n (w, r) =
        (Inr (), (w', r\<lparr>errors := errors r @ [(take 200 stmt, e)]\<rparr>))"
      using rel [of w3] Inl
      by (auto simp add: exec_stmt_def Let_def run_simps upd_def w1 [simplified] x [simplified] w3 [simplified])
    then show ?thesis using that [of _ False] by auto
  qed
qed

lemma run_tokens_counts:
  assumes "control_ok db"
  shows "\<exists>w' r'. run_tokens (lift_db db) ts n (w, r) = (Inr (), (w', r')) \<and>
     handled r' = handled r + int (length (filter (\<lambda>t. \<not> is_copy t) ts)) \<and>
     statementsSkipped r' = statementsSkipped r + int (length (filter skipped ts)) \<and>
     statementsTotal r' = statementsTotal r \<and> mode r' = mode r"
proof (induction ts arbitrary: n w r)
  case Nil
  then show ?case by (simp add: run_simps)
next
  case (Cons t ts)
  show ?case
  proof (cases t)
    case (CopyBlock h rows)
    then show ?thesis using Cons.IH [of n w r] by (simp add: is_copy_def skipped_def)
  next
    case (SqlStmt stmt)
    show ?thesis
    proof (cases "shouldSkip stmt")
      case True
      then show ?thesis
        using SqlStmt Cons.IH [of n w "r\<lparr>statementsSkipped := statementsSkipped r + 1\<rparr>"]
        by (auto simp add: run_simps upd_def is_copy_def skipped_def handled_def)
    next
      case False
      obtain w' ok err where e: "exec_stmt (lift_db db) stmt n (w, r) =
         (Inr (), (w', if ok then r\<lparr>statementsExecuted := statementsExecuted r + 1\<rparr>
                       else r\<lparr>errors := errors r @ [(take 200 stmt, err)]\<rparr>))"
        by (rule exec_stmt_effect [OF assms])
      show ?thesis
        using SqlStmt False e
          Cons.IH [of "Suc n" w' "if ok then r\<lparr>statementsExecuted := statementsExecuted r + 1\<rparr>
            else r\<lparr>errors := errors r @ [(take 200 stmt, err)]\<rparr>"]
        by (auto simp add: run_simps is_copy_def skipped_def handled_def split: if_splits)
    qed
  qed
qed

lemma foldl_dry_step:
  "foldl dry_step r ts = r\<lparr>
     statementsExecuted := statementsExecuted r + int (length (filter executed ts)),
     statementsSkipped := statementsSkipped r + int (length (filter skipped ts)),
     copyBlocksExecuted := copyBlocksExecuted r + int (length (filter is_copy ts)),
     copyRowsImported := copyRowsImported r + int (sum_list (map row_count ts))\<rparr>"
proof (induction ts arbitrary: r)
  case (Cons t ts)
  then show ?case
    by (cases t) (auto simp add: dry_step_def executed_def skipped_def is_copy_def row_count_def)
qed simp

lemma token_partition:
  "length (filter executed ts) + length (filter skipped ts) + length (filter is_copy ts) = length ts"
proof (induction ts)
  case (Cons t ts)
  then show ?case by (cases t) (auto simp add: executed_def skipped_def is_copy_def)
qed simp

section \<open>Properties\<close>


definition demo_db :: "string \<Rightarrow> nat \<Rightarrow> (string + unit) \<times> nat" where
  "demo_db q n = (if q = ''BAD'' then Inl ''syntax error'' else Inr (), Suc n)"

lemma demo_db_ok: "control_ok demo_db"
  by (auto simp add: control_ok_def demo_db_def)


text \<open>
  A dry run reports exactly what the tokens contain: each token is counted
  once, as a statement to execute, a statement to skip or a COPY block, the rows
  are those of the COPY blocks, and nothing is reported as failed.
\<close>

theorem dry_run_counts:
  "dry_run tokens = \<lparr>statementsTotal = int (length tokens),
     statementsExecuted = int (length (filter executed tokens)),
     statementsSkipped = int (length (filter skipped tokens)),
     copyBlocksExecuted = int (length (filter is_copy tokens)),
     copyRowsImported = int (sum_list (map row_count tokens)),
     errors = [], mode = DryRun\<rparr> \<and>
   statementsExecuted (dry_run tokens) + statementsSkipped (dry_run tokens) +
     copyBlocksExecuted (dry_run tokens) = statementsTotal (dry_run tokens)"
  using token_partition [of tokens]
  by (simp add: dry_run_def foldl_dry_step empty_result_def)

text \<open>
  An import through psql that got as far as writing its temporary file ends
  by unlinking it, on success and on every failure of psql alike; a failure to
  unlink changes neither the result nor the exception.
\<close>

theorem psql_import_removes_its_file:
  assumes "h_hasPsql ops w = (True, w1)" and "extractPgConfig pg = Inr cfg"
    and "h_mkdtemp ops w1 = (Inr dir, w2)"
    and "h_write ops (dir @ ''/'' @ tid @ ''.sql'') sql w2 = (Inr (), w3)"
    and "h_psql ops (psqlArgs cfg (dir @ ''/'' @ tid @ ''.sql'')) w3 = (out, w4)"
  shows "runViaPsql ops pg tid sql tokens w =
     (case spawnPsql out of Inl e \<Rightarrow> Inl e | Inr stderr \<Rightarrow> Inr (psql_result tokens stderr),
      snd (h_unlink ops (dir @ ''/'' @ tid @ ''.sql'') w4))"
  using assms
  by (auto simp add: runViaPsql_def run_simps liftE_def fs_def Let_def split: sum.splits prod.splits)

definition demo_host :: "string list host_ops" where
  "demo_host = \<lparr>h_access = \<lambda>p w. (Inr (), w), h_read = \<lambda>p w. (Inr [], w),
     h_mkdtemp = \<lambda>w. (Inr ''/tmp/x'', w), h_write = \<lambda>p c w. (Inr (), p # w),
     h_unlink = \<lambda>p w. (Inr (), removeAll p w), h_hasPsql = \<lambda>w. (True, w),
     h_psql = \<lambda>a w. (Exited (Some 2) ''boom'', w)\<rparr>"

definition demo_pg :: PgConnection where
  "demo_pg = \<lparr>host = Some ''h'', port = None, user = Some ''u'', password = None, database = Some ''d''\<rparr>"

theorem psql_import_removes_its_file_witness:
  "runViaPsql demo_host (Some demo_pg) ''t'' ''x'' [] [] = (Inl (PsqlExited (Some 2) ''boom''), [])"
proof -
  have "runViaPsql demo_host (Some demo_pg) ''t'' ''x'' [] [] =
     (case spawnPsql (Exited (Some 2) ''boom'') of Inl e \<Rightarrow> Inl e | Inr stderr \<Rightarrow> Inr (psql_result [] stderr),
      snd (h_unlink demo_host (''/tmp/x'' @ ''/'' @ ''t'' @ ''.sql'') [''/tmp/x/t.sql'']))"
    by (rule psql_import_removes_its_file [of _ _ "[]" _ "(''h'', 5432, ''u'', [], ''d'')" _ "[]"])
       (simp_all add: demo_host_def demo_pg_def extractPgConfig_def falsy_def)
  then show ?thesis by (simp add: spawnPsql_def demo_host_def)
qed

end
