(* ===== verification/Tenant_Model.thy ===== *)
theory Tenant_Model
  imports Prelude
begin

text \<open>
  types/contracts.ts and testing/: the tenant with its lifecycle status, the
  contract every tenant repository meets (the locale \<open>tenant_repository\<close>) and
  the in-memory repository of the package, which interprets it.
\<close>

section \<open>Tenants\<close>

datatype TenantStatus = provisioning | active | suspended | failed | deleted

instantiation TenantStatus :: enum
begin

definition enum_TenantStatus :: "TenantStatus list" where
  "enum_TenantStatus = [provisioning, active, suspended, failed, deleted]"

definition enum_all_TenantStatus :: "(TenantStatus \<Rightarrow> bool) \<Rightarrow> bool" where
  "enum_all_TenantStatus P \<longleftrightarrow> P provisioning \<and> P active \<and> P suspended \<and> P failed \<and> P deleted"

definition enum_ex_TenantStatus :: "(TenantStatus \<Rightarrow> bool) \<Rightarrow> bool" where
  "enum_ex_TenantStatus P \<longleftrightarrow> P provisioning \<or> P active \<or> P suspended \<or> P failed \<or> P deleted"

instance
proof
  have all: "P provisioning \<Longrightarrow> P active \<Longrightarrow> P suspended \<Longrightarrow> P failed \<Longrightarrow> P deleted \<Longrightarrow> P x"
    for P and x :: TenantStatus by (cases x) auto
  show "(UNIV :: TenantStatus set) = set enum_class.enum"
    by (auto simp add: enum_TenantStatus_def) (metis TenantStatus.exhaust)
  show "distinct (enum_class.enum :: TenantStatus list)"
    by (simp add: enum_TenantStatus_def)
  show "enum_class.enum_all P \<longleftrightarrow> Ball UNIV P" for P :: "TenantStatus \<Rightarrow> bool"
    by (auto simp add: enum_all_TenantStatus_def intro: all)
  show "enum_class.enum_ex P \<longleftrightarrow> Bex UNIV P" for P :: "TenantStatus \<Rightarrow> bool"
    by (auto simp add: enum_ex_TenantStatus_def) (metis TenantStatus.exhaust)
qed

end

text \<open>The strings that the statuses are in the code.\<close>

fun status_name :: "TenantStatus \<Rightarrow> string" where
  "status_name provisioning = ''provisioning''"
| "status_name active = ''active''"
| "status_name suspended = ''suspended''"
| "status_name failed = ''failed''"
| "status_name deleted = ''deleted''"

record tenant =
  t_id :: string
  t_name :: string
  t_email :: string
  t_status :: TenantStatus
  t_customDomain :: "string option"
  t_createdAt :: int
  t_deletedAt :: "int option"
  t_maintenance :: bool
  t_maintenanceMessage :: "string option"

definition isActive :: "tenant \<Rightarrow> bool" where
  "isActive t \<longleftrightarrow> t_status t = active"

definition isSuspended :: "tenant \<Rightarrow> bool" where
  "isSuspended t \<longleftrightarrow> t_status t = suspended"

definition isProvisioning :: "tenant \<Rightarrow> bool" where
  "isProvisioning t \<longleftrightarrow> t_status t = provisioning"

definition isFailed :: "tenant \<Rightarrow> bool" where
  "isFailed t \<longleftrightarrow> t_status t = failed"

definition isDeleted :: "tenant \<Rightarrow> bool" where
  "isDeleted t \<longleftrightarrow> t_deletedAt t \<noteq> None"

definition suspend :: "tenant \<Rightarrow> tenant" where
  "suspend t = t\<lparr>t_status := suspended\<rparr>"

definition activate :: "tenant \<Rightarrow> tenant" where
  "activate t = t\<lparr>t_status := active\<rparr>"

text \<open>The getter \<open>schemaName\<close> of the test tenants.\<close>

definition test_schemaName :: "string \<Rightarrow> tenant \<Rightarrow> string" where
  "test_schemaName prefix t = prefix @ replace_char (CHR ''-'') (CHR ''_'') (t_id t)"

text \<open>
  \<open>buildTestTenant\<close>: the id comes from \<open>randomUUID()\<close> unless overridden, and
  \<open>createdAt\<close> from the clock.
\<close>

record tenant_overrides =
  o_id :: "string option"
  o_name :: "string option"
  o_email :: "string option"
  o_status :: "TenantStatus option"
  o_customDomain :: "string option"
  o_createdAt :: "int option"
  o_deletedAt :: "int option"

definition or_else :: "'a option \<Rightarrow> 'a \<Rightarrow> 'a" where
  "or_else v d = (case v of None \<Rightarrow> d | Some x \<Rightarrow> x)"

definition buildTestTenant :: "string \<Rightarrow> int \<Rightarrow> tenant_overrides \<Rightarrow> tenant" where
  "buildTestTenant uuid now ov =
     (let i = or_else (o_id ov) uuid
      in \<lparr>t_id = i,
          t_name = or_else (o_name ov) (''Test Tenant '' @ js_slice 0 8 i),
          t_email = or_else (o_email ov) (''test-'' @ js_slice 0 8 i @ ''@fixture.test''),
          t_status = or_else (o_status ov) active,
          t_customDomain = o_customDomain ov,
          t_createdAt = or_else (o_createdAt ov) now,
          t_deletedAt = o_deletedAt ov,
          t_maintenance = False, t_maintenanceMessage = None\<rparr>)"

section \<open>The repository contract\<close>

text \<open>
  \<open>statuses\<close> is the optional status filter of \<open>all\<close>. The laws hold of the
  stores that satisfy \<open>inv\<close>.
\<close>

definition status_ok :: "TenantStatus list option \<Rightarrow> tenant \<Rightarrow> bool" where
  "status_ok statuses t \<longleftrightarrow> (case statuses of None \<Rightarrow> True | Some sts \<Rightarrow> t_status t \<in> set sts)"

locale tenant_repository =
  fixes findById :: "'r \<Rightarrow> string \<Rightarrow> bool \<Rightarrow> tenant option"
    and findByDomain :: "'r \<Rightarrow> string \<Rightarrow> tenant option"
    and all :: "'r \<Rightarrow> bool \<Rightarrow> TenantStatus list option \<Rightarrow> tenant list"
    and inv :: "'r \<Rightarrow> bool"
  assumes findById_id: "inv r \<Longrightarrow> findById r i d = Some t \<Longrightarrow> t_id t = i"
    and findById_deleted: "inv r \<Longrightarrow> findById r i False = Some t \<Longrightarrow> \<not> isDeleted t"
    and findById_include: "inv r \<Longrightarrow> findById r i False = Some t \<Longrightarrow> findById r i True = Some t"
    and findById_live: "inv r \<Longrightarrow> findById r i True = Some t \<Longrightarrow> \<not> isDeleted t \<Longrightarrow> findById r i False = Some t"
    and findByDomain_match: "inv r \<Longrightarrow> findByDomain r dmn = Some t \<Longrightarrow>
        t_customDomain t = Some dmn \<and> findById r (t_id t) False = Some t"
    and all_iff: "inv r \<Longrightarrow>
        t \<in> set (all r d sts) \<longleftrightarrow> findById r (t_id t) d = Some t \<and> status_ok sts t"
    and all_ids: "inv r \<Longrightarrow> distinct (map t_id (all r d sts))"
begin

lemma all_live: "inv r \<Longrightarrow> t \<in> set (all r False sts) \<Longrightarrow> \<not> isDeleted t"
  using all_iff findById_deleted by blast

lemma all_mono: "inv r \<Longrightarrow> t \<in> set (all r False sts) \<Longrightarrow> t \<in> set (all r True sts)"
  using all_iff findById_include by blast

lemma all_unique: "inv r \<Longrightarrow> t \<in> set (all r d sts) \<Longrightarrow> u \<in> set (all r d sts) \<Longrightarrow> t_id t = t_id u \<Longrightarrow> t = u"
  using all_iff by (metis option.sel)

lemma findByDomain_live: "inv r \<Longrightarrow> findByDomain r dmn = Some t \<Longrightarrow> \<not> isDeleted t"
  using findByDomain_match findById_deleted by blast

end

section \<open>The in-memory repository\<close>

type_synonym mock_repo = "(string, tenant) jmap"

definition mock_inv :: "mock_repo \<Rightarrow> bool" where
  "mock_inv r \<longleftrightarrow> jm_inv r \<and> (\<forall>(k, t) \<in> set r. t_id t = k)"

definition mock_add :: "tenant \<Rightarrow> mock_repo \<Rightarrow> mock_repo" where
  "mock_add t r = jm_set (t_id t) t r"

definition mock_new :: "tenant list \<Rightarrow> mock_repo" where
  "mock_new ts = fold mock_add ts []"

definition mock_count :: "mock_repo \<Rightarrow> nat" where
  "mock_count r = length r"

definition mock_findById :: "mock_repo \<Rightarrow> string \<Rightarrow> bool \<Rightarrow> tenant option" where
  "mock_findById r i includeDeleted =
     (case jm_get i r of
        None \<Rightarrow> None
      | Some t \<Rightarrow> (if \<not> includeDeleted \<and> isDeleted t then None else Some t))"

datatype repo_error = TenantNotFound string

definition mock_findByIdOrFail :: "mock_repo \<Rightarrow> string \<Rightarrow> bool \<Rightarrow> repo_error + tenant" where
  "mock_findByIdOrFail r i includeDeleted =
     (case mock_findById r i includeDeleted of None \<Rightarrow> Inl (TenantNotFound i) | Some t \<Rightarrow> Inr t)"

definition mock_findByDomain :: "mock_repo \<Rightarrow> string \<Rightarrow> tenant option" where
  "mock_findByDomain r domain =
     find (\<lambda>t. \<not> isDeleted t \<and> t_customDomain t = Some domain) (jm_values r)"

definition mock_all :: "mock_repo \<Rightarrow> bool \<Rightarrow> TenantStatus list option \<Rightarrow> tenant list" where
  "mock_all r includeDeleted statuses =
     filter (\<lambda>t. \<not> (\<not> includeDeleted \<and> isDeleted t) \<and> status_ok statuses t) (jm_values r)"

definition mock_whereIn :: "mock_repo \<Rightarrow> string list \<Rightarrow> bool \<Rightarrow> tenant list" where
  "mock_whereIn r ids includeDeleted =
     filter (\<lambda>t. t_id t \<in> set ids \<and> \<not> (\<not> includeDeleted \<and> isDeleted t)) (jm_values r)"

definition mock_each ::
  "mock_repo \<Rightarrow> (tenant \<Rightarrow> ('s, 'e, unit) M) \<Rightarrow> bool \<Rightarrow> TenantStatus list option \<Rightarrow> ('s, 'e, unit) M"
where
  "mock_each r callback includeDeleted statuses = forM (mock_all r includeDeleted statuses) callback"

definition mock_create ::
  "string \<Rightarrow> int \<Rightarrow> string \<Rightarrow> string \<Rightarrow> TenantStatus \<Rightarrow> mock_repo \<Rightarrow> tenant \<times> mock_repo"
where
  "mock_create uuid now name email status r =
     (let t = buildTestTenant uuid now
          \<lparr>o_id = None, o_name = Some name, o_email = Some email, o_status = Some status,
           o_customDomain = None, o_createdAt = None, o_deletedAt = None\<rparr>
      in (t, jm_set (t_id t) t r))"

lemma mock_inv_Nil [simp]: "mock_inv []"
  by (simp add: mock_inv_def)

lemma mock_inv_add: "mock_inv r \<Longrightarrow> mock_inv (mock_add t r)"
proof -
  assume inv: "mock_inv r"
  have "(k, u) \<in> set (jm_set (t_id t) t r) \<Longrightarrow> t_id u = k" for k u
    using inv unfolding mock_inv_def
    by (induction r) (auto split: if_splits simp add: jm_inv_def)
  then show ?thesis
    using inv js_map.inv_put by (auto simp add: mock_inv_def mock_add_def)
qed

lemma mock_inv_new: "mock_inv (mock_new ts)"
proof -
  have "mock_inv r \<Longrightarrow> mock_inv (fold mock_add ts r)" for r
    by (induction ts arbitrary: r) (simp_all add: mock_inv_add)
  then show ?thesis by (simp add: mock_new_def)
qed

lemma mock_get_value:
  "mock_inv r \<Longrightarrow> jm_get (t_id t) r = Some t \<longleftrightarrow> t \<in> set (jm_values r)"
  by (force simp add: mock_inv_def jm_defs dest: map_of_SomeD intro: map_of_is_SomeI)

lemma mock_get_id: "mock_inv r \<Longrightarrow> jm_get i r = Some t \<Longrightarrow> t_id t = i"
  by (auto simp add: mock_inv_def jm_get_def dest!: map_of_SomeD)

lemma mock_ids_distinct: "mock_inv r \<Longrightarrow> distinct (map t_id (jm_values r))"
proof -
  assume inv: "mock_inv r"
  then have "map t_id (jm_values r) = map fst r"
    by (auto simp add: mock_inv_def jm_values_def)
  then show ?thesis using inv by (simp add: mock_inv_def jm_inv_def)
qed

lemma mock_findByDomain_Some:
  assumes "mock_inv r" "mock_findByDomain r dmn = Some t"
  shows "t \<in> set (jm_values r) \<and> \<not> isDeleted t \<and> t_customDomain t = Some dmn"
  using assms by (auto simp add: mock_findByDomain_def find_Some_iff)

interpretation mock: tenant_repository mock_findById mock_findByDomain mock_all mock_inv
proof unfold_locales
  fix r i d t
  assume "mock_inv r" "mock_findById r i d = Some t"
  then show "t_id t = i"
    by (auto simp add: mock_findById_def mock_get_id split: option.splits if_splits)
next
  fix r :: mock_repo and dmn t
  assume "mock_inv r" "mock_findByDomain r dmn = Some t"
  then show "t_customDomain t = Some dmn \<and> mock_findById r (t_id t) False = Some t"
    using mock_findByDomain_Some [of r dmn t] mock_get_value [of r t]
    by (simp add: mock_findById_def)
next
  fix r t d sts
  assume "mock_inv r"
  then show "t \<in> set (mock_all r d sts) \<longleftrightarrow> mock_findById r (t_id t) d = Some t \<and> status_ok sts t"
    using mock_get_value [of r t]
    by (auto simp add: mock_all_def mock_findById_def split: option.splits)
next
  fix r d sts
  assume "mock_inv r"
  then show "distinct (map t_id (mock_all r d sts))"
    using mock_ids_distinct [of r] by (auto simp add: mock_all_def intro: distinct_map_filter)
qed (auto simp add: mock_findById_def split: option.splits if_splits)

section \<open>Properties\<close>

text \<open>
  What the in-memory repository created or added is found again: a created
  tenant is returned by id with the given name, email and status, is listed
  exactly when its status passes the filter, and every other tenant is found as
  before.
\<close>

theorem mock_create_then_find:
  assumes "mock_inv r" and "mock_create uuid now name email status r = (t, r')"
  shows "mock_inv r' \<and> mock_findById r' uuid False = Some t \<and>
     t_name t = name \<and> t_email t = email \<and> t_status t = status \<and>
     (t \<in> set (mock_all r' False sts) \<longleftrightarrow> status_ok sts t) \<and>
     (i \<noteq> uuid \<longrightarrow> mock_findById r' i d = mock_findById r i d)"
proof -
  have t: "t_id t = uuid" "t_name t = name" "t_email t = email" "t_status t = status" "\<not> isDeleted t"
    and r': "r' = mock_add t r"
    using assms(2) by (auto simp add: mock_create_def buildTestTenant_def or_else_def Let_def
        isDeleted_def mock_add_def)
  have inv: "mock_inv r'" using assms(1) r' mock_inv_add by simp
  moreover have f: "mock_findById r' uuid False = Some t"
    using t r' by (simp add: mock_findById_def mock_add_def)
  moreover have "i \<noteq> uuid \<Longrightarrow> mock_findById r' i d = mock_findById r i d"
    using t r' by (simp add: mock_findById_def mock_add_def)
  ultimately show ?thesis using t mock.all_iff [OF inv] by auto
qed

theorem mock_create_then_find_witness:
  "mock_inv [(''u'', fst (mock_create ''u'' 0 ''n'' ''e'' active []))] \<and>
   mock_findById [(''u'', fst (mock_create ''u'' 0 ''n'' ''e'' active []))] ''u'' False =
     Some (fst (mock_create ''u'' 0 ''n'' ''e'' active []))"
  using mock_create_then_find [of "[]" "''u''" 0 "''n''" "''e''" active
      "fst (mock_create ''u'' 0 ''n'' ''e'' active [])"
      "[(''u'', fst (mock_create ''u'' 0 ''n'' ''e'' active []))]"]
  by (simp add: mock_create_def Let_def buildTestTenant_def or_else_def)

end
