(* ===== verification/Identifier.thy ===== *)
theory Identifier
  imports Prelude
begin

text \<open>
  services/isolation/identifier.ts: the identifier policy every driver checks
  before it puts a tenant id in a DDL statement, and the UUID v4 test of the
  resolver chain.
\<close>

definition safe_ident_char :: "char \<Rightarrow> bool" where
  "safe_ident_char c \<longleftrightarrow> is_alnum c \<or> c = CHR ''_'' \<or> c = CHR ''-''"

definition SAFE_IDENT :: "string \<Rightarrow> bool" where
  "SAFE_IDENT s \<longleftrightarrow> 1 \<le> length s \<and> length s \<le> 63 \<and> list_all safe_ident_char s"

datatype ident_error = UnsafeIdentifier string string

definition assertSafeIdentifier :: "string \<Rightarrow> string \<Rightarrow> ident_error + unit" where
  "assertSafeIdentifier value kind =
     (if \<not> SAFE_IDENT value then Inl (UnsafeIdentifier kind value) else Inr ())"

text \<open>The groups of the UUID expression, matched one character at a time.\<close>

definition uuid_shape :: "(char \<Rightarrow> bool) list" where
  "uuid_shape =
     replicate 8 is_hex_ci @ [\<lambda>c. c = CHR ''-''] @
     replicate 4 is_hex_ci @ [\<lambda>c. c = CHR ''-''] @
     [\<lambda>c. c = CHR ''4''] @ replicate 3 is_hex_ci @ [\<lambda>c. c = CHR ''-''] @
     [\<lambda>c. c \<in> set ''89abAB''] @ replicate 3 is_hex_ci @ [\<lambda>c. c = CHR ''-''] @
     replicate 12 is_hex_ci"

definition isUuidV4 :: "string \<Rightarrow> bool" where
  "isUuidV4 s \<longleftrightarrow> list_all2 (\<lambda>p c. p c) uuid_shape s"

section \<open>Facts\<close>

lemma safe_char_not_special:
  assumes "safe_ident_char c"
  shows "c \<noteq> DQ" "c \<noteq> SQ" "c \<noteq> CHR '';''" "c \<noteq> CHR ''/''" "c \<noteq> CHR ''.''" "c \<noteq> BSL"
    "\<not> js_ws c" "c \<noteq> CHR '':''"
  using assms
  by (auto simp add: safe_ident_char_def char_class_defs DQ_def SQ_def BSL_def)

lemma safe_ident_chars: "SAFE_IDENT s \<Longrightarrow> c \<in> set s \<Longrightarrow> safe_ident_char c"
  by (auto simp add: SAFE_IDENT_def list_all_iff)

lemma hex_safe: "is_hex_ci c \<Longrightarrow> safe_ident_char c"
  by (auto simp add: safe_ident_char_def char_class_defs)

lemma ident_literals:
  "safe_ident_char CHR ''-''" "safe_ident_char CHR ''4''"
  "list_all safe_ident_char ''89abAB''"
  by code_simp+

lemma shape_all:
  "list_all2 (\<lambda>p c. p c) ps s \<Longrightarrow> (\<forall>p \<in> set ps. \<forall>c. p c \<longrightarrow> Q c) \<Longrightarrow> list_all Q s"
  by (induction ps s rule: list_all2_induct) auto

lemma uuid_shape_safe: "\<forall>p \<in> set uuid_shape. \<forall>c. p c \<longrightarrow> safe_ident_char c"
  using ident_literals
  by (simp add: uuid_shape_def ball_Un hex_safe)

lemma uuid_shape_length: "length uuid_shape = 36"
  by (simp add: uuid_shape_def)

lemma uuid_length: "isUuidV4 s \<Longrightarrow> length s = 36"
  by (simp add: isUuidV4_def list_all2_lengthD [symmetric] uuid_shape_length)

lemma uuid_chars: "isUuidV4 s \<Longrightarrow> list_all safe_ident_char s"
  unfolding isUuidV4_def by (rule shape_all [OF _ uuid_shape_safe])

end
