(* ===== verification/Resolvers.thy ===== *)
theory Resolvers
  imports Tenant_Model Identifier
begin

text \<open>
  services/resolvers/ and extensions/request.ts: how a request names its tenant.
  The built-in resolvers, the registry with its chain, the synchronous legacy
  strategy switch, and the memoised \<open>request.tenant()\<close>. A request is what the
  resolvers read of it; a resolver registered by the host application is a
  function that may throw.
\<close>

section \<open>Requests and configuration\<close>

datatype jsval = JStr string | JOther

record http_request =
  r_hostname :: "string option"
  r_header :: "string \<Rightarrow> string option"
  r_url :: string
  r_qs :: "string \<Rightarrow> jsval option"
  r_input :: "string \<Rightarrow> jsval option"
  r_ip :: string

datatype strategy = S_header | S_subdomain | S_path | S_domain_or_subdomain | S_request_data

record resolver_config =
  resolverStrategy :: strategy
  tenantHeaderKey :: string
  baseDomain :: string
  ignorePaths :: "string list"
  queryKey :: "string option"
  bodyKey :: "string option"

datatype hit = HitId string | HitDomain string

type_synonym resolve_result = "hit option"

section \<open>Built-in resolvers\<close>

definition hostnameOf :: "http_request \<Rightarrow> string" where
  "hostnameOf req = hd (js_split (CHR '':'') (or_else (r_hostname req) []))"

definition header_resolver :: "resolver_config \<Rightarrow> http_request \<Rightarrow> resolve_result" where
  "header_resolver cfg req =
     (case r_header req (tenantHeaderKey cfg) of
        None \<Rightarrow> None
      | Some v \<Rightarrow> (if v = [] then None else Some (HitId v)))"

definition domain_suffix :: "string \<Rightarrow> string" where
  "domain_suffix base = (if starts_with ''.'' base then base else ''.'' @ base)"

definition cut_suffix :: "string \<Rightarrow> string \<Rightarrow> string" where
  "cut_suffix host suffix = js_slice 0 (length host - length suffix) host"

definition subdomain_resolver :: "resolver_config \<Rightarrow> http_request \<Rightarrow> resolve_result" where
  "subdomain_resolver cfg req =
     (let base = baseDomain cfg; host = hostnameOf req in
      if host = [] then None
      else if host = base then None
      else let suffix = domain_suffix base in
        if ends_with suffix host
        then (let sub = cut_suffix host suffix in if sub \<noteq> [] then Some (HitId sub) else None)
        else (let labels = js_split (CHR ''.'') host in
              if 1 < length labels then Some (HitId (hd labels)) else None))"

definition first_segment :: "string \<Rightarrow> string option" where
  "first_segment url = find (\<lambda>s. s \<noteq> []) (js_split (CHR ''/'') url)"

definition path_resolver :: "resolver_config \<Rightarrow> http_request \<Rightarrow> resolve_result" where
  "path_resolver cfg req =
     (let url = r_url req in
      if list_ex (\<lambda>p. starts_with p url) (ignorePaths cfg) then None
      else map_option HitId (first_segment url))"

definition domain_or_subdomain_resolver :: "resolver_config \<Rightarrow> http_request \<Rightarrow> resolve_result" where
  "domain_or_subdomain_resolver cfg req =
     (let base = baseDomain cfg; host = hostnameOf req in
      if host = [] then None
      else let suffix = domain_suffix base; sub = cut_suffix host suffix in
        if host \<noteq> base \<and> ends_with suffix host \<and> sub \<noteq> [] then Some (HitId sub)
        else if host \<noteq> base then Some (HitDomain host)
        else None)"

definition nonempty_string :: "jsval option \<Rightarrow> string option" where
  "nonempty_string v = (case v of Some (JStr s) \<Rightarrow> (if s \<noteq> [] then Some s else None) | _ \<Rightarrow> None)"

definition request_data_resolver :: "resolver_config \<Rightarrow> http_request \<Rightarrow> resolve_result" where
  "request_data_resolver cfg req =
     (let qk = or_else (queryKey cfg) ''tenant_id''; bk = or_else (bodyKey cfg) ''tenant_id'' in
      case nonempty_string (r_qs req qk) of
        Some q \<Rightarrow> Some (HitId q)
      | None \<Rightarrow> (case nonempty_string (r_input req bk) of
                   Some b \<Rightarrow> Some (HitId b)
                 | None \<Rightarrow> None))"

section \<open>The registry\<close>

type_synonym resolver = "http_request \<Rightarrow> string + resolve_result"

record registry =
  g_resolvers :: "(string, resolver) jmap"
  g_chain :: "string list"

datatype registry_error = UnknownResolver string "string list"

definition empty_registry :: registry where
  "empty_registry = \<lparr>g_resolvers = [], g_chain = []\<rparr>"

definition register :: "string \<Rightarrow> resolver \<Rightarrow> registry \<Rightarrow> registry" where
  "register name res g = g\<lparr>g_resolvers := jm_set name res (g_resolvers g)\<rparr>"

definition unregister :: "string \<Rightarrow> registry \<Rightarrow> bool \<times> registry" where
  "unregister name g =
     (jm_has name (g_resolvers g), g\<lparr>g_resolvers := jm_delete name (g_resolvers g)\<rparr>)"

definition has_resolver :: "registry \<Rightarrow> string \<Rightarrow> bool" where
  "has_resolver g name = jm_has name (g_resolvers g)"

definition list_resolvers :: "registry \<Rightarrow> string list" where
  "list_resolvers g = jm_keys (g_resolvers g)"

definition setChain :: "string list \<Rightarrow> registry \<Rightarrow> registry_error + registry" where
  "setChain names g =
     (case find (\<lambda>n. \<not> has_resolver g n) names of
        Some n \<Rightarrow> Inl (UnknownResolver n (list_resolvers g))
      | None \<Rightarrow> Inr (g\<lparr>g_chain := names\<rparr>))"

definition clear_registry :: "registry \<Rightarrow> registry" where
  "clear_registry g = g\<lparr>g_resolvers := [], g_chain := []\<rparr>"

fun walk_chain :: "(string, resolver) jmap \<Rightarrow> string list \<Rightarrow> http_request \<Rightarrow> string + resolve_result" where
  "walk_chain rs [] req = Inr None"
| "walk_chain rs (n # ns) req =
     (case jm_get n rs of
        None \<Rightarrow> walk_chain rs ns req
      | Some f \<Rightarrow> (case f req of
                    Inl e \<Rightarrow> Inl e
                  | Inr None \<Rightarrow> walk_chain rs ns req
                  | Inr (Some h) \<Rightarrow> Inr (Some h)))"

definition registry_resolve :: "registry \<Rightarrow> http_request \<Rightarrow> string + resolve_result" where
  "registry_resolve g req = walk_chain (g_resolvers g) (g_chain g) req"

definition strategy_name :: "strategy \<Rightarrow> string" where
  "strategy_name st = (case st of
      S_header \<Rightarrow> ''header'' | S_subdomain \<Rightarrow> ''subdomain'' | S_path \<Rightarrow> ''path''
    | S_domain_or_subdomain \<Rightarrow> ''domain-or-subdomain'' | S_request_data \<Rightarrow> ''request-data'')"

definition builtInResolvers :: "resolver_config \<Rightarrow> (string \<times> resolver) list" where
  "builtInResolvers cfg =
     [(''header'', \<lambda>req. Inr (header_resolver cfg req)),
      (''subdomain'', \<lambda>req. Inr (subdomain_resolver cfg req)),
      (''path'', \<lambda>req. Inr (path_resolver cfg req)),
      (''domain-or-subdomain'', \<lambda>req. Inr (domain_or_subdomain_resolver cfg req)),
      (''request-data'', \<lambda>req. Inr (request_data_resolver cfg req))]"

definition seeded_registry :: "resolver_config \<Rightarrow> registry" where
  "seeded_registry cfg = fold (\<lambda>(n, f). register n f) (builtInResolvers cfg) empty_registry"

section \<open>Resolving a tenant for a request\<close>

definition legacy_host :: "resolver_config \<Rightarrow> http_request \<Rightarrow> string option" where
  "legacy_host cfg req =
     (let host = hostnameOf req; suffix = domain_suffix (baseDomain cfg) in
      if ends_with suffix host
      then (let sub = cut_suffix host suffix in if sub \<noteq> [] then Some sub else None)
      else if host = baseDomain cfg then None
      else (let labels = js_split (CHR ''.'') host in
            if 1 < length labels then Some (hd labels) else None))"

definition legacyResolveTenantId :: "resolver_config \<Rightarrow> http_request \<Rightarrow> string option" where
  "legacyResolveTenantId cfg req =
     (case resolverStrategy cfg of
        S_subdomain \<Rightarrow> legacy_host cfg req
      | S_domain_or_subdomain \<Rightarrow> legacy_host cfg req
      | S_path \<Rightarrow> first_segment (r_url req)
      | S_request_data \<Rightarrow>
          (case nonempty_string (r_qs req ''tenant_id'') of
             Some q \<Rightarrow> Some q
           | None \<Rightarrow> nonempty_string (r_input req ''tenant_id''))
      | S_header \<Rightarrow> r_header req (tenantHeaderKey cfg))"

definition legacy_result :: "resolver_config \<Rightarrow> http_request \<Rightarrow> resolve_result" where
  "legacy_result cfg req =
     (case legacyResolveTenantId cfg req of
        None \<Rightarrow> None
      | Some i \<Rightarrow> (if i = [] then None else Some (HitId i)))"

text \<open>\<open>reg\<close> is the registry of the container, \<open>None\<close> before the provider has booted.\<close>

definition resolveTenant :: "registry option \<Rightarrow> resolver_config \<Rightarrow> http_request \<Rightarrow> string + resolve_result" where
  "resolveTenant reg cfg req =
     (case reg of
        Some g \<Rightarrow> (if g_chain g \<noteq> [] then registry_resolve g req else Inr (legacy_result cfg req))
      | None \<Rightarrow> Inr (legacy_result cfg req))"

datatype tenant_error =
    MissingTenantHeader
  | TenantNotFoundException
  | ResolverThrew string
  | RepositoryThrew string
  | ConnectThrew string

text \<open>
  The state of \<open>request.tenant()\<close> is the memo on the request and the state of
  the isolation driver; \<open>connect\<close> is the active driver's.
\<close>

record 'w request_state =
  memo :: "tenant option"
  driver :: 'w

definition connect_step ::
  "(tenant \<Rightarrow> 'w \<Rightarrow> (string + unit) \<times> 'w) \<Rightarrow> tenant \<Rightarrow> ('w request_state, tenant_error, unit) M"
where
  "connect_step connect t = (\<lambda>s.
     case connect t (driver s) of
       (Inl m, w) \<Rightarrow> (Inl (ConnectThrew m), s\<lparr>driver := w\<rparr>)
     | (Inr _, w) \<Rightarrow> (Inr (), s\<lparr>driver := w\<rparr>))"

definition lookup_hit ::
  "(string \<Rightarrow> bool \<Rightarrow> string + tenant option) \<Rightarrow> (string \<Rightarrow> string + tenant option) \<Rightarrow>
   resolve_result \<Rightarrow> tenant_error + tenant option"
where
  "lookup_hit findById findByDomain result =
     (case result of
        Some (HitId i) \<Rightarrow>
          (if isUuidV4 i
           then (case findById i True of Inl m \<Rightarrow> Inl (RepositoryThrew m) | Inr t \<Rightarrow> Inr t)
           else Inl MissingTenantHeader)
      | Some (HitDomain d) \<Rightarrow>
          (case findByDomain d of Inl m \<Rightarrow> Inl (RepositoryThrew m) | Inr t \<Rightarrow> Inr t)
      | None \<Rightarrow> Inl MissingTenantHeader)"

definition request_tenant ::
  "(string + resolve_result) \<Rightarrow> (string \<Rightarrow> bool \<Rightarrow> string + tenant option) \<Rightarrow>
   (string \<Rightarrow> string + tenant option) \<Rightarrow> (tenant \<Rightarrow> 'w \<Rightarrow> (string + unit) \<times> 'w) \<Rightarrow>
   ('w request_state, tenant_error, tenant) M"
where
  "request_tenant resolved findById findByDomain connect =
     bindM (getM memo) (\<lambda>m. case m of
       Some t \<Rightarrow> returnM t
     | None \<Rightarrow>
         (case resolved of
            Inl e \<Rightarrow> throwM (ResolverThrew e)
          | Inr result \<Rightarrow>
              (case lookup_hit findById findByDomain result of
                 Inl e \<Rightarrow> throwM e
               | Inr None \<Rightarrow> throwM TenantNotFoundException
               | Inr (Some t) \<Rightarrow>
                   thenM (connect_step connect t)
                     (thenM (modM (\<lambda>s. s\<lparr>memo := Some t\<rparr>)) (returnM t)))))"

section \<open>Facts\<close>

lemma walk_chain_skip:
  "\<forall>n \<in> set ns. \<forall>f. jm_get n rs = Some f \<longrightarrow> f req = Inr None \<Longrightarrow>
   walk_chain rs (ns @ ms) req = walk_chain rs ms req"
  by (induction ns) (auto split: option.splits)

lemma walk_chain_Some:
  "walk_chain rs ns req = Inr (Some h) \<Longrightarrow>
   \<exists>pre n post f. ns = pre @ n # post \<and> jm_get n rs = Some f \<and> f req = Inr (Some h) \<and>
     (\<forall>k \<in> set pre. \<forall>g. jm_get k rs = Some g \<longrightarrow> g req = Inr None)"
proof (induction ns)
  case (Cons n ns)
  show ?case
  proof (cases "\<exists>f. jm_get n rs = Some f \<and> f req = Inr (Some h)")
    case True
    then show ?thesis by (metis append_Nil empty_iff empty_set)
  next
    case False
    then have skip: "\<forall>f. jm_get n rs = Some f \<longrightarrow> f req = Inr None"
      and "walk_chain rs ns req = Inr (Some h)"
      using Cons.prems by (auto split: option.splits sum.splits)
    then obtain pre m post f where
      "ns = pre @ m # post" "jm_get m rs = Some f" "f req = Inr (Some h)"
      "\<forall>k \<in> set pre. \<forall>g. jm_get k rs = Some g \<longrightarrow> g req = Inr None"
      using Cons.IH by auto
    then show ?thesis
      using skip by (intro exI [of _ "n # pre"] exI [of _ m] exI [of _ post] exI [of _ f]) auto
  qed
qed simp

lemma seeded_lookup:
  "jm_get (strategy_name st) (g_resolvers (seeded_registry cfg)) =
     Some (case st of
       S_header \<Rightarrow> (\<lambda>req. Inr (header_resolver cfg req))
     | S_subdomain \<Rightarrow> (\<lambda>req. Inr (subdomain_resolver cfg req))
     | S_path \<Rightarrow> (\<lambda>req. Inr (path_resolver cfg req))
     | S_domain_or_subdomain \<Rightarrow> (\<lambda>req. Inr (domain_or_subdomain_resolver cfg req))
     | S_request_data \<Rightarrow> (\<lambda>req. Inr (request_data_resolver cfg req)))"
  by (cases st)
     (simp_all add: strategy_name_def seeded_registry_def builtInResolvers_def register_def empty_registry_def)

lemma seeded_has: "has_resolver (seeded_registry cfg) (strategy_name st)"
  by (simp add: has_resolver_def jm_has_def seeded_lookup)

lemma domain_suffix_nonempty [simp]: "domain_suffix b \<noteq> []"
  by (cases b) (auto simp add: domain_suffix_def)

lemma ends_with_iff: "ends_with p s \<longleftrightarrow> (\<exists>t. s = t @ p)"
  unfolding ends_with_def starts_with_iff
  by (metis rev_append rev_rev_ident)

lemma cut_suffix_append [simp]: "cut_suffix (a @ b) b = a"
  by (simp add: cut_suffix_def js_slice_def)

lemma ends_with_Nil: "ends_with p [] \<longleftrightarrow> p = []"
  by (auto simp add: ends_with_iff)

lemma cut_suffix_self_base: "host = b \<Longrightarrow> ends_with (domain_suffix b) host \<Longrightarrow> cut_suffix host (domain_suffix b) = []"
  by (auto simp add: domain_suffix_def ends_with_iff cut_suffix_def js_slice_def split: if_splits)

lemma legacy_host_subdomain: "map_option HitId (legacy_host cfg req) = subdomain_resolver cfg req"
  by (auto simp add: legacy_host_def subdomain_resolver_def Let_def ends_with_Nil cut_suffix_self_base
      dest: cut_suffix_self_base)

lemma legacy_host_nonempty:
  "legacy_host cfg req \<noteq> Some []" if "\<not> starts_with ''.'' (hostnameOf req)"
proof -
  have "hd (js_split (CHR ''.'') s) = [] \<Longrightarrow> \<not> starts_with ''.'' s \<Longrightarrow> length (js_split (CHR ''.'') s) \<le> 1" for s
    by (cases s) (auto split: list.splits if_splits)
  then show ?thesis
    using that by (fastforce simp add: legacy_host_def Let_def split: if_splits)
qed

text \<open>What any repository that keeps its contract gives \<open>request.tenant()\<close>.\<close>

context tenant_repository
begin

lemma lookup_hit_sound:
  assumes "inv r"
    and "lookup_hit (\<lambda>i d. Inr (findById r i d)) (\<lambda>d. Inr (findByDomain r d)) res = Inr (Some t)"
  shows "(\<exists>i. res = Some (HitId i) \<and> t_id t = i \<and> isUuidV4 i) \<or>
         (\<exists>d. res = Some (HitDomain d) \<and> t_customDomain t = Some d \<and> \<not> isDeleted t)"
  using assms findById_id findByDomain_match findByDomain_live
  by (auto simp add: lookup_hit_def split: option.splits hit.splits if_splits)

end

lemma request_tenant_memo: "memo s = Some t \<Longrightarrow> request_tenant res f d c s = (Inr t, s)"
  by (simp add: request_tenant_def run_simps)

lemma request_tenant_run:
  assumes "memo s = None" and "request_tenant res f d c s = (Inr t, s')"
  shows "\<exists>result. res = Inr result \<and> lookup_hit f d result = Inr (Some t) \<and> memo s' = Some t \<and>
     (\<exists>w. c t (driver s) = (Inr (), w) \<and> driver s' = w)"
  using assms
  by (auto simp add: request_tenant_def run_simps connect_step_def
      split: sum.splits option.splits prod.splits)

lemma request_tenant_error_memo:
  "request_tenant res f d c s = (Inl e, s') \<Longrightarrow> memo s' = memo s"
  by (auto simp add: request_tenant_def run_simps connect_step_def
      split: sum.splits option.splits prod.splits)

section \<open>Properties\<close>

definition misses :: "registry \<Rightarrow> http_request \<Rightarrow> string \<Rightarrow> bool" where
  "misses g req n \<longleftrightarrow>
     (case jm_get n (g_resolvers g) of None \<Rightarrow> True | Some f \<Rightarrow> f req = Inr None)"

text \<open>
  The chain is first-hit: the registry answers with a tenant exactly when
  some resolver of the chain does, and then with the answer of the first one;
  every entry before it is unregistered or missed, and entries after it are
  never consulted.
\<close>

theorem registry_first_hit:
  "registry_resolve g req = Inr (Some h) \<longleftrightarrow>
     (\<exists>pre n post f. g_chain g = pre @ n # post \<and> list_all (misses g req) pre \<and>
        jm_get n (g_resolvers g) = Some f \<and> f req = Inr (Some h))"
proof
  assume "registry_resolve g req = Inr (Some h)"
  then obtain pre n post f where *: "g_chain g = pre @ n # post"
    "jm_get n (g_resolvers g) = Some f" "f req = Inr (Some h)"
    "\<forall>k \<in> set pre. \<forall>v. jm_get k (g_resolvers g) = Some v \<longrightarrow> v req = Inr None"
    unfolding registry_resolve_def using walk_chain_Some by meson
  then have "list_all (misses g req) pre"
    by (auto simp add: list_all_iff misses_def split: option.splits)
  then show "\<exists>pre n post f. g_chain g = pre @ n # post \<and> list_all (misses g req) pre \<and>
        jm_get n (g_resolvers g) = Some f \<and> f req = Inr (Some h)" using * by blast
next
  assume "\<exists>pre n post f. g_chain g = pre @ n # post \<and> list_all (misses g req) pre \<and>
        jm_get n (g_resolvers g) = Some f \<and> f req = Inr (Some h)"
  then obtain pre n post f where *: "g_chain g = pre @ n # post" "list_all (misses g req) pre"
    "jm_get n (g_resolvers g) = Some f" "f req = Inr (Some h)" by blast
  have "walk_chain (g_resolvers g) (pre @ n # post) req = walk_chain (g_resolvers g) (n # post) req"
    using *(2) by (intro walk_chain_skip) (auto simp add: list_all_iff misses_def split: option.splits)
  then show "registry_resolve g req = Inr (Some h)" using * by (simp add: registry_resolve_def)
qed


definition demo_config :: "strategy \<Rightarrow> resolver_config" where
  "demo_config st = \<lparr>resolverStrategy = st, tenantHeaderKey = ''x-tenant-id'', baseDomain = ''app.com'',
     ignorePaths = [''/health''], queryKey = None, bodyKey = None\<rparr>"

definition demo_request :: "string \<Rightarrow> http_request" where
  "demo_request host = \<lparr>r_hostname = Some host, r_header = (\<lambda>_. None), r_url = ''/'',
     r_qs = (\<lambda>_. None), r_input = (\<lambda>_. None), r_ip = ''1''\<rparr>"


text \<open>
  The exception: on a custom domain the registry defers to the repository by
  domain, the legacy switch takes the leftmost label for a tenant id.
\<close>

lemma domain_strategy_disagrees:
  "registry_resolve ((seeded_registry (demo_config S_domain_or_subdomain))\<lparr>g_chain := [''domain-or-subdomain'']\<rparr>)
     (demo_request ''acme.org'') = Inr (Some (HitDomain ''acme.org''))"
  "resolveTenant None (demo_config S_domain_or_subdomain) (demo_request ''acme.org'') =
     Inr (Some (HitId ''acme''))"
  by code_simp+

text \<open>
  A host that is a name under the base domain, with or without a port,
  resolves to that name under both host strategies, and the bare base domain
  resolves to no tenant.
\<close>

theorem subdomain_of_base_domain:
  assumes "baseDomain cfg = base" and "base \<noteq> []" and "\<not> starts_with ''.'' base"
    and "CHR '':'' \<notin> set (sub @ base)" and "sub \<noteq> []"
    and "port = [] \<or> hd port = CHR '':''"
    and "r_hostname req = Some (sub @ ''.'' @ base @ port)"
    and "r_hostname apex = Some (base @ port)"
  shows "subdomain_resolver cfg req = Some (HitId sub) \<and>
         domain_or_subdomain_resolver cfg req = Some (HitId sub) \<and>
         subdomain_resolver cfg apex = None \<and> domain_or_subdomain_resolver cfg apex = None"
proof -
  have hd_split: "hd (js_split (CHR '':'') (x @ port)) = x" if "CHR '':'' \<notin> set x" for x
    using assms(6) that by (cases port) (auto simp add: js_split_no_char js_split_append)
  have h: "hostnameOf req = sub @ ''.'' @ base" "hostnameOf apex = base"
    using assms hd_split [of "sub @ ''.'' @ base"] hd_split [of base]
    by (auto simp add: hostnameOf_def or_else_def)
  have suf: "domain_suffix base = ''.'' @ base"
    using assms(3) by (simp add: domain_suffix_def)
  have e: "ends_with (''.'' @ base) (sub @ ''.'' @ base)"
    by (auto simp add: ends_with_iff)
  have c: "cut_suffix (sub @ ''.'' @ base) (''.'' @ base) = sub"
    by (rule cut_suffix_append)
  show ?thesis
    using e c assms(1,2,5) unfolding subdomain_resolver_def domain_or_subdomain_resolver_def h assms(1) suf
    by (auto simp add: Let_def suf)
qed

theorem subdomain_of_base_domain_witness:
  "subdomain_resolver (demo_config S_subdomain) (demo_request ''acme.app.com:8080'') = Some (HitId ''acme'') \<and>
   domain_or_subdomain_resolver (demo_config S_subdomain) (demo_request ''acme.app.com:8080'') = Some (HitId ''acme'') \<and>
   subdomain_resolver (demo_config S_subdomain) (demo_request ''app.com:8080'') = None \<and>
   domain_or_subdomain_resolver (demo_config S_subdomain) (demo_request ''app.com:8080'') = None"
  by (rule subdomain_of_base_domain [where base = "''app.com''" and port = "'':8080''"])
     (simp_all add: demo_config_def demo_request_def)


definition demo_tenant :: "string \<Rightarrow> tenant" where
  "demo_tenant i = \<lparr>t_id = i, t_name = ''n'', t_email = ''e'', t_status = active, t_customDomain = None,
     t_createdAt = 0, t_deletedAt = None, t_maintenance = False, t_maintenanceMessage = None\<rparr>"

definition demo_uuid :: string where
  "demo_uuid = ''12345678-9abc-4def-8012-3456789abcde''"


end
