(* ===== verification/Middleware.thy ===== *)
theory Middleware
  imports Resolvers
begin

text \<open>
  middleware/: the guard of tenant routes, the universal and central-only
  middlewares, the custom-domain header and the rate limiter. A handler is the
  continuation \<open>next\<close>; it receives the log context (services/tenant_log_context.ts)
  that \<open>AsyncLocalStorage\<close> makes current while it runs.
\<close>

section \<open>Exceptions\<close>

datatype mw_error =
    Resolution tenant_error
  | TenantSuspended
  | TenantNotReady
  | TenantMaintenance int "string option"
  | CircuitOpen
  | CentralRouteViolation
  | TooManyRequests
  | HandlerThrew string

definition http_status :: "mw_error \<Rightarrow> nat" where
  "http_status e = (case e of
      Resolution MissingTenantHeader \<Rightarrow> 400
    | Resolution TenantNotFoundException \<Rightarrow> 404
    | Resolution _ \<Rightarrow> 500
    | TenantSuspended \<Rightarrow> 403
    | TenantNotReady \<Rightarrow> 503
    | TenantMaintenance _ _ \<Rightarrow> 503
    | CircuitOpen \<Rightarrow> 503
    | CentralRouteViolation \<Rightarrow> 404
    | TooManyRequests \<Rightarrow> 429
    | HandlerThrew _ \<Rightarrow> 500)"

section \<open>The log context\<close>

type_synonym log_ctx = "string option"

type_synonym ('w, 'a) handler = "log_ctx \<Rightarrow> ('w request_state, mw_error, 'a) M"

definition logctx_run :: "string \<Rightarrow> ('w, 'a) handler \<Rightarrow> ('w request_state, mw_error, 'a) M" where
  "logctx_run tenantId fn = fn (Some tenantId)"

section \<open>The tenant guard\<close>

record maintenance_config =
  bypassToken :: "string option"
  bypassHeader :: "string option"
  retryAfterSeconds :: "int option"
  defaultMessage :: "string option"

definition guard_path :: "http_request \<Rightarrow> string" where
  "guard_path req = hd (js_split (CHR ''?'') (r_url req))"

definition guard_ignored :: "string list \<Rightarrow> http_request \<Rightarrow> bool" where
  "guard_ignored ps req =
     list_ex (\<lambda>p. guard_path req = p \<or> starts_with (p @ ''/'') (guard_path req)) ps"

text \<open>The constant-time comparison is equality of the two byte strings.\<close>

definition hasMaintenanceBypass :: "maintenance_config option \<Rightarrow> http_request \<Rightarrow> bool" where
  "hasMaintenanceBypass cfg req =
     (case cfg of
        None \<Rightarrow> False
      | Some c \<Rightarrow>
          (case bypassToken c of
             None \<Rightarrow> False
           | Some token \<Rightarrow>
               if token = [] then False
               else (case r_header req (or_else (bypassHeader c) ''x-tenant-bypass-maintenance'') of
                       None \<Rightarrow> False
                     | Some presented \<Rightarrow>
                         if length presented \<noteq> length token then False else presented = token)))"

definition maintenance_error :: "maintenance_config option \<Rightarrow> tenant \<Rightarrow> mw_error" where
  "maintenance_error cfg t =
     TenantMaintenance (or_else (Option.bind cfg retryAfterSeconds) 600)
       (case t_maintenanceMessage t of Some m \<Rightarrow> Some m | None \<Rightarrow> Option.bind cfg defaultMessage)"

definition guard_check ::
  "maintenance_config option \<Rightarrow> (string \<Rightarrow> bool) \<Rightarrow> http_request \<Rightarrow> tenant \<Rightarrow> mw_error option"
where
  "guard_check cfg isOpen req t =
     (if isSuspended t \<or> isDeleted t then Some TenantSuspended
      else if isProvisioning t \<or> isFailed t then Some TenantNotReady
      else if t_maintenance t \<and> \<not> hasMaintenanceBypass cfg req then Some (maintenance_error cfg t)
      else if isOpen (t_id t) then Some CircuitOpen
      else None)"

definition as_mw :: "('w request_state, tenant_error, 'a) M \<Rightarrow> ('w request_state, mw_error, 'a) M" where
  "as_mw m = catchM (\<lambda>s. case m s of (Inl e, t) \<Rightarrow> (Inl e, t) | (Inr x, t) \<Rightarrow> (Inr x, t))
     (\<lambda>e. throwM (Resolution e))"

text \<open>\<open>tenant_of\<close> is \<open>request.tenant()\<close>, the memoised resolution of the request.\<close>

definition guard_handle ::
  "string list \<Rightarrow> maintenance_config option \<Rightarrow> (string \<Rightarrow> bool) \<Rightarrow>
   ('w request_state, tenant_error, tenant) M \<Rightarrow> http_request \<Rightarrow> ('w, 'a) handler \<Rightarrow>
   log_ctx \<Rightarrow> ('w request_state, mw_error, 'a) M"
where
  "guard_handle ignore cfg isOpen tenant_of req nxt ctx =
     (if guard_ignored ignore req then nxt ctx
      else bindM (as_mw tenant_of) (\<lambda>t.
        case guard_check cfg isOpen req t of
          Some e \<Rightarrow> throwM e
        | None \<Rightarrow> logctx_run (t_id t) nxt))"

section \<open>Universal routes\<close>

definition usable :: "tenant \<Rightarrow> bool" where
  "usable t \<longleftrightarrow> \<not> (isSuspended t \<or> isDeleted t) \<and> \<not> (isProvisioning t \<or> isFailed t)"

text \<open>
  \<open>tryResolve\<close>; \<open>repo\<close> is \<open>None\<close> when the container has no repository. Every
  failure ends in no tenant.
\<close>

definition try_lookup ::
  "(string \<Rightarrow> bool \<Rightarrow> string + tenant option) \<times> (string \<Rightarrow> string + tenant option) \<Rightarrow> hit \<Rightarrow> tenant option"
where
  "try_lookup repo h =
     (case h of
        HitId i \<Rightarrow>
          (if \<not> isUuidV4 i then None
           else (case fst repo i False of Inl m \<Rightarrow> None | Inr t \<Rightarrow> t))
      | HitDomain d \<Rightarrow> (case snd repo d of Inl m \<Rightarrow> None | Inr t \<Rightarrow> t))"

definition tryResolve ::
  "(string + resolve_result) \<Rightarrow>
   ((string \<Rightarrow> bool \<Rightarrow> string + tenant option) \<times> (string \<Rightarrow> string + tenant option)) option \<Rightarrow>
   (tenant \<Rightarrow> 'w \<Rightarrow> (string + unit) \<times> 'w) \<Rightarrow> ('w request_state, mw_error, tenant option) M"
where
  "tryResolve resolved repo connect =
     (case resolved of
        Inl e \<Rightarrow> returnM None
      | Inr None \<Rightarrow> returnM None
      | Inr (Some h) \<Rightarrow>
          (case repo of
             None \<Rightarrow> returnM None
           | Some rp \<Rightarrow>
               (case try_lookup rp h of
                  None \<Rightarrow> returnM None
                | Some t \<Rightarrow>
                    if \<not> usable t then returnM None
                    else catchM
                      (thenM (as_mw (connect_step connect t))
                        (thenM (modM (\<lambda>s. s\<lparr>memo := Some t\<rparr>)) (returnM (Some t))))
                      (\<lambda>e. returnM None))))"

definition universal_handle ::
  "(string + resolve_result) \<Rightarrow>
   ((string \<Rightarrow> bool \<Rightarrow> string + tenant option) \<times> (string \<Rightarrow> string + tenant option)) option \<Rightarrow>
   (tenant \<Rightarrow> 'w \<Rightarrow> (string + unit) \<times> 'w) \<Rightarrow> ('w, 'a) handler \<Rightarrow> log_ctx \<Rightarrow>
   ('w request_state, mw_error, 'a) M"
where
  "universal_handle resolved repo connect nxt ctx =
     bindM (tryResolve resolved repo connect) (\<lambda>r.
       case r of None \<Rightarrow> nxt ctx | Some t \<Rightarrow> logctx_run (t_id t) nxt)"

section \<open>Central routes and custom domains\<close>

definition central_handle ::
  "(string + resolve_result) \<Rightarrow> ('w, 'a) handler \<Rightarrow> log_ctx \<Rightarrow> ('w request_state, mw_error, 'a) M"
where
  "central_handle resolved nxt ctx =
     (case resolved of
        Inl e \<Rightarrow> throwM (Resolution (ResolverThrew e))
      | Inr (Some h) \<Rightarrow> throwM CentralRouteViolation
      | Inr None \<Rightarrow> nxt ctx)"

definition custom_domain_handle ::
  "(string \<Rightarrow> string + tenant option) \<Rightarrow> http_request \<Rightarrow> string + http_request"
where
  "custom_domain_handle findByDomain req =
     (if r_header req ''x-tenant-id'' \<noteq> None \<and> r_header req ''x-tenant-id'' \<noteq> Some [] then Inr req
      else (case r_header req ''host'' of
              None \<Rightarrow> Inr req
            | Some h \<Rightarrow>
                (let host = hd (js_split (CHR '':'') h) in
                 if host = [] then Inr req
                 else (case findByDomain host of
                         Inl m \<Rightarrow> Inl m
                       | Inr None \<Rightarrow> Inr req
                       | Inr (Some t) \<Rightarrow>
                           Inr (req\<lparr>r_header := (r_header req)(''x-tenant-id'' := Some (t_id t))\<rparr>)))))"

section \<open>Rate limiting\<close>

datatype redis_cmd =
    ZRemRangeByScore string int
  | ZAdd string int string
  | ZCard string
  | Expire string int

text \<open>\<open>pipeline.exec()\<close>: it may fail; a reply may be missing.\<close>

type_synonym 'w pipeline = "redis_cmd list \<Rightarrow> 'w \<Rightarrow> (string + int option list) \<times> 'w"

record 'w rl_state =
  rl_redis :: 'w
  rl_headers :: "(string \<times> string) list"

definition rl_key :: "resolver_config \<Rightarrow> string option \<Rightarrow> http_request \<Rightarrow> string" where
  "rl_key cfg prefix req =
     or_else prefix ''rl'' @ '':'' @ or_else (legacyResolveTenantId cfg req) ''global'' @ '':'' @ r_ip req"

definition rl_count :: "int option list \<Rightarrow> int option" where
  "rl_count results = (if 2 < length results then results ! 2 else None)"

definition show_count :: "int option \<Rightarrow> string" where
  "show_count c = (case c of None \<Rightarrow> ''NaN'' | Some n \<Rightarrow> show_int n)"

definition ceil_div :: "int \<Rightarrow> int \<Rightarrow> int" where
  "ceil_div a b = - ((- a) div b)"

definition set_header :: "string \<Rightarrow> string \<Rightarrow> 'w rl_state \<Rightarrow> 'w rl_state" where
  "set_header k v s = s\<lparr>rl_headers := jm_set k v (rl_headers s)\<rparr>"

definition rate_limit ::
  "resolver_config \<Rightarrow> 'w pipeline \<Rightarrow> bool \<Rightarrow> int \<Rightarrow> int \<Rightarrow> int \<Rightarrow> string option \<Rightarrow> http_request \<Rightarrow>
   ('w rl_state, mw_error, 'a) M \<Rightarrow> ('w rl_state, mw_error, 'a) M"
where
  "rate_limit cfg exec inTest now limit windowSeconds prefix req nxt =
     (let key = rl_key cfg prefix req; windowStart = now - windowSeconds * 1000 in
      if inTest then nxt
      else (\<lambda>s.
        case exec [ZRemRangeByScore key windowStart, ZAdd key now (show_int now), ZCard key,
                   Expire key windowSeconds] (rl_redis s) of
          (Inl m, w) \<Rightarrow> nxt (s\<lparr>rl_redis := w\<rparr>)
        | (Inr results, w) \<Rightarrow>
            (let count = rl_count results;
                 s1 = set_header ''X-RateLimit-Reset'' (show_int (ceil_div (now + windowSeconds * 1000) 1000))
                     (set_header ''X-RateLimit-Remaining''
                       (show_count (map_option (\<lambda>n. max 0 (limit - n)) count))
                       (set_header ''X-RateLimit-Limit'' (show_int limit) (s\<lparr>rl_redis := w\<rparr>)))
             in (case count of
                   None \<Rightarrow> nxt s1
                 | Some n \<Rightarrow>
                     if limit < n
                     then (Inl TooManyRequests, set_header ''Retry-After'' (show_int windowSeconds) s1)
                     else nxt s1))))"

section \<open>Facts\<close>

lemma as_mw_run: "as_mw m s = (case m s of (Inl e, t) \<Rightarrow> (Inl (Resolution e), t) | (Inr x, t) \<Rightarrow> (Inr x, t))"
  by (auto simp add: as_mw_def run_simps split: prod.splits sum.splits)

lemma guard_check_None:
  "guard_check cfg isOpen req t = None \<longleftrightarrow>
     t_status t \<in> {active, deleted} \<and> t_deletedAt t = None \<and>
     (t_maintenance t \<longrightarrow> hasMaintenanceBypass cfg req) \<and> \<not> isOpen (t_id t)"
  by (cases "t_status t")
     (auto simp add: guard_check_def isSuspended_def isDeleted_def isProvisioning_def isFailed_def)

lemma usable_iff: "usable t \<longleftrightarrow> t_status t \<in> {active, deleted} \<and> t_deletedAt t = None"
  by (cases "t_status t")
     (auto simp add: usable_def isSuspended_def isDeleted_def isProvisioning_def isFailed_def)

lemma tryResolve_outcome:
  obtains s' where "tryResolve res repo c s = (Inr None, s')" "memo s' = memo s"
  | t s' where "tryResolve res repo c s = (Inr (Some t), s')" "usable t" "memo s' = Some t"
      "c t (driver s) = (Inr (), driver s')"
proof (cases "\<exists>h rp t. res = Inr (Some h) \<and> repo = Some rp \<and> try_lookup rp h = Some t \<and> usable t")
  case False
  then have "tryResolve res repo c s = (Inr None, s)"
    by (auto simp add: tryResolve_def run_simps split: sum.splits option.splits)
  then show ?thesis by (intro that(1)) auto
next
  case True
  then obtain h rp t where h: "res = Inr (Some h)" "repo = Some rp" "try_lookup rp h = Some t" "usable t"
    by blast
  obtain r w where rw: "c t (driver s) = (r, w)" by fastforce
  show ?thesis
  proof (cases r)
    case (Inl m)
    then show ?thesis using h rw
      by (intro that(1) [of "s\<lparr>driver := w\<rparr>"])
         (simp_all add: tryResolve_def run_simps as_mw_run connect_step_def)
  next
    case (Inr u)
    then show ?thesis using h rw
      by (intro that(2) [of t "s\<lparr>driver := w, memo := Some t\<rparr>"])
         (simp_all add: tryResolve_def run_simps as_mw_run connect_step_def)
  qed
qed

section \<open>Properties\<close>

text \<open>
  C5. Outside the ignored paths the guard runs the handler exactly for a
  tenant that is neither suspended, deleted, provisioning nor failed, is not in
  maintenance (or presents the bypass token) and whose circuit is closed, and it
  runs it with that tenant's log context; any other resolved tenant is refused
  with 403 or 503 before the handler, and the state is that of the resolution.
\<close>

theorem guard_admits_exactly:
  assumes "\<not> guard_ignored ignore req" and "tenant_of s = (Inr t, s')"
  shows "if t_status t \<in> {active, deleted} \<and> t_deletedAt t = None \<and>
            (t_maintenance t \<longrightarrow> hasMaintenanceBypass cfg req) \<and> \<not> isOpen (t_id t)
         then guard_handle ignore cfg isOpen tenant_of req nxt ctx s = nxt (Some (t_id t)) s'
         else \<exists>e. guard_handle ignore cfg isOpen tenant_of req nxt ctx s = (Inl e, s') \<and>
                  http_status e \<in> {403, 503}"
proof (cases "guard_check cfg isOpen req t")
  case None
  then show ?thesis
    using assms guard_check_None [of cfg isOpen req t]
    by (simp add: guard_handle_def run_simps as_mw_run logctx_run_def)
next
  case (Some e)
  then have "http_status e \<in> {403, 503}"
    by (auto simp add: guard_check_def maintenance_error_def http_status_def split: if_splits)
  then show ?thesis
    using assms Some guard_check_None [of cfg isOpen req t]
    by (auto simp add: guard_handle_def run_simps as_mw_run)
qed

theorem guard_admits_exactly_witness:
  "guard_handle [''/health''] None (\<lambda>i. i = ''b'') (\<lambda>s. (Inr (demo_tenant ''a''), s)) (demo_request ''h'')
     (\<lambda>c s. (Inr c, s)) None \<lparr>memo = None, driver = 0::nat\<rparr> = (Inr (Some ''a''), \<lparr>memo = None, driver = 0\<rparr>)"
proof -
  have "\<not> guard_ignored [''/health''] (demo_request ''h'')" by code_simp
  from guard_admits_exactly [OF this, where cfg = None and isOpen = "\<lambda>i. i = ''b''" and ctx = None
      and s = "\<lparr>memo = None, driver = 0::nat\<rparr>" and tenant_of = "\<lambda>s. (Inr (demo_tenant ''a''), s)"
      and nxt = "\<lambda>c s. (Inr c, s)", OF refl]
  show ?thesis by (simp add: demo_tenant_def)
qed

text \<open>
  C36. The universal middleware never fails by itself: whatever the resolver,
  the repository or the driver do, the handler runs, either in the caller's
  context or for a tenant that is usable, connected and memoised on the request.
\<close>

theorem universal_always_runs_handler:
  "\<exists>c s'. universal_handle resolved repo connect nxt ctx s = nxt c s' \<and>
     (c = ctx \<and> memo s' = memo s \<or>
      (\<exists>t. c = Some (t_id t) \<and> usable t \<and> memo s' = Some t \<and>
           connect t (driver s) = (Inr (), driver s')))"
proof (cases rule: tryResolve_outcome [of resolved repo connect s])
  case (1 s')
  then show ?thesis by (auto simp add: universal_handle_def run_simps)
next
  case (2 t s')
  then have "universal_handle resolved repo connect nxt ctx s = nxt (Some (t_id t)) s'"
    by (simp add: universal_handle_def run_simps logctx_run_def)
  then show ?thesis using 2 by blast
qed

text \<open>
  Central and tenant routes exclude each other: on a request whose
  resolution has no answer the central middleware runs its handler and the
  tenant guard refuses with the missing-tenant error; on a request that names a
  tenant the central middleware refuses.
\<close>

theorem central_and_tenant_routes_exclude:
  "(memo s = None \<longrightarrow> \<not> guard_ignored ignore req \<longrightarrow>
      guard_handle ignore cfg isOpen (request_tenant (Inr None) f d c) req nxt ctx s =
        (Inl (Resolution MissingTenantHeader), s)) \<and>
   central_handle (Inr None) nxt ctx = nxt ctx \<and>
   central_handle (Inr (Some h)) nxt ctx s = (Inl CentralRouteViolation, s)"
  by (simp add: guard_handle_def run_simps as_mw_run request_tenant_def lookup_hit_def central_handle_def)

theorem central_and_tenant_routes_exclude_witness:
  "guard_handle [] None (\<lambda>_. False) (request_tenant (Inr None) (\<lambda>i d. Inr None) (\<lambda>d. Inr None) (\<lambda>t w. (Inr (), w)))
     (demo_request ''h'') (\<lambda>c s. (Inr c, s)) None \<lparr>memo = None, driver = 0::nat\<rparr> =
   (Inl (Resolution MissingTenantHeader), \<lparr>memo = None, driver = 0::nat\<rparr>)"
  using central_and_tenant_routes_exclude [where s = "\<lparr>memo = None, driver = 0::nat\<rparr>" and ignore = "[]"
      and req = "demo_request ''h''" and cfg = None and isOpen = "\<lambda>_. False" and f = "\<lambda>i d. Inr None"
      and d = "\<lambda>d. Inr None" and c = "\<lambda>t w. (Inr (), w)" and nxt = "\<lambda>c s. (Inr c, s)" and ctx = None]
  by (simp add: guard_ignored_def)

text \<open>The sorted set Redis keeps under a key, as the ascending list of its scores.\<close>

definition window_after :: "int \<Rightarrow> int \<Rightarrow> int list \<Rightarrow> int list" where
  "window_after start now xs = (let ys = filter (\<lambda>x. start < x) xs in if now \<in> set ys then ys else ys @ [now])"

definition zset_laws :: "'w pipeline \<Rightarrow> ('w \<Rightarrow> string \<Rightarrow> int list) \<Rightarrow> bool" where
  "zset_laws exec members \<longleftrightarrow>
     (\<forall>key start now ttl w. \<exists>w' r0 r1 r3.
        exec [ZRemRangeByScore key start, ZAdd key now (show_int now), ZCard key, Expire key ttl] w =
          (Inr [r0, r1, Some (int (length (members w' key))), r3], w') \<and>
        members w' key = window_after start now (members w key))"

text \<open>
  With Redis keeping sorted sets as documented, the limiter runs the handler
  exactly when the distinct request times of the current window, this one
  included, are at most the limit, and otherwise answers 429 without running it.
\<close>

theorem rate_limit_admits_exactly:
  assumes "zset_laws exec members"
  shows "\<exists>s1. (members (rl_redis s1) (rl_key cfg prefix req) =
             window_after (now - windowSeconds * 1000) now (members (rl_redis s) (rl_key cfg prefix req))) \<and>
     rate_limit cfg exec False now limit windowSeconds prefix req nxt s =
       (if int (length (window_after (now - windowSeconds * 1000) now
              (members (rl_redis s) (rl_key cfg prefix req)))) \<le> limit
        then nxt s1 else (Inl TooManyRequests, s1))"
proof -
  let ?k = "rl_key cfg prefix req" and ?ws = "now - windowSeconds * 1000"
  obtain w' r0 r1 r3 where e:
    "exec [ZRemRangeByScore ?k ?ws, ZAdd ?k now (show_int now), ZCard ?k, Expire ?k windowSeconds] (rl_redis s) =
       (Inr [r0, r1, Some (int (length (members w' ?k))), r3], w')"
    "members w' ?k = window_after ?ws now (members (rl_redis s) ?k)"
    using assms unfolding zset_laws_def by blast
  show ?thesis
    by (cases "int (length (window_after ?ws now (members (rl_redis s) ?k))) \<le> limit")
       (auto simp add: rate_limit_def Let_def e rl_count_def set_header_def numeral_2_eq_2 intro!: exI)
qed

definition demo_exec :: "int list pipeline" where
  "demo_exec cmds w =
     (case cmds of
        [ZRemRangeByScore k start, ZAdd k' now m, c, x] \<Rightarrow>
          (let w' = window_after start now w in (Inr [None, None, Some (int (length w')), None], w'))
      | _ \<Rightarrow> (Inl ''unknown'', w))"

theorem rate_limit_admits_exactly_witness:
  "\<exists>s1. rate_limit (demo_config S_header) demo_exec False 5000 2 1 None (demo_request ''h'')
      (\<lambda>s. (Inr (), s)) \<lparr>rl_redis = [3000, 4500, 4600], rl_headers = []\<rparr> = (Inl TooManyRequests, s1)"
proof -
  have "zset_laws demo_exec (\<lambda>w k. w)"
    by (simp add: zset_laws_def demo_exec_def Let_def)
  from rate_limit_admits_exactly [OF this, where cfg = "demo_config S_header" and prefix = None and
      req = "demo_request ''h''" and now = 5000 and windowSeconds = 1 and limit = 2 and
      s = "\<lparr>rl_redis = [3000, 4500, 4600], rl_headers = []\<rparr>" and nxt = "\<lambda>s. (Inr (), s)"]
  show ?thesis by (auto simp add: window_after_def)
qed

text \<open>
  Requests of the same millisecond are one member of the sorted set: a burst
  within it never reaches the limit.
\<close>

lemma same_millisecond_counts_once:
  "now \<in> set xs \<Longrightarrow> start < now \<Longrightarrow> length (window_after start now xs) \<le> length xs"
  by (simp add: window_after_def)

text \<open>The universal middleware serves a tenant in maintenance, the guard does not.\<close>

lemma universal_ignores_maintenance:
  "usable ((demo_tenant ''a'')\<lparr>t_maintenance := True\<rparr>)"
  "guard_check None (\<lambda>_. False) (demo_request ''h'') ((demo_tenant ''a'')\<lparr>t_maintenance := True\<rparr>) =
     Some (TenantMaintenance 600 None)"
  by (simp_all add: usable_iff demo_tenant_def guard_check_def maintenance_error_def or_else_def
      hasMaintenanceBypass_def isSuspended_def isDeleted_def isProvisioning_def isFailed_def)

end
