(* ===== verification/Redirect.thy ===== *)
theory Redirect
  imports Tenant_Model
begin

text \<open>
  services/cross_domain_redirect_service.ts: the absolute URLs that lead to a
  tenant's host or to the central one, and the checks that keep a host, a port
  and a path from redirecting elsewhere.
\<close>

definition label_char :: "char \<Rightarrow> bool" where
  "label_char c \<longleftrightarrow> is_alnum c \<or> c = CHR ''-''"

definition HOST_LABEL_RE :: "string \<Rightarrow> bool" where
  "HOST_LABEL_RE s \<longleftrightarrow> 1 \<le> length s \<and> length s \<le> 63 \<and> is_alnum (hd s) \<and> is_alnum (last s) \<and>
     list_all label_char s"

definition HOST_RE :: "string \<Rightarrow> bool" where
  "HOST_RE s \<longleftrightarrow> list_all HOST_LABEL_RE (js_split (CHR ''.'') s)"

datatype redirect_error =
    UnsafeHost string
  | UnsafeLabel string string
  | InvalidPort int
  | PathHasCRLF
  | ProtocolRelativePath

record url_options =
  preserveQuery :: bool
  protocol :: "string option"
  u_port :: "int option"

definition assertSafeHost :: "string \<Rightarrow> redirect_error + unit" where
  "assertSafeHost host =
     (if length host = 0 \<or> 253 < length host \<or> \<not> HOST_RE host then Inl (UnsafeHost host) else Inr ())"

definition assertSafeHostLabel :: "string \<Rightarrow> string \<Rightarrow> redirect_error + unit" where
  "assertSafeHostLabel label kind =
     (if \<not> HOST_LABEL_RE label then Inl (UnsafeLabel kind label) else Inr ())"

definition assertSafePort :: "int \<Rightarrow> redirect_error + int" where
  "assertSafePort p = (if p < 1 \<or> 65535 < p then Inl (InvalidPort p) else Inr p)"

definition normalizeRedirectPath :: "string \<Rightarrow> redirect_error + string" where
  "normalizeRedirectPath path =
     (if CR \<in> set path \<or> NL \<in> set path then Inl PathHasCRLF
      else (let withSlash = (if starts_with ''/'' path then path else ''/'' @ path) in
            if starts_with ''//'' withSlash then Inl ProtocolRelativePath else Inr withSlash))"

definition port_suffix :: "int option \<Rightarrow> redirect_error + string" where
  "port_suffix p = (case p of
      None \<Rightarrow> Inr []
    | Some n \<Rightarrow> (if n = 0 then Inr []
                 else (case assertSafePort n of Inl e \<Rightarrow> Inl e | Inr m \<Rightarrow> Inr ('':'' @ show_int m))))"

definition assemble :: "string \<Rightarrow> string \<Rightarrow> url_options \<Rightarrow> redirect_error + string" where
  "assemble host path opts =
     (case assertSafeHost host of Inl e \<Rightarrow> Inl e | Inr _ \<Rightarrow>
      (let proto = (if protocol opts = Some ''http'' then ''http'' else ''https'') in
       case port_suffix (u_port opts) of Inl e \<Rightarrow> Inl e | Inr suffix \<Rightarrow>
       (case normalizeRedirectPath path of Inl e \<Rightarrow> Inl e | Inr p \<Rightarrow>
        Inr (proto @ ''://'' @ host @ suffix @ p))))"

definition toTenantSubdomainHost :: "string \<Rightarrow> string \<Rightarrow> redirect_error + string" where
  "toTenantSubdomainHost base slug =
     (case assertSafeHostLabel slug ''tenant slug'' of
        Inl e \<Rightarrow> Inl e | Inr _ \<Rightarrow> Inr (slug @ ''.'' @ base))"

definition toTenant :: "string \<Rightarrow> tenant \<Rightarrow> string \<Rightarrow> url_options \<Rightarrow> redirect_error + string" where
  "toTenant base t path opts =
     (case (case t_customDomain t of Some d \<Rightarrow> Inr d | None \<Rightarrow> toTenantSubdomainHost base (t_id t)) of
        Inl e \<Rightarrow> Inl e
      | Inr host \<Rightarrow> assemble host path opts)"

definition toCentral :: "string \<Rightarrow> string \<Rightarrow> url_options \<Rightarrow> redirect_error + string" where
  "toCentral base path opts = assemble base path opts"

definition toTenantSubdomain :: "string \<Rightarrow> string \<Rightarrow> string \<Rightarrow> url_options \<Rightarrow> redirect_error + string" where
  "toTenantSubdomain base slug path opts =
     (case toTenantSubdomainHost base slug of Inl e \<Rightarrow> Inl e | Inr host \<Rightarrow> assemble host path opts)"

datatype redirect_target = ToTenant tenant string | ToCentral string

definition fromRequest ::
  "string \<Rightarrow> string \<Rightarrow> string option \<Rightarrow> redirect_target \<Rightarrow> url_options \<Rightarrow> redirect_error + string"
where
  "fromRequest base req_protocol query target opts =
     (let merged = opts\<lparr>protocol := Some (or_else (protocol opts) req_protocol)\<rparr>;
          path0 = (case target of ToTenant t p \<Rightarrow> p | ToCentral p \<Rightarrow> p);
          path = (case (if preserveQuery opts then query else None) of
                    None \<Rightarrow> path0
                  | Some qs \<Rightarrow> if qs = [] then path0
                              else if js_includes ''?'' path0 then path0 @ ''&'' @ qs
                              else path0 @ ''?'' @ qs)
      in (case target of
            ToCentral p \<Rightarrow> toCentral base path merged
          | ToTenant t p \<Rightarrow> toTenant base t path merged))"

section \<open>Facts\<close>

definition host_char :: "char \<Rightarrow> bool" where
  "host_char c \<longleftrightarrow> label_char c \<or> c = CHR ''.''"

lemma host_chars:
  assumes "HOST_RE s" shows "list_all host_char s"
proof -
  have "\<forall>l \<in> set (js_split (CHR ''.'') s). list_all host_char l"
    using assms by (auto simp add: HOST_RE_def HOST_LABEL_RE_def list_all_iff host_char_def)
  from js_join_all [OF this, of "''.''"] show ?thesis
    by (simp add: host_char_def)
qed

lemma host_char_not_special:
  assumes "host_char c"
  shows "c \<noteq> CHR ''/''" "c \<noteq> CHR '':''" "c \<noteq> CHR ''@''" "c \<noteq> CHR ''?''" "c \<noteq> CHR ''#''"
    "c \<noteq> BSL" "c \<noteq> CR" "c \<noteq> NL" "\<not> js_ws c"
  using assms
  by (auto simp add: host_char_def label_char_def char_class_defs BSL_def CR_def NL_def)

lemma port_suffix_chars:
  assumes "port_suffix p = Inr s"
  shows "s = [] \<or> (\<exists>ds. s = CHR '':'' # ds \<and> list_all is_digit ds)"
  using assms show_nat_digits
  by (auto simp add: port_suffix_def assertSafePort_def show_int_def split: option.splits if_splits)

lemma colon_clean: "CR \<noteq> CHR '':''" "NL \<noteq> CHR '':''"
  by code_simp+

lemma digit_not_special:
  assumes "is_digit c"
  shows "c \<noteq> CHR ''/''" "c \<noteq> CR" "c \<noteq> NL"
  using assms by (auto simp add: char_class_defs CR_def NL_def)

text \<open>What a client reads of an absolute URL: the authority is the text up to the first slash.\<close>

definition authority :: "string \<Rightarrow> string" where
  "authority rest = takeWhile (\<lambda>c. c \<noteq> CHR ''/'') rest"

lemma assemble_ok:
  assumes "assemble host path opts = Inr url"
  obtains proto suffix p where "url = proto @ ''://'' @ host @ suffix @ p"
    "proto \<in> {''http'', ''https''}" "HOST_RE host" "port_suffix (u_port opts) = Inr suffix"
    "normalizeRedirectPath path = Inr p"
  using assms by (auto simp add: assemble_def assertSafeHost_def Let_def split: sum.splits if_splits)

lemma normalized_path:
  assumes "normalizeRedirectPath path = Inr p"
  shows "starts_with ''/'' p" "\<not> starts_with ''//'' p" "CR \<notin> set p" "NL \<notin> set p"
    "p = path \<or> p = CHR ''/'' # path"
  using assms by (auto simp add: normalizeRedirectPath_def Let_def CR_def NL_def split: if_splits)

lemma authority_read:
  assumes "HOST_RE host" "port_suffix q = Inr suffix" "starts_with ''/'' p"
  shows "authority (host @ suffix @ p) = host @ suffix"
proof -
  have "\<forall>c \<in> set (host @ suffix). c \<noteq> CHR ''/''"
    using host_chars [OF assms(1)] port_suffix_chars [OF assms(2)] host_char_not_special(1)
      digit_not_special(1) by (fastforce simp add: list_all_iff)
  moreover obtain r where "p = CHR ''/'' # r"
    using assms(3) by (auto simp add: starts_with_iff)
  ultimately show ?thesis
    by (simp add: authority_def takeWhile_append2)
qed

lemma toTenant_host:
  assumes "toTenant base t path opts = Inr url"
  obtains host where "assemble host path opts = Inr url"
    "t_customDomain t = Some host \<or> t_customDomain t = None \<and> host = t_id t @ ''.'' @ base"
  using assms by (auto simp add: toTenant_def toTenantSubdomainHost_def split: sum.splits option.splits)

section \<open>Properties\<close>

text \<open>
  C34. Every URL the service builds to a tenant is http or https, its authority
  (the text up to the first slash) is exactly the tenant's custom domain, or its
  subdomain of the base domain, with the optional port; the host is made of
  letters, digits, dashes and dots, the path starts with a single slash, and no
  carriage return or line feed occurs anywhere.
\<close>

theorem tenant_url_is_safe:
  assumes "toTenant base t path opts = Inr url"
  shows "\<exists>proto host suffix p. url = proto @ ''://'' @ host @ suffix @ p \<and>
     proto \<in> {''http'', ''https''} \<and>
     (t_customDomain t = Some host \<or> t_customDomain t = None \<and> host = t_id t @ ''.'' @ base) \<and>
     authority (host @ suffix @ p) = host @ suffix \<and> list_all host_char host \<and>
     starts_with ''/'' p \<and> \<not> starts_with ''//'' p \<and> CR \<notin> set url \<and> NL \<notin> set url"
proof -
  obtain host where h: "assemble host path opts = Inr url"
    "t_customDomain t = Some host \<or> t_customDomain t = None \<and> host = t_id t @ ''.'' @ base"
    using toTenant_host [OF assms] .
  obtain proto suffix p where u: "url = proto @ ''://'' @ host @ suffix @ p"
    "proto \<in> {''http'', ''https''}" "HOST_RE host" "port_suffix (u_port opts) = Inr suffix"
    "normalizeRedirectPath path = Inr p"
    using assemble_ok [OF h(1)] .
  have clean: "CR \<notin> set (host @ suffix)" "NL \<notin> set (host @ suffix)"
    using host_chars [OF u(3)] port_suffix_chars [OF u(4)] host_char_not_special(7,8)
      digit_not_special(2,3) colon_clean unfolding list_all_iff by fastforce+
  have "CR \<notin> set (''http://'')" "NL \<notin> set (''http://'')" "CR \<notin> set (''https://'')" "NL \<notin> set (''https://'')"
    by code_simp+
  then have "CR \<notin> set url" "NL \<notin> set url"
    using u(1,2) clean normalized_path(3,4) [OF u(5)] by auto
  then show ?thesis
    using h(2) u(1,2) host_chars [OF u(3)] authority_read [OF u(3,4) normalized_path(1) [OF u(5)]]
      normalized_path(1,2) [OF u(5)] by blast
qed

definition demo_acme :: tenant where
  "demo_acme = \<lparr>t_id = ''acme'', t_name = ''n'', t_email = ''e'', t_status = active, t_customDomain = None,
     t_createdAt = 0, t_deletedAt = None, t_maintenance = False, t_maintenanceMessage = None\<rparr>"

theorem tenant_url_is_safe_witness:
  "CR \<notin> set ''https://acme.app.com/x'' \<and>
   toTenant ''app.com'' demo_acme ''x'' \<lparr>preserveQuery = False, protocol = None, u_port = None\<rparr> =
     Inr ''https://acme.app.com/x''"
proof -
  have u: "toTenant ''app.com'' demo_acme ''x'' \<lparr>preserveQuery = False, protocol = None, u_port = None\<rparr> =
     Inr ''https://acme.app.com/x''" by code_simp
  then show ?thesis using tenant_url_is_safe [OF u] by blast
qed

end
