(* ===== verification/Url_Guard.thy ===== *)
theory Url_Guard
  imports Tenant_Model Complex_Main
begin

text \<open>
  admin/controllers/helpers.ts: the checks the admin API makes on its input,
  foremost the guard that keeps outbound URLs (webhooks, OIDC discovery) away
  from internal addresses. The WHATWG URL parser is the parameter \<open>parse\<close>: it
  gives the protocol and the host name, or fails.
\<close>

datatype url_error =
    UrlRequired | UrlInvalid | UrlMustBeHttps | BlocksLoopback | InvalidIpv4 | BlocksPrivate
  | BlocksLinkLocal | BlocksCgn | BlocksReserved | BlocksMetadata

definition dec_group :: "string \<Rightarrow> bool" where
  "dec_group s \<longleftrightarrow> 1 \<le> length s \<and> length s \<le> 3 \<and> list_all is_digit s"

text \<open>The match of \<open>/^(\d{1,3})\.(\d{1,3})\.(\d{1,3})\.(\d{1,3})$/\<close>.\<close>

definition match_v4 :: "string \<Rightarrow> (nat \<times> nat \<times> nat \<times> nat) option" where
  "match_v4 host =
     (case js_split (CHR ''.'') host of
        [a, b, c, d] \<Rightarrow>
          (if dec_group a \<and> dec_group b \<and> dec_group c \<and> dec_group d
           then Some (dec_value a, dec_value b, dec_value c, dec_value d) else None)
      | _ \<Rightarrow> None)"

definition check_v4 :: "nat \<times> nat \<times> nat \<times> nat \<Rightarrow> url_error option" where
  "check_v4 q =
     (case q of (a, b, c, d) \<Rightarrow>
        if list_ex (\<lambda>n. 255 < n) [a, b, c, d] then Some InvalidIpv4
        else if a = 127 then Some BlocksLoopback
        else if a = 10 then Some BlocksPrivate
        else if a = 169 \<and> b = 254 then Some BlocksLinkLocal
        else if a = 172 \<and> 16 \<le> b \<and> b \<le> 31 then Some BlocksPrivate
        else if a = 192 \<and> b = 168 then Some BlocksPrivate
        else if a = 100 \<and> 64 \<le> b \<and> b \<le> 127 then Some BlocksCgn
        else if a = 0 then Some BlocksReserved
        else None)"

definition check_v6 :: "string \<Rightarrow> url_error option" where
  "check_v6 host =
     (if CHR '':'' \<in> set host then
        (if host = ''::1'' then Some BlocksLoopback
         else if starts_with ''fc'' host \<or> starts_with ''fd'' host then Some BlocksPrivate
         else if starts_with ''fe80'' host then Some BlocksLinkLocal
         else if host = ''::'' \<or> host = ''::ffff:0:0'' then Some BlocksReserved
         else None)
      else None)"

definition strip_brackets :: "string \<Rightarrow> string" where
  "strip_brackets h =
     (if starts_with ''['' h \<and> ends_with '']'' h then js_slice 1 (length h - 1) h else h)"

definition check_host :: "string \<Rightarrow> url_error option" where
  "check_host hostname =
     (let host = strip_brackets (js_lower hostname) in
      if host = ''localhost'' \<or> host = ''0.0.0.0'' then Some BlocksLoopback
      else (case Option.bind (match_v4 host) check_v4 of
              Some e \<Rightarrow> Some e
            | None \<Rightarrow>
                (case check_v6 host of
                   Some e \<Rightarrow> Some e
                 | None \<Rightarrow>
                     if host = ''metadata.google.internal'' \<or> host = ''metadata''
                     then Some BlocksMetadata else None)))"

definition validateExternalHttpsUrl :: "(string \<Rightarrow> (string \<times> string) option) \<Rightarrow> string option \<Rightarrow> url_error option" where
  "validateExternalHttpsUrl parse value =
     (case value of
        None \<Rightarrow> Some UrlRequired
      | Some v \<Rightarrow>
          if v = [] then Some UrlRequired
          else (case parse v of
                  None \<Rightarrow> Some UrlInvalid
                | Some (protocol, hostname) \<Rightarrow>
                    if protocol \<noteq> ''https:'' then Some UrlMustBeHttps else check_host hostname))"

text \<open>The URLs that pass, in one predicate for the clients of the guard.\<close>

type_synonym url_parser = "string \<Rightarrow> (string \<times> string) option"

definition url_ok :: "url_parser \<Rightarrow> string \<Rightarrow> bool" where
  "url_ok parse url \<longleftrightarrow> validateExternalHttpsUrl parse (Some url) = None"

lemma checked_url: "validateExternalHttpsUrl parse v = None \<Longrightarrow> url_ok parse (the v)"
  by (cases v) (simp_all add: url_ok_def validateExternalHttpsUrl_def)

lemma url_ok_parts: "url_ok parse url \<longleftrightarrow> url \<noteq> [] \<and> (\<exists>h. parse url = Some (''https:'', h) \<and> check_host h = None)"
  by (auto simp add: url_ok_def validateExternalHttpsUrl_def split: option.splits if_splits)

text \<open>\<open>Number(value)\<close> is \<open>None\<close> when it is not finite.\<close>

definition js_trunc :: "rat \<Rightarrow> int" where
  "js_trunc x = (if x < 0 then \<lceil>x\<rceil> else \<lfloor>x\<rfloor>)"

definition clamp :: "rat option \<Rightarrow> int \<Rightarrow> int \<Rightarrow> int \<Rightarrow> int" where
  "clamp n lo hi fallback =
     (case n of None \<Rightarrow> fallback | Some x \<Rightarrow> min hi (max lo (js_trunc x)))"

definition isNonEmptyString :: "string option \<Rightarrow> bool" where
  "isNonEmptyString v \<longleftrightarrow> (case v of None \<Rightarrow> False | Some s \<Rightarrow> js_trim s \<noteq> [])"

datatype 'a reply = NotFound404 | Found 'a

definition loadTenantOr404 :: "(string \<Rightarrow> bool \<Rightarrow> tenant option) \<Rightarrow> string \<Rightarrow> tenant reply" where
  "loadTenantOr404 findById i = (case findById i True of None \<Rightarrow> NotFound404 | Some t \<Rightarrow> Found t)"

section \<open>IPv4 addresses as 32-bit numbers\<close>

definition ipv4 :: "nat \<Rightarrow> nat \<Rightarrow> nat \<Rightarrow> nat \<Rightarrow> nat" where
  "ipv4 a b c d = a * 2 ^ 24 + b * 2 ^ 16 + c * 2 ^ 8 + d"

definition in_cidr :: "nat \<Rightarrow> nat \<Rightarrow> nat \<Rightarrow> bool" where
  "in_cidr base len ip \<longleftrightarrow> ip div 2 ^ (32 - len) = base div 2 ^ (32 - len)"

text \<open>Loopback, the three private ranges, link-local, carrier-grade NAT and the zero network.\<close>

definition internal_ipv4 :: "nat \<Rightarrow> bool" where
  "internal_ipv4 ip \<longleftrightarrow>
     in_cidr (ipv4 127 0 0 0) 8 ip \<or> in_cidr (ipv4 10 0 0 0) 8 ip \<or> in_cidr (ipv4 172 16 0 0) 12 ip \<or>
     in_cidr (ipv4 192 168 0 0) 16 ip \<or> in_cidr (ipv4 169 254 0 0) 16 ip \<or>
     in_cidr (ipv4 100 64 0 0) 10 ip \<or> in_cidr (ipv4 0 0 0 0) 8 ip"

definition dotted :: "nat \<Rightarrow> nat \<Rightarrow> nat \<Rightarrow> nat \<Rightarrow> string" where
  "dotted a b c d = show_nat a @ ''.'' @ show_nat b @ ''.'' @ show_nat c @ ''.'' @ show_nat d"

lemma cidr_octets:
  assumes "a < 256" "b < 256" "c < 256" "d < 256"
  shows "ipv4 a b c d div 2 ^ 24 = a"
    "ipv4 a b c d div 2 ^ 16 = a * 256 + b"
    "ipv4 a b c d div 2 ^ 20 = a * 16 + b div 16"
    "ipv4 a b c d div 2 ^ 22 = a * 4 + b div 64"
  using assms unfolding ipv4_def by simp_all

lemma radix:
  fixes a b m x y :: nat
  assumes "x < m" "y < m"
  shows "a * m + x = b * m + y \<longleftrightarrow> a = b \<and> x = y"
proof
  assume e: "a * m + x = b * m + y"
  have "a = b"
    using arg_cong [OF e, of "\<lambda>n. n div m"] assms by simp
  then show "a = b \<and> x = y" using e by simp
qed simp

lemma div_range:
  fixes b m k :: nat
  shows "0 < m \<Longrightarrow> b div m = k \<longleftrightarrow> k * m \<le> b \<and> b < (k + 1) * m"
  by (metis Suc_eq_plus1 div_nat_eqI less_mult_imp_div_less mult.commute div_times_less_eq_dividend
      dividend_less_div_times mult_Suc add.commute)

lemma internal_octets:
  assumes "a < 256" "b < 256" "c < 256" "d < 256"
  shows "internal_ipv4 (ipv4 a b c d) \<longleftrightarrow>
     a = 127 \<or> a = 10 \<or> a = 0 \<or> (a = 172 \<and> 16 \<le> b \<and> b \<le> 31) \<or> (a = 192 \<and> b = 168) \<or>
     (a = 169 \<and> b = 254) \<or> (a = 100 \<and> 64 \<le> b \<and> b \<le> 127)"
proof -
  have exps: "32 - 8 = (24::nat)" "32 - 12 = (20::nat)" "32 - 16 = (16::nat)" "32 - 10 = (22::nat)"
    by simp_all
  have bases: "ipv4 127 0 0 0 div 2 ^ 24 = 127" "ipv4 10 0 0 0 div 2 ^ 24 = 10"
    "ipv4 172 16 0 0 div 2 ^ 20 = 172 * 16 + 1" "ipv4 192 168 0 0 div 2 ^ 16 = 192 * 256 + 168"
    "ipv4 169 254 0 0 div 2 ^ 16 = 169 * 256 + 254" "ipv4 100 64 0 0 div 2 ^ 22 = 100 * 4 + 1"
    "ipv4 0 0 0 0 div 2 ^ 24 = 0"
    by (simp_all add: ipv4_def)
  have "internal_ipv4 (ipv4 a b c d) \<longleftrightarrow>
     a = 127 \<or> a = 10 \<or> a * 16 + b div 16 = 172 * 16 + 1 \<or> a * 256 + b = 192 * 256 + 168 \<or>
     a * 256 + b = 169 * 256 + 254 \<or> a * 4 + b div 64 = 100 * 4 + 1 \<or> a = 0"
    unfolding internal_ipv4_def in_cidr_def exps cidr_octets [OF assms] bases by (rule refl)
  moreover have "a * 16 + b div 16 = 172 * 16 + 1 \<longleftrightarrow> a = 172 \<and> 16 \<le> b \<and> b \<le> 31"
    using radix [of "b div 16" 16 1 a 172] div_range [where b = b and m = 16 and k = 1] assms(2) by auto
  moreover have "a * 256 + b = 192 * 256 + 168 \<longleftrightarrow> a = 192 \<and> b = 168"
    "a * 256 + b = 169 * 256 + 254 \<longleftrightarrow> a = 169 \<and> b = 254"
    using radix [of b 256 168 a 192] radix [of b 256 254 a 169] assms(2) by simp_all
  moreover have "a * 4 + b div 64 = 100 * 4 + 1 \<longleftrightarrow> a = 100 \<and> 64 \<le> b \<and> b \<le> 127"
    using radix [of "b div 64" 4 1 a 100] div_range [where b = b and m = 64 and k = 1] assms(2) by auto
  ultimately show ?thesis by argo
qed

lemma dec_group_show: "n < 256 \<Longrightarrow> dec_group (show_nat n)"
  using show_nat_digits [of n] show_nat_length3 [of n]
  by (simp add: dec_group_def Suc_le_eq)

lemma digit_plain:
  assumes "is_digit c"
  shows "c \<noteq> CHR ''.''" "c \<noteq> CHR '':''" "c \<noteq> CHR ''[''" "to_lower c = c"
  using assms by (auto simp add: char_class_defs)

lemma show_no_dot: "CHR ''.'' \<notin> set (show_nat n)" "CHR '':'' \<notin> set (show_nat n)" "CHR ''['' \<notin> set (show_nat n)"
  using show_nat_digits [of n] digit_plain by (fastforce simp add: list_all_iff)+

lemma lower_show: "map to_lower (show_nat n) = show_nat n"
  using show_nat_digits [of n] digit_plain(4) by (simp add: list_all_iff map_idI)

lemma match_v4_dotted:
  "a < 256 \<Longrightarrow> b < 256 \<Longrightarrow> c < 256 \<Longrightarrow> d < 256 \<Longrightarrow> match_v4 (dotted a b c d) = Some (a, b, c, d)"
  by (simp add: match_v4_def dotted_def js_split_append js_split_no_char show_no_dot dec_group_show)

lemma dotted_lower: "js_lower (dotted a b c d) = dotted a b c d"
  by (simp add: js_lower_def dotted_def lower_show) (simp add: char_class_defs)

lemma dotted_chars: "set (dotted a b c d) \<subseteq> {x. is_digit x \<or> x = CHR ''.''}"
  using show_nat_digits by (auto simp add: dotted_def list_all_iff)

lemma dotted_brackets: "strip_brackets (dotted a b c d) = dotted a b c d"
proof -
  have "\<not> starts_with ''['' (dotted a b c d)"
    using show_no_dot(3) [of a] by (cases "show_nat a") (auto simp add: dotted_def)
  then show ?thesis by (simp add: strip_brackets_def)
qed

lemma dotted_no_colon: "CHR '':'' \<notin> set (dotted a b c d)"
  using dotted_chars digit_plain(2) by fastforce

lemma dotted_letters: "x \<in> set s \<Longrightarrow> \<not> is_digit x \<Longrightarrow> x \<noteq> CHR ''.'' \<Longrightarrow> dotted a b c d \<noteq> s"
  using dotted_chars by blast

lemma check_v4_None:
  assumes "a < 256" "b < 256" "c < 256" "d < 256"
  shows "check_v4 (a, b, c, d) = None \<longleftrightarrow> \<not> internal_ipv4 (ipv4 a b c d)"
  using assms unfolding internal_octets [OF assms] check_v4_def by auto

section \<open>Properties\<close>

text \<open>
  C35. The outbound-URL guard accepts an https URL whose host is the dotted form
  of an IPv4 address exactly when the address, as a 32-bit number, lies in none
  of the internal networks (loopback, 10/8, 172.16/12, 192.168/16, link-local,
  carrier-grade NAT, 0/8).
\<close>

theorem url_guard_ipv4:
  assumes "a < 256" "b < 256" "c < 256" "d < 256"
    and "v \<noteq> []" and "parse v = Some (''https:'', dotted a b c d)"
  shows "validateExternalHttpsUrl parse (Some v) = None \<longleftrightarrow> \<not> internal_ipv4 (ipv4 a b c d)"
proof -
  have letters: "dotted a b c d \<noteq> ''localhost''" "dotted a b c d \<noteq> ''metadata.google.internal''"
    "dotted a b c d \<noteq> ''metadata''"
    by (rule dotted_letters [of "CHR ''l''"] dotted_letters [of "CHR ''m''"]; simp add: char_class_defs)+
  have zero: "dotted a b c d = ''0.0.0.0'' \<Longrightarrow> internal_ipv4 (ipv4 a b c d)"
  proof -
    assume "dotted a b c d = ''0.0.0.0''"
    then have "match_v4 ''0.0.0.0'' = Some (a, b, c, d)"
      using match_v4_dotted [OF assms(1-4)] by simp
    moreover have "match_v4 ''0.0.0.0'' = Some (0, 0, 0, 0)" by code_simp
    ultimately show ?thesis using internal_octets [of 0 0 0 0] by simp
  qed
  show ?thesis
    using assms letters zero check_v4_None [OF assms(1-4)]
    by (auto simp add: validateExternalHttpsUrl_def check_host_def Let_def dotted_lower dotted_brackets
        match_v4_dotted check_v6_def dotted_no_colon split: option.splits)
qed

theorem url_guard_ipv4_witness:
  "validateExternalHttpsUrl (\<lambda>v. Some (''https:'', dotted 172 31 0 1)) (Some ''u'') \<noteq> None"
  using url_guard_ipv4 [of 172 31 0 1 "''u''" "\<lambda>v. Some (''https:'', dotted 172 31 0 1)"]
    internal_octets [of 172 31 0 1] by simp

text \<open>
  A URL the guard accepts parsed, is https, and its host is neither
  localhost, 0.0.0.0, a metadata server name, the IPv6 loopback, nor an IPv6
  literal whose text starts with fc, fd or fe80.
\<close>

theorem url_guard_names:
  assumes "validateExternalHttpsUrl parse value = None"
  shows "\<exists>v hostname. value = Some v \<and> v \<noteq> [] \<and> parse v = Some (''https:'', hostname) \<and>
     (let host = strip_brackets (js_lower hostname) in
        host \<notin> {''localhost'', ''0.0.0.0'', ''metadata'', ''metadata.google.internal'', ''::1'', ''::''} \<and>
        (CHR '':'' \<notin> set host \<or>
         \<not> starts_with ''fc'' host \<and> \<not> starts_with ''fd'' host \<and> \<not> starts_with ''fe80'' host))"
  using assms
  by (auto simp add: validateExternalHttpsUrl_def check_host_def check_v6_def Let_def
      split: option.splits if_splits prod.splits)

theorem url_guard_names_witness:
  "validateExternalHttpsUrl (\<lambda>v. Some (''https:'', ''hooks.example.com'')) (Some ''u'') = None \<and>
   (\<exists>v hostname. Some ''u'' = Some v \<and> v \<noteq> [] \<and> Some (''https:'', ''hooks.example.com'') = Some (''https:'', hostname))"
proof -
  have v: "validateExternalHttpsUrl (\<lambda>v. Some (''https:'', ''hooks.example.com'')) (Some ''u'') = None"
    by code_simp
  then show ?thesis using url_guard_names [OF v] by auto
qed

text \<open>
  An IPv4-mapped IPv6 literal is not recognised: the parser renders
  \<open>[::ffff:127.0.0.1]\<close> as \<open>[::ffff:7f00:1]\<close>, which the guard accepts.
\<close>

lemma mapped_loopback_accepted: "check_host ''[::ffff:7f00:1]'' = None"
  by code_simp

text \<open>The link-local block is fe80::/10; only its first sixteenth is recognised by prefix.\<close>

lemma link_local_prefix_partial: "check_host ''[fe90::1]'' = None" "check_host ''[fe80::1]'' = Some BlocksLinkLocal"
  by code_simp+

lemma clamp_range: "lo \<le> hi \<Longrightarrow> lo \<le> fallback \<Longrightarrow> fallback \<le> hi \<Longrightarrow> lo \<le> clamp n lo hi fallback \<and> clamp n lo hi fallback \<le> hi"
  by (auto simp add: clamp_def split: option.splits)

end
