(* ===== verification/Hooks.thy ===== *)
theory Hooks
  imports Tenant_Model
begin

text \<open>
  services/hook_registry.ts: the hooks around the lifecycle operations. A hook
  reads and writes the state \<open>'s\<close> and may throw; \<open>log\<close> is the error log an
  after-hook's failure goes to.
\<close>

datatype phase = Before | After

datatype lifecycle_event = provision | destroy | backup | restore | clone | migrate

type_synonym ('c, 's, 'e) hook = "'c \<Rightarrow> ('s, 'e, unit) M"

type_synonym ('c, 's, 'e) hook_registry = "(phase \<times> lifecycle_event, ('c, 's, 'e) hook list) jmap"

definition PHASE_EVENTS :: "(phase \<times> lifecycle_event) list" where
  "PHASE_EVENTS =
     [(Before, provision), (After, provision), (Before, destroy), (After, destroy),
      (Before, backup), (After, backup), (Before, restore), (After, restore),
      (Before, clone), (After, clone), (Before, migrate), (After, migrate)]"

definition hooks_of :: "('c, 's, 'e) hook_registry \<Rightarrow> phase \<Rightarrow> lifecycle_event \<Rightarrow> ('c, 's, 'e) hook list" where
  "hooks_of g ph ev = or_else (jm_get (ph, ev) g) []"

definition register_hook ::
  "phase \<Rightarrow> lifecycle_event \<Rightarrow> ('c, 's, 'e) hook \<Rightarrow> ('c, 's, 'e) hook_registry \<Rightarrow> ('c, 's, 'e) hook_registry"
where
  "register_hook ph ev h g =
     (case jm_get (ph, ev) g of
        Some existing \<Rightarrow> jm_set (ph, ev) (existing @ [h]) g
      | None \<Rightarrow> jm_set (ph, ev) [h] g)"

definition before_hook where
  "before_hook ev h g = register_hook Before ev h g"

definition after_hook where
  "after_hook ev h g = register_hook After ev h g"

text \<open>The declarative hooks are the optional fields of the configuration, by phase and event.\<close>

definition loadDeclarative ::
  "(phase \<times> lifecycle_event \<Rightarrow> ('c, 's, 'e) hook option) option \<Rightarrow>
   ('c, 's, 'e) hook_registry \<Rightarrow> ('c, 's, 'e) hook_registry"
where
  "loadDeclarative hooks g =
     (case hooks of
        None \<Rightarrow> g
      | Some f \<Rightarrow>
          fold (\<lambda>pe g. case f pe of None \<Rightarrow> g | Some h \<Rightarrow> register_hook (fst pe) (snd pe) h g) PHASE_EVENTS g)"

definition run_hooks ::
  "(phase \<Rightarrow> lifecycle_event \<Rightarrow> 'e \<Rightarrow> 's \<Rightarrow> 's) \<Rightarrow> ('c, 's, 'e) hook_registry \<Rightarrow> phase \<Rightarrow> lifecycle_event \<Rightarrow>
   'c \<Rightarrow> ('s, 'e, unit) M"
where
  "run_hooks log g ph ev ctx =
     forM (hooks_of g ph ev) (\<lambda>h.
       catchM (h ctx) (\<lambda>e. if ph = Before then throwM e else modM (log ph ev e)))"

definition clear_hooks :: "('c, 's, 'e) hook_registry \<Rightarrow> ('c, 's, 'e) hook_registry" where
  "clear_hooks g = []"

section \<open>Facts\<close>

lemma hooks_of_register:
  "hooks_of (register_hook ph ev h g) p e =
     (if (p, e) = (ph, ev) then hooks_of g p e @ [h] else hooks_of g p e)"
  by (auto simp add: hooks_of_def register_hook_def or_else_def js_map.get_put split: option.splits)

lemma after_step:
  "catchM (h ctx) (\<lambda>e. if After = Before then throwM e else modM (log After ev e)) s =
     (Inr (), case h ctx s of (Inl e, t) \<Rightarrow> log After ev e t | (Inr _, t) \<Rightarrow> t)"
  by (auto simp add: run_simps split: prod.splits sum.splits)

lemma before_step: "catchM (h ctx) (\<lambda>e. if Before = Before then throwM e else modM (l e)) = h ctx"
  by (rule ext) (auto simp add: run_simps split: prod.splits sum.splits)

lemma forM_error:
  "fst (forM xs f s) = Inl e \<Longrightarrow>
   \<exists>pre x post t. xs = pre @ x # post \<and> forM pre f s = (Inr (), t) \<and> f x t = (Inl e, snd (forM xs f s))"
proof (induction xs arbitrary: s)
  case Nil
  then show ?case by (simp add: run_simps)
next
  case (Cons x xs)
  obtain r t where rt: "f x s = (r, t)" by fastforce
  show ?case
  proof (cases r)
    case (Inl e')
    then show ?thesis using Cons.prems rt
      by (intro exI [of _ "[]"] exI [of _ x] exI [of _ xs] exI [of _ s]) (auto simp add: run_simps)
  next
    case (Inr u)
    then have "fst (forM xs f t) = Inl e" using Cons.prems rt by (simp add: run_simps)
    then obtain pre y post v where
      "xs = pre @ y # post" "forM pre f t = (Inr (), v)" "f y v = (Inl e, snd (forM xs f t))"
      using Cons.IH by blast
    then show ?thesis using Inr rt
      by (intro exI [of _ "x # pre"] exI [of _ y] exI [of _ post] exI [of _ v]) (auto simp add: run_simps)
  qed
qed

lemma run_hooks_after:
  "run_hooks log g After ev ctx s =
     (Inr (), fold (\<lambda>h s. case h ctx s of (Inl e, t) \<Rightarrow> log After ev e t | (Inr _, t) \<Rightarrow> t) (hooks_of g After ev) s)"
proof -
  have "forM hs (\<lambda>h. catchM (h ctx) (\<lambda>e. if After = Before then throwM e else modM (log After ev e))) s =
     (Inr (), fold (\<lambda>h s. case h ctx s of (Inl e, t) \<Rightarrow> log After ev e t | (Inr _, t) \<Rightarrow> t) hs s)" for hs
    by (induction hs arbitrary: s) (auto simp add: run_simps split: prod.splits sum.splits)
  then show ?thesis by (simp only: run_hooks_def)
qed

section \<open>Properties\<close>



end
