(* ===== verification/Bootstrap.thy ===== *)
theory Bootstrap
  imports Tenant_Model Identifier
begin

text \<open>
  services/bootstrapper_registry.ts, tenancy.ts and services/bootstrappers/: the
  scope in which code runs for one tenant. A bootstrapper's \<open>enter\<close> and \<open>leave\<close>
  act on the state \<open>'s\<close>; \<open>log\<close> receives the failures of \<open>leave\<close>. The registry
  is taken as it is when the scope starts.
\<close>

section \<open>The registry\<close>

record ('s, 'e) bootstrapper =
  b_enter :: "tenant \<Rightarrow> ('s, 'e, unit) M"
  b_leave :: "(tenant \<Rightarrow> ('s, 'e, unit) M) option"

record ('s, 'e) boot_registry =
  items :: "(string, ('s, 'e) bootstrapper) jmap"
  order :: "string list"

datatype boot_error = AlreadyRegistered string

definition empty_boot :: "('s, 'e) boot_registry" where
  "empty_boot = \<lparr>items = [], order = []\<rparr>"

definition register_boot ::
  "string \<Rightarrow> ('s, 'e) bootstrapper \<Rightarrow> ('s, 'e) boot_registry \<Rightarrow> boot_error + ('s, 'e) boot_registry"
where
  "register_boot name b g =
     (if jm_has name (items g) then Inl (AlreadyRegistered name)
      else Inr (g\<lparr>items := jm_set name b (items g), order := order g @ [name]\<rparr>))"

definition unregister_boot :: "string \<Rightarrow> ('s, 'e) boot_registry \<Rightarrow> bool \<times> ('s, 'e) boot_registry" where
  "unregister_boot name g =
     (if \<not> jm_has name (items g) then (False, g)
      else (True, g\<lparr>items := jm_delete name (items g), order := remove1 name (order g)\<rparr>))"

definition clear_boot :: "('s, 'e) boot_registry \<Rightarrow> ('s, 'e) boot_registry" where
  "clear_boot g = g\<lparr>items := [], order := []\<rparr>"

definition boot_inv :: "('s, 'e) boot_registry \<Rightarrow> bool" where
  "boot_inv g \<longleftrightarrow> jm_inv (items g) \<and> order g = jm_keys (items g)"

section \<open>Running in a scope\<close>

fun runEnter_loop ::
  "(string, ('s, 'e) bootstrapper) jmap \<Rightarrow> tenant \<Rightarrow> string list \<Rightarrow> ('s, 'e, unit) M"
where
  "runEnter_loop its ctx [] = returnM ()"
| "runEnter_loop its ctx (n # ns) =
     (case jm_get n its of
        None \<Rightarrow> runEnter_loop its ctx ns
      | Some b \<Rightarrow> thenM (b_enter b ctx) (runEnter_loop its ctx ns))"

definition runEnter :: "('s, 'e) boot_registry \<Rightarrow> tenant \<Rightarrow> ('s, 'e, unit) M" where
  "runEnter g ctx = runEnter_loop (items g) ctx (order g)"

definition leave_one :: "(string \<Rightarrow> 'e \<Rightarrow> 's \<Rightarrow> 's) \<Rightarrow> tenant \<Rightarrow> string \<Rightarrow> ('s, 'e) bootstrapper \<Rightarrow> 's \<Rightarrow> 's" where
  "leave_one log ctx n b s =
     (case b_leave b of
        None \<Rightarrow> s
      | Some l \<Rightarrow> (case l ctx s of (Inl e, t) \<Rightarrow> log n e t | (Inr _, t) \<Rightarrow> t))"

definition leave_named ::
  "(string \<Rightarrow> 'e \<Rightarrow> 's \<Rightarrow> 's) \<Rightarrow> (string, ('s, 'e) bootstrapper) jmap \<Rightarrow> tenant \<Rightarrow> string \<Rightarrow> 's \<Rightarrow> 's"
where
  "leave_named log its ctx n s =
     (case jm_get n its of None \<Rightarrow> s | Some b \<Rightarrow> leave_one log ctx n b s)"

definition runLeaveUpTo ::
  "(string \<Rightarrow> 'e \<Rightarrow> 's \<Rightarrow> 's) \<Rightarrow> ('s, 'e) boot_registry \<Rightarrow> tenant \<Rightarrow> nat \<Rightarrow> 's \<Rightarrow> 's"
where
  "runLeaveUpTo log g ctx count s = fold (leave_named log (items g) ctx) (rev (take count (order g))) s"

definition runLeave :: "(string \<Rightarrow> 'e \<Rightarrow> 's \<Rightarrow> 's) \<Rightarrow> ('s, 'e) boot_registry \<Rightarrow> tenant \<Rightarrow> 's \<Rightarrow> 's" where
  "runLeave log g ctx s = runLeaveUpTo log g ctx (length (order g)) s"

text \<open>The entering loop of \<open>runScoped\<close>, with its counter \<open>completed\<close>.\<close>

fun enter_counting ::
  "(string, ('s, 'e) bootstrapper) jmap \<Rightarrow> tenant \<Rightarrow> string list \<Rightarrow> nat \<Rightarrow> 's \<Rightarrow> ('e + unit) \<times> nat \<times> 's"
where
  "enter_counting its ctx [] completed s = (Inr (), completed, s)"
| "enter_counting its ctx (n # ns) completed s =
     (case jm_get n its of
        None \<Rightarrow> enter_counting its ctx ns completed s
      | Some b \<Rightarrow>
          (case b_enter b ctx s of
             (Inl e, t) \<Rightarrow> (Inl e, completed, t)
           | (Inr _, t) \<Rightarrow> enter_counting its ctx ns (Suc completed) t))"

definition runScoped ::
  "(string \<Rightarrow> 'e \<Rightarrow> 's \<Rightarrow> 's) \<Rightarrow> ('s, 'e) boot_registry \<Rightarrow> tenant \<Rightarrow> ('s, 'e, 'a) M \<Rightarrow> ('s, 'e, 'a) M"
where
  "runScoped log g ctx fn = (\<lambda>s.
     case enter_counting (items g) ctx (order g) 0 s of
       (Inl e, completed, t) \<Rightarrow> (Inl e, runLeaveUpTo log g ctx completed t)
     | (Inr _, completed, t) \<Rightarrow>
         (case fn t of (r, u) \<Rightarrow> (r, runLeaveUpTo log g ctx completed u)))"

text \<open>\<open>tenancy.run\<close>: the callback sees the tenant's id as the current one.\<close>

definition tenancy_run ::
  "(string \<Rightarrow> 'e \<Rightarrow> 's \<Rightarrow> 's) \<Rightarrow> ('s, 'e) boot_registry \<Rightarrow> tenant \<Rightarrow> (string option \<Rightarrow> ('s, 'e, 'a) M) \<Rightarrow> ('s, 'e, 'a) M"
where
  "tenancy_run log g t fn = runScoped log g t (fn (Some (t_id t)))"

definition tenancy_current :: "(string \<Rightarrow> bool \<Rightarrow> tenant option) \<Rightarrow> string option \<Rightarrow> tenant option" where
  "tenancy_current findById currentId =
     (case currentId of None \<Rightarrow> None | Some i \<Rightarrow> if i = [] then None else findById i True)"

text \<open>The scope as nested blocks: each bootstrapper is left in the \<open>finally\<close> of its own block.\<close>

fun nested ::
  "(string \<Rightarrow> 'e \<Rightarrow> 's \<Rightarrow> 's) \<Rightarrow> tenant \<Rightarrow> (string \<times> ('s, 'e) bootstrapper) list \<Rightarrow> ('s, 'e, 'a) M \<Rightarrow> ('s, 'e, 'a) M"
where
  "nested log ctx [] fn = fn"
| "nested log ctx ((n, b) # bs) fn =
     thenM (b_enter b ctx) (finallyM (nested log ctx bs fn) (modM (leave_one log ctx n b)))"

section \<open>Keys of the built-in bootstrappers\<close>

datatype scope_error =
    OutsideScope
  | UnsafeTenantId ident_error
  | EmptyKey
  | UnsafeChannel string
  | EscapingSegment string string

text \<open>The \<open>enter\<close> of the mail, session, transmit and drive bootstrappers.\<close>

definition enter_check :: "tenant \<Rightarrow> ('s, ident_error, unit) M" where
  "enter_check t = (case assertSafeIdentifier (t_id t) ''tenant id'' of
      Inl e \<Rightarrow> throwM e | Inr _ \<Rightarrow> returnM ())"

definition current_safe :: "string option \<Rightarrow> scope_error + string" where
  "current_safe currentId =
     (case currentId of
        None \<Rightarrow> Inl OutsideScope
      | Some i \<Rightarrow>
          if i = [] then Inl OutsideScope
          else (case assertSafeIdentifier i ''tenant id'' of
                  Inl e \<Rightarrow> Inl (UnsafeTenantId e) | Inr _ \<Rightarrow> Inr i))"

definition stripLeadingSlash :: "string \<Rightarrow> string" where
  "stripLeadingSlash key = (if starts_with ''/'' key then drop 1 key else key)"

definition tenantSessionKey :: "string option \<Rightarrow> string \<Rightarrow> scope_error + string" where
  "tenantSessionKey cur key =
     (case current_safe cur of
        Inl e \<Rightarrow> Inl e
      | Inr i \<Rightarrow> if key = [] then Inl EmptyKey
                else Inr (''tenants/'' @ i @ ''/'' @ stripLeadingSlash key))"

text \<open>\<open>tenantSession(ctx)\<close> over a session that is a keyed store.\<close>

definition session_get :: "string option \<Rightarrow> string \<Rightarrow> (string, 'v) jmap \<Rightarrow> scope_error + 'v option" where
  "session_get cur key st = (case tenantSessionKey cur key of Inl e \<Rightarrow> Inl e | Inr k \<Rightarrow> Inr (jm_get k st))"

definition session_put :: "string option \<Rightarrow> string \<Rightarrow> 'v \<Rightarrow> (string, 'v) jmap \<Rightarrow> scope_error + (string, 'v) jmap" where
  "session_put cur key v st = (case tenantSessionKey cur key of Inl e \<Rightarrow> Inl e | Inr k \<Rightarrow> Inr (jm_set k v st))"

definition session_forget :: "string option \<Rightarrow> string \<Rightarrow> (string, 'v) jmap \<Rightarrow> scope_error + (string, 'v) jmap" where
  "session_forget cur key st = (case tenantSessionKey cur key of Inl e \<Rightarrow> Inl e | Inr k \<Rightarrow> Inr (jm_delete k st))"

definition session_has :: "string option \<Rightarrow> string \<Rightarrow> (string, 'v) jmap \<Rightarrow> scope_error + bool" where
  "session_has cur key st = (case tenantSessionKey cur key of Inl e \<Rightarrow> Inl e | Inr k \<Rightarrow> Inr (jm_has k st))"

definition channel_char :: "char \<Rightarrow> bool" where
  "channel_char c \<longleftrightarrow> is_alnum c \<or> c \<in> set ''._-/''"

definition normalizeChannel :: "string \<Rightarrow> scope_error + string" where
  "normalizeChannel channel =
     (if channel = [] then Inl EmptyKey
      else let stripped = stripLeadingSlash channel in
        if stripped = [] \<or> \<not> list_all channel_char stripped then Inl (UnsafeChannel channel)
        else (case find (\<lambda>seg. seg = ''..'' \<or> seg = ''.'') (js_split (CHR ''/'') stripped) of
                Some seg \<Rightarrow> Inl (EscapingSegment channel seg)
              | None \<Rightarrow> Inr stripped))"

definition tenantChannel :: "string \<Rightarrow> string option \<Rightarrow> string \<Rightarrow> scope_error + string" where
  "tenantChannel prefix cur channel =
     (case current_safe cur of
        Inl e \<Rightarrow> Inl e
      | Inr i \<Rightarrow> (case normalizeChannel channel of
                    Inl e \<Rightarrow> Inl e
                  | Inr c \<Rightarrow> Inr (prefix @ i @ ''/'' @ c)))"

definition tenantPrefix :: "string option \<Rightarrow> scope_error + string" where
  "tenantPrefix cur = (case current_safe cur of Inl e \<Rightarrow> Inl e | Inr i \<Rightarrow> Inr (''tenants/'' @ i @ ''/''))"

definition KEYED_METHODS :: "string list" where
  "KEYED_METHODS =
     [''get'', ''getStream'', ''getArrayBuffer'', ''getMetaData'', ''getVisibility'', ''getUrl'',
      ''getSignedUrl'', ''put'', ''putStream'', ''setVisibility'', ''delete'', ''deleteAll'', ''copy'',
      ''move'', ''exists'', ''has'', ''list'', ''listAll'']"

text \<open>The arguments a call through \<open>tenantDisk()\<close> hands to the disk.\<close>

datatype js_arg = ArgStr string | ArgOther

definition prefix_arg :: "string \<Rightarrow> js_arg \<Rightarrow> js_arg" where
  "prefix_arg prefix a = (case a of ArgStr k \<Rightarrow> ArgStr (prefix @ stripLeadingSlash k) | ArgOther \<Rightarrow> ArgOther)"

definition scope_args :: "string \<Rightarrow> string \<Rightarrow> js_arg list \<Rightarrow> js_arg list" where
  "scope_args prefix prop args =
     (if prop \<notin> set KEYED_METHODS then args
      else let args1 = (case args of [] \<Rightarrow> [] | a # r \<Rightarrow> prefix_arg prefix a # r) in
        if prop = ''copy'' \<or> prop = ''move'' then
          (case args1 of a # b # r \<Rightarrow> a # prefix_arg prefix b # r | _ \<Rightarrow> args1)
        else args1)"

text \<open>The cache bootstrapper names a namespace per tenant.\<close>

definition cache_namespace :: "string \<Rightarrow> string" where
  "cache_namespace i = ''tenant_'' @ i"

definition tenantCache :: "string option \<Rightarrow> scope_error + string" where
  "tenantCache cur = (case cur of
      None \<Rightarrow> Inl OutsideScope
    | Some i \<Rightarrow> if i = [] then Inl OutsideScope else Inr (cache_namespace i))"

text \<open>
  Mail: a message has a \<open>header\<close> method or not, and the headers it exposes.
\<close>

record mail_message =
  m_hasHeader :: bool
  m_headers :: "string \<Rightarrow> string option"

definition stampHeader :: "mail_message \<Rightarrow> string \<Rightarrow> mail_message" where
  "stampHeader m tenantId =
     (if \<not> m_hasHeader m then m
      else if m_headers m ''X-Tenant-Id'' \<noteq> None then m
      else m\<lparr>m_headers := (m_headers m)(''X-Tenant-Id'' := Some tenantId)\<rparr>)"

definition wrapWithTenantHeader :: "(mail_message \<Rightarrow> mail_message) \<Rightarrow> string \<Rightarrow> mail_message \<Rightarrow> mail_message" where
  "wrapWithTenantHeader compose tenantId m = stampHeader (compose m) tenantId"

section \<open>Facts\<close>

lemma empty_boot_inv: "boot_inv empty_boot"
  by (simp add: boot_inv_def empty_boot_def jm_keys_def)

lemma register_boot_inv: "boot_inv g \<Longrightarrow> register_boot n b g = Inr g' \<Longrightarrow> boot_inv g'"
  using js_map.in_keys [of n "items g"]
  by (auto simp add: boot_inv_def register_boot_def jm_has_def js_map.keys_put js_map.inv_put split: if_splits)

lemma remove1_keys: "distinct xs \<Longrightarrow> remove1 x xs = removeAll x xs"
  by (rule distinct_remove1_removeAll)

lemma unregister_boot_inv: "boot_inv g \<Longrightarrow> boot_inv (snd (unregister_boot n g))"
  by (auto simp add: boot_inv_def unregister_boot_def js_map.inv_del jm_keys_def jm_delete_def
      AList.delete_keys remove1_keys jm_inv_def distinct_removeAll)

lemma boot_order_items:
  assumes "boot_inv g"
  shows "jm_get n (items g) = Some b \<longleftrightarrow> (n, b) \<in> set (items g)"
  using assms by (auto simp add: boot_inv_def jm_inv_def jm_get_def)

text \<open>The loop with its counter, run after the names \<open>ps\<close> were entered.\<close>

lemma scoped_loop:
  assumes look: "\<forall>(n, b) \<in> set bs. jm_get n its = Some b"
    and ord: "order g = ps @ map fst bs" and its: "items g = its"
  shows "(case enter_counting its ctx (map fst bs) (length ps) s of
       (Inl e, completed, t) \<Rightarrow> (Inl e, runLeaveUpTo log g ctx completed t)
     | (Inr _, completed, t) \<Rightarrow> (case fn t of (r, u) \<Rightarrow> (r, runLeaveUpTo log g ctx completed u)))
     = (case nested log ctx bs fn s of
          (r, t) \<Rightarrow> (r, fold (leave_named log its ctx) (rev ps) t))"
  using look ord
proof (induction bs arbitrary: ps s)
  case Nil
  then show ?case
    by (auto simp add: runLeaveUpTo_def its split: prod.splits)
next
  case (Cons nb bs)
  obtain n b where nb: "nb = (n, b)" by fastforce
  have g: "jm_get n its = Some b" using Cons.prems nb by simp
  obtain r t where rt: "b_enter b ctx s = (r, t)" by fastforce
  show ?case
  proof (cases r)
    case (Inl e)
    then show ?thesis using Cons.prems nb g rt
      by (simp add: run_simps runLeaveUpTo_def its)
  next
    case (Inr u)
    have "order g = (ps @ [n]) @ map fst bs" "\<forall>(n, b) \<in> set bs. jm_get n its = Some b"
      using Cons.prems nb by auto
    from Cons.IH [OF this(2,1), of t] show ?thesis
      using Inr nb g rt
      by (auto simp add: run_simps leave_named_def split: prod.splits sum.splits)
  qed
qed

lemma current_safe_Some: "current_safe cur = Inr i \<longleftrightarrow> cur = Some i \<and> SAFE_IDENT i"
  by (auto simp add: current_safe_def assertSafeIdentifier_def SAFE_IDENT_def split: option.splits if_splits)

lemma current_safe_Inl: "current_safe (Some i) = Inl e \<Longrightarrow> \<not> SAFE_IDENT i"
  by (auto simp add: current_safe_def assertSafeIdentifier_def SAFE_IDENT_def split: if_splits)

lemma safe_no_slash: "SAFE_IDENT i \<Longrightarrow> CHR ''/'' \<notin> set i"
  using safe_ident_chars safe_char_not_special(4) by blast

lemma scoped_keys_disjoint:
  assumes "SAFE_IDENT a" "SAFE_IDENT b"
  shows "p @ a @ ''/'' @ x = p @ b @ ''/'' @ y \<longleftrightarrow> a = b \<and> x = y"
  using slash_split [OF safe_no_slash [OF assms(1)] safe_no_slash [OF assms(2)]] by simp

lemma session_key_Inr:
  "tenantSessionKey cur key = Inr k \<longleftrightarrow>
     (\<exists>i. cur = Some i \<and> SAFE_IDENT i \<and> key \<noteq> [] \<and> k = ''tenants/'' @ i @ ''/'' @ stripLeadingSlash key)"
  by (auto simp add: tenantSessionKey_def current_safe_Some split: sum.splits dest: current_safe_Inl)

lemma session_key_inj:
  assumes "tenantSessionKey (Some a) x = Inr k" "tenantSessionKey (Some b) y = Inr k"
  shows "a = b"
  using assms scoped_keys_disjoint [of a b "''tenants/''"] by (auto simp add: session_key_Inr)

text \<open>Two keys of different tenants never address the same slot of a keyed store.\<close>

context keyed_store
begin

lemma put_other_unseen: "k \<noteq> k' \<Longrightarrow> get k (put k' v m) = get k m \<and> get k (del k' m) = get k m"
  by simp

end

lemma channel_read:
  "tenantChannel prefix cur ch = Inr c \<Longrightarrow>
   \<exists>i rest. cur = Some i \<and> SAFE_IDENT i \<and> c = prefix @ i @ ''/'' @ rest \<and> normalizeChannel ch = Inr rest"
  by (auto simp add: tenantChannel_def current_safe_Some split: sum.splits)

lemma normalized_channel:
  assumes "normalizeChannel ch = Inr rest"
  shows "rest \<noteq> [] \<and> list_all channel_char rest \<and>
     ''..'' \<notin> set (js_split (CHR ''/'') rest) \<and> ''.'' \<notin> set (js_split (CHR ''/'') rest)"
  using assms by (auto simp add: normalizeChannel_def Let_def find_None_iff split: if_splits option.splits)

section \<open>Properties\<close>

text \<open>
  C3. Running in a tenant scope is the nesting of the registered bootstrappers:
  each one that was entered is left exactly once, in reverse order, whatever the
  callback or a later bootstrapper throws; one whose enter fails is not left;
  the result or exception is that of the callback or of the failing enter, never
  one of a leave.
\<close>

theorem run_scoped_is_nested:
  assumes "boot_inv g"
  shows "runScoped log g ctx fn = nested log ctx (items g) fn"
proof (rule ext)
  fix s
  have "\<forall>(n, b) \<in> set (items g). jm_get n (items g) = Some b"
    using boot_order_items [OF assms] by auto
  moreover have "order g = [] @ map fst (items g)"
    using assms by (simp add: boot_inv_def jm_keys_def)
  ultimately show "runScoped log g ctx fn s = nested log ctx (items g) fn s"
    using scoped_loop [where bs = "items g" and its = "items g" and g = g and ps = "[]" and ctx = ctx
        and s = s and log = log and fn = fn]
    by (auto simp add: runScoped_def boot_inv_def jm_keys_def split: prod.splits)
qed

definition demo_boot :: "(string list, string) boot_registry" where
  "demo_boot = \<lparr>items = [(''a'', \<lparr>b_enter = \<lambda>t s. (Inr (), s @ [''+a'']), b_leave = Some (\<lambda>t s. (Inr (), s @ [''-a'']))\<rparr>),
                        (''b'', \<lparr>b_enter = \<lambda>t s. (Inl ''no'', s @ [''+b'']), b_leave = Some (\<lambda>t s. (Inr (), s @ [''-b'']))\<rparr>)],
                order = [''a'', ''b'']\<rparr>"

theorem run_scoped_is_nested_witness:
  "runScoped (\<lambda>n e s. s) demo_boot undefined (returnM ()) [] = (Inl ''no'', [''+a'', ''+b'', ''-a''])"
proof -
  have "boot_inv demo_boot"
    by (simp add: boot_inv_def demo_boot_def jm_inv_def jm_keys_def)
  then show ?thesis
    unfolding run_scoped_is_nested [OF \<open>boot_inv demo_boot\<close>]
    by (simp add: demo_boot_def run_simps leave_one_def)
qed

datatype ('s, 'e) boot_op = OpRegister string "('s, 'e) bootstrapper" | OpUnregister string | OpClear

definition boot_apply :: "('s, 'e) boot_op \<Rightarrow> ('s, 'e) boot_registry \<Rightarrow> ('s, 'e) boot_registry" where
  "boot_apply op g =
     (case op of
        OpRegister n b \<Rightarrow> (case register_boot n b g of Inl e \<Rightarrow> g | Inr g' \<Rightarrow> g')
      | OpUnregister n \<Rightarrow> snd (unregister_boot n g)
      | OpClear \<Rightarrow> clear_boot g)"

text \<open>
  The registry never loses track of its order: starting empty, after any
  sequence of registrations and removals the order lists exactly the registered
  names, each once.
\<close>

theorem boot_registry_stays_consistent:
  "let g = fold boot_apply ops empty_boot
   in order g = jm_keys (items g) \<and> distinct (order g)"
proof -
  have step: "boot_inv g \<Longrightarrow> boot_inv (boot_apply op g)" for op and g :: "('s, 'e) boot_registry"
    by (auto simp add: boot_apply_def register_boot_inv unregister_boot_inv split: boot_op.splits sum.splits)
       (simp add: boot_inv_def clear_boot_def jm_keys_def)
  have "boot_inv g \<Longrightarrow> boot_inv (fold boot_apply ops g)" for g
    by (induction ops arbitrary: g) (simp_all add: step)
  from this [OF empty_boot_inv] show ?thesis
    by (simp add: Let_def boot_inv_def jm_inv_def jm_keys_def)
qed

text \<open>
  Session data of two tenants never collide, even in one shared session:
  what code running for one tenant stores or forgets under any key leaves every
  key another tenant can address unchanged.
\<close>

theorem session_isolated_between_tenants:
  assumes "a \<noteq> b" and "session_put (Some a) x v st = Inr st'" and "session_forget (Some a) x st = Inr st''"
  shows "session_get (Some b) y st' = session_get (Some b) y st \<and>
         session_get (Some b) y st'' = session_get (Some b) y st \<and>
         session_get (Some a) x st' = Inr (Some v) \<and> session_get (Some a) x st'' = Inr None"
proof -
  obtain k where k: "tenantSessionKey (Some a) x = Inr k" "st' = jm_set k v st" "st'' = jm_delete k st"
    using assms(2,3) by (auto simp add: session_put_def session_forget_def split: sum.splits)
  have other: "l \<noteq> k" if "tenantSessionKey (Some b) y = Inr l" for l
    using session_key_inj [OF k(1)] that assms(1) by blast
  show ?thesis
  proof (cases "tenantSessionKey (Some b) y")
    case (Inl e)
    then show ?thesis using k by (simp add: session_get_def)
  next
    case (Inr l)
    then show ?thesis using k js_map.put_other_unseen [OF other [OF Inr]] by (simp add: session_get_def)
  qed
qed

theorem session_isolated_between_tenants_witness:
  "session_get (Some ''b'') ''x'' [(''tenants/a/x'', 1 :: nat)] = session_get (Some ''b'') ''x'' []"
proof -
  have *: "session_put (Some ''a'') ''x'' (1 :: nat) [] = Inr [(''tenants/a/x'', 1)]" by code_simp
  have **: "session_forget (Some ''a'') ''x'' ([] :: (string \<times> nat) list) = Inr []" by code_simp
  show ?thesis
    using session_isolated_between_tenants [OF _ * **, of "''b''" "''x''"] by simp
qed

text \<open>
  A broadcast channel stays inside its tenant's namespace: its name is the
  prefix, the safe tenant id, a slash and a suffix without dot segments; so two
  tenants never share a channel name, and within a tenant the suffix is
  recovered.
\<close>

theorem channels_isolated_between_tenants:
  assumes "tenantChannel prefix (Some a) x = Inr c" and "tenantChannel prefix (Some b) y = Inr c"
  shows "a = b \<and> normalizeChannel x = normalizeChannel y \<and>
     (\<exists>rest. c = prefix @ a @ ''/'' @ rest \<and> ''..'' \<notin> set (js_split (CHR ''/'') rest) \<and>
        ''.'' \<notin> set (js_split (CHR ''/'') rest) \<and> list_all channel_char rest)"
proof -
  obtain r where r: "SAFE_IDENT a" "c = prefix @ a @ ''/'' @ r" "normalizeChannel x = Inr r"
    using channel_read [OF assms(1)] by blast
  obtain s where s: "SAFE_IDENT b" "c = prefix @ b @ ''/'' @ s" "normalizeChannel y = Inr s"
    using channel_read [OF assms(2)] by blast
  note rs = r(1) s(1) r(2) s(2) r(3) s(3)
  have "a = b" "r = s"
    using rs(3,4) scoped_keys_disjoint [OF rs(1,2), of prefix r s] by auto
  then show ?thesis using rs normalized_channel [OF rs(5)] by auto
qed

theorem channels_isolated_between_tenants_witness:
  "normalizeChannel ''/chat'' = normalizeChannel ''chat''"
proof -
  have "tenantChannel ''tenants/'' (Some ''a'') ''/chat'' = Inr ''tenants/a/chat''"
    "tenantChannel ''tenants/'' (Some ''a'') ''chat'' = Inr ''tenants/a/chat''"
    by code_simp+
  from channels_isolated_between_tenants [OF this] show ?thesis by blast
qed

text \<open>
  The disk wrapper prefixes only keys it is given: \<open>deleteAll\<close> and \<open>listAll\<close>
  without an argument reach the disk unscoped, and a parent segment is not
  rejected as it is for channels.
\<close>

lemma disk_without_key_is_unscoped:
  "scope_args ''tenants/a/'' ''deleteAll'' [] = []" "scope_args ''tenants/a/'' ''listAll'' [] = []"
  by (simp_all add: scope_args_def KEYED_METHODS_def)

lemma disk_parent_segment_passes:
  "scope_args ''tenants/a/'' ''get'' [ArgStr ''../b/secret''] = [ArgStr ''tenants/a/../b/secret'']"
  by code_simp

end
