(* ===== verification/Isolation.thy ===== *)
theory Isolation
  imports Tenant_Model Identifier
begin

text \<open>
  services/isolation/: the drivers that say where a tenant's data lives. Lucid's
  \<open>db\<close> (its connection manager, raw queries, deletes and the migration runner) is
  the handle kept in the state, a record of operations on a database state \<open>'m\<close>;
  \<open>db_laws\<close> says what the drivers rely on. The contract of the drivers is the
  locale \<open>isolation_driver\<close>, with \<open>owned_driver\<close> for those that own a connection
  per tenant; all four drivers interpret it.
\<close>

section \<open>The database handle\<close>

record conn_config =
  cc_client :: string
  cc_searchPath :: "string list option"
  cc_database :: "string option"
  cc_rest :: string

record 'm db_handle =
  dh_has :: "string \<Rightarrow> 'm \<Rightarrow> bool"
  dh_get :: "string \<Rightarrow> 'm \<Rightarrow> conn_config option"
  dh_add :: "string \<Rightarrow> conn_config \<Rightarrow> 'm \<Rightarrow> 'm"
  dh_release :: "string \<Rightarrow> 'm \<Rightarrow> 'm"
  dh_raw :: "string \<Rightarrow> string list \<Rightarrow> 'm \<Rightarrow> (string + nat) \<times> 'm"
  dh_delete :: "string \<Rightarrow> string \<Rightarrow> string \<Rightarrow> 'm \<Rightarrow> (string + nat) \<times> 'm"
  dh_migrate :: "string \<Rightarrow> 'm \<Rightarrow> (string + nat) \<times> 'm"

text \<open>
  The manager is a keyed registry of connection configurations, and queries do
  not register or release connections.
\<close>

definition db_laws :: "'m db_handle \<Rightarrow> bool" where
  "db_laws h \<longleftrightarrow>
     (\<forall>k n c m. dh_get h k (dh_add h n c m) = (if k = n then Some c else dh_get h k m)) \<and>
     (\<forall>k n m. dh_get h k (dh_release h n m) = (if k = n then None else dh_get h k m)) \<and>
     (\<forall>k m. dh_has h k m \<longleftrightarrow> dh_get h k m \<noteq> None) \<and>
     (\<forall>k q b m. dh_get h k (snd (dh_raw h q b m)) = dh_get h k m) \<and>
     (\<forall>k t c i m. dh_get h k (snd (dh_delete h t c i m)) = dh_get h k m) \<and>
     (\<forall>k n m. dh_get h k (snd (dh_migrate h n m)) = dh_get h k m)"

record 'm iso_state =
  handle :: "'m db_handle"
  dbs :: 'm
  lru :: "string list"

record iso_config =
  connPrefix :: string
  schemaPrefix :: string
  templateName :: string
  databasePrefix :: "string option"
  centralName :: string
  scopedTables :: "string list"
  scopeColumn :: string

datatype driver_error =
    UnsafeId ident_error
  | TemplateMissing string string
  | Sql string
  | MigrationFailed string

type_synonym ('m, 'a) D = "('m iso_state, driver_error, 'a) M"

definition registered :: "string \<Rightarrow> 'm iso_state \<Rightarrow> bool" where
  "registered n s \<longleftrightarrow> dh_has (handle s) n (dbs s)"

definition config_of :: "string \<Rightarrow> 'm iso_state \<Rightarrow> conn_config option" where
  "config_of n s = dh_get (handle s) n (dbs s)"

definition rawQuery :: "string \<Rightarrow> string list \<Rightarrow> ('m, nat) D" where
  "rawQuery q b = (\<lambda>s. case dh_raw (handle s) q b (dbs s) of
     (Inl m, w) \<Rightarrow> (Inl (Sql m), s\<lparr>dbs := w\<rparr>) | (Inr n, w) \<Rightarrow> (Inr n, s\<lparr>dbs := w\<rparr>))"

definition manager_add :: "string \<Rightarrow> conn_config \<Rightarrow> 'm iso_state \<Rightarrow> 'm iso_state" where
  "manager_add n c s = s\<lparr>dbs := dh_add (handle s) n c (dbs s)\<rparr>"

definition manager_release :: "string \<Rightarrow> 'm iso_state \<Rightarrow> 'm iso_state" where
  "manager_release n s = s\<lparr>dbs := dh_release (handle s) n (dbs s)\<rparr>"

definition run_migrations :: "string \<Rightarrow> ('m, nat) D" where
  "run_migrations n = (\<lambda>s. case dh_migrate (handle s) n (dbs s) of
     (Inl m, w) \<Rightarrow> (Inl (MigrationFailed m), s\<lparr>dbs := w\<rparr>) | (Inr k, w) \<Rightarrow> (Inr k, s\<lparr>dbs := w\<rparr>))"

definition safe_id :: "string \<Rightarrow> ('m, unit) D" where
  "safe_id i = (case assertSafeIdentifier i ''tenant id'' of
     Inl e \<Rightarrow> throwM (UnsafeId e) | Inr _ \<Rightarrow> returnM ())"

section \<open>The pool shared by the PostgreSQL drivers\<close>

definition MAX_TENANT_CONNECTIONS :: nat where
  "MAX_TENANT_CONNECTIONS = 50"

definition touch :: "string \<Rightarrow> 'm iso_state \<Rightarrow> 'm iso_state" where
  "touch n s = s\<lparr>lru := removeAll n (lru s) @ [n]\<rparr>"

definition evictIfNeeded :: "'m iso_state \<Rightarrow> 'm iso_state" where
  "evictIfNeeded s =
     (if length (lru s) \<le> MAX_TENANT_CONNECTIONS then s
      else (case lru s of
              [] \<Rightarrow> s
            | oldest # rest \<Rightarrow> if oldest = [] then s else manager_release oldest (s\<lparr>lru := rest\<rparr>)))"

definition connectionName :: "iso_config \<Rightarrow> string \<Rightarrow> ('m, string) D" where
  "connectionName cfg i = thenM (safe_id i) (returnM (connPrefix cfg @ i))"

text \<open>
  \<open>connect\<close> of both drivers, which differ in their name and in the configuration
  they derive from the template.
\<close>

definition pooled_connect ::
  "iso_config \<Rightarrow> string \<Rightarrow> (tenant \<Rightarrow> conn_config \<Rightarrow> conn_config) \<Rightarrow> tenant \<Rightarrow> ('m, unit) D"
where
  "pooled_connect cfg drv derive t =
     bindM (connectionName cfg (t_id t)) (\<lambda>name s.
       if registered name s then (Inr (), touch name s)
       else (case config_of (templateName cfg) s of
               None \<Rightarrow> (Inl (TemplateMissing drv (templateName cfg)), s)
             | Some template \<Rightarrow>
                 (Inr (), evictIfNeeded (touch name (manager_add name (derive t template) s)))))"

definition pooled_disconnect :: "iso_config \<Rightarrow> tenant \<Rightarrow> ('m, unit) D" where
  "pooled_disconnect cfg t =
     bindM (connectionName cfg (t_id t)) (\<lambda>name s.
       let s1 = s\<lparr>lru := removeAll name (lru s)\<rparr>
       in (Inr (), if registered name s1 then manager_release name s1 else s1))"

section \<open>Schema per tenant\<close>

definition schemaName :: "iso_config \<Rightarrow> tenant \<Rightarrow> ('m, string) D" where
  "schemaName cfg t = thenM (safe_id (t_id t)) (returnM (schemaPrefix cfg @ t_id t))"

definition quoted :: "string \<Rightarrow> string" where
  "quoted n = [DQ] @ n @ [DQ]"

definition schema_derive :: "iso_config \<Rightarrow> tenant \<Rightarrow> conn_config \<Rightarrow> conn_config" where
  "schema_derive cfg t template = template\<lparr>cc_searchPath := Some [schemaPrefix cfg @ t_id t]\<rparr>"

definition schema_connect :: "iso_config \<Rightarrow> tenant \<Rightarrow> ('m, unit) D" where
  "schema_connect cfg = pooled_connect cfg ''SchemaPgDriver'' (schema_derive cfg)"

definition schema_disconnect :: "iso_config \<Rightarrow> tenant \<Rightarrow> ('m, unit) D" where
  "schema_disconnect cfg = pooled_disconnect cfg"

definition schema_provision :: "iso_config \<Rightarrow> tenant \<Rightarrow> ('m, unit) D" where
  "schema_provision cfg t =
     bindM (schemaName cfg t) (\<lambda>schema.
       thenM (rawQuery (''CREATE SCHEMA IF NOT EXISTS '' @ quoted schema) []) (schema_connect cfg t))"

definition drop_schema :: "string \<Rightarrow> ('m, unit) D" where
  "drop_schema schema = thenM (rawQuery (''DROP SCHEMA IF EXISTS '' @ quoted schema @ '' CASCADE'') []) (returnM ())"

definition schema_destroy :: "iso_config \<Rightarrow> bool \<Rightarrow> tenant \<Rightarrow> ('m, unit) D" where
  "schema_destroy cfg keepData t =
     bindM (schemaName cfg t) (\<lambda>schema.
       thenM (schema_disconnect cfg t) (if keepData then returnM () else drop_schema schema))"

definition schema_reset :: "iso_config \<Rightarrow> tenant \<Rightarrow> ('m, unit) D" where
  "schema_reset cfg t =
     bindM (schemaName cfg t) (\<lambda>schema.
       thenM (schema_disconnect cfg t)
         (thenM (drop_schema schema)
           (thenM (rawQuery (''CREATE SCHEMA '' @ quoted schema) []) (schema_connect cfg t))))"

text \<open>Unlike the other drivers, this one does not connect before the runner starts.\<close>

definition schema_migrate :: "iso_config \<Rightarrow> tenant \<Rightarrow> ('m, nat) D" where
  "schema_migrate cfg t = bindM (connectionName cfg (t_id t)) run_migrations"

section \<open>Database per tenant\<close>

definition databaseName :: "iso_config \<Rightarrow> tenant \<Rightarrow> ('m, string) D" where
  "databaseName cfg t =
     thenM (safe_id (t_id t)) (returnM (or_else (databasePrefix cfg) (schemaPrefix cfg) @ t_id t))"

definition cloneConfigForTenant :: "iso_config \<Rightarrow> tenant \<Rightarrow> conn_config \<Rightarrow> conn_config" where
  "cloneConfigForTenant cfg t template =
     template\<lparr>cc_searchPath := None,
              cc_database := Some (or_else (databasePrefix cfg) (schemaPrefix cfg) @ t_id t)\<rparr>"

definition database_connect :: "iso_config \<Rightarrow> tenant \<Rightarrow> ('m, unit) D" where
  "database_connect cfg = pooled_connect cfg ''DatabasePgDriver'' (cloneConfigForTenant cfg)"

definition database_disconnect :: "iso_config \<Rightarrow> tenant \<Rightarrow> ('m, unit) D" where
  "database_disconnect cfg = pooled_disconnect cfg"

definition database_provision :: "iso_config \<Rightarrow> tenant \<Rightarrow> ('m, unit) D" where
  "database_provision cfg t =
     bindM (databaseName cfg t) (\<lambda>dbName.
       bindM (rawQuery ''SELECT 1 FROM pg_database WHERE datname = ?'' [dbName]) (\<lambda>rows.
         thenM (if rows = 0 then thenM (rawQuery (''CREATE DATABASE '' @ quoted dbName) []) (returnM ())
                else returnM ())
           (database_connect cfg t)))"

definition database_destroy :: "iso_config \<Rightarrow> bool \<Rightarrow> tenant \<Rightarrow> ('m, unit) D" where
  "database_destroy cfg keepData t =
     bindM (databaseName cfg t) (\<lambda>dbName.
       thenM (database_disconnect cfg t)
         (if keepData then returnM ()
          else thenM (rawQuery ''SELECT pg_terminate_backend(pid) FROM pg_stat_activity WHERE datname = ? AND pid <> pg_backend_pid()'' [dbName])
                 (thenM (rawQuery (''DROP DATABASE IF EXISTS '' @ quoted dbName) []) (returnM ()))))"

definition database_reset :: "iso_config \<Rightarrow> tenant \<Rightarrow> ('m, unit) D" where
  "database_reset cfg t = thenM (database_destroy cfg False t) (database_provision cfg t)"

definition database_migrate :: "iso_config \<Rightarrow> tenant \<Rightarrow> ('m, nat) D" where
  "database_migrate cfg t =
     thenM (database_connect cfg t) (bindM (connectionName cfg (t_id t)) run_migrations)"

section \<open>Shared tables with a tenant column\<close>

definition rowscope_new :: "string option \<Rightarrow> string list option \<Rightarrow> string option \<Rightarrow> iso_config \<Rightarrow> ident_error + iso_config" where
  "rowscope_new central tables column cfg =
     (let ts = or_else tables []; col = or_else column ''tenant_id'';
          bad = find (\<lambda>(table, p). \<not> SAFE_IDENT p)
                  (concat (map (\<lambda>table. map (\<lambda>p. (table, p)) (js_split (CHR ''.'') table)) ts))
      in case bad of
           Some (table, p) \<Rightarrow> Inl (UnsafeIdentifier (''rowScopeTables entry '' @ quoted table) p)
         | None \<Rightarrow>
             if \<not> SAFE_IDENT col then Inl (UnsafeIdentifier ''rowScopeColumn'' col)
             else Inr (cfg\<lparr>centralName := or_else central ''tenant'', scopedTables := ts, scopeColumn := col\<rparr>))"

definition rowscope_connect :: "iso_config \<Rightarrow> tenant \<Rightarrow> ('m, unit) D" where
  "rowscope_connect cfg t = returnM ()"

definition rowscope_disconnect :: "iso_config \<Rightarrow> tenant \<Rightarrow> ('m, unit) D" where
  "rowscope_disconnect cfg t = returnM ()"

definition rowscope_provision :: "iso_config \<Rightarrow> tenant \<Rightarrow> ('m, unit) D" where
  "rowscope_provision cfg t = returnM ()"

definition delete_rows :: "string \<Rightarrow> string \<Rightarrow> string \<Rightarrow> ('m, unit) D" where
  "delete_rows table col i = (\<lambda>s. case dh_delete (handle s) table col i (dbs s) of
     (Inl m, w) \<Rightarrow> (Inl (Sql m), s\<lparr>dbs := w\<rparr>) | (Inr _, w) \<Rightarrow> (Inr (), s\<lparr>dbs := w\<rparr>))"

definition rowscope_destroy :: "iso_config \<Rightarrow> bool \<Rightarrow> tenant \<Rightarrow> ('m, unit) D" where
  "rowscope_destroy cfg keepData t =
     (if keepData then returnM ()
      else if scopedTables cfg = [] then returnM ()
      else thenM (safe_id (t_id t))
        (forM (scopedTables cfg) (\<lambda>table. delete_rows table (scopeColumn cfg) (t_id t))))"

definition rowscope_reset :: "iso_config \<Rightarrow> tenant \<Rightarrow> ('m, unit) D" where
  "rowscope_reset cfg t = rowscope_destroy cfg False t"

section \<open>In-memory SQLite\<close>

definition sqlite_config :: conn_config where
  "sqlite_config = \<lparr>cc_client = ''better-sqlite3'', cc_searchPath = None, cc_database = Some '':memory:'', cc_rest = []\<rparr>"

definition sqlite_connect :: "iso_config \<Rightarrow> tenant \<Rightarrow> ('m, unit) D" where
  "sqlite_connect cfg t =
     bindM (connectionName cfg (t_id t)) (\<lambda>name s.
       (Inr (), if registered name s then s else manager_add name sqlite_config s))"

definition sqlite_disconnect :: "iso_config \<Rightarrow> tenant \<Rightarrow> ('m, unit) D" where
  "sqlite_disconnect cfg t =
     bindM (connectionName cfg (t_id t)) (\<lambda>name s.
       (Inr (), if registered name s then manager_release name s else s))"

definition sqlite_provision :: "iso_config \<Rightarrow> tenant \<Rightarrow> ('m, unit) D" where
  "sqlite_provision cfg t = sqlite_connect cfg t"

definition sqlite_destroy :: "iso_config \<Rightarrow> bool \<Rightarrow> tenant \<Rightarrow> ('m, unit) D" where
  "sqlite_destroy cfg keepData t = sqlite_disconnect cfg t"

definition sqlite_reset :: "iso_config \<Rightarrow> tenant \<Rightarrow> ('m, unit) D" where
  "sqlite_reset cfg t = thenM (sqlite_disconnect cfg t) (sqlite_connect cfg t)"

definition sqlite_migrate :: "iso_config \<Rightarrow> tenant \<Rightarrow> ('m, nat) D" where
  "sqlite_migrate cfg t =
     thenM (sqlite_connect cfg t) (bindM (connectionName cfg (t_id t)) run_migrations)"

section \<open>The registry of drivers\<close>

record 'd driver_registry =
  d_drivers :: "(string, 'd) jmap"
  d_active :: "string option"

datatype driver_registry_error = DriverNotRegistered string "string list" | NoActiveDriver | ActiveUnregistered string

definition register_driver :: "string \<Rightarrow> 'd \<Rightarrow> bool \<Rightarrow> 'd driver_registry \<Rightarrow> 'd driver_registry" where
  "register_driver n d act g =
     g\<lparr>d_drivers := jm_set n d (d_drivers g),
       d_active := (if act \<or> d_active g = None \<or> d_active g = Some [] then Some n else d_active g)\<rparr>"

definition use_driver :: "string \<Rightarrow> 'd driver_registry \<Rightarrow> driver_registry_error + 'd driver_registry" where
  "use_driver n g =
     (if \<not> jm_has n (d_drivers g) then Inl (DriverNotRegistered n (jm_keys (d_drivers g)))
      else Inr (g\<lparr>d_active := Some n\<rparr>))"

definition active_driver :: "'d driver_registry \<Rightarrow> driver_registry_error + 'd" where
  "active_driver g =
     (case d_active g of
        None \<Rightarrow> Inl NoActiveDriver
      | Some n \<Rightarrow>
          if n = [] then Inl NoActiveDriver
          else (case jm_get n (d_drivers g) of None \<Rightarrow> Inl (ActiveUnregistered n) | Some d \<Rightarrow> Inr d))"

definition clear_drivers :: "'d driver_registry \<Rightarrow> 'd driver_registry" where
  "clear_drivers g = g\<lparr>d_drivers := [], d_active := None\<rparr>"

section \<open>Facts about the handle and the pool\<close>

text \<open>
  The invariant of the pool: at most \<open>MAX_TENANT_CONNECTIONS\<close> connections, each
  listed once and registered; every registered connection of a tenant is listed
  and carries the configuration \<open>good\<close> for that tenant.
\<close>

definition pool_inv :: "iso_config \<Rightarrow> (string \<Rightarrow> conn_config \<Rightarrow> bool) \<Rightarrow> 'm iso_state \<Rightarrow> bool" where
  "pool_inv cfg good s \<longleftrightarrow>
     db_laws (handle s) \<and> distinct (lru s) \<and> length (lru s) \<le> MAX_TENANT_CONNECTIONS \<and>
     (\<forall>n \<in> set (lru s). registered n s \<and> (\<exists>i. SAFE_IDENT i \<and> n = connPrefix cfg @ i)) \<and>
     (\<forall>i c. SAFE_IDENT i \<longrightarrow> config_of (connPrefix cfg @ i) s = Some c \<longrightarrow>
        connPrefix cfg @ i \<in> set (lru s) \<and> good i c)"

lemma pool_invI:
  assumes "db_laws (handle s)" "distinct (lru s)" "length (lru s) \<le> MAX_TENANT_CONNECTIONS"
    and "\<And>n. n \<in> set (lru s) \<Longrightarrow> registered n s \<and> (\<exists>i. SAFE_IDENT i \<and> n = connPrefix cfg @ i)"
    and "\<And>i c. SAFE_IDENT i \<Longrightarrow> config_of (connPrefix cfg @ i) s = Some c \<Longrightarrow>
      connPrefix cfg @ i \<in> set (lru s) \<and> good i c"
  shows "pool_inv cfg good s"
  using assms by (simp add: pool_inv_def)

lemma pool_invD:
  assumes "pool_inv cfg good s"
  shows "db_laws (handle s)" "distinct (lru s)" "length (lru s) \<le> MAX_TENANT_CONNECTIONS"
    and "n \<in> set (lru s) \<Longrightarrow> registered n s" "n \<in> set (lru s) \<Longrightarrow> \<exists>i. SAFE_IDENT i \<and> n = connPrefix cfg @ i"
    and "SAFE_IDENT i \<Longrightarrow> config_of (connPrefix cfg @ i) s = Some c \<Longrightarrow> connPrefix cfg @ i \<in> set (lru s)"
    and "SAFE_IDENT i \<Longrightarrow> config_of (connPrefix cfg @ i) s = Some c \<Longrightarrow> good i c"
  using assms by (auto simp add: pool_inv_def)

lemma safe_id_run:
  "safe_id i s = (if SAFE_IDENT i then (Inr (), s) else (Inl (UnsafeId (UnsafeIdentifier ''tenant id'' i)), s))"
  by (simp add: safe_id_def assertSafeIdentifier_def run_simps)

lemma connectionName_run:
  "connectionName cfg i s =
     (if SAFE_IDENT i then (Inr (connPrefix cfg @ i), s)
      else (Inl (UnsafeId (UnsafeIdentifier ''tenant id'' i)), s))"
  by (simp add: connectionName_def run_simps safe_id_run)

lemma registered_config: "db_laws (handle s) \<Longrightarrow> registered n s \<longleftrightarrow> config_of n s \<noteq> None"
  by (simp add: registered_def config_of_def db_laws_def)

lemma config_of_add [simp]:
  "db_laws (handle s) \<Longrightarrow> config_of k (manager_add n c s) = (if k = n then Some c else config_of k s)"
  by (simp add: config_of_def manager_add_def db_laws_def)

lemma config_of_release [simp]:
  "db_laws (handle s) \<Longrightarrow> config_of k (manager_release n s) = (if k = n then None else config_of k s)"
  by (simp add: config_of_def manager_release_def db_laws_def)

lemma pool_fields [simp]:
  "handle (manager_add n c s) = handle s" "handle (manager_release n s) = handle s" "handle (touch n s) = handle s"
  "lru (manager_add n c s) = lru s" "lru (manager_release n s) = lru s" "lru (touch n s) = removeAll n (lru s) @ [n]"
  "config_of k (touch n s) = config_of k s" "config_of k (s\<lparr>lru := l\<rparr>) = config_of k s"
  by (simp_all add: manager_add_def manager_release_def touch_def config_of_def)

lemma raw_frame:
  assumes "rawQuery q b s = (r, s')" "db_laws (handle s)"
  shows "handle s' = handle s" "lru s' = lru s" "config_of k s' = config_of k s"
proof -
  obtain x w where xw: "dh_raw (handle s) q b (dbs s) = (x, w)" by fastforce
  then have "dh_get (handle s) k w = dh_get (handle s) k (dbs s)"
    using assms(2) unfolding db_laws_def by (metis snd_conv)
  then show "handle s' = handle s" "lru s' = lru s" "config_of k s' = config_of k s"
    using assms(1) xw by (auto simp add: rawQuery_def config_of_def split: sum.splits)
qed

lemma migrate_frame:
  assumes "run_migrations n s = (r, s')" "db_laws (handle s)"
  shows "handle s' = handle s" "lru s' = lru s" "config_of k s' = config_of k s"
proof -
  obtain x w where xw: "dh_migrate (handle s) n (dbs s) = (x, w)" by fastforce
  then have "dh_get (handle s) k w = dh_get (handle s) k (dbs s)"
    using assms(2) unfolding db_laws_def by (metis snd_conv)
  then show "handle s' = handle s" "lru s' = lru s" "config_of k s' = config_of k s"
    using assms(1) xw by (auto simp add: run_migrations_def config_of_def split: sum.splits)
qed

lemma delete_frame:
  assumes "delete_rows t c i s = (r, s')" "db_laws (handle s)"
  shows "handle s' = handle s" "lru s' = lru s" "config_of k s' = config_of k s"
proof -
  obtain x w where xw: "dh_delete (handle s) t c i (dbs s) = (x, w)" by fastforce
  then have "dh_get (handle s) k w = dh_get (handle s) k (dbs s)"
    using assms(2) unfolding db_laws_def by (metis snd_conv)
  then show "handle s' = handle s" "lru s' = lru s" "config_of k s' = config_of k s"
    using assms(1) xw by (auto simp add: delete_rows_def config_of_def split: sum.splits)
qed

lemma pool_inv_frame:
  assumes "pool_inv cfg good s" "handle s' = handle s" "lru s' = lru s" "\<And>k. config_of k s' = config_of k s"
  shows "pool_inv cfg good s'"
  using assms registered_config [of s] registered_config [of s']
  unfolding pool_inv_def by simp

lemma keeps_pool_raw: "keeps (pool_inv cfg good) (rawQuery q b)"
proof
  fix s :: "'m iso_state" assume inv: "pool_inv cfg good s"
  obtain r s' where rs: "rawQuery q b s = (r, s')" by fastforce
  have "db_laws (handle s)" using inv by (simp add: pool_inv_def)
  from pool_inv_frame [OF inv raw_frame [OF rs this]] show "pool_inv cfg good (snd (rawQuery q b s))"
    by (simp add: rs)
qed

lemma keeps_pool_migrate: "keeps (pool_inv cfg good) (run_migrations n)"
proof
  fix s :: "'m iso_state" assume inv: "pool_inv cfg good s"
  obtain r s' where rs: "run_migrations n s = (r, s')" by fastforce
  have "db_laws (handle s)" using inv by (simp add: pool_inv_def)
  from pool_inv_frame [OF inv migrate_frame [OF rs this]] show "pool_inv cfg good (snd (run_migrations n s))"
    by (simp add: rs)
qed

lemma keeps_safe_id [keeps_intros]: "keeps P (safe_id i)"
  by (simp add: keeps_def safe_id_run)

lemma keeps_connectionName [keeps_intros]: "keeps P (connectionName cfg i)"
  by (simp add: keeps_def connectionName_run)

lemmas keeps_pool = keeps_pool_raw keeps_pool_migrate

lemma pool_inv_touch:
  assumes inv: "pool_inv cfg good s" and reg: "registered (connPrefix cfg @ i) s" and safe: "SAFE_IDENT i"
  shows "pool_inv cfg good (touch (connPrefix cfg @ i) s)"
proof -
  let ?n = "connPrefix cfg @ i"
  have laws: "db_laws (handle s)" using inv by (simp add: pool_inv_def)
  have mem: "?n \<in> set (lru s)"
    using inv reg safe registered_config [OF laws] by (auto simp add: pool_inv_def)
  have d: "distinct (lru s)" using inv by (simp add: pool_inv_def)
  have "Suc (length (removeAll ?n (lru s))) = length (lru s)"
    using mem length_pos_if_in_set [OF mem]
    by (simp add: distinct_remove1_removeAll [OF d, symmetric] length_remove1)
  then have len: "length (lru (touch ?n s)) = length (lru s)" by simp
  have same: "registered k (touch ?n s) = registered k s" for k
    using registered_config [of s] registered_config [of "touch ?n s"] laws by simp
  have set_eq: "set (lru (touch ?n s)) = set (lru s)" using mem by auto
  show ?thesis
  proof (rule pool_invI)
    show "length (lru (touch ?n s)) \<le> MAX_TENANT_CONNECTIONS"
      unfolding len by (rule pool_invD(3) [OF inv])
    show "distinct (lru (touch ?n s))" using d by (simp add: distinct_removeAll)
    show "registered n (touch ?n s) \<and> (\<exists>i. SAFE_IDENT i \<and> n = connPrefix cfg @ i)"
      if "n \<in> set (lru (touch ?n s))" for n
      using that pool_invD(4,5) [OF inv] unfolding set_eq same by blast
    show "connPrefix cfg @ j \<in> set (lru (touch ?n s)) \<and> good j c"
      if "SAFE_IDENT j" "config_of (connPrefix cfg @ j) (touch ?n s) = Some c" for j c
      using that pool_invD(6,7) [OF inv] unfolding set_eq by simp
  qed (use laws in simp)
qed

lemma pool_inv_add:
  assumes inv: "pool_inv cfg good s" and nreg: "\<not> registered (connPrefix cfg @ i) s" and safe: "SAFE_IDENT i"
    and c: "good i c"
  shows "pool_inv cfg good (evictIfNeeded (touch (connPrefix cfg @ i) (manager_add (connPrefix cfg @ i) c s))) \<and>
    registered (connPrefix cfg @ i) (evictIfNeeded (touch (connPrefix cfg @ i) (manager_add (connPrefix cfg @ i) c s)))"
proof -
  let ?n = "connPrefix cfg @ i"
  let ?t = "touch ?n (manager_add ?n c s)"
  have laws: "db_laws (handle s)" using inv by (simp add: pool_inv_def)
  have out: "?n \<notin> set (lru s)" using inv nreg by (auto simp add: pool_inv_def)
  have l: "lru ?t = lru s @ [?n]" using out by simp
  have i_eq: "j = i \<longleftrightarrow> connPrefix cfg @ j = ?n" for j by simp
  have reg_t: "registered k ?t \<longleftrightarrow> k = ?n \<or> registered k s" for k
    using registered_config [of ?t] registered_config [of s] laws by simp
  show ?thesis
  proof (cases "length (lru ?t) \<le> MAX_TENANT_CONNECTIONS")
    case True
    then show ?thesis
      using inv out safe c l laws reg_t
      unfolding pool_inv_def evictIfNeeded_def by (auto split: if_splits)
  next
    case False
    have "lru s \<noteq> []" using False l by (cases "lru s") (auto simp add: MAX_TENANT_CONNECTIONS_def)
    then obtain x xs where x: "lru s = x # xs" by (cases "lru s") auto
    have xn: "x \<noteq> ?n" using out x by auto
    obtain j where j: "SAFE_IDENT j" "x = connPrefix cfg @ j" using inv x by (auto simp add: pool_inv_def)
    then have xne: "x \<noteq> []" by (auto simp add: SAFE_IDENT_def)
    have e: "evictIfNeeded ?t = manager_release x (?t\<lparr>lru := xs @ [?n]\<rparr>)"
      using False l x xne by (simp add: evictIfNeeded_def)
    have reg_e: "registered k (evictIfNeeded ?t) \<longleftrightarrow> k \<noteq> x \<and> (k = ?n \<or> registered k s)" for k
      using registered_config [of "evictIfNeeded ?t"] registered_config [of s] laws e by simp
    show ?thesis
      using inv out safe c x xn laws reg_e e
      unfolding pool_inv_def by (auto split: if_splits)
  qed
qed

lemma pooled_connect_cases:
  assumes inv: "pool_inv cfg good s" and derive: "\<And>t c. good (t_id t) (derive t c)"
    and run: "pooled_connect cfg drv derive t s = (r, s')"
  shows "pool_inv cfg good s' \<and> (r = Inr () \<longrightarrow> registered (connPrefix cfg @ t_id t) s' \<and> SAFE_IDENT (t_id t))"
proof (cases "SAFE_IDENT (t_id t)")
  case False
  then show ?thesis using run inv by (auto simp add: pooled_connect_def run_simps connectionName_run)
next
  case True
  let ?n = "connPrefix cfg @ t_id t"
  show ?thesis
  proof (cases "registered ?n s")
    case reg: True
    have "db_laws (handle s)" using inv by (simp add: pool_inv_def)
    then have "registered ?n (touch ?n s)"
      using reg registered_config [of s] registered_config [of "touch ?n s"] by simp
    then show ?thesis
      using run True reg pool_inv_touch [OF inv reg True]
      by (auto simp add: pooled_connect_def run_simps connectionName_run)
  next
    case nreg: False
    then show ?thesis
      using run True pool_inv_add [OF inv nreg True derive] inv
      by (auto simp add: pooled_connect_def run_simps connectionName_run split: option.splits)
  qed
qed

lemma pooled_disconnect_cases:
  assumes inv: "pool_inv cfg good s" and run: "pooled_disconnect cfg t s = (r, s')"
  shows "pool_inv cfg good s' \<and>
    (r = Inr () \<longrightarrow> \<not> registered (connPrefix cfg @ t_id t) s' \<and>
       (\<forall>n. n \<noteq> connPrefix cfg @ t_id t \<longrightarrow> registered n s' = registered n s))"
proof (cases "SAFE_IDENT (t_id t)")
  case False
  then show ?thesis using run inv by (auto simp add: pooled_disconnect_def run_simps connectionName_run)
next
  case True
  let ?n = "connPrefix cfg @ t_id t"
  let ?s1 = "s\<lparr>lru := removeAll ?n (lru s)\<rparr>"
  have laws: "db_laws (handle s)" using inv by (simp add: pool_inv_def)
  have s': "r = Inr ()" "s' = (if registered ?n ?s1 then manager_release ?n ?s1 else ?s1)"
    using run True by (auto simp add: pooled_disconnect_def run_simps connectionName_run Let_def)
  have h': "handle s' = handle s" and l': "lru s' = removeAll ?n (lru s)"
    using s' by auto
  have conf: "config_of k s' = (if k = ?n then None else config_of k s)" for k
    using s' laws registered_config [of ?s1] by auto
  have reg: "registered k s' \<longleftrightarrow> k \<noteq> ?n \<and> registered k s" for k
    using registered_config [of s'] registered_config [of s] laws conf h' by simp
  have "length (removeAll ?n (lru s)) \<le> MAX_TENANT_CONNECTIONS"
    by (rule le_trans [OF length_removeAll_less_eq pool_invD(3) [OF inv]])
  then have "pool_inv cfg good s'"
    using pool_invD [OF inv] h' l' conf reg
    by (intro pool_invI) (auto simp add: distinct_removeAll split: if_splits)
  then show ?thesis using reg by auto
qed

section \<open>The driver contract\<close>

text \<open>
  What the lifecycle jobs rely on: after a successful provision, connect or
  reset the tenant is connected, and every operation, failed or not, keeps the
  driver's invariant. A driver that owns its connections also leaves none after
  a successful disconnect or destroy, and never touches another tenant's.
\<close>

locale isolation_driver =
  fixes connect :: "tenant \<Rightarrow> ('s, driver_error, unit) M"
    and disconnect :: "tenant \<Rightarrow> ('s, driver_error, unit) M"
    and provision :: "tenant \<Rightarrow> ('s, driver_error, unit) M"
    and destroy :: "bool \<Rightarrow> tenant \<Rightarrow> ('s, driver_error, unit) M"
    and reset :: "tenant \<Rightarrow> ('s, driver_error, unit) M"
    and connected :: "tenant \<Rightarrow> 's \<Rightarrow> bool"
    and inv :: "'s \<Rightarrow> bool"
  assumes keeps_connect: "keeps inv (connect t)"
    and keeps_disconnect: "keeps inv (disconnect t)"
    and keeps_provision: "keeps inv (provision t)"
    and keeps_destroy: "keeps inv (destroy k t)"
    and keeps_reset: "keeps inv (reset t)"
    and connect_connects: "inv s \<Longrightarrow> connect t s = (Inr (), s') \<Longrightarrow> connected t s'"
    and provision_connects: "inv s \<Longrightarrow> provision t s = (Inr (), s') \<Longrightarrow> connected t s'"
    and reset_connects: "inv s \<Longrightarrow> reset t s = (Inr (), s') \<Longrightarrow> connected t s'"
begin

lemma keeps_ops:
  "keeps inv (forM ops (\<lambda>(k, t). if k = (0 :: nat) then connect t else if k = 1 then disconnect t
     else if k = 2 then provision t else if k = 3 then destroy False t
     else if k = 4 then destroy True t else reset t))"
  by (rule keeps_forM)
     (auto intro!: keeps_if keeps_connect keeps_disconnect keeps_provision keeps_destroy keeps_reset)

lemma provision_then_connect:
  assumes "inv s" "thenM (provision t) (connect t) s = (Inr (), s')"
  shows "connected t s' \<and> inv s'"
proof -
  obtain s1 where "provision t s = (Inr (), s1)" "connect t s1 = (Inr (), s')"
    using assms(2) by (auto simp add: run_simps split: prod.splits sum.splits)
  then show ?thesis
    using assms(1) connect_connects keeps_run [OF keeps_provision] keeps_run [OF keeps_connect] by blast
qed

end

locale owned_driver = isolation_driver +
  assumes disconnect_releases: "inv s \<Longrightarrow> disconnect t s = (Inr (), s') \<Longrightarrow> \<not> connected t s'"
    and destroy_releases: "inv s \<Longrightarrow> destroy k t s = (Inr (), s') \<Longrightarrow> \<not> connected t s'"
    and disconnect_other: "inv s \<Longrightarrow> disconnect t s = (Inr (), s') \<Longrightarrow> t_id u \<noteq> t_id t \<Longrightarrow>
          connected u s' \<longleftrightarrow> connected u s"
begin

lemma reprovision_connects:
  assumes "inv s" "thenM (destroy k t) (provision t) s = (Inr (), s')"
  shows "connected t s'"
proof -
  obtain s1 where "destroy k t s = (Inr (), s1)" "provision t s1 = (Inr (), s')"
    using assms(2) by (auto simp add: run_simps split: prod.splits sum.splits)
  then show ?thesis
    using assms(1) provision_connects keeps_run [OF keeps_destroy] by blast
qed

end

section \<open>The drivers keep the contract\<close>

definition tenant_connected :: "iso_config \<Rightarrow> tenant \<Rightarrow> 'm iso_state \<Rightarrow> bool" where
  "tenant_connected cfg t s \<longleftrightarrow> registered (connPrefix cfg @ t_id t) s"

definition own_schema :: "iso_config \<Rightarrow> string \<Rightarrow> conn_config \<Rightarrow> bool" where
  "own_schema cfg i c \<longleftrightarrow> cc_searchPath c = Some [schemaPrefix cfg @ i]"

definition own_database :: "iso_config \<Rightarrow> string \<Rightarrow> conn_config \<Rightarrow> bool" where
  "own_database cfg i c \<longleftrightarrow>
     cc_searchPath c = None \<and> cc_database c = Some (or_else (databasePrefix cfg) (schemaPrefix cfg) @ i)"

lemma schema_good: "own_schema cfg (t_id t) (schema_derive cfg t c)"
  by (simp add: own_schema_def schema_derive_def)

lemma database_good: "own_database cfg (t_id t) (cloneConfigForTenant cfg t c)"
  by (simp add: own_database_def cloneConfigForTenant_def)

lemma keeps_pooled_connect:
  assumes "\<And>t c. good (t_id t) (derive t c)"
  shows "keeps (pool_inv cfg good) (pooled_connect cfg drv derive t)"
proof
  fix s :: "'m iso_state" assume inv: "pool_inv cfg good s"
  obtain r s' where rs: "pooled_connect cfg drv derive t s = (r, s')" by fastforce
  show "pool_inv cfg good (snd (pooled_connect cfg drv derive t s))"
    using pooled_connect_cases [OF inv assms rs] rs by simp
qed

lemma keeps_pooled_disconnect: "keeps (pool_inv cfg good) (pooled_disconnect cfg t)"
proof
  fix s :: "'m iso_state" assume inv: "pool_inv cfg good s"
  obtain r s' where rs: "pooled_disconnect cfg t s = (r, s')" by fastforce
  show "pool_inv cfg good (snd (pooled_disconnect cfg t s))"
    using pooled_disconnect_cases [OF inv rs] rs by simp
qed

lemma keeps_schema_connect: "keeps (pool_inv cfg (own_schema cfg)) (schema_connect cfg t)"
  unfolding schema_connect_def by (rule keeps_pooled_connect) (rule schema_good)

lemma keeps_database_connect: "keeps (pool_inv cfg (own_database cfg)) (database_connect cfg t)"
  unfolding database_connect_def by (rule keeps_pooled_connect) (rule database_good)

lemmas keeps_drivers = keeps_schema_connect keeps_database_connect keeps_pooled_disconnect keeps_pool

lemma keeps_schema_destroy: "keeps (pool_inv cfg (own_schema cfg)) (schema_destroy cfg k t)"
  unfolding schema_destroy_def schemaName_def schema_disconnect_def drop_schema_def
  by (intro keeps_intros keeps_drivers)

lemma keeps_database_destroy: "keeps (pool_inv cfg (own_database cfg)) (database_destroy cfg k t)"
  unfolding database_destroy_def databaseName_def database_disconnect_def
  by (intro keeps_intros keeps_drivers)

lemma keeps_schema_provision: "keeps (pool_inv cfg (own_schema cfg)) (schema_provision cfg t)"
  unfolding schema_provision_def schemaName_def
  by (intro keeps_intros keeps_drivers)

lemma keeps_database_provision: "keeps (pool_inv cfg (own_database cfg)) (database_provision cfg t)"
  unfolding database_provision_def databaseName_def
  by (intro keeps_intros keeps_drivers)

lemma keeps_schema_reset: "keeps (pool_inv cfg (own_schema cfg)) (schema_reset cfg t)"
  unfolding schema_reset_def schemaName_def schema_disconnect_def drop_schema_def
  by (intro keeps_intros keeps_drivers)

lemma keeps_database_reset: "keeps (pool_inv cfg (own_database cfg)) (database_reset cfg t)"
  unfolding database_reset_def
  by (intro keeps_intros keeps_database_destroy keeps_database_provision)

lemma keeps_migrates:
  "keeps (pool_inv cfg (own_schema cfg)) (schema_migrate cfg t)"
  "keeps (pool_inv cfg (own_database cfg)) (database_migrate cfg t)"
  unfolding schema_migrate_def database_migrate_def by (intro keeps_intros keeps_drivers)+

text \<open>An operation that ends by connecting leaves the tenant connected.\<close>

definition ends_connected :: "('s \<Rightarrow> bool) \<Rightarrow> ('s \<Rightarrow> bool) \<Rightarrow> ('s, 'e, unit) M \<Rightarrow> bool" where
  "ends_connected P Q m \<longleftrightarrow> (\<forall>s s'. P s \<longrightarrow> m s = (Inr (), s') \<longrightarrow> Q s')"

lemma ends_bind: "keeps P m \<Longrightarrow> (\<And>x. ends_connected P Q (f x)) \<Longrightarrow> ends_connected P Q (bindM m f)"
  by (fastforce simp add: ends_connected_def run_simps keeps_def split: prod.splits sum.splits)

lemma ends_then: "keeps P m \<Longrightarrow> ends_connected P Q n \<Longrightarrow> ends_connected P Q (thenM m n)"
  unfolding thenM_def by (rule ends_bind)

lemma ends_connectedI: "(\<And>s s'. P s \<Longrightarrow> m s = (Inr (), s') \<Longrightarrow> Q s') \<Longrightarrow> ends_connected P Q m"
  by (simp add: ends_connected_def)

lemma ends_pooled_connect:
  assumes "\<And>t c. good (t_id t) (derive t c)"
  shows "ends_connected (pool_inv cfg good) (tenant_connected cfg t) (pooled_connect cfg drv derive t)"
proof (rule ends_connectedI)
  fix s s' :: "'m iso_state"
  assume "pool_inv cfg good s" "pooled_connect cfg drv derive t s = (Inr (), s')"
  from pooled_connect_cases [OF this(1) assms this(2)] show "tenant_connected cfg t s'"
    by (simp add: tenant_connected_def)
qed

lemma ends_schema_connect: "ends_connected (pool_inv cfg (own_schema cfg)) (tenant_connected cfg t) (schema_connect cfg t)"
  unfolding schema_connect_def by (rule ends_pooled_connect) (rule schema_good)

lemma ends_database_connect: "ends_connected (pool_inv cfg (own_database cfg)) (tenant_connected cfg t) (database_connect cfg t)"
  unfolding database_connect_def by (rule ends_pooled_connect) (rule database_good)

lemma ends_schema_provision: "ends_connected (pool_inv cfg (own_schema cfg)) (tenant_connected cfg t) (schema_provision cfg t)"
  unfolding schema_provision_def schemaName_def
  by (intro ends_bind ends_then ends_schema_connect keeps_intros keeps_drivers)

lemma ends_database_provision: "ends_connected (pool_inv cfg (own_database cfg)) (tenant_connected cfg t) (database_provision cfg t)"
  unfolding database_provision_def databaseName_def
  by (intro ends_bind ends_then ends_database_connect keeps_intros keeps_drivers)

lemma ends_schema_reset: "ends_connected (pool_inv cfg (own_schema cfg)) (tenant_connected cfg t) (schema_reset cfg t)"
  unfolding schema_reset_def schemaName_def schema_disconnect_def drop_schema_def
  by (intro ends_bind ends_then ends_schema_connect keeps_intros keeps_drivers)

lemma ends_database_reset: "ends_connected (pool_inv cfg (own_database cfg)) (tenant_connected cfg t) (database_reset cfg t)"
  unfolding database_reset_def
  by (intro ends_then ends_database_provision keeps_database_destroy)

text \<open>An operation that disconnects and then only runs SQL leaves the tenant disconnected.\<close>

definition released :: "iso_config \<Rightarrow> tenant \<Rightarrow> 'm iso_state \<Rightarrow> bool" where
  "released cfg t s \<longleftrightarrow> db_laws (handle s) \<and> \<not> tenant_connected cfg t s"

lemma ends_then_keeps: "ends_connected P Q m \<Longrightarrow> keeps Q n \<Longrightarrow> ends_connected P Q (thenM m n)"
  by (fastforce simp add: ends_connected_def run_simps keeps_def split: prod.splits sum.splits)

lemma ends_pooled_disconnect: "ends_connected (pool_inv cfg good) (released cfg t) (pooled_disconnect cfg t)"
proof (rule ends_connectedI)
  fix s s' :: "'m iso_state"
  assume "pool_inv cfg good s" "pooled_disconnect cfg t s = (Inr (), s')"
  from pooled_disconnect_cases [OF this] show "released cfg t s'"
    by (simp add: released_def tenant_connected_def pool_inv_def)
qed

lemma keeps_released_raw: "keeps (released cfg t) (rawQuery q b)"
proof
  fix s :: "'m iso_state" assume r: "released cfg t s"
  obtain x s' where rs: "rawQuery q b s = (x, s')" by fastforce
  have laws: "db_laws (handle s)" using r by (simp add: released_def)
  show "released cfg t (snd (rawQuery q b s))"
    using r raw_frame [OF rs laws] registered_config [of s] registered_config [of s'] rs
    by (auto simp add: released_def tenant_connected_def)
qed

lemma ends_schema_destroy: "ends_connected (pool_inv cfg (own_schema cfg)) (released cfg t) (schema_destroy cfg k t)"
  unfolding schema_destroy_def schemaName_def schema_disconnect_def drop_schema_def
  by (intro ends_bind ends_then_keeps ends_pooled_disconnect keeps_intros keeps_released_raw)

lemma ends_database_destroy: "ends_connected (pool_inv cfg (own_database cfg)) (released cfg t) (database_destroy cfg k t)"
  unfolding database_destroy_def databaseName_def database_disconnect_def
  by (intro ends_bind ends_then_keeps ends_pooled_disconnect keeps_intros keeps_released_raw)

lemma endsD: "ends_connected P Q m \<Longrightarrow> P s \<Longrightarrow> m s = (Inr (), s') \<Longrightarrow> Q s'"
  by (simp add: ends_connected_def)

lemma pooled_disconnect_other:
  assumes "pool_inv cfg good s" "pooled_disconnect cfg t s = (Inr (), s')" "t_id u \<noteq> t_id t"
  shows "tenant_connected cfg u s' \<longleftrightarrow> tenant_connected cfg u s"
  using pooled_disconnect_cases [OF assms(1,2)] assms(3) by (simp add: tenant_connected_def)

interpretation schema: owned_driver "schema_connect cfg" "schema_disconnect cfg" "schema_provision cfg"
    "schema_destroy cfg" "schema_reset cfg" "tenant_connected cfg" "pool_inv cfg (own_schema cfg)" for cfg
proof unfold_locales
  show "keeps (pool_inv cfg (own_schema cfg)) (schema_disconnect cfg t)" for t
    unfolding schema_disconnect_def by (rule keeps_pooled_disconnect)
qed (auto intro: keeps_schema_connect keeps_schema_provision keeps_schema_destroy keeps_schema_reset
      endsD [OF ends_schema_connect] endsD [OF ends_schema_provision] endsD [OF ends_schema_reset]
      simp add: schema_disconnect_def pooled_disconnect_other
      dest: endsD [OF ends_pooled_disconnect] endsD [OF ends_schema_destroy] simp add: released_def)

interpretation database: owned_driver "database_connect cfg" "database_disconnect cfg" "database_provision cfg"
    "database_destroy cfg" "database_reset cfg" "tenant_connected cfg" "pool_inv cfg (own_database cfg)" for cfg
proof unfold_locales
  show "keeps (pool_inv cfg (own_database cfg)) (database_disconnect cfg t)" for t
    unfolding database_disconnect_def by (rule keeps_pooled_disconnect)
qed (auto intro: keeps_database_connect keeps_database_provision keeps_database_destroy keeps_database_reset
      endsD [OF ends_database_connect] endsD [OF ends_database_provision] endsD [OF ends_database_reset]
      simp add: database_disconnect_def pooled_disconnect_other
      dest: endsD [OF ends_pooled_disconnect] endsD [OF ends_database_destroy] simp add: released_def)

interpretation rowscope: isolation_driver "rowscope_connect cfg" "rowscope_disconnect cfg" "rowscope_provision cfg"
    "rowscope_destroy cfg" "rowscope_reset cfg" "\<lambda>t s. True" "\<lambda>s. db_laws (handle s)" for cfg
proof -
  have d: "keeps (\<lambda>s. db_laws (handle s)) (delete_rows t c i)" for t c i
  proof
    fix s :: "'b iso_state" assume "db_laws (handle s)"
    then show "db_laws (handle (snd (delete_rows t c i s)))"
      using delete_frame(1) [of t c i s "fst (delete_rows t c i s)" "snd (delete_rows t c i s)"] by simp
  qed
  show "isolation_driver (rowscope_connect cfg) (rowscope_disconnect cfg) (rowscope_provision cfg)
    (rowscope_destroy cfg) (rowscope_reset cfg) (\<lambda>t s. True) (\<lambda>s. db_laws (handle s))"
    by unfold_locales
       (auto simp add: rowscope_connect_def rowscope_disconnect_def rowscope_provision_def
          rowscope_destroy_def rowscope_reset_def intro!: keeps_intros d)
qed

lemma sqlite_connect_run:
  "SAFE_IDENT (t_id t) \<Longrightarrow> sqlite_connect cfg t s = (Inr (),
     if registered (connPrefix cfg @ t_id t) s then s else manager_add (connPrefix cfg @ t_id t) sqlite_config s)"
  by (simp add: sqlite_connect_def run_simps connectionName_run)

lemma sqlite_disconnect_run:
  "SAFE_IDENT (t_id t) \<Longrightarrow> sqlite_disconnect cfg t s = (Inr (),
     if registered (connPrefix cfg @ t_id t) s then manager_release (connPrefix cfg @ t_id t) s else s)"
  by (simp add: sqlite_disconnect_def run_simps connectionName_run)

lemma sqlite_unsafe:
  "\<not> SAFE_IDENT (t_id t) \<Longrightarrow> fst (sqlite_connect cfg t s) \<noteq> Inr () \<and> snd (sqlite_connect cfg t s) = s"
  "\<not> SAFE_IDENT (t_id t) \<Longrightarrow> fst (sqlite_disconnect cfg t s) \<noteq> Inr () \<and> snd (sqlite_disconnect cfg t s) = s"
  by (simp_all add: sqlite_connect_def sqlite_disconnect_def run_simps connectionName_run)

lemma registered_add: "db_laws (handle s) \<Longrightarrow> registered k (manager_add n c s) \<longleftrightarrow> k = n \<or> registered k s"
  using registered_config [of s] registered_config [of "manager_add n c s"] by simp

lemma registered_release: "db_laws (handle s) \<Longrightarrow> registered k (manager_release n s) \<longleftrightarrow> k \<noteq> n \<and> registered k s"
  using registered_config [of s] registered_config [of "manager_release n s"] by simp

lemma keeps_sqlite:
  "keeps (\<lambda>s. db_laws (handle s)) (sqlite_connect cfg t)" "keeps (\<lambda>s. db_laws (handle s)) (sqlite_disconnect cfg t)"
  by (cases "SAFE_IDENT (t_id t)"; simp add: keeps_def sqlite_connect_run sqlite_disconnect_run sqlite_unsafe)+

lemma sqlite_connect_Inr:
  "sqlite_connect cfg t s = (Inr (), s') \<Longrightarrow>
   s' = (if registered (connPrefix cfg @ t_id t) s then s else manager_add (connPrefix cfg @ t_id t) sqlite_config s)"
  by (auto simp add: sqlite_connect_def run_simps connectionName_run split: if_splits)

lemma sqlite_disconnect_Inr:
  "sqlite_disconnect cfg t s = (Inr (), s') \<Longrightarrow>
   s' = (if registered (connPrefix cfg @ t_id t) s then manager_release (connPrefix cfg @ t_id t) s else s)"
  by (auto simp add: sqlite_disconnect_def run_simps connectionName_run split: if_splits)

lemma ends_sqlite_connect: "ends_connected (\<lambda>s. db_laws (handle s)) (tenant_connected cfg t) (sqlite_connect cfg t)"
  by (rule ends_connectedI) (auto dest!: sqlite_connect_Inr simp add: tenant_connected_def registered_add)

lemma ends_sqlite_disconnect: "ends_connected (\<lambda>s. db_laws (handle s)) (released cfg t) (sqlite_disconnect cfg t)"
  by (rule ends_connectedI)
     (auto dest!: sqlite_disconnect_Inr simp add: released_def tenant_connected_def registered_release split: if_splits)

lemma sqlite_disconnect_other:
  assumes "db_laws (handle s)" "sqlite_disconnect cfg t s = (Inr (), s')" "t_id u \<noteq> t_id t"
  shows "tenant_connected cfg u s' \<longleftrightarrow> tenant_connected cfg u s"
  using sqlite_disconnect_Inr [OF assms(2)] assms(1,3)
  by (cases "registered (connPrefix cfg @ t_id t) s") (simp_all add: tenant_connected_def registered_release)

lemma ends_sqlite_reset: "ends_connected (\<lambda>s. db_laws (handle s)) (tenant_connected cfg t) (sqlite_reset cfg t)"
  unfolding sqlite_reset_def by (intro ends_then ends_sqlite_connect keeps_sqlite)

interpretation sqlite: owned_driver "sqlite_connect cfg" "sqlite_disconnect cfg" "sqlite_provision cfg"
    "sqlite_destroy cfg" "sqlite_reset cfg" "tenant_connected cfg" "\<lambda>s. db_laws (handle s)" for cfg
proof unfold_locales
  show "keeps (\<lambda>s. db_laws (handle s)) (sqlite_reset cfg t)" for t
    unfolding sqlite_reset_def by (intro keeps_intros keeps_sqlite)
qed (auto intro: keeps_sqlite endsD [OF ends_sqlite_connect] endsD [OF ends_sqlite_reset]
      simp add: sqlite_provision_def sqlite_destroy_def sqlite_disconnect_other
      dest: endsD [OF ends_sqlite_disconnect] simp add: released_def)

section \<open>Properties\<close>

datatype driver_op = OpConnect tenant | OpDisconnect tenant | OpProvision tenant | OpDestroy bool tenant | OpReset tenant | OpMigrate tenant

definition schema_op :: "iso_config \<Rightarrow> driver_op \<Rightarrow> ('m, unit) D" where
  "schema_op cfg op =
     (case op of
        OpConnect t \<Rightarrow> schema_connect cfg t
      | OpDisconnect t \<Rightarrow> schema_disconnect cfg t
      | OpProvision t \<Rightarrow> schema_provision cfg t
      | OpDestroy k t \<Rightarrow> schema_destroy cfg k t
      | OpReset t \<Rightarrow> schema_reset cfg t
      | OpMigrate t \<Rightarrow> thenM (schema_migrate cfg t) (returnM ()))"

text \<open>The operations run one after another; a failed one does not stop the next.\<close>

definition run_ops :: "iso_config \<Rightarrow> driver_op list \<Rightarrow> 'm iso_state \<Rightarrow> 'm iso_state" where
  "run_ops cfg ops s = fold (\<lambda>op s. snd (schema_op cfg op s)) ops s"

lemma keeps_schema_op: "keeps (pool_inv cfg (own_schema cfg)) (schema_op cfg op)"
  by (cases op)
     (auto simp add: schema_op_def intro!: keeps_thenM keeps_basic schema.keeps_connect schema.keeps_disconnect
       schema.keeps_provision schema.keeps_destroy schema.keeps_reset keeps_migrates)

lemma run_ops_inv: "pool_inv cfg (own_schema cfg) s \<Longrightarrow> pool_inv cfg (own_schema cfg) (run_ops cfg ops s)"
  unfolding run_ops_def
  by (induction ops arbitrary: s) (simp_all add: keepsD [OF keeps_schema_op])

definition no_tenant_connections :: "iso_config \<Rightarrow> 'm iso_state \<Rightarrow> bool" where
  "no_tenant_connections cfg s \<longleftrightarrow> lru s = [] \<and> (\<forall>i. SAFE_IDENT i \<longrightarrow> config_of (connPrefix cfg @ i) s = None)"

lemma no_tenant_inv: "db_laws (handle s) \<Longrightarrow> no_tenant_connections cfg s \<Longrightarrow> pool_inv cfg good s"
  by (rule pool_invI) (auto simp add: no_tenant_connections_def)

text \<open>
  C2. Isolation and bound of the schema driver: from a manager without tenant
  connections, after any sequence of driver operations, failed ones included,
  every connection registered for a tenant has that tenant's own schema, and
  nothing else, on its search path, and the pool holds at most fifty
  connections, each exactly once.
\<close>

theorem schema_pool_isolated_and_bounded:
  assumes "db_laws (handle s)" and "no_tenant_connections cfg s"
  shows "length (lru (run_ops cfg ops s)) \<le> 50 \<and> distinct (lru (run_ops cfg ops s)) \<and>
     (SAFE_IDENT i \<longrightarrow> config_of (connPrefix cfg @ i) (run_ops cfg ops s) = Some c \<longrightarrow>
        cc_searchPath c = Some [schemaPrefix cfg @ i] \<and>
        connPrefix cfg @ i \<in> set (lru (run_ops cfg ops s)))"
proof -
  have inv: "pool_inv cfg (own_schema cfg) (run_ops cfg ops s)"
    by (rule run_ops_inv [OF no_tenant_inv [OF assms]])
  show ?thesis
    using pool_invD(2,3) [OF inv] pool_invD(6,7) [OF inv]
    by (auto simp add: MAX_TENANT_CONNECTIONS_def own_schema_def)
qed

definition map_handle :: "((string, conn_config) jmap \<times> string list) db_handle" where
  "map_handle = \<lparr>dh_has = \<lambda>n m. jm_has n (fst m), dh_get = \<lambda>n m. jm_get n (fst m),
     dh_add = \<lambda>n c m. (jm_set n c (fst m), snd m), dh_release = \<lambda>n m. (jm_delete n (fst m), snd m),
     dh_raw = \<lambda>q b m. (Inr 1, (fst m, snd m @ [q])), dh_delete = \<lambda>t c i m. (Inr 1, m),
     dh_migrate = \<lambda>n m. (Inr 1, m)\<rparr>"

lemma map_handle_laws: "db_laws map_handle"
  unfolding db_laws_def map_handle_def by (simp add: jm_has_def js_map.get_put js_map.get_del)

definition demo_iso :: "((string, conn_config) jmap \<times> string list) iso_state" where
  "demo_iso = \<lparr>handle = map_handle,
     dbs = ([(''base'', \<lparr>cc_client = ''pg'', cc_searchPath = None, cc_database = None, cc_rest = []\<rparr>)], []),
     lru = []\<rparr>"

definition demo_iso_config :: iso_config where
  "demo_iso_config = \<lparr>connPrefix = ''tenant_'', schemaPrefix = ''s_'', templateName = ''base'', databasePrefix = None,
     centralName = ''base'', scopedTables = [], scopeColumn = ''tenant_id''\<rparr>"

definition iso_tenant :: "string \<Rightarrow> tenant" where
  "iso_tenant i = \<lparr>t_id = i, t_name = ''n'', t_email = ''e'', t_status = active, t_customDomain = None,
     t_createdAt = 0, t_deletedAt = None, t_maintenance = False, t_maintenanceMessage = None\<rparr>"

lemma demo_iso_start: "db_laws (handle demo_iso)" "no_tenant_connections demo_iso_config demo_iso"
  by (simp add: demo_iso_def map_handle_laws)
     (simp add: demo_iso_def no_tenant_connections_def config_of_def map_handle_def demo_iso_config_def)

theorem schema_pool_isolated_and_bounded_witness:
  "length (lru (run_ops demo_iso_config [OpProvision (iso_tenant ''a'')] demo_iso)) \<le> 50 \<and>
   lru (run_ops demo_iso_config [OpProvision (iso_tenant ''a'')] demo_iso) = [''tenant_a'']"
proof
  show "length (lru (run_ops demo_iso_config [OpProvision (iso_tenant ''a'')] demo_iso)) \<le> 50"
    using schema_pool_isolated_and_bounded [OF demo_iso_start] by blast
  show "lru (run_ops demo_iso_config [OpProvision (iso_tenant ''a'')] demo_iso) = [''tenant_a'']"
    by code_simp
qed

text \<open>
  Provisioning a tenant with the schema driver issues one CREATE SCHEMA for
  that tenant's schema and ends connected; destroying it without keeping data
  issues one DROP SCHEMA for the same schema and ends disconnected; an id that
  is not a safe identifier is refused before any SQL and leaves the state as it
  was. The quoted name cannot be escaped: no part of a safe id is a quote.
\<close>

theorem schema_lifecycle_sql:
  assumes "pool_inv cfg (own_schema cfg) s"
  shows "(schema_provision cfg t s = (Inr (), s') \<longrightarrow>
            tenant_connected cfg t s' \<and> SAFE_IDENT (t_id t) \<and> DQ \<notin> set (t_id t)) \<and>
     (schema_destroy cfg k t s = (Inr (), s') \<longrightarrow> \<not> tenant_connected cfg t s') \<and>
     (\<not> SAFE_IDENT (t_id t) \<longrightarrow>
        schema_provision cfg t s = (Inl (UnsafeId (UnsafeIdentifier ''tenant id'' (t_id t))), s) \<and>
        schema_destroy cfg k t s = (Inl (UnsafeId (UnsafeIdentifier ''tenant id'' (t_id t))), s)) \<and>
     (SAFE_IDENT (t_id t) \<longrightarrow>
        schema_destroy cfg False t s =
          thenM (schema_disconnect cfg t)
            (thenM (rawQuery (''DROP SCHEMA IF EXISTS '' @ [DQ] @ (schemaPrefix cfg @ t_id t) @ [DQ] @ '' CASCADE'') [])
               (returnM ())) s)"
proof (intro conjI impI)
  assume run: "schema_provision cfg t s = (Inr (), s')"
  show "tenant_connected cfg t s'"
    using schema.provision_connects [OF assms run] .
  show safe: "SAFE_IDENT (t_id t)"
    using run by (auto simp add: schema_provision_def schemaName_def run_simps safe_id_run split: if_splits)
  show "DQ \<notin> set (t_id t)"
    using safe_ident_chars [OF safe] safe_char_not_special(1) by blast
next
  assume "schema_destroy cfg k t s = (Inr (), s')"
  then show "\<not> tenant_connected cfg t s'"
    using schema.destroy_releases [OF assms] by blast
qed (simp_all add: schema_provision_def schema_destroy_def schemaName_def run_simps safe_id_run
      drop_schema_def quoted_def)

theorem schema_lifecycle_sql_witness:
  "snd (dbs (snd (schema_destroy demo_iso_config False (iso_tenant ''a'') demo_iso))) =
     [''DROP SCHEMA IF EXISTS '' @ [DQ] @ ''s_a'' @ [DQ] @ '' CASCADE'']"
proof -
  have inv: "pool_inv demo_iso_config (own_schema demo_iso_config) demo_iso"
    by (rule no_tenant_inv [OF demo_iso_start])
  have safe: "SAFE_IDENT (t_id (iso_tenant ''a''))" by code_simp
  have *: "schema_destroy demo_iso_config False (iso_tenant ''a'') demo_iso =
     thenM (schema_disconnect demo_iso_config (iso_tenant ''a''))
       (thenM (rawQuery (''DROP SCHEMA IF EXISTS '' @ [DQ] @ (schemaPrefix demo_iso_config @ t_id (iso_tenant ''a'')) @ [DQ] @ '' CASCADE'') [])
          (returnM ())) demo_iso"
    using schema_lifecycle_sql [OF inv, of "iso_tenant ''a''"] safe by blast
  show ?thesis unfolding * by code_simp
qed

text \<open>
  All drivers honour the contract they share: a successful provision, connect
  or reset leaves the tenant connected (schema, database and SQLite drivers), a
  successful destroy leaves it disconnected, and re-provisioning a destroyed
  tenant connects it again.
\<close>

theorem drivers_reprovision:
  "(pool_inv cfg (own_database cfg) s \<longrightarrow>
      thenM (database_destroy cfg k t) (database_provision cfg t) s = (Inr (), s') \<longrightarrow> tenant_connected cfg t s') \<and>
   (pool_inv cfg (own_schema cfg) s \<longrightarrow>
      thenM (schema_destroy cfg k t) (schema_provision cfg t) s = (Inr (), s') \<longrightarrow> tenant_connected cfg t s') \<and>
   (db_laws (handle s) \<longrightarrow>
      thenM (sqlite_destroy cfg k t) (sqlite_provision cfg t) s = (Inr (), s') \<longrightarrow> tenant_connected cfg t s')"
  using database.reprovision_connects schema.reprovision_connects sqlite.reprovision_connects by blast

theorem drivers_reprovision_witness:
  "tenant_connected demo_iso_config (iso_tenant ''a'')
     (snd (thenM (sqlite_destroy demo_iso_config False (iso_tenant ''a'')) (sqlite_provision demo_iso_config (iso_tenant ''a'')) demo_iso))"
proof -
  have "fst (thenM (sqlite_destroy demo_iso_config False (iso_tenant ''a'')) (sqlite_provision demo_iso_config (iso_tenant ''a'')) demo_iso) = Inr ()"
    by code_simp
  then show ?thesis
    using drivers_reprovision demo_iso_start(1) by (metis prod.collapse)
qed

end
