(* ===== verification/Quota.thy ===== *)
theory Quota
  imports Tenant_Model
begin

text \<open>
  services/quota_service.ts, its middleware and its admin controller. Redis is a
  record of operations on a state \<open>'w\<close>; \<open>redis_laws\<close> states its documented
  behaviour on the keys the service uses, through the view \<open>view w k\<close> of the
  counter kept under a key. Counters are integers and an undeclared limit is
  \<open>None\<close>, the code's Infinity. The date of the rolling key is an argument.
\<close>

section \<open>Plans\<close>

type_synonym limits = "(string \<times> int option) list"

record plans_config =
  defaultPlan :: string
  definitions :: "(string \<times> limits) list"
  getPlan :: "tenant \<Rightarrow> string option"

datatype quota_error =
    PlanNotDeclared string
  | QuotaExceeded string string "int option" int int
  | RedisFailed string

definition DEFAULT_FALLBACK :: plans_config where
  "DEFAULT_FALLBACK = \<lparr>defaultPlan = ''__default__'', definitions = [(''__default__'', [])], getPlan = \<lambda>t. None\<rparr>"

definition getPlanFor :: "plans_config option \<Rightarrow> tenant \<Rightarrow> quota_error + string \<times> limits" where
  "getPlanFor plans t =
     (let cfg = or_else plans DEFAULT_FALLBACK;
          resolved = or_else (getPlan cfg t) (defaultPlan cfg)
      in case map_of (definitions cfg) resolved of
           None \<Rightarrow> Inl (PlanNotDeclared resolved)
         | Some plan \<Rightarrow> Inr (resolved, plan))"

definition getLimit :: "plans_config option \<Rightarrow> tenant \<Rightarrow> string \<Rightarrow> quota_error + int option" where
  "getLimit plans t quota =
     (case getPlanFor plans t of
        Inl e \<Rightarrow> Inl e
      | Inr (n, plan) \<Rightarrow> Inr (case map_of plan quota of Some (Some v) \<Rightarrow> Some v | _ \<Rightarrow> None))"

section \<open>Redis\<close>

record 'w redis_ops =
  rq_get :: "string \<Rightarrow> 'w \<Rightarrow> (string + int option) \<times> 'w"
  rq_set :: "string \<Rightarrow> int \<Rightarrow> 'w \<Rightarrow> (string + unit) \<times> 'w"
  rq_incrby :: "string \<Rightarrow> int \<Rightarrow> 'w \<Rightarrow> (string + int) \<times> 'w"
  rq_expire :: "string \<Rightarrow> int \<Rightarrow> 'w \<Rightarrow> (string + unit) \<times> 'w"
  rq_del :: "string list \<Rightarrow> 'w \<Rightarrow> (string + unit) \<times> 'w"
  rq_scan :: "nat \<Rightarrow> string \<Rightarrow> 'w \<Rightarrow> (string + nat \<times> string list) \<times> 'w"

record 'w quota_state =
  q_redis :: 'w
  q_events :: "(string \<times> string \<times> int option \<times> int \<times> int) list"

type_synonym ('w, 'a) Q = "('w quota_state, quota_error, 'a) M"

definition redis :: "('w \<Rightarrow> (string + 'a) \<times> 'w) \<Rightarrow> ('w, 'a) Q" where
  "redis f = (\<lambda>s. case f (q_redis s) of
     (Inl m, w) \<Rightarrow> (Inl (RedisFailed m), s\<lparr>q_redis := w\<rparr>) | (Inr x, w) \<Rightarrow> (Inr x, s\<lparr>q_redis := w\<rparr>))"

definition liftQ :: "quota_error + 'a \<Rightarrow> ('w, 'a) Q" where
  "liftQ x = (case x of Inl e \<Rightarrow> throwM e | Inr v \<Rightarrow> returnM v)"

definition ROLLING_TTL_SECONDS :: int where
  "ROLLING_TTL_SECONDS = 60 * 60 * 48"

definition rollingKey :: "string \<Rightarrow> string \<Rightarrow> string \<Rightarrow> string" where
  "rollingKey today i quota = ''quota:'' @ i @ '':'' @ today @ '':'' @ quota"

definition snapshotKey :: "string \<Rightarrow> string \<Rightarrow> string" where
  "snapshotKey i quota = ''quota:'' @ i @ '':snap:'' @ quota"

section \<open>The service\<close>

text \<open>\<open>r\<close> is \<open>None\<close> when Redis cannot be loaded.\<close>

definition track :: "'w redis_ops option \<Rightarrow> string \<Rightarrow> tenant \<Rightarrow> string \<Rightarrow> int \<Rightarrow> ('w, int) Q" where
  "track r today t quota amount =
     (case r of
        None \<Rightarrow> returnM 0
      | Some ops \<Rightarrow>
          (let key = rollingKey today (t_id t) quota
           in bindM (redis (rq_incrby ops key amount)) (\<lambda>next.
                thenM (redis (rq_expire ops key ROLLING_TTL_SECONDS)) (returnM next))))"

definition setUsage :: "'w redis_ops option \<Rightarrow> tenant \<Rightarrow> string \<Rightarrow> int \<Rightarrow> ('w, unit) Q" where
  "setUsage r t quota value =
     (case r of None \<Rightarrow> returnM ()
      | Some ops \<Rightarrow> redis (rq_set ops (snapshotKey (t_id t) quota) (max 0 value)))"

definition getUsage :: "'w redis_ops option \<Rightarrow> string \<Rightarrow> tenant \<Rightarrow> string \<Rightarrow> ('w, int) Q" where
  "getUsage r today t quota =
     (case r of
        None \<Rightarrow> returnM 0
      | Some ops \<Rightarrow>
          bindM (redis (rq_get ops (rollingKey today (t_id t) quota))) (\<lambda>rolling.
            case rolling of
              Some n \<Rightarrow> returnM n
            | None \<Rightarrow>
                bindM (redis (rq_get ops (snapshotKey (t_id t) quota))) (\<lambda>snap.
                  returnM (or_else snap 0))))"

record check_result =
  allowed :: bool
  current :: int
  limit :: "int option"
  attempted :: int

definition check ::
  "plans_config option \<Rightarrow> 'w redis_ops option \<Rightarrow> string \<Rightarrow> tenant \<Rightarrow> string \<Rightarrow> int \<Rightarrow> ('w, check_result) Q"
where
  "check plans r today t quota amount =
     bindM (liftQ (getLimit plans t quota)) (\<lambda>lim.
       bindM (getUsage r today t quota) (\<lambda>cur.
         returnM \<lparr>allowed = (case lim of None \<Rightarrow> True | Some l \<Rightarrow> cur + amount \<le> l),
                  current = cur, limit = lim, attempted = amount\<rparr>))"

definition consume ::
  "plans_config option \<Rightarrow> 'w redis_ops option \<Rightarrow> string \<Rightarrow> tenant \<Rightarrow> string \<Rightarrow> int \<Rightarrow> ('w, int) Q"
where
  "consume plans r today t quota amount =
     bindM (check plans r today t quota amount) (\<lambda>res.
       if \<not> allowed res
       then thenM (modM (\<lambda>s. s\<lparr>q_events := q_events s @ [(t_id t, quota, limit res, current res, amount)]\<rparr>))
              (throwM (QuotaExceeded (t_id t) quota (limit res) (current res) amount))
       else track r today t quota amount)"

definition quota_snapshot ::
  "plans_config option \<Rightarrow> 'w redis_ops option \<Rightarrow> string \<Rightarrow> tenant \<Rightarrow>
   ('w, string \<times> limits \<times> (string \<times> int) list) Q"
where
  "quota_snapshot plans r today t =
     bindM (liftQ (getPlanFor plans t)) (\<lambda>(name, plan).
       bindM (mapM (map fst plan) (\<lambda>quota. bindM (getUsage r today t quota) (\<lambda>u. returnM (quota, u))))
         (\<lambda>usage. returnM (name, plan, usage)))"

text \<open>The scan loop, with fuel: \<open>None\<close> when the cursor has not come back to zero in time.\<close>

fun scan_loop :: "'w redis_ops \<Rightarrow> nat \<Rightarrow> string \<Rightarrow> nat \<Rightarrow> string list \<Rightarrow> ('w, string list option) Q" where
  "scan_loop ops 0 pattern cursor pending = returnM None"
| "scan_loop ops (Suc fuel) pattern cursor pending =
     bindM (redis (rq_scan ops cursor pattern)) (\<lambda>(next, batch).
       if next = 0 then returnM (Some (pending @ batch))
       else scan_loop ops fuel pattern next (pending @ batch))"

definition reset_quota ::
  "'w redis_ops option \<Rightarrow> nat \<Rightarrow> string \<Rightarrow> tenant \<Rightarrow> string option \<Rightarrow> ('w, unit option) Q"
where
  "reset_quota r fuel today t quota =
     (case r of
        None \<Rightarrow> returnM (Some ())
      | Some ops \<Rightarrow>
          if quota \<noteq> None \<and> quota \<noteq> Some []
          then thenM (redis (rq_del ops [rollingKey today (t_id t) (the quota)]))
                 (thenM (redis (rq_del ops [snapshotKey (t_id t) (the quota)])) (returnM (Some ())))
          else bindM (scan_loop ops fuel (''quota:'' @ t_id t @ '':*'') 0 []) (\<lambda>found.
                 case found of
                   None \<Rightarrow> returnM None
                 | Some pending \<Rightarrow>
                     if pending = [] then returnM (Some ())
                     else thenM (redis (rq_del ops pending)) (returnM (Some ()))))"

section \<open>The middleware and the controller\<close>

definition enforceQuota ::
  "plans_config option \<Rightarrow> 'w redis_ops option \<Rightarrow> string \<Rightarrow> string \<Rightarrow> int option \<Rightarrow> bool option \<Rightarrow>
   ('w, tenant) Q \<Rightarrow> ('w, 'a) Q \<Rightarrow> ('w, 'a) Q"
where
  "enforceQuota plans r today quota amount enforce tenant_of nxt =
     bindM tenant_of (\<lambda>t.
       thenM (if enforce \<noteq> Some False
              then thenM (consume plans r today t quota (or_else amount 1)) (returnM ())
              else thenM (track r today t quota (or_else amount 1)) (returnM ()))
         nxt)"

datatype quota_reply =
    QNotFound
  | QOk
  | QUnavailable bool
  | QBadRequest string

text \<open>The numeric \<open>value\<close> of the request, \<open>None\<close> when it is not a finite number.\<close>

definition quotas_setUsage ::
  "'w redis_ops option \<Rightarrow> tenant option \<Rightarrow> string option \<Rightarrow> int option \<Rightarrow> ('w, quota_reply) Q"
where
  "quotas_setUsage r loaded quota value =
     (case loaded of
        None \<Rightarrow> returnM QNotFound
      | Some t \<Rightarrow>
          (case quota of
             None \<Rightarrow> returnM (QBadRequest ''quota_required'')
           | Some q \<Rightarrow>
               if js_trim q = [] then returnM (QBadRequest ''quota_required'')
               else (case value of
                       None \<Rightarrow> returnM (QBadRequest ''value_must_be_non_negative_number'')
                     | Some v \<Rightarrow>
                         if v < 0 then returnM (QBadRequest ''value_must_be_non_negative_number'')
                         else thenM (setUsage r t q v) (returnM QOk))))"

definition quotas_show ::
  "plans_config option \<Rightarrow> 'w redis_ops option \<Rightarrow> string \<Rightarrow> tenant option \<Rightarrow> ('w, quota_reply) Q"
where
  "quotas_show plans r today loaded =
     (case loaded of
        None \<Rightarrow> returnM QNotFound
      | Some t \<Rightarrow>
          catchM (thenM (quota_snapshot plans r today t) (returnM QOk))
            (\<lambda>err. returnM (QUnavailable (case err of PlanNotDeclared p \<Rightarrow> True | _ \<Rightarrow> False))))"

definition quotas_reset ::
  "'w redis_ops option \<Rightarrow> nat \<Rightarrow> string \<Rightarrow> tenant option \<Rightarrow> string option \<Rightarrow> ('w, quota_reply) Q"
where
  "quotas_reset r fuel today loaded quota =
     (case loaded of
        None \<Rightarrow> returnM QNotFound
      | Some t \<Rightarrow>
          thenM (reset_quota r fuel today t
                  (case quota of None \<Rightarrow> None | Some q \<Rightarrow> if js_trim q = [] then None else Some q))
            (returnM QOk))"

section \<open>What Redis promises\<close>

definition redis_laws :: "'w redis_ops \<Rightarrow> ('w \<Rightarrow> string \<Rightarrow> int option) \<Rightarrow> bool" where
  "redis_laws ops view \<longleftrightarrow>
     (\<forall>k w. rq_get ops k w = (Inr (view w k), w)) \<and>
     (\<forall>k v w. \<exists>w'. rq_set ops k v w = (Inr (), w') \<and> view w' = (view w)(k := Some v)) \<and>
     (\<forall>k a w. \<exists>w'. rq_incrby ops k a w = (Inr (or_else (view w k) 0 + a), w') \<and>
        view w' = (view w)(k := Some (or_else (view w k) 0 + a))) \<and>
     (\<forall>k s w. \<exists>w'. rq_expire ops k s w = (Inr (), w') \<and> view w' = view w) \<and>
     (\<forall>ks w. \<exists>w'. rq_del ops ks w = (Inr (), w') \<and> view w' = (\<lambda>k. if k \<in> set ks then None else view w k))"

definition usage :: "('w \<Rightarrow> string \<Rightarrow> int option) \<Rightarrow> string \<Rightarrow> tenant \<Rightarrow> string \<Rightarrow> 'w \<Rightarrow> int" where
  "usage view today t quota w =
     (case view w (rollingKey today (t_id t) quota) of
        Some n \<Rightarrow> n
      | None \<Rightarrow> or_else (view w (snapshotKey (t_id t) quota)) 0)"

lemma keys_differ: "today \<noteq> ''snap'' \<Longrightarrow> CHR '':'' \<notin> set today \<Longrightarrow> rollingKey today i q \<noteq> snapshotKey i q'"
proof -
  assume t: "today \<noteq> ''snap''" "CHR '':'' \<notin> set today"
  show ?thesis
  proof
    assume "rollingKey today i q = snapshotKey i q'"
    then have "today @ CHR '':'' # q = ''snap'' @ CHR '':'' # q'"
      by (simp add: rollingKey_def snapshotKey_def)
    then have "today = ''snap''" using slash_split [OF t(2), of "''snap''"] by simp
    then show False using t(1) by simp
  qed
qed

lemma run_getUsage:
  assumes "redis_laws ops view"
  shows "getUsage (Some ops) today t quota s = (Inr (usage view today t quota (q_redis s)), s)"
  using assms
  by (auto simp add: getUsage_def run_simps redis_def usage_def redis_laws_def split: option.splits)

lemma run_track:
  assumes "redis_laws ops view"
  shows "\<exists>w'. track (Some ops) today t quota a s =
      (Inr (or_else (view (q_redis s) (rollingKey today (t_id t) quota)) 0 + a), s\<lparr>q_redis := w'\<rparr>) \<and>
    view w' = (view (q_redis s))(rollingKey today (t_id t) quota :=
      Some (or_else (view (q_redis s) (rollingKey today (t_id t) quota)) 0 + a))"
proof -
  let ?k = "rollingKey today (t_id t) quota"
  obtain w1 where w1: "rq_incrby ops ?k a (q_redis s) = (Inr (or_else (view (q_redis s) ?k) 0 + a), w1)"
    "view w1 = (view (q_redis s))(?k := Some (or_else (view (q_redis s) ?k) 0 + a))"
    using assms unfolding redis_laws_def by blast
  obtain w2 where w2: "rq_expire ops ?k ROLLING_TTL_SECONDS w1 = (Inr (), w2)" "view w2 = view w1"
    using assms unfolding redis_laws_def by blast
  show ?thesis
    using w1 w2 by (auto simp add: track_def Let_def run_simps redis_def)
qed

lemma usage_after_track:
  assumes "redis_laws ops view" and "track (Some ops) today t quota a s = (r, s')"
    and "view (q_redis s) (rollingKey today (t_id t) quota) \<noteq> None \<or>
         view (q_redis s) (snapshotKey (t_id t) quota) = None"
  shows "usage view today t quota (q_redis s') = usage view today t quota (q_redis s) + a \<and>
    r = Inr (usage view today t quota (q_redis s) + a)"
  using run_track [OF assms(1), of today t quota a s] assms(2,3)
  by (auto simp add: usage_def or_else_def split: option.splits)

section \<open>Properties\<close>

definition consume_many ::
  "plans_config option \<Rightarrow> 'w redis_ops option \<Rightarrow> string \<Rightarrow> tenant \<Rightarrow> string \<Rightarrow> int list \<Rightarrow> 'w quota_state \<Rightarrow> 'w quota_state"
where
  "consume_many plans r today t quota amounts s =
     fold (\<lambda>a s. snd (consume plans r today t quota a s)) amounts s"

lemma run_consume:
  assumes "redis_laws ops view" "getLimit plans t quota = Inr (Some l)"
  shows "consume plans (Some ops) today t quota a s =
    (if usage view today t quota (q_redis s) + a \<le> l then track (Some ops) today t quota a s
     else (Inl (QuotaExceeded (t_id t) quota (Some l) (usage view today t quota (q_redis s)) a),
           s\<lparr>q_events := q_events s @ [(t_id t, quota, Some l, usage view today t quota (q_redis s), a)]\<rparr>))"
  using run_getUsage [OF assms(1), of today t quota s] assms(2)
  by (simp add: consume_def check_def run_simps liftQ_def)

text \<open>
  C6. A rolling quota (one without a snapshot value) is never exceeded: whatever
  sequence of amounts a tenant asks for, admitted or refused, the recorded usage
  stays within the plan's limit if it started there.
\<close>

theorem rolling_quota_never_exceeded:
  assumes "redis_laws ops view" and "getLimit plans t quota = Inr (Some l)"
    and "usage view today t quota (q_redis s) \<le> l"
    and "today \<noteq> ''snap''" and "CHR '':'' \<notin> set today"
    and "view (q_redis s) (snapshotKey (t_id t) quota) = None"
  shows "usage view today t quota (q_redis (consume_many plans (Some ops) today t quota amounts s)) \<le> l"
proof -
  have "usage view today t quota (q_redis (consume_many plans (Some ops) today t quota as s)) \<le> l"
    if "usage view today t quota (q_redis s) \<le> l" "view (q_redis s) (snapshotKey (t_id t) quota) = None" for as s
    using that
  proof (induction as arbitrary: s)
    case Nil
    then show ?case by (simp add: consume_many_def)
  next
    case (Cons a as)
    let ?s' = "snd (consume plans (Some ops) today t quota a s)"
    have "usage view today t quota (q_redis ?s') \<le> l \<and> view (q_redis ?s') (snapshotKey (t_id t) quota) = None"
    proof (cases "usage view today t quota (q_redis s) + a \<le> l")
      case True
      obtain w' where w': "track (Some ops) today t quota a s =
          (Inr (or_else (view (q_redis s) (rollingKey today (t_id t) quota)) 0 + a), s\<lparr>q_redis := w'\<rparr>)"
        "view w' = (view (q_redis s))(rollingKey today (t_id t) quota :=
          Some (or_else (view (q_redis s) (rollingKey today (t_id t) quota)) 0 + a))"
        using run_track [OF assms(1)] by blast
      have "usage view today t quota w' = usage view today t quota (q_redis s) + a"
        using usage_after_track [OF assms(1) w'(1)] Cons.prems(2) by simp
      then show ?thesis
        using True w' Cons.prems(2) not_sym [OF keys_differ [OF assms(4,5), of "t_id t" quota quota]]
        by (simp add: run_consume [OF assms(1,2)])
    next
      case False
      then show ?thesis using Cons.prems by (simp add: run_consume [OF assms(1,2)])
    qed
    then show ?case using Cons.IH [of ?s'] by (simp add: consume_many_def)
  qed
  then show ?thesis using assms(3,6) by blast
qed

definition map_redis :: "(string, int) jmap redis_ops" where
  "map_redis = \<lparr>rq_get = \<lambda>k w. (Inr (jm_get k w), w), rq_set = \<lambda>k v w. (Inr (), jm_set k v w),
     rq_incrby = \<lambda>k a w. (Inr (or_else (jm_get k w) 0 + a), jm_set k (or_else (jm_get k w) 0 + a) w),
     rq_expire = \<lambda>k s w. (Inr (), w), rq_del = \<lambda>ks w. (Inr (), fold jm_delete ks w),
     rq_scan = \<lambda>c p w. (Inr (0, jm_keys w), w)\<rparr>"

lemma fold_delete: "jm_get k (fold jm_delete ks m) = (if k \<in> set ks then None else jm_get k m)"
  by (induction ks arbitrary: m) (auto simp add: js_map.get_del)

lemma map_redis_laws: "redis_laws map_redis (\<lambda>w k. jm_get k w)"
  unfolding redis_laws_def map_redis_def
  by (auto simp add: fun_eq_iff js_map.get_put fold_delete)

definition demo_plans :: plans_config where
  "demo_plans = \<lparr>defaultPlan = ''free'', definitions = [(''free'', [(''calls'', Some 3)])], getPlan = \<lambda>t. None\<rparr>"

definition quota_tenant :: tenant where
  "quota_tenant = \<lparr>t_id = ''a'', t_name = ''n'', t_email = ''e'', t_status = active, t_customDomain = None,
     t_createdAt = 0, t_deletedAt = None, t_maintenance = False, t_maintenanceMessage = None\<rparr>"

lemma demo_limit: "getLimit (Some demo_plans) quota_tenant ''calls'' = Inr (Some 3)"
  by code_simp

theorem rolling_quota_never_exceeded_witness:
  "usage (\<lambda>w k. jm_get k w) ''d'' quota_tenant ''calls''
     (q_redis (consume_many (Some demo_plans) (Some map_redis) ''d'' quota_tenant ''calls'' [2, 5, 1]
        \<lparr>q_redis = [], q_events = []\<rparr>)) \<le> 3"
  by (rule rolling_quota_never_exceeded [OF map_redis_laws demo_limit])
     (simp_all add: usage_def or_else_def)

text \<open>
  A refused consume changes no counter: it throws the quota exception with
  the limit, the usage and the attempted amount, and dispatches exactly one
  event carrying the same values; an admitted one dispatches none.
\<close>

theorem consume_outcome:
  assumes "redis_laws ops view" and "getLimit plans t quota = Inr (Some l)"
  shows "if usage view today t quota (q_redis s) + a \<le> l
     then \<exists>n s'. consume plans (Some ops) today t quota a s = (Inr n, s') \<and> q_events s' = q_events s
     else consume plans (Some ops) today t quota a s =
       (Inl (QuotaExceeded (t_id t) quota (Some l) (usage view today t quota (q_redis s)) a),
        s\<lparr>q_events := q_events s @ [(t_id t, quota, Some l, usage view today t quota (q_redis s), a)]\<rparr>)"
  using run_consume [OF assms, of today a s] run_track [OF assms(1), of today t quota a s] by auto

theorem consume_outcome_witness:
  "consume (Some demo_plans) (Some map_redis) ''d'' quota_tenant ''calls'' 5 \<lparr>q_redis = [], q_events = []\<rparr> =
     (Inl (QuotaExceeded ''a'' ''calls'' (Some 3) 0 5), \<lparr>q_redis = [], q_events = [(''a'', ''calls'', Some 3, 0, 5)]\<rparr>)"
  using consume_outcome [OF map_redis_laws demo_limit, of "''d''" "\<lparr>q_redis = [], q_events = []\<rparr>" 5]
  by (simp add: usage_def or_else_def quota_tenant_def)

text \<open>
  Consuming a snapshot quota loses the reported value: when a quota has a
  snapshot and no rolling counter of today, an admitted consume creates the
  rolling counter, which every later reading prefers, so the usage falls from
  snapshot to the amount just consumed.
\<close>

theorem consume_shadows_snapshot:
  assumes "redis_laws ops view" and "getLimit plans t quota = Inr (Some l)"
    and "view (q_redis s) (rollingKey today (t_id t) quota) = None"
    and "view (q_redis s) (snapshotKey (t_id t) quota) = Some n" and "n + a \<le> l"
  shows "\<exists>s'. consume plans (Some ops) today t quota a s = (Inr a, s') \<and>
     usage view today t quota (q_redis s) = n \<and> usage view today t quota (q_redis s') = a"
proof -
  obtain w' where w': "track (Some ops) today t quota a s = (Inr (0 + a), s\<lparr>q_redis := w'\<rparr>)"
    "view w' = (view (q_redis s))(rollingKey today (t_id t) quota := Some (0 + a))"
    using run_track [OF assms(1), of today t quota a s] assms(3) by (auto simp add: or_else_def)
  have "usage view today t quota (q_redis s) = n"
    using assms(3,4) by (simp add: usage_def or_else_def)
  then show ?thesis
    using w' assms(5) run_consume [OF assms(1,2), of today a s] by (simp add: usage_def)
qed

theorem consume_shadows_snapshot_witness:
  "\<exists>s'. consume (Some demo_plans) (Some map_redis) ''d'' quota_tenant ''calls'' 1
       \<lparr>q_redis = [(''quota:a:snap:calls'', 2)], q_events = []\<rparr> = (Inr 1, s') \<and>
     usage (\<lambda>w k. jm_get k w) ''d'' quota_tenant ''calls'' [(''quota:a:snap:calls'', 2)] = 2 \<and>
     usage (\<lambda>w k. jm_get k w) ''d'' quota_tenant ''calls'' (q_redis s') = 1"
  using consume_shadows_snapshot [OF map_redis_laws demo_limit,
      where s = "\<lparr>q_redis = [(''quota:a:snap:calls'', 2)], q_events = []\<rparr>" and today = "''d''" and n = 2 and a = 1]
  by (simp add: rollingKey_def snapshotKey_def quota_tenant_def)

end
