(* ===== verification/Scoping.thy ===== *)
theory Scoping
  imports Resolvers
begin

text \<open>
  models/scoping.ts and models/adapters/tenant_adapter.ts: the mixin that confines
  Lucid models to the current tenant under row scoping, and the adapter that
  picks the connection of the current tenant. A query is a value of type \<open>'q\<close>
  and \<open>where_op col v q\<close> is Lucid's \<open>query.where(col, v)\<close>.
\<close>

section \<open>The scope a model runs in\<close>

text \<open>
  \<open>sc_mode\<close> is \<open>None\<close> when the configuration cannot be read, otherwise the
  value of \<open>isolation.rowScopeMode\<close>, if set.
\<close>

record scope_ctx =
  sc_bypass :: bool
  sc_currentId :: "string option"
  sc_mode :: "string option option"

datatype scope_exception =
    MissingTenantScope string
  | RefusedUpdate string string
  | RefusedDelete string string

definition unscoped :: "(scope_ctx \<Rightarrow> 'a) \<Rightarrow> scope_ctx \<Rightarrow> 'a" where
  "unscoped fn c = fn (c\<lparr>sc_bypass := True\<rparr>)"

definition isScopeBypassed :: "scope_ctx \<Rightarrow> bool" where
  "isScopeBypassed c = sc_bypass c"

definition isStrictScope :: "scope_ctx \<Rightarrow> bool" where
  "isStrictScope c =
     (case sc_mode c of None \<Rightarrow> False | Some m \<Rightarrow> or_else m ''strict'' = ''strict'')"

definition requireScope :: "scope_ctx \<Rightarrow> string \<Rightarrow> scope_exception + string option" where
  "requireScope c action =
     (if isScopeBypassed c then Inr None
      else (case (case sc_currentId c of Some i \<Rightarrow> if i = [] then None else Some i | None \<Rightarrow> None) of
              Some i \<Rightarrow> Inr (Some i)
            | None \<Rightarrow> if isStrictScope c then Inl (MissingTenantScope action) else Inr None))"

section \<open>The hooks of a scoped model\<close>

definition scope_query ::
  "(string \<Rightarrow> string \<Rightarrow> 'q \<Rightarrow> 'q) \<Rightarrow> string \<Rightarrow> string \<Rightarrow> scope_ctx \<Rightarrow> 'q \<Rightarrow> scope_exception + 'q"
where
  "scope_query where_op column action c q =
     (case requireScope c action of
        Inl e \<Rightarrow> Inl e
      | Inr None \<Rightarrow> Inr q
      | Inr (Some i) \<Rightarrow> Inr (where_op column i q))"

definition before_find where "before_find w col = scope_query w col ''find''"
definition before_fetch where "before_fetch w col = scope_query w col ''fetch''"

text \<open>The wrapped static \<open>query()\<close>: \<open>fresh\<close> is the builder the original returns.\<close>

definition tenantScopedQuery where "tenantScopedQuery w col = scope_query w col ''query''"

definition before_paginate ::
  "(string \<Rightarrow> string \<Rightarrow> 'q \<Rightarrow> 'q) \<Rightarrow> string \<Rightarrow> scope_ctx \<Rightarrow> 'q \<times> 'q \<Rightarrow> scope_exception + 'q \<times> 'q"
where
  "before_paginate where_op column c qs =
     (case requireScope c ''paginate'' of
        Inl e \<Rightarrow> Inl e
      | Inr None \<Rightarrow> Inr qs
      | Inr (Some i) \<Rightarrow> Inr (where_op column i (fst qs), where_op column i (snd qs)))"

text \<open>A model's tenant column: not set, null, or a value.\<close>

datatype col_value = Undefined | Null | Val string

definition before_create :: "scope_ctx \<Rightarrow> col_value \<Rightarrow> scope_exception + col_value" where
  "before_create c v =
     (case requireScope c ''create'' of
        Inl e \<Rightarrow> Inl e
      | Inr None \<Rightarrow> Inr v
      | Inr (Some i) \<Rightarrow> Inr (if v = Undefined \<or> v = Null then Val i else v))"

definition show_col :: "col_value \<Rightarrow> string" where
  "show_col v = (case v of Undefined \<Rightarrow> ''undefined'' | Null \<Rightarrow> ''null'' | Val s \<Rightarrow> s)"

definition before_update :: "scope_ctx \<Rightarrow> col_value \<Rightarrow> scope_exception + unit" where
  "before_update c v =
     (case requireScope c ''update'' of
        Inl e \<Rightarrow> Inl e
      | Inr None \<Rightarrow> Inr ()
      | Inr (Some i) \<Rightarrow>
          if v \<noteq> Undefined \<and> v \<noteq> Val i then Inl (RefusedUpdate (show_col v) i) else Inr ())"

definition before_delete :: "scope_ctx \<Rightarrow> col_value \<Rightarrow> scope_exception + unit" where
  "before_delete c v =
     (case requireScope c ''delete'' of
        Inl e \<Rightarrow> Inl e
      | Inr None \<Rightarrow> Inr ()
      | Inr (Some i) \<Rightarrow>
          if v \<noteq> Undefined \<and> v \<noteq> Val i then Inl (RefusedDelete (show_col v) i) else Inr ())"

section \<open>The adapter\<close>

datatype client = GivenClient string | Connection string

datatype adapter_error = NoTenant | DriverRefused string

definition adapter_tenantId ::
  "string option \<Rightarrow> (resolver_config \<times> http_request) option \<Rightarrow> adapter_error + string"
where
  "adapter_tenantId fromTenancy http =
     (case (case fromTenancy of Some i \<Rightarrow> if i = [] then None else Some i | None \<Rightarrow> None) of
        Some i \<Rightarrow> Inr i
      | None \<Rightarrow>
          (case http of
             None \<Rightarrow> Inl NoTenant
           | Some (cfg, req) \<Rightarrow>
               (case legacyResolveTenantId cfg req of
                  None \<Rightarrow> Inl NoTenant
                | Some i \<Rightarrow> if isUuidV4 i then Inr i else Inl NoTenant)))"

text \<open>\<open>conn_name\<close> is the active driver's \<open>connectionName\<close>.\<close>

definition modelConstructorClient ::
  "(string \<Rightarrow> string + string) \<Rightarrow> string option \<Rightarrow> (resolver_config \<times> http_request) option \<Rightarrow>
   string option \<Rightarrow> string option \<Rightarrow> string option \<Rightarrow> adapter_error + client"
where
  "modelConstructorClient conn_name fromTenancy http opt_client opt_connection model_connection =
     (case opt_client of
        Some cl \<Rightarrow> Inr (GivenClient cl)
      | None \<Rightarrow>
          (case (case truthy opt_connection of Some n \<Rightarrow> Some n | None \<Rightarrow> truthy model_connection) of
             Some n \<Rightarrow> Inr (Connection n)
           | None \<Rightarrow>
               (case adapter_tenantId fromTenancy http of
                  Inl e \<Rightarrow> Inl e
                | Inr i \<Rightarrow> (case conn_name i of
                              Inl e \<Rightarrow> Inl (DriverRefused e) | Inr n \<Rightarrow> Inr (Connection n)))))"

section \<open>Properties\<close>

text \<open>
  What Lucid's \<open>where\<close> promises on a row: the row matches afterwards only if its
  column has the value and it matched before.
\<close>

definition where_narrows :: "(string \<Rightarrow> string \<Rightarrow> 'q \<Rightarrow> 'q) \<Rightarrow> ('q \<Rightarrow> 'r \<Rightarrow> bool) \<Rightarrow> ('r \<Rightarrow> string \<Rightarrow> string) \<Rightarrow> bool" where
  "where_narrows where_op matches col_of \<longleftrightarrow>
     (\<forall>col v q row. matches (where_op col v q) row \<longleftrightarrow> matches q row \<and> col_of row col = v)"

lemma requireScope_cases:
  "isStrictScope c \<Longrightarrow> \<not> sc_bypass c \<Longrightarrow>
   requireScope c action = (case truthy (sc_currentId c) of
     Some i \<Rightarrow> Inr (Some i) | None \<Rightarrow> Inl (MissingTenantScope action))"
  by (auto simp add: requireScope_def isScopeBypassed_def truthy_def split: option.splits)


definition demo_where :: "string \<Rightarrow> string \<Rightarrow> (string \<times> string) list \<Rightarrow> (string \<times> string) list" where
  "demo_where col v q = (col, v) # q"

definition demo_matches :: "(string \<times> string) list \<Rightarrow> (string \<Rightarrow> string) \<Rightarrow> bool" where
  "demo_matches q row = list_all (\<lambda>(c, v). row c = v) q"


text \<open>
  Under a current tenant, updating or deleting a row of another tenant is
  refused and creating one without an owner makes it that tenant's.
\<close>

theorem scoped_writes_keep_ownership:
  assumes "truthy (sc_currentId c) = Some i" and "\<not> sc_bypass c"
  shows "(before_update c v = Inr () \<longleftrightarrow> v = Undefined \<or> v = Val i) \<and>
     (before_delete c v = Inr () \<longleftrightarrow> v = Undefined \<or> v = Val i) \<and>
     before_create c Undefined = Inr (Val i) \<and> before_create c Null = Inr (Val i)"
  using assms
  by (auto simp add: before_update_def before_delete_def before_create_def requireScope_def
      isScopeBypassed_def truthy_def split: option.splits if_splits)

theorem scoped_writes_keep_ownership_witness:
  "before_update \<lparr>sc_bypass = False, sc_currentId = Some ''a'', sc_mode = None\<rparr> (Val ''b'') \<noteq> Inr ()"
  using scoped_writes_keep_ownership [of "\<lparr>sc_bypass = False, sc_currentId = Some ''a'', sc_mode = None\<rparr>" "''a''" "Val ''b''"]
  by (simp add: truthy_def)

text \<open>Creation keeps an owner already set, also another tenant's, where update and delete refuse.\<close>

lemma create_accepts_foreign_owner:
  "before_create \<lparr>sc_bypass = False, sc_currentId = Some ''a'', sc_mode = Some None\<rparr> (Val ''b'') = Inr (Val ''b'')"
  by code_simp

end
