(* ===== verification/Runtime.thy ===== *)
theory Runtime
  imports Tenant_Model "HOL-Library.Word" "HOL-Library.Multiset"
begin

text \<open>
  The per-tenant runtime services: services/tenant_queue_service.ts (BullMQ
  queues), services/circuit_breaker_service.ts (opossum breakers with their
  state persisted in Redis) and services/read_replica_service.ts (the choice of
  a replica and its connection). BullMQ, opossum, Redis, SHA-1, the random
  generator and the driver's \<open>connect\<close> are parameters, records of operations
  whose documented behaviour the \<open>_laws\<close> definitions state.
\<close>

section \<open>Redis as a keyed store\<close>

record 'r kv =
  kv_get :: "string \<Rightarrow> ('r, string, string option) M"
  kv_setex :: "string \<Rightarrow> nat \<Rightarrow> string \<Rightarrow> ('r, string, unit) M"
  kv_del :: "string \<Rightarrow> ('r, string, unit) M"

definition kv_laws :: "'r kv \<Rightarrow> bool" where
  "kv_laws k \<longleftrightarrow>
     (\<forall>i j r. fst (kv_get k j (snd (kv_get k i r))) = fst (kv_get k j r)) \<and>
     (\<forall>i j t v r r'. kv_setex k i t v r = (Inr (), r') \<longrightarrow>
        fst (kv_get k j r') = (if j = i then Inr (Some v) else fst (kv_get k j r))) \<and>
     (\<forall>i j r r'. kv_del k i r = (Inr (), r') \<longrightarrow>
        fst (kv_get k j r') = (if j = i then Inr None else fst (kv_get k j r))) \<and>
     (\<forall>i j t v r e r'. kv_setex k i t v r = (Inl e, r') \<longrightarrow> fst (kv_get k j r') = fst (kv_get k j r)) \<and>
     (\<forall>i j r e r'. kv_del k i r = (Inl e, r') \<longrightarrow> fst (kv_get k j r') = fst (kv_get k j r))"

text \<open>\<open>.catch(() => {})\<close>\<close>

definition swallow :: "('s, 'e, unit) M \<Rightarrow> ('s, 'e, unit) M" where
  "swallow m = catchM m (\<lambda>_. returnM ())"

lemma swallow_run [run_simps]: "swallow m s = (Inr (), snd (m s))"
  by (auto simp add: swallow_def run_simps split: prod.splits sum.splits)

section \<open>Tenant queues\<close>

record queue_opts =
  qo_attempts :: nat
  qo_removeOnComplete :: nat
  qo_removeOnFail :: nat

record 'w bull =
  bq_open :: "string \<Rightarrow> queue_opts \<Rightarrow> 'w \<Rightarrow> 'w"
  bq_counts :: "string \<Rightarrow> ('w, string, string \<Rightarrow> nat option) M"
  bq_add :: "string \<Rightarrow> string \<Rightarrow> string \<Rightarrow> ('w, string, unit) M"
  bq_obliterate :: "string \<Rightarrow> ('w, string, unit) M"
  bq_close :: "string \<Rightarrow> ('w, string, unit) M"

text \<open>What happens to one queue does not change the counts of another.\<close>

definition bull_laws :: "'w bull \<Rightarrow> bool" where
  "bull_laws b \<longleftrightarrow>
     (\<forall>n m w. n \<noteq> m \<longrightarrow>
        (\<forall>opt. fst (bq_counts b m (bq_open b n opt w)) = fst (bq_counts b m w)) \<and>
        (\<forall>j p. fst (bq_counts b m (snd (bq_add b n j p w))) = fst (bq_counts b m w)) \<and>
        fst (bq_counts b m (snd (bq_obliterate b n w))) = fst (bq_counts b m w) \<and>
        fst (bq_counts b m (snd (bq_close b n w))) = fst (bq_counts b m w))"

record 'w queue_service =
  queues :: "(string, string) jmap"
  bullw :: 'w

record queue_config =
  queuePrefix :: string
  queueAttempts :: nat

record TenantQueueStats =
  qs_tenantId :: string
  qs_queueName :: string
  qs_waiting :: nat
  qs_active :: nat
  qs_completed :: nat
  qs_failed :: nat
  qs_delayed :: nat

definition on_bull :: "('w, string, 'a) M \<Rightarrow> ('w queue_service, string, 'a) M" where
  "on_bull m = (\<lambda>s. case m (bullw s) of (r, w) \<Rightarrow> (r, s\<lparr>bullw := w\<rparr>))"

definition new_queue_service :: "'w \<Rightarrow> 'w queue_service" where
  "new_queue_service w = \<lparr>queues = [], bullw = w\<rparr>"

definition getQueueName :: "queue_config \<Rightarrow> string \<Rightarrow> string" where
  "getQueueName cfg tenantId = queuePrefix cfg @ tenantId"

definition queue_getOrCreate :: "'w bull \<Rightarrow> queue_config \<Rightarrow> string \<Rightarrow> ('w queue_service, string, string) M" where
  "queue_getOrCreate b cfg tenantId = (\<lambda>s.
     case jm_get tenantId (queues s) of
       Some q \<Rightarrow> (Inr q, s)
     | None \<Rightarrow>
         let q = getQueueName cfg tenantId
         in (Inr q, s\<lparr>bullw := bq_open b q
                        \<lparr>qo_attempts = queueAttempts cfg, qo_removeOnComplete = 100, qo_removeOnFail = 100\<rparr> (bullw s),
                      queues := jm_set tenantId q (queues s)\<rparr>))"

definition queue_getStats :: "'w bull \<Rightarrow> queue_config \<Rightarrow> string \<Rightarrow> ('w queue_service, string, TenantQueueStats) M" where
  "queue_getStats b cfg tenantId =
     bindM (queue_getOrCreate b cfg tenantId) (\<lambda>q.
     bindM (on_bull (bq_counts b q)) (\<lambda>counts.
       returnM \<lparr>qs_tenantId = tenantId, qs_queueName = getQueueName cfg tenantId,
         qs_waiting = or_else (counts ''waiting'') 0, qs_active = or_else (counts ''active'') 0,
         qs_completed = or_else (counts ''completed'') 0, qs_failed = or_else (counts ''failed'') 0,
         qs_delayed = or_else (counts ''delayed'') 0\<rparr>))"

definition queue_getAllStats :: "'w bull \<Rightarrow> queue_config \<Rightarrow> ('w queue_service, string, TenantQueueStats list) M" where
  "queue_getAllStats b cfg = bindM (getM (\<lambda>s. jm_keys (queues s))) (\<lambda>ids. mapM ids (queue_getStats b cfg))"

definition queue_dispatch ::
  "'w bull \<Rightarrow> queue_config \<Rightarrow> string \<Rightarrow> string \<Rightarrow> string \<Rightarrow> ('w queue_service, string, unit) M"
where
  "queue_dispatch b cfg tenantId jobName payload =
     bindM (queue_getOrCreate b cfg tenantId) (\<lambda>q. on_bull (bq_add b q jobName payload))"

definition queue_destroy :: "'w bull \<Rightarrow> string \<Rightarrow> ('w queue_service, string, unit) M" where
  "queue_destroy b tenantId = bindM (getM (\<lambda>s. jm_get tenantId (queues s))) (\<lambda>q.
     case q of
       None \<Rightarrow> returnM ()
     | Some n \<Rightarrow>
         finallyM (swallow (thenM (on_bull (bq_obliterate b n)) (on_bull (bq_close b n))))
           (modM (\<lambda>s. s\<lparr>queues := jm_delete tenantId (queues s)\<rparr>)))"

section \<open>Circuit breakers\<close>

datatype CircuitState = CLOSED | OPEN | HALF_OPEN

fun state_name :: "CircuitState \<Rightarrow> string" where
  "state_name CLOSED = ''CLOSED''"
| "state_name OPEN = ''OPEN''"
| "state_name HALF_OPEN = ''HALF_OPEN''"

record breaker_config =
  cbThreshold :: nat
  cbResetTimeout :: nat
  cbRollingCountTimeout :: nat
  cbVolumeThreshold :: nat
  cbConnPrefix :: string

record breaker_opts =
  bo_probe :: string
  bo_timeout :: nat
  bo_threshold :: nat
  bo_resetTimeout :: nat
  bo_rollingCountTimeout :: nat
  bo_volumeThreshold :: nat
  bo_name :: string

text \<open>
  An opossum breaker: its constructor, the properties the code reads, and
  \<open>close()\<close>, which emits \<open>close\<close> when the breaker was not closed (the flag).
\<close>

record 'c opossum =
  op_new :: "breaker_opts \<Rightarrow> 'c"
  op_opened :: "'c \<Rightarrow> bool"
  op_halfOpen :: "'c \<Rightarrow> bool"
  op_stats :: "'c \<Rightarrow> nat \<times> nat \<times> nat"
  op_close :: "'c \<Rightarrow> 'c \<times> bool"

definition opossum_laws :: "'c opossum \<Rightarrow> bool" where
  "opossum_laws p \<longleftrightarrow>
     (\<forall>b. \<not> op_opened p (op_new p b)) \<and>
     (\<forall>c. \<not> op_opened p (fst (op_close p c)) \<and> \<not> op_halfOpen p (fst (op_close p c)))"

record ('c, 'r) breaker_service =
  circuits :: "(string, 'c) jmap"
  kvw :: 'r

record CircuitMetrics =
  cm_tenantId :: string
  cm_state :: CircuitState
  cm_failures :: nat
  cm_successes :: nat
  cm_fallbackCalls :: nat

definition on_kv :: "('r, string, 'a) M \<Rightarrow> (('c, 'r) breaker_service, string, 'a) M" where
  "on_kv m = (\<lambda>s. case m (kvw s) of (r, w) \<Rightarrow> (r, s\<lparr>kvw := w\<rparr>))"

definition new_breaker_service :: "'r \<Rightarrow> ('c, 'r) breaker_service" where
  "new_breaker_service w = \<lparr>circuits = [], kvw = w\<rparr>"

definition cb_key :: "string \<Rightarrow> string" where
  "cb_key tenantId = ''cb:state:'' @ tenantId"

text \<open>\<open>#persistState\<close>; the client is \<open>None\<close> when Redis is not installed.\<close>

definition persistState :: "'r kv option \<Rightarrow> string \<Rightarrow> CircuitState \<Rightarrow> (('c, 'r) breaker_service, string, unit) M" where
  "persistState redis tenantId st =
     (case redis of
        None \<Rightarrow> returnM ()
      | Some k \<Rightarrow> swallow (on_kv (kv_setex k (cb_key tenantId) 3600 (state_name st))))"

definition getCircuit :: "'c opossum \<Rightarrow> breaker_config \<Rightarrow> string \<Rightarrow> (('c, 'r) breaker_service, string, 'c) M" where
  "getCircuit p cfg tenantId = (\<lambda>s.
     case jm_get tenantId (circuits s) of
       Some c \<Rightarrow> (Inr c, s)
     | None \<Rightarrow>
         let c = op_new p
               \<lparr>bo_probe = cbConnPrefix cfg @ tenantId, bo_timeout = 5000, bo_threshold = cbThreshold cfg,
                bo_resetTimeout = cbResetTimeout cfg, bo_rollingCountTimeout = cbRollingCountTimeout cfg,
                bo_volumeThreshold = cbVolumeThreshold cfg, bo_name = ''tenant_'' @ tenantId\<rparr>
         in (Inr c, s\<lparr>circuits := jm_set tenantId c (circuits s)\<rparr>))"

text \<open>
  The breaker of a tenant moves to \<open>c\<close> and emits the event of state \<open>st\<close>; the
  handler registered by \<open>getCircuit\<close> persists it.
\<close>

definition breaker_event ::
  "'r kv option \<Rightarrow> string \<Rightarrow> 'c \<Rightarrow> CircuitState \<Rightarrow> (('c, 'r) breaker_service, string, unit) M"
where
  "breaker_event redis tenantId c st =
     thenM (modM (\<lambda>s. s\<lparr>circuits := jm_set tenantId c (circuits s)\<rparr>)) (persistState redis tenantId st)"

definition breaker_isOpen :: "'c opossum \<Rightarrow> ('c, 'r) breaker_service \<Rightarrow> string \<Rightarrow> bool" where
  "breaker_isOpen p s tenantId =
     (case jm_get tenantId (circuits s) of None \<Rightarrow> False | Some c \<Rightarrow> op_opened p c)"

definition getMetrics :: "'c opossum \<Rightarrow> ('c, 'r) breaker_service \<Rightarrow> string \<Rightarrow> CircuitMetrics option" where
  "getMetrics p s tenantId =
     (case jm_get tenantId (circuits s) of
        None \<Rightarrow> None
      | Some c \<Rightarrow>
          (case op_stats p c of (failures, successes, fallbacks) \<Rightarrow>
             Some \<lparr>cm_tenantId = tenantId,
               cm_state = (if op_opened p c then OPEN else if op_halfOpen p c then HALF_OPEN else CLOSED),
               cm_failures = failures, cm_successes = successes, cm_fallbackCalls = fallbacks\<rparr>))"

definition getAllMetrics :: "'c opossum \<Rightarrow> ('c, 'r) breaker_service \<Rightarrow> (string, CircuitMetrics) jmap" where
  "getAllMetrics p s =
     fold (\<lambda>i r. case getMetrics p s i of None \<Rightarrow> r | Some m \<Rightarrow> jm_set i m r) (jm_keys (circuits s)) []"

definition breaker_reset :: "'c opossum \<Rightarrow> 'r kv option \<Rightarrow> string \<Rightarrow> (('c, 'r) breaker_service, string, unit) M" where
  "breaker_reset p redis tenantId = bindM (getM (\<lambda>s. jm_get tenantId (circuits s))) (\<lambda>b.
     case b of
       None \<Rightarrow> returnM ()
     | Some c \<Rightarrow>
         (case op_close p c of (c', emitted) \<Rightarrow>
            thenM (if emitted then breaker_event redis tenantId c' CLOSED
                   else modM (\<lambda>s. s\<lparr>circuits := jm_set tenantId c' (circuits s)\<rparr>))
              (persistState redis tenantId CLOSED)))"

definition breaker_destroy :: "'r kv option \<Rightarrow> string \<Rightarrow> (('c, 'r) breaker_service, string, unit) M" where
  "breaker_destroy redis tenantId =
     thenM (modM (\<lambda>s. if jm_has tenantId (circuits s)
                        then s\<lparr>circuits := jm_delete tenantId (circuits s)\<rparr> else s))
       (case redis of
          None \<Rightarrow> returnM ()
        | Some k \<Rightarrow> swallow (on_kv (kv_del k (cb_key tenantId))))"

section \<open>Read replicas\<close>

datatype replica_strategy = RoundRobin | Random | Sticky

record replica_host =
  rh_host :: string
  rh_port :: "nat option"
  rh_user :: "string option"
  rh_password :: "string option"
  rh_name :: "string option"

record replica_config =
  rc_hosts :: "replica_host list"
  rc_strategy :: "replica_strategy option"
  rc_suffix :: "string option"

record pg_connection =
  pg_host :: "string option"
  pg_port :: "nat option"
  pg_user :: "string option"
  pg_password :: "string option"
  pg_searchPath :: "string list option"
  pg_rest :: string

text \<open>
  A registered connection: its client, the nested \<open>connection\<close> block and the
  \<open>searchPath\<close> beside it.
\<close>

record pg_config =
  pc_client :: string
  pc_connection :: "pg_connection option"
  pc_searchPath :: "string list option"

type_synonym manager = "(string, pg_config) jmap"

text \<open>
  The choices outside the code: \<open>Math.floor(Math.random() * n)\<close> and the first four
  bytes of a SHA-1 digest, read as a big-endian number.
\<close>

definition readUInt32BE :: "8 word list \<Rightarrow> 32 word" where
  "readUInt32BE digest = word_rcat (take 4 digest)"

definition pickIndex ::
  "(nat \<Rightarrow> nat) \<Rightarrow> (string \<Rightarrow> 8 word list) \<Rightarrow> replica_config option \<Rightarrow> string \<Rightarrow> 32 word \<Rightarrow> nat option \<times> 32 word"
where
  "pickIndex random sha1 cfg tenantId cursor =
     (case cfg of
        None \<Rightarrow> (None, cursor)
      | Some c \<Rightarrow>
          if rc_hosts c = [] then (None, cursor)
          else (case or_else (rc_strategy c) RoundRobin of
                  Random \<Rightarrow> (Some (random (length (rc_hosts c))), cursor)
                | Sticky \<Rightarrow> (Some (unat (readUInt32BE (sha1 tenantId)) mod length (rc_hosts c)), cursor)
                | RoundRobin \<Rightarrow> (Some (unat cursor mod length (rc_hosts c)), cursor + 1)))"

definition pickHost ::
  "(nat \<Rightarrow> nat) \<Rightarrow> (string \<Rightarrow> 8 word list) \<Rightarrow> replica_config option \<Rightarrow> string \<Rightarrow> 32 word \<Rightarrow> replica_host option \<times> 32 word"
where
  "pickHost random sha1 cfg tenantId cursor =
     (case pickIndex random sha1 cfg tenantId cursor of (i, c') \<Rightarrow>
        (case (i, cfg) of
           (Some k, Some c) \<Rightarrow> (if k < length (rc_hosts c) then Some (rc_hosts c ! k) else None)
         | _ \<Rightarrow> None, c'))"

definition replica_connectionName :: "string \<Rightarrow> replica_config option \<Rightarrow> string \<Rightarrow> nat \<Rightarrow> string" where
  "replica_connectionName prefix cfg tenantId idx =
     prefix @ tenantId @ or_else (Option.bind cfg rc_suffix) ''_read'' @ ''_'' @ show_nat idx"

definition empty_connection :: pg_connection where
  "empty_connection = \<lparr>pg_host = None, pg_port = None, pg_user = None, pg_password = None,
     pg_searchPath = None, pg_rest = []\<rparr>"

text \<open>The configuration \<open>resolve\<close> registers, from the primary's \<open>connection\<close> block.\<close>

definition replica_pg_config :: "pg_connection \<Rightarrow> replica_host \<Rightarrow> string \<Rightarrow> pg_config" where
  "replica_pg_config base h schema =
     \<lparr>pc_client = ''pg'',
      pc_connection = Some (base\<lparr>pg_host := Some (rh_host h),
        pg_port := (case rh_port h of Some p \<Rightarrow> Some p | None \<Rightarrow> pg_port base),
        pg_user := (case rh_user h of Some u \<Rightarrow> Some u | None \<Rightarrow> pg_user base),
        pg_password := (case rh_password h of Some w \<Rightarrow> Some w | None \<Rightarrow> pg_password base),
        pg_searchPath := (case pg_searchPath base of Some sp \<Rightarrow> Some sp | None \<Rightarrow> Some [schema])\<rparr>),
      pc_searchPath = None\<rparr>"

text \<open>
  \<open>resolve\<close> on the connection manager; \<open>pick\<close> is the result of \<open>pickIndex\<close>, \<open>db\<close>
  says whether Lucid is installed, and \<open>drv_connect\<close> is the driver's \<open>connect\<close>.
\<close>

definition replica_resolve ::
  "bool \<Rightarrow> (tenant \<Rightarrow> (manager, string, unit) M) \<Rightarrow> string \<Rightarrow> replica_config option \<Rightarrow> nat option \<Rightarrow>
   tenant \<Rightarrow> string \<Rightarrow> (manager, string, string option) M"
where
  "replica_resolve db drv_connect prefix cfg pick t schema =
     (case (pick, cfg) of
        (Some idx, Some c) \<Rightarrow>
          (if \<not> db then returnM None
           else
             let h = rc_hosts c ! idx;
                 name = replica_connectionName prefix cfg (t_id t) idx
             in bindM (getM (jm_has name)) (\<lambda>there.
                  thenM
                    (if there then returnM ()
                     else thenM (drv_connect t)
                       (modM (\<lambda>m.
                          let base = or_else (Option.bind (jm_get (prefix @ t_id t) m) pc_connection) empty_connection
                          in jm_set name (replica_pg_config base h schema) m)))
                    (returnM (Some name))))
      | _ \<Rightarrow> returnM None)"

definition replica_resetCursor :: "32 word \<Rightarrow> 32 word" where
  "replica_resetCursor cursor = 0"

section \<open>Facts on the queues\<close>

definition queues_own :: "queue_config \<Rightarrow> 'w queue_service \<Rightarrow> bool" where
  "queues_own cfg s \<longleftrightarrow> jm_inv (queues s) \<and> (\<forall>i q. jm_get i (queues s) = Some q \<longrightarrow> q = getQueueName cfg i)"

lemma getQueueName_inj: "getQueueName cfg i = getQueueName cfg j \<longleftrightarrow> i = j"
  by (simp add: getQueueName_def)

lemma queues_own_new [simp]: "queues_own cfg (new_queue_service w)"
  by (simp add: queues_own_def new_queue_service_def)

lemma queues_own_bullw [simp]: "queues_own cfg (s\<lparr>bullw := w\<rparr>) = queues_own cfg s"
  by (simp add: queues_own_def)

lemma keeps_own_on_bull [keeps_intros]: "keeps (queues_own cfg) (on_bull m)"
  by rule (simp add: on_bull_def split: prod.splits)

lemma keeps_own_getOrCreate [keeps_intros]: "keeps (queues_own cfg) (queue_getOrCreate b cfg i)"
  by rule (auto simp add: queue_getOrCreate_def queues_own_def Let_def js_map.get_put js_map.inv_put
      split: option.splits)

lemma keeps_own_ops:
  "keeps (queues_own cfg) (queue_getStats b cfg i)"
  "keeps (queues_own cfg) (queue_dispatch b cfg i j p)"
  "keeps (queues_own cfg) (queue_destroy b i)"
  "keeps (queues_own cfg) (queue_getAllStats b cfg)"
proof -
  show st: "keeps (queues_own cfg) (queue_getStats b cfg i)" for i
    unfolding queue_getStats_def by (intro keeps_intros)
  show "keeps (queues_own cfg) (queue_dispatch b cfg i j p)"
    unfolding queue_dispatch_def by (intro keeps_intros)
  have del: "queues_own cfg s \<Longrightarrow> queues_own cfg (s\<lparr>queues := jm_delete i (queues s)\<rparr>)" for s :: "'a queue_service"
    by (auto simp add: queues_own_def js_map.get_del js_map.inv_del)
  show "keeps (queues_own cfg) (queue_destroy b i)"
    unfolding queue_destroy_def swallow_def by (intro keeps_intros del) assumption
  show "keeps (queues_own cfg) (queue_getAllStats b cfg)"
    unfolding queue_getAllStats_def by (intro keeps_intros st)
qed

datatype queue_op = QGet string | QStats string | QAllStats | QDispatch string string string | QDestroy string

fun queue_op_tenant :: "queue_op \<Rightarrow> string option" where
  "queue_op_tenant (QGet i) = Some i"
| "queue_op_tenant (QDispatch i j p) = Some i"
| "queue_op_tenant (QDestroy i) = Some i"
| "queue_op_tenant _ = None"

fun queue_step :: "'w bull \<Rightarrow> queue_config \<Rightarrow> queue_op \<Rightarrow> 'w queue_service \<Rightarrow> 'w queue_service" where
  "queue_step b cfg (QGet i) s = snd (queue_getOrCreate b cfg i s)"
| "queue_step b cfg (QStats i) s = snd (queue_getStats b cfg i s)"
| "queue_step b cfg QAllStats s = snd (queue_getAllStats b cfg s)"
| "queue_step b cfg (QDispatch i j p) s = snd (queue_dispatch b cfg i j p s)"
| "queue_step b cfg (QDestroy i) s = snd (queue_destroy b i s)"

lemma queue_step_own: "queues_own cfg s \<Longrightarrow> queues_own cfg (queue_step b cfg op s)"
  by (cases op) (simp_all add: keeps_own_ops keeps_own_getOrCreate [THEN keepsD] keeps_own_ops [THEN keepsD])

lemma queue_fold_own: "queues_own cfg s \<Longrightarrow> queues_own cfg (fold (queue_step b cfg) ops s)"
  by (induction ops arbitrary: s) (simp_all add: queue_step_own)

lemma queue_other_counts:
  assumes laws: "bull_laws b" and own: "queues_own cfg s" and ne: "i \<noteq> k"
    and op: "queue_op_tenant op = Some i"
  shows "fst (bq_counts b (getQueueName cfg k) (bullw (queue_step b cfg op s))) =
     fst (bq_counts b (getQueueName cfg k) (bullw s))"
proof -
  let ?n = "getQueueName cfg i" and ?m = "getQueueName cfg k"
  have nm: "?n \<noteq> ?m" using ne by (simp add: getQueueName_inj)
  have l: "fst (bq_counts b ?m (bq_open b ?n opt w)) = fst (bq_counts b ?m w)"
    "fst (bq_counts b ?m (snd (bq_add b ?n j p w))) = fst (bq_counts b ?m w)"
    "fst (bq_counts b ?m (snd (bq_obliterate b ?n w))) = fst (bq_counts b ?m w)"
    "fst (bq_counts b ?m (snd (bq_close b ?n w))) = fst (bq_counts b ?m w)" for opt w j p
    using laws nm unfolding bull_laws_def by blast+
  have g: "queue_getOrCreate b cfg i s = (Inr ?n, t) \<Longrightarrow>
      fst (bq_counts b ?m (bullw t)) = fst (bq_counts b ?m (bullw s))" for t
    by (auto simp add: queue_getOrCreate_def Let_def l split: option.splits)
  have e: "\<exists>t. queue_getOrCreate b cfg i s = (Inr ?n, t)"
    using own by (auto simp add: queue_getOrCreate_def queues_own_def Let_def split: option.splits)
  have d: "jm_get i (queues s) = Some q \<Longrightarrow> q = ?n" for q
    using own by (simp add: queues_own_def)
  have s2: "bq_obliterate b ?n w = (r, w') \<Longrightarrow> fst (bq_counts b ?m w') = fst (bq_counts b ?m w)"
    "bq_close b ?n w = (r, w') \<Longrightarrow> fst (bq_counts b ?m w') = fst (bq_counts b ?m w)" for r w w'
    using l by (metis snd_conv)+
  show ?thesis
  proof (cases op)
    case (QGet j)
    then show ?thesis using e g op by auto
  next
    case (QDispatch i' j p)
    then show ?thesis using e g op l(2)
      by (auto simp add: queue_dispatch_def run_simps on_bull_def split: prod.splits) (metis snd_conv)
  next
    case (QDestroy i')
    then show ?thesis using op d
      by (auto simp add: queue_destroy_def run_simps on_bull_def s2 split: prod.splits option.splits sum.splits)
  qed (use op in auto)
qed

text \<open>The services made with \<open>new\<close> for one call know no queue: their \<open>destroy\<close> does nothing.\<close>

lemma fresh_queue_destroy_does_nothing:
  "queue_destroy b i (new_queue_service w) = (Inr (), new_queue_service w)"
  "queue_getAllStats b cfg (new_queue_service w) = (Inr [], new_queue_service w)"
  by (simp_all add: queue_destroy_def queue_getAllStats_def new_queue_service_def run_simps jm_keys_def)

section \<open>Facts on the breakers\<close>

lemma persist_circuits [simp]: "circuits (snd (persistState redis i st s)) = circuits s"
  by (cases redis) (auto simp add: persistState_def run_simps on_kv_def split: prod.splits)

lemma persist_Inr [simp]: "fst (persistState redis i st s) = Inr ()"
  by (cases redis) (simp_all add: persistState_def run_simps)

lemma breaker_destroy_run:
  "fst (breaker_destroy redis i s) = Inr () \<and>
   jm_get j (circuits (snd (breaker_destroy redis i s))) = (if j = i then None else jm_get j (circuits s))"
  by (cases redis)
     (auto simp add: breaker_destroy_def run_simps on_kv_def js_map.get_del jm_has_def split: prod.splits)

lemma breaker_reset_circuits:
  "jm_get j (circuits (snd (breaker_reset p redis i s))) =
     (if j = i then map_option (\<lambda>c. fst (op_close p c)) (jm_get i (circuits s)) else jm_get j (circuits s))"
proof (cases "jm_get i (circuits s)")
  case None
  then show ?thesis by (auto simp add: breaker_reset_def run_simps)
next
  case (Some c)
  obtain c' em where close: "op_close p c = (c', em)" by fastforce
  have p1: "circuits t' = circuits t" if "persistState redis k st t = (r, t')" for k st r t t'
    using persist_circuits [of redis k st t] that by (simp del: persist_circuits)
  have p2: "r = Inr ()" if "persistState redis k st t = (r, t')" for k st r t t'
    using persist_Inr [of redis k st t] that by (simp del: persist_Inr)
  show ?thesis using Some close
    by (auto simp add: breaker_reset_def breaker_event_def run_simps js_map.get_put p1
        dest: p2 split: prod.splits sum.splits)
qed

text \<open>A breaker can only be open for a tenant whose circuit was asked for.\<close>

lemma open_needs_circuit: "breaker_isOpen p s i \<Longrightarrow> i \<in> set (jm_keys (circuits s))"
  by (auto simp add: breaker_isOpen_def js_map.in_keys split: option.splits)

lemma getCircuit_closed: "opossum_laws p \<Longrightarrow> \<not> breaker_isOpen p (snd (getCircuit p cfg i (new_breaker_service w))) j"
  by (simp add: opossum_laws_def breaker_isOpen_def getCircuit_def new_breaker_service_def Let_def)

section \<open>Facts on the replicas\<close>

text \<open>A run of picks, one per request.\<close>

fun pick_all ::
  "(nat \<Rightarrow> nat) \<Rightarrow> (string \<Rightarrow> 8 word list) \<Rightarrow> replica_config \<Rightarrow> string list \<Rightarrow> 32 word \<Rightarrow> nat list \<times> 32 word"
where
  "pick_all random sha1 c [] cursor = ([], cursor)"
| "pick_all random sha1 c (i # ids) cursor =
     (case pickIndex random sha1 (Some c) i cursor of (k, cursor') \<Rightarrow>
        (case pick_all random sha1 c ids cursor' of (ks, cursor'') \<Rightarrow>
           ((case k of None \<Rightarrow> ks | Some x \<Rightarrow> x # ks), cursor'')))"

lemma mod_shift: "(a + m mod n) mod n = (a + m) mod (n :: nat)"
  by (simp add: mod_add_right_eq)

lemma unat_suc: "unat (c :: 32 word) + 1 < 2 ^ 32 \<Longrightarrow> unat (c + 1) = unat c + 1"
  by (simp add: unat_word_ariths)

lemma pick_all_round_robin:
  assumes "rc_hosts c \<noteq> []" and "or_else (rc_strategy c) RoundRobin = RoundRobin"
    and "unat cursor + length ids \<le> 2 ^ 32"
  shows "fst (pick_all random sha1 c ids cursor) =
     map (\<lambda>k. (unat cursor + k) mod length (rc_hosts c)) [0..<length ids]"
  using assms(3)
proof (induction ids arbitrary: cursor)
  case (Cons i ids)
  show ?case
  proof (cases ids)
    case Nil
    then show ?thesis using assms(1,2) by (simp add: pickIndex_def)
  next
    case (Cons j js)
    then have suc: "unat (cursor + 1) = unat cursor + 1" using Cons.prems by (intro unat_suc) simp
    have upt: "[0..<Suc (length ids)] = 0 # map Suc [0..<length ids]"
      by (simp add: upt_conv_Cons map_Suc_upt del: upt_Suc)
    have "fst (pick_all random sha1 c ids (cursor + 1)) =
        map (\<lambda>k. (unat cursor + Suc k) mod length (rc_hosts c)) [0..<length ids]"
      using Cons.IH [of "cursor + 1"] Cons.prems suc by simp
    then show ?thesis using assms(1,2)
      by (auto simp add: pickIndex_def upt split: prod.splits simp del: upt_Suc)
  qed
qed simp

lemma residues_apart:
  assumes "x < y" "y < n"
  shows "(a + x) mod n \<noteq> (a + y) mod (n :: nat)"
proof
  assume "(a + x) mod n = (a + y) mod n"
  then have "n dvd (a + y) - (a + x)" using assms by (metis add_le_cancel_left less_imp_le mod_eq_dvd_iff_nat)
  then show False using assms by (auto dest: dvd_imp_le)
qed

lemma residues_distinct: "distinct (map (\<lambda>k. (a + k) mod n) [0..<n :: nat])"
  using residues_apart [of _ _ n a] by (auto simp add: distinct_map inj_on_def) (metis linorder_neqE_nat)

lemma pick_all_permutation:
  assumes "length ids = length (rc_hosts c)" and "rc_hosts c \<noteq> []"
    and "or_else (rc_strategy c) RoundRobin = RoundRobin"
    and "unat cursor + length ids \<le> 2 ^ 32"
  shows "mset (fst (pick_all random sha1 c ids cursor)) = mset [0..<length (rc_hosts c)]"
proof -
  let ?n = "length (rc_hosts c)" and ?xs = "map (\<lambda>k. (unat cursor + k) mod length (rc_hosts c)) [0..<length (rc_hosts c)]"
  have "set ?xs \<subseteq> set [0..<?n]" using assms(2) by auto
  moreover have "card (set ?xs) = ?n" using residues_distinct by (metis distinct_card length_map length_upt minus_nat.diff_0)
  ultimately have "set ?xs = set [0..<?n]" by (intro card_subset_eq) auto
  then have "mset ?xs = mset [0..<?n]"
    using residues_distinct [of "unat cursor" ?n] by (intro set_eq_iff_mset_eq_distinct [THEN iffD1]) auto
  then show ?thesis using pick_all_round_robin [OF assms(2-4)] assms(1) by simp
qed

lemma pickIndex_bound:
  assumes "\<forall>n > 0. random n < n" and "pickIndex random sha1 cfg i cursor = (Some k, cursor')"
  shows "\<exists>c. cfg = Some c \<and> k < length (rc_hosts c)"
  using assms by (auto simp add: pickIndex_def split: option.splits if_splits replica_strategy.splits)

section \<open>Properties\<close>

text \<open>
  However the queue service has been used before, every queue it holds is the
  one its tenant's name spells, and getting, dispatching to or destroying the
  queue of one tenant leaves the job counts of every other tenant's queue as
  they were.
\<close>

theorem queues_keep_tenants_apart:
  assumes "bull_laws b" and "s = fold (queue_step b cfg) ops (new_queue_service w)"
    and "queue_op_tenant op = Some i" and "i \<noteq> k"
  shows "(jm_get j (queues s) = Some q \<longrightarrow> q = getQueueName cfg j) \<and>
     fst (bq_counts b (getQueueName cfg k) (bullw (queue_step b cfg op s))) =
       fst (bq_counts b (getQueueName cfg k) (bullw s))"
proof -
  have own: "queues_own cfg s" using assms(2) by (simp add: queue_fold_own)
  then show ?thesis using queue_other_counts [OF assms(1) own assms(4,3)] by (simp add: queues_own_def)
qed

text \<open>A BullMQ whose waiting lists are lists of jobs.\<close>

definition map_bull :: "(string \<Rightarrow> string list) bull" where
  "map_bull = \<lparr>bq_open = (\<lambda>n opt w. w),
     bq_counts = (\<lambda>n w. (Inr (\<lambda>k. if k = ''waiting'' then Some (length (w n)) else None), w)),
     bq_add = (\<lambda>n j p w. (Inr (), w(n := w n @ [j]))),
     bq_obliterate = (\<lambda>n w. (Inr (), w(n := []))),
     bq_close = (\<lambda>n w. (Inr (), w))\<rparr>"

lemma map_bull_laws: "bull_laws map_bull"
  by (auto simp add: bull_laws_def map_bull_def)

theorem queues_keep_tenants_apart_witness:
  "let c = \<lparr>queuePrefix = ''q_'', queueAttempts = 3\<rparr>;
       s = fold (queue_step map_bull c) [QDispatch ''b'' ''mail'' ''{}''] (new_queue_service (\<lambda>_. []))
   in fst (bq_counts map_bull ''q_b'' (bullw (queue_step map_bull c (QDestroy ''a'') s))) =
      fst (bq_counts map_bull ''q_b'' (bullw s))"
proof -
  let ?c = "\<lparr>queuePrefix = ''q_'', queueAttempts = 3\<rparr>"
  show ?thesis
    using queues_keep_tenants_apart [OF map_bull_laws refl,
        where op = "QDestroy ''a''" and i = "''a''" and k = "''b''" and cfg = ?c
          and ops = "[QDispatch ''b'' ''mail'' ''{}'']" and w = "\<lambda>_. []" and j = "[]" and q = "[]"]
    by (simp add: Let_def getQueueName_def)
qed

text \<open>
  Destroying a tenant's breaker always succeeds and makes the service forget
  it: the tenant is not open and has no metrics, its persisted state is gone
  when the delete went through, and every other tenant keeps its breaker, its
  metrics and its persisted state. Resetting one never leaves it open.
\<close>

theorem breaker_destroy_forgets:
  assumes "kv_laws k" and "opossum_laws p" and "i \<noteq> j"
  shows "let s' = snd (breaker_destroy (Some k) i s) in
     fst (breaker_destroy (Some k) i s) = Inr () \<and>
     \<not> breaker_isOpen p s' i \<and> getMetrics p s' i = None \<and>
     breaker_isOpen p s' j = breaker_isOpen p s j \<and> getMetrics p s' j = getMetrics p s j \<and>
     fst (kv_get k (cb_key j) (kvw s')) = fst (kv_get k (cb_key j) (kvw s)) \<and>
     (fst (kv_del k (cb_key i) (kvw s)) = Inr () \<longrightarrow> fst (kv_get k (cb_key i) (kvw s')) = Inr None) \<and>
     \<not> breaker_isOpen p (snd (breaker_reset p (Some k) i s)) i"
proof -
  let ?s' = "snd (breaker_destroy (Some k) i s)"
  obtain r w where del: "kv_del k (cb_key i) (kvw s) = (r, w)" by fastforce
  have w: "kvw ?s' = w" using del
    by (auto simp add: breaker_destroy_def run_simps on_kv_def split: prod.splits)
  have ne: "cb_key j \<noteq> cb_key i" using assms(3) by (simp add: cb_key_def)
  have other: "fst (kv_get k (cb_key j) w) = fst (kv_get k (cb_key j) (kvw s))"
    using assms(1) del ne unfolding kv_laws_def by (cases r) auto
  have own: "r = Inr () \<longrightarrow> fst (kv_get k (cb_key i) w) = Inr None"
    using assms(1) del unfolding kv_laws_def by auto
  have circ: "jm_get x (circuits ?s') = (if x = i then None else jm_get x (circuits s))" for x
    by (simp add: breaker_destroy_run)
  show ?thesis
    using assms(2,3) other own del
    by (simp add: Let_def w circ breaker_destroy_run breaker_isOpen_def getMetrics_def breaker_reset_circuits
        opossum_laws_def split: option.splits)
qed

definition map_kv :: "(string \<Rightarrow> string option) kv" where
  "map_kv = \<lparr>kv_get = (\<lambda>k r. (Inr (r k), r)), kv_setex = (\<lambda>k t v r. (Inr (), r(k := Some v))),
     kv_del = (\<lambda>k r. (Inr (), r(k := None)))\<rparr>"

lemma map_kv_laws: "kv_laws map_kv"
  by (auto simp add: kv_laws_def map_kv_def)

definition bool_breaker :: "bool opossum" where
  "bool_breaker = \<lparr>op_new = (\<lambda>_. False), op_opened = (\<lambda>c. c), op_halfOpen = (\<lambda>_. False),
     op_stats = (\<lambda>_. (0, 0, 0)), op_close = (\<lambda>c. (False, c))\<rparr>"

lemma bool_breaker_laws: "opossum_laws bool_breaker"
  by (simp add: opossum_laws_def bool_breaker_def)

theorem breaker_destroy_forgets_witness:
  "let s = \<lparr>circuits = [(''a'', True), (''b'', True)], kvw = Map.empty\<rparr>;
       s' = snd (breaker_destroy (Some map_kv) ''a'' s)
   in breaker_isOpen bool_breaker s ''a'' \<and> \<not> breaker_isOpen bool_breaker s' ''a'' \<and>
      breaker_isOpen bool_breaker s' ''b''"
  using breaker_destroy_forgets [OF map_kv_laws bool_breaker_laws, where i = "''a''" and j = "''b''"
      and s = "\<lparr>circuits = [(''a'', True), (''b'', True)], kvw = Map.empty\<rparr>"]
  by (simp add: Let_def breaker_isOpen_def bool_breaker_def)

text \<open>
  Round robin is fair: while the 32-bit cursor does not wrap, any run of as
  many picks as there are replicas uses every replica exactly once, whichever
  tenants ask. The sticky strategy gives a tenant the same replica each time,
  and every strategy picks an existing one.
\<close>

theorem replica_choice_fair:
  assumes "rc_hosts c \<noteq> []" and "\<forall>n > 0. random n < n"
  shows "(or_else (rc_strategy c) RoundRobin = RoundRobin \<longrightarrow> length ids = length (rc_hosts c) \<longrightarrow>
       unat cursor + length ids \<le> 2 ^ 32 \<longrightarrow>
       mset (fst (pick_all random sha1 c ids cursor)) = mset [0..<length (rc_hosts c)]) \<and>
     (rc_strategy c = Some Sticky \<longrightarrow>
       pickIndex random sha1 (Some c) i cursor = (fst (pickIndex random sha1 (Some c) i cursor'), cursor)) \<and>
     (\<exists>k. fst (pickIndex random sha1 (Some c) i cursor) = Some k \<and> k < length (rc_hosts c))"
proof (intro conjI impI)
  assume "or_else (rc_strategy c) RoundRobin = RoundRobin" "length ids = length (rc_hosts c)"
    "unat cursor + length ids \<le> 2 ^ 32"
  then show "mset (fst (pick_all random sha1 c ids cursor)) = mset [0..<length (rc_hosts c)]"
    using assms(1) by (intro pick_all_permutation)
next
  assume "rc_strategy c = Some Sticky"
  then show "pickIndex random sha1 (Some c) i cursor = (fst (pickIndex random sha1 (Some c) i cursor'), cursor)"
    using assms(1) by (simp add: pickIndex_def or_else_def)
next
  show "\<exists>k. fst (pickIndex random sha1 (Some c) i cursor) = Some k \<and> k < length (rc_hosts c)"
    using assms by (auto simp add: pickIndex_def split: replica_strategy.splits)
qed

lemma show_zero: "show_nat 0 = ''0''"
  by code_simp

lemma show_one: "show_nat (Suc 0) = ''1''"
  by code_simp

definition demo_replicas :: replica_config where
  "demo_replicas = \<lparr>rc_hosts = [\<lparr>rh_host = ''r1'', rh_port = None, rh_user = None, rh_password = None, rh_name = None\<rparr>,
     \<lparr>rh_host = ''r2'', rh_port = Some 5433, rh_user = None, rh_password = None, rh_name = None\<rparr>], rc_strategy = None, rc_suffix = None\<rparr>"

theorem replica_choice_fair_witness:
  "mset (fst (pick_all (\<lambda>n. 0) (\<lambda>_. []) demo_replicas [''a'', ''b''] 7)) = mset [0, 1]"
  using replica_choice_fair [where c = demo_replicas and random = "\<lambda>n. 0" and ids = "[''a'', ''b'']"
      and cursor = 7 and ?sha1.0 = "\<lambda>_. []" and i = "[]" and cursor' = 0]
  by (simp add: demo_replicas_def or_else_def upt_rec)

text \<open>
  Resolving a replica for a tenant gives a registered connection to the
  picked host. A new one copies the rest of the tenant's own primary
  connection, an existing one is reused as it is, and apart from what the
  driver's connect does no other connection changes.
\<close>

theorem replica_resolve_clones_primary:
  assumes "k < length (rc_hosts c)" and "name = replica_connectionName prefix (Some c) (t_id t) k"
    and "replica_resolve True drv_connect prefix (Some c) (Some k) t schema m = (Inr r, m')"
  shows "r = Some name \<and> jm_has name m' \<and>
     (if jm_has name m then m' = m
      else \<exists>m1 pc. drv_connect t m = (Inr (), m1) \<and>
        jm_get name m' = Some \<lparr>pc_client = ''pg'', pc_connection = Some pc, pc_searchPath = None\<rparr> \<and>
        pg_host pc = Some (rh_host (rc_hosts c ! k)) \<and>
        (\<forall>base. Option.bind (jm_get (prefix @ t_id t) m1) pc_connection = Some base \<longrightarrow>
           pg_rest pc = pg_rest base \<and>
           pg_searchPath pc = (if pg_searchPath base = None then Some [schema] else pg_searchPath base)) \<and>
        (\<forall>n. n \<noteq> name \<longrightarrow> jm_get n m' = jm_get n m1))"
proof (cases "jm_has name m")
  case True
  then show ?thesis using assms(2,3) by (simp add: replica_resolve_def run_simps Let_def)
next
  case False
  obtain x m1 where conn: "drv_connect t m = (x, m1)" by fastforce
  then have x: "x = Inr ()" using assms(2,3) False
    by (cases x) (auto simp add: replica_resolve_def run_simps Let_def)
  let ?base = "or_else (Option.bind (jm_get (prefix @ t_id t) m1) pc_connection) empty_connection"
  have m': "r = Some name" "m' = jm_set name (replica_pg_config ?base (rc_hosts c ! k) schema) m1"
    using assms(2,3) False conn x by (auto simp add: replica_resolve_def run_simps Let_def)
  then show ?thesis using False conn x
    by (auto simp add: jm_has_def js_map.get_put replica_pg_config_def or_else_def split: option.splits)
qed

theorem replica_resolve_clones_primary_witness:
  "jm_has ''tenant_a_read_1'' (snd (replica_resolve True (\<lambda>t m. (Inr (), m)) ''tenant_'' (Some demo_replicas) (Some 1)
     (buildTestTenant ''a'' 0 \<lparr>o_id = None, o_name = None, o_email = None, o_status = None, o_customDomain = None,
        o_createdAt = None, o_deletedAt = None\<rparr>) ''tenant_a'' []))"
proof -
  let ?t = "buildTestTenant ''a'' 0 \<lparr>o_id = None, o_name = None, o_email = None, o_status = None, o_customDomain = None,
        o_createdAt = None, o_deletedAt = None\<rparr>"
  let ?run = "replica_resolve True (\<lambda>t m. (Inr (), m)) ''tenant_'' (Some demo_replicas) (Some 1) ?t ''tenant_a'' []"
  have id: "t_id ?t = ''a''" by (simp add: buildTestTenant_def or_else_def Let_def)
  have name: "replica_connectionName ''tenant_'' (Some demo_replicas) (t_id ?t) 1 = ''tenant_a_read_1''"
    unfolding id by (simp add: replica_connectionName_def demo_replicas_def or_else_def show_one)
  have run: "?run = (Inr (Some (replica_connectionName ''tenant_'' (Some demo_replicas) (t_id ?t) 1)), snd ?run)"
    by (simp add: replica_resolve_def Let_def run_simps jm_has_def)
  have "1 < length (rc_hosts demo_replicas)" by (simp add: demo_replicas_def)
  from replica_resolve_clones_primary [OF this refl run] show ?thesis unfolding name by blast
qed

text \<open>
  Connection names are not injective over arbitrary ids: the replica of tenant
  \<open>x\<close> has the primary name of a tenant called \<open>x_read_0\<close>. UUID ids exclude it.
\<close>

lemma replica_name_collides:
  "replica_connectionName p None ''x'' 0 = p @ ''x_read_0''"
  by (simp add: replica_connectionName_def or_else_def show_zero)

end
