(* ===== verification/Lifecycle.thy ===== *)
theory Lifecycle
  imports Hooks Runtime
begin

text \<open>
  The life of a tenant: admin/admin_controller.ts, the jobs install_tenant.ts and
  uninstall_tenant.ts, and the commands create, activate, suspend, destroy,
  maintenance and purge-expired. Each operation is one definition over the state
  \<open>life\<close>: the stored rows, the driver's state, the pending jobs, the events and
  what lies outside the package. The operations, run by requests and workers in
  any order, form the step relation \<open>life_step\<close>.

  Log lines and terminal output are left out, except for what a command reports
  as its outcome. Hooks and event listeners are given by the application: they
  act on the state outside the package and may throw.
\<close>

section \<open>State and environment\<close>

datatype job = InstallTenant string | UninstallTenant string

datatype domain_event =
    TenantCreated tenant | TenantActivated tenant | EvSuspended tenant | TenantDeleted tenant
  | TenantProvisioned tenant | EnteredMaintenance tenant "string option" | ExitedMaintenance tenant

datatype life_error = NoSuchTenant string | Threw string

record ('d, 'u, 'b, 'r) life =
  rows :: mock_repo
  drv :: 'd
  outside :: 'u
  jobs :: "job list"
  events :: "domain_event list"
  bulls :: 'b
  redis :: 'r

text \<open>
  The parameters: what saving a row, queueing a job and listening to an event do
  outside the package, the hooks, the active driver, the queue and Redis
  libraries, and whether the model has the optional maintenance methods.
\<close>

record ('d, 'u, 'b, 'r) life_env =
  le_save :: "tenant \<Rightarrow> ('u, string, unit) M"
  le_enqueue :: "job \<Rightarrow> ('u, string, unit) M"
  le_listen :: "domain_event \<Rightarrow> ('u, string, unit) M"
  le_hooks :: "(tenant, 'u, string) hook_registry"
  le_hooklog :: "phase \<Rightarrow> lifecycle_event \<Rightarrow> string \<Rightarrow> 'u \<Rightarrow> 'u"
  le_provision :: "tenant \<Rightarrow> ('d, string, unit) M"
  le_destroy :: "tenant \<Rightarrow> ('d, string, unit) M"
  le_bull :: "'b bull"
  le_qcfg :: queue_config
  le_kv :: "'r kv option"
  le_maintenance :: bool

type_synonym ('d, 'u, 'b, 'r, 'a) L = "(('d, 'u, 'b, 'r) life, life_error, 'a) M"

definition on_outside :: "('u, string, 'a) M \<Rightarrow> ('d, 'u, 'b, 'r, 'a) L" where
  "on_outside m = (\<lambda>s. case m (outside s) of
     (Inl e, w) \<Rightarrow> (Inl (Threw e), s\<lparr>outside := w\<rparr>) | (Inr x, w) \<Rightarrow> (Inr x, s\<lparr>outside := w\<rparr>))"

definition on_driver :: "('d, string, 'a) M \<Rightarrow> ('d, 'u, 'b, 'r, 'a) L" where
  "on_driver m = (\<lambda>s. case m (drv s) of
     (Inl e, w) \<Rightarrow> (Inl (Threw e), s\<lparr>drv := w\<rparr>) | (Inr x, w) \<Rightarrow> (Inr x, s\<lparr>drv := w\<rparr>))"

definition repo_findById :: "string \<Rightarrow> bool \<Rightarrow> ('d, 'u, 'b, 'r, tenant option) L" where
  "repo_findById i includeDeleted = getM (\<lambda>s. mock_findById (rows s) i includeDeleted)"

definition repo_findByIdOrFail :: "string \<Rightarrow> bool \<Rightarrow> ('d, 'u, 'b, 'r, tenant) L" where
  "repo_findByIdOrFail i includeDeleted =
     bindM (repo_findById i includeDeleted) (\<lambda>r. case r of None \<Rightarrow> throwM (NoSuchTenant i) | Some t \<Rightarrow> returnM t)"

text \<open>\<open>tenant.save()\<close>: the row is written when the database accepts it.\<close>

definition save_tenant :: "('d, 'u, 'b, 'r) life_env \<Rightarrow> tenant \<Rightarrow> ('d, 'u, 'b, 'r, unit) L" where
  "save_tenant env t =
     thenM (on_outside (le_save env t)) (modM (\<lambda>s. s\<lparr>rows := mock_add t (rows s)\<rparr>))"

definition dispatch_event :: "('d, 'u, 'b, 'r) life_env \<Rightarrow> domain_event \<Rightarrow> ('d, 'u, 'b, 'r, unit) L" where
  "dispatch_event env ev =
     thenM (modM (\<lambda>s. s\<lparr>events := events s @ [ev]\<rparr>)) (on_outside (le_listen env ev))"

definition dispatch_job :: "('d, 'u, 'b, 'r) life_env \<Rightarrow> job \<Rightarrow> ('d, 'u, 'b, 'r, unit) L" where
  "dispatch_job env j =
     thenM (on_outside (le_enqueue env j)) (modM (\<lambda>s. s\<lparr>jobs := jobs s @ [j]\<rparr>))"

definition life_hooks ::
  "('d, 'u, 'b, 'r) life_env \<Rightarrow> phase \<Rightarrow> lifecycle_event \<Rightarrow> tenant \<Rightarrow> ('d, 'u, 'b, 'r, unit) L"
where
  "life_hooks env ph ev t = on_outside (run_hooks (le_hooklog env) (le_hooks env) ph ev t)"

section \<open>Jobs\<close>

text \<open>\<open>new TenantQueueService().getOrCreate(id)\<close> and \<open>.destroy(id)\<close>: services of one call.\<close>

definition fresh_queue_open :: "('d, 'u, 'b, 'r) life_env \<Rightarrow> string \<Rightarrow> ('d, 'u, 'b, 'r, unit) L" where
  "fresh_queue_open env i = (\<lambda>s.
     case queue_getOrCreate (le_bull env) (le_qcfg env) i (new_queue_service (bulls s)) of
       (Inl e, q) \<Rightarrow> (Inl (Threw e), s\<lparr>bulls := bullw q\<rparr>) | (Inr _, q) \<Rightarrow> (Inr (), s\<lparr>bulls := bullw q\<rparr>))"

definition fresh_queue_destroy :: "('d, 'u, 'b, 'r) life_env \<Rightarrow> string \<Rightarrow> ('d, 'u, 'b, 'r, unit) L" where
  "fresh_queue_destroy env i = (\<lambda>s.
     case queue_destroy (le_bull env) i (new_queue_service (bulls s)) of
       (Inl e, q) \<Rightarrow> (Inl (Threw e), s\<lparr>bulls := bullw q\<rparr>) | (Inr _, q) \<Rightarrow> (Inr (), s\<lparr>bulls := bullw q\<rparr>))"

definition fresh_breaker_destroy :: "('d, 'u, 'b, 'r) life_env \<Rightarrow> string \<Rightarrow> ('d, 'u, 'b, 'r, unit) L" where
  "fresh_breaker_destroy env i = (\<lambda>s.
     case breaker_destroy (le_kv env) i (new_breaker_service (redis s) :: (unit, 'r) breaker_service) of
       (Inl e, c) \<Rightarrow> (Inl (Threw e), s\<lparr>redis := kvw c\<rparr>) | (Inr _, c) \<Rightarrow> (Inr (), s\<lparr>redis := kvw c\<rparr>))"

definition install_provision :: "('d, 'u, 'b, 'r) life_env \<Rightarrow> tenant \<Rightarrow> ('d, 'u, 'b, 'r, unit) L" where
  "install_provision env t =
     catchM
       (thenM (save_tenant env (t\<lparr>t_status := provisioning\<rparr>))
       (thenM (on_driver (le_provision env (t\<lparr>t_status := provisioning\<rparr>)))
          (save_tenant env (t\<lparr>t_status := active\<rparr>))))
       (\<lambda>e. thenM (save_tenant env (t\<lparr>t_status := failed\<rparr>)) (throwM e))"

definition install_execute :: "('d, 'u, 'b, 'r) life_env \<Rightarrow> string \<Rightarrow> ('d, 'u, 'b, 'r, unit) L" where
  "install_execute env tenantId =
     bindM (repo_findByIdOrFail tenantId False) (\<lambda>t.
     thenM (life_hooks env Before provision t)
     (thenM (install_provision env t)
     (thenM (fresh_queue_open env tenantId)
     (thenM (life_hooks env After provision (t\<lparr>t_status := active\<rparr>))
        (dispatch_event env (TenantProvisioned (t\<lparr>t_status := active\<rparr>)))))))"

definition uninstall_execute :: "('d, 'u, 'b, 'r) life_env \<Rightarrow> int \<Rightarrow> string \<Rightarrow> ('d, 'u, 'b, 'r, unit) L" where
  "uninstall_execute env now tenantId =
     bindM (repo_findByIdOrFail tenantId True) (\<lambda>t.
     thenM (life_hooks env Before destroy t)
     (thenM (fresh_queue_destroy env tenantId)
     (thenM (fresh_breaker_destroy env tenantId)
     (thenM (on_driver (le_destroy env t))
     (thenM (save_tenant env (t\<lparr>t_deletedAt := Some now\<rparr>))
     (thenM (life_hooks env After destroy (t\<lparr>t_deletedAt := Some now\<rparr>))
        (dispatch_event env (TenantDeleted (t\<lparr>t_deletedAt := Some now\<rparr>)))))))))"

section \<open>The admin API\<close>

text \<open>\<open>serialize\<close>; the rendering of dates and the schema name are the model's.\<close>

record tenant_json =
  tj_id :: string
  tj_name :: string
  tj_email :: string
  tj_status :: TenantStatus
  tj_customDomain :: "string option"
  tj_schemaName :: string
  tj_createdAt :: string
  tj_deletedAt :: "string option"
  tj_isActive :: bool
  tj_isDeleted :: bool

definition serialize :: "(int \<Rightarrow> string) \<Rightarrow> (tenant \<Rightarrow> string) \<Rightarrow> tenant \<Rightarrow> tenant_json" where
  "serialize toISO schemaName t =
     \<lparr>tj_id = t_id t, tj_name = t_name t, tj_email = t_email t, tj_status = t_status t,
      tj_customDomain = t_customDomain t, tj_schemaName = schemaName t, tj_createdAt = toISO (t_createdAt t),
      tj_deletedAt = map_option toISO (t_deletedAt t), tj_isActive = isActive t, tj_isDeleted = isDeleted t\<rparr>"

text \<open>A value of \<open>request.input(key)\<close>; \<open>InpOther\<close> carries its \<open>String()\<close> rendering.\<close>

datatype js_input = InpUndef | InpNull | InpBool bool | InpStr string | InpOther string

definition js_flag :: "js_input \<Rightarrow> bool" where
  "js_flag v \<longleftrightarrow> v = InpBool True \<or> v = InpStr ''true''"

definition js_text :: "js_input \<Rightarrow> string" where
  "js_text v = (case v of InpUndef \<Rightarrow> [] | InpNull \<Rightarrow> [] | InpStr s \<Rightarrow> s | InpOther s \<Rightarrow> s
     | InpBool b \<Rightarrow> (if b then ''true'' else ''false''))"

datatype admin_reply =
    AdminNotFound
  | AdminBadRequest string
  | AdminUnprocessable string
  | AdminList "tenant list" nat
  | AdminData tenant
  | AdminUnchanged tenant
  | AdminCreated tenant
  | AdminDestroyed tenant bool

definition VALID_STATUSES :: "(string \<times> TenantStatus) list" where
  "VALID_STATUSES = [(''provisioning'', provisioning), (''active'', active), (''suspended'', suspended),
     (''failed'', failed), (''deleted'', deleted)]"

definition admin_list :: "js_input \<Rightarrow> js_input \<Rightarrow> ('d, 'u, 'b, 'r, admin_reply) L" where
  "admin_list includeDeleted status =
     (let statuses = (case status of
            InpStr st \<Rightarrow> map_option (\<lambda>x. [x]) (map_of VALID_STATUSES st) | _ \<Rightarrow> None)
      in bindM (getM (\<lambda>s. mock_all (rows s) (js_flag includeDeleted) statuses)) (\<lambda>ts.
           returnM (AdminList ts (length ts))))"

text \<open>The lookup every operation on one tenant starts with.\<close>

definition with_tenant ::
  "string \<Rightarrow> bool \<Rightarrow> (tenant \<Rightarrow> ('d, 'u, 'b, 'r, admin_reply) L) \<Rightarrow> ('d, 'u, 'b, 'r, admin_reply) L"
where
  "with_tenant i includeDeleted f =
     bindM (repo_findById i includeDeleted) (\<lambda>r. case r of None \<Rightarrow> returnM AdminNotFound | Some t \<Rightarrow> f t)"

definition admin_show :: "string \<Rightarrow> ('d, 'u, 'b, 'r, admin_reply) L" where
  "admin_show i = with_tenant i True (\<lambda>t. returnM (AdminData t))"

text \<open>\<open>repo.create\<close>; the id is a fresh UUID and the row is saved.\<close>

definition repo_create ::
  "('d, 'u, 'b, 'r) life_env \<Rightarrow> string \<Rightarrow> int \<Rightarrow> string \<Rightarrow> string \<Rightarrow> TenantStatus \<Rightarrow> ('d, 'u, 'b, 'r, tenant) L"
where
  "repo_create env uuid now name email status =
     (let t = fst (mock_create uuid now name email status []) in thenM (save_tenant env t) (returnM t))"

definition admin_create ::
  "('d, 'u, 'b, 'r) life_env \<Rightarrow> string \<Rightarrow> int \<Rightarrow> js_input \<Rightarrow> js_input \<Rightarrow> ('d, 'u, 'b, 'r, admin_reply) L"
where
  "admin_create env uuid now name email =
     (let n = js_trim (js_text name); e = js_trim (js_text email) in
      if n = [] \<or> e = [] then returnM (AdminBadRequest ''name_and_email_required'')
      else bindM (repo_create env uuid now n e provisioning) (\<lambda>t.
             thenM (dispatch_event env (TenantCreated t))
             (thenM (dispatch_job env (InstallTenant (t_id t)))
                (returnM (AdminCreated t)))))"

definition admin_activate :: "('d, 'u, 'b, 'r) life_env \<Rightarrow> string \<Rightarrow> ('d, 'u, 'b, 'r, admin_reply) L" where
  "admin_activate env i = with_tenant i True (\<lambda>t.
     if isActive t then returnM (AdminUnchanged t)
     else thenM (save_tenant env (activate t))
          (thenM (dispatch_event env (TenantActivated (activate t))) (returnM (AdminData (activate t)))))"

definition admin_suspend :: "('d, 'u, 'b, 'r) life_env \<Rightarrow> string \<Rightarrow> ('d, 'u, 'b, 'r, admin_reply) L" where
  "admin_suspend env i = with_tenant i True (\<lambda>t.
     if isSuspended t then returnM (AdminUnchanged t)
     else thenM (save_tenant env (suspend t))
          (thenM (dispatch_event env (EvSuspended (suspend t))) (returnM (AdminData (suspend t)))))"

definition admin_destroy ::
  "('d, 'u, 'b, 'r) life_env \<Rightarrow> int \<Rightarrow> js_input \<Rightarrow> string \<Rightarrow> ('d, 'u, 'b, 'r, admin_reply) L"
where
  "admin_destroy env now keep i = with_tenant i False (\<lambda>t.
     let t' = t\<lparr>t_deletedAt := Some now\<rparr> in
     thenM (life_hooks env Before destroy t)
     (thenM (save_tenant env t')
     (thenM (if js_flag keep then returnM () else on_driver (le_destroy env t'))
     (thenM (life_hooks env After destroy t')
     (thenM (dispatch_event env (TenantDeleted t'))
        (returnM (AdminDestroyed t' (\<not> js_flag keep))))))))"

definition admin_restore :: "('d, 'u, 'b, 'r) life_env \<Rightarrow> string \<Rightarrow> ('d, 'u, 'b, 'r, admin_reply) L" where
  "admin_restore env i = with_tenant i True (\<lambda>t.
     if \<not> isDeleted t then returnM (AdminUnchanged t)
     else thenM (save_tenant env (t\<lparr>t_deletedAt := None\<rparr>)) (returnM (AdminData (t\<lparr>t_deletedAt := None\<rparr>))))"

definition enterMaintenance :: "string option \<Rightarrow> tenant \<Rightarrow> tenant" where
  "enterMaintenance msg t = t\<lparr>t_maintenance := True, t_maintenanceMessage := msg\<rparr>"

definition exitMaintenance :: "tenant \<Rightarrow> tenant" where
  "exitMaintenance t = t\<lparr>t_maintenance := False, t_maintenanceMessage := None\<rparr>"

definition admin_enterMaintenance ::
  "('d, 'u, 'b, 'r) life_env \<Rightarrow> string option \<Rightarrow> string \<Rightarrow> ('d, 'u, 'b, 'r, admin_reply) L"
where
  "admin_enterMaintenance env msg i = with_tenant i True (\<lambda>t.
     if \<not> le_maintenance env then returnM (AdminUnprocessable ''maintenance_not_supported_by_model'')
     else if t_maintenance t then returnM (AdminUnchanged t)
     else thenM (save_tenant env (enterMaintenance msg t))
          (thenM (dispatch_event env (EnteredMaintenance (enterMaintenance msg t) msg))
             (returnM (AdminData (enterMaintenance msg t)))))"

definition admin_exitMaintenance :: "('d, 'u, 'b, 'r) life_env \<Rightarrow> string \<Rightarrow> ('d, 'u, 'b, 'r, admin_reply) L" where
  "admin_exitMaintenance env i = with_tenant i True (\<lambda>t.
     if \<not> le_maintenance env then returnM (AdminUnprocessable ''maintenance_not_supported_by_model'')
     else if \<not> t_maintenance t then returnM (AdminUnchanged t)
     else thenM (save_tenant env (exitMaintenance t))
          (thenM (dispatch_event env (ExitedMaintenance (exitMaintenance t)))
             (returnM (AdminData (exitMaintenance t)))))"

definition admin_queueStats ::
  "('d, 'u, 'b, 'r) life_env \<Rightarrow> string \<Rightarrow> ('d, 'u, 'b, 'r, TenantQueueStats option) L"
where
  "admin_queueStats env i = bindM (repo_findById i True) (\<lambda>r. case r of
       None \<Rightarrow> returnM None
     | Some t \<Rightarrow> (\<lambda>s.
         case queue_getStats (le_bull env) (le_qcfg env) (t_id t) (new_queue_service (bulls s)) of
           (Inl e, q) \<Rightarrow> (Inl (Threw e), s\<lparr>bulls := bullw q\<rparr>)
         | (Inr st, q) \<Rightarrow> (Inr (Some st), s\<lparr>bulls := bullw q\<rparr>)))"

section \<open>Commands\<close>

text \<open>The outcome of a command: done, refused with a warning, aborted at the prompt, or exit code 1.\<close>

datatype cmd_outcome = CmdDone | CmdWarned | CmdAborted | CmdFailed

definition cmd_try :: "('d, 'u, 'b, 'r, cmd_outcome) L \<Rightarrow> ('d, 'u, 'b, 'r, cmd_outcome) L" where
  "cmd_try m = catchM m (\<lambda>_. returnM CmdFailed)"

text \<open>
  The two tasks of the create command. The first one notes the id before it
  dispatches its event; whether the task runner goes on to the second one after
  a failed task is a parameter. The result is the noted id and the success of
  each task.
\<close>

definition create_task ::
  "('d, 'u, 'b, 'r) life_env \<Rightarrow> string \<Rightarrow> int \<Rightarrow> string \<Rightarrow> string \<Rightarrow> ('d, 'u, 'b, 'r, string option \<times> bool) L"
where
  "create_task env uuid now name email =
     catchM (bindM (repo_create env uuid now name email provisioning) (\<lambda>t.
         catchM (thenM (dispatch_event env (TenantCreated t)) (returnM (Some (t_id t), True)))
           (\<lambda>_. returnM (Some (t_id t), False))))
       (\<lambda>_. returnM (None, False))"

definition queue_task ::
  "('d, 'u, 'b, 'r) life_env \<Rightarrow> string option \<Rightarrow> ('d, 'u, 'b, 'r, bool) L"
where
  "queue_task env created =
     (case created of
        None \<Rightarrow> returnM False
      | Some i \<Rightarrow> catchM (thenM (dispatch_job env (InstallTenant i)) (returnM True)) (\<lambda>_. returnM False))"

definition cmd_create ::
  "('d, 'u, 'b, 'r) life_env \<Rightarrow> bool \<Rightarrow> string \<Rightarrow> int \<Rightarrow> string \<Rightarrow> string \<Rightarrow>
   ('d, 'u, 'b, 'r, string option \<times> bool \<times> bool) L"
where
  "cmd_create env goes_on uuid now name email =
     bindM (create_task env uuid now name email) (\<lambda>(created, ok).
       if \<not> ok \<and> \<not> goes_on then returnM (created, ok, False)
       else bindM (queue_task env created) (\<lambda>ok2. returnM (created, ok, ok2)))"

definition cmd_activate :: "('d, 'u, 'b, 'r) life_env \<Rightarrow> string \<Rightarrow> ('d, 'u, 'b, 'r, cmd_outcome) L" where
  "cmd_activate env i = cmd_try (bindM (repo_findByIdOrFail i False) (\<lambda>t.
     if isActive t then returnM CmdWarned
     else thenM (save_tenant env (activate t))
          (thenM (dispatch_event env (TenantActivated (activate t))) (returnM CmdDone))))"

definition cmd_suspend :: "('d, 'u, 'b, 'r) life_env \<Rightarrow> string \<Rightarrow> ('d, 'u, 'b, 'r, cmd_outcome) L" where
  "cmd_suspend env i = cmd_try (bindM (repo_findByIdOrFail i False) (\<lambda>t.
     if isSuspended t then returnM CmdWarned
     else thenM (save_tenant env (suspend t))
          (thenM (dispatch_event env (EvSuspended (suspend t))) (returnM CmdDone))))"

definition cmd_destroy ::
  "('d, 'u, 'b, 'r) life_env \<Rightarrow> int \<Rightarrow> bool \<Rightarrow> bool \<Rightarrow> bool \<Rightarrow> string \<Rightarrow> ('d, 'u, 'b, 'r, cmd_outcome) L"
where
  "cmd_destroy env now force confirmed keepSchema i = cmd_try (bindM (repo_findByIdOrFail i False) (\<lambda>t.
     if \<not> force \<and> \<not> confirmed then returnM CmdAborted
     else let t' = t\<lparr>t_deletedAt := Some now\<rparr> in
       thenM (life_hooks env Before destroy t)
       (thenM (save_tenant env t')
       (thenM (if keepSchema then returnM () else on_driver (le_destroy env t'))
       (thenM (life_hooks env After destroy t')
       (thenM (dispatch_event env (TenantDeleted t')) (returnM CmdDone)))))))"

definition cmd_maintenance ::
  "('d, 'u, 'b, 'r) life_env \<Rightarrow> bool \<Rightarrow> string option \<Rightarrow> string \<Rightarrow> ('d, 'u, 'b, 'r, cmd_outcome) L"
where
  "cmd_maintenance env off msg i = cmd_try (bindM (repo_findByIdOrFail i False) (\<lambda>t.
     if off then
       (if \<not> t_maintenance t then returnM CmdWarned
        else if \<not> le_maintenance env then returnM CmdFailed
        else thenM (save_tenant env (exitMaintenance t))
             (thenM (dispatch_event env (ExitedMaintenance (exitMaintenance t))) (returnM CmdDone)))
     else if t_maintenance t then returnM CmdWarned
     else if \<not> le_maintenance env then returnM CmdFailed
     else thenM (save_tenant env (enterMaintenance msg t))
          (thenM (dispatch_event env (EnteredMaintenance (enterMaintenance msg t) msg)) (returnM CmdDone))))"

text \<open>utils/soft_delete.ts; times are milliseconds.\<close>

definition DEFAULT_SOFT_DELETE_RETENTION_DAYS :: int where
  "DEFAULT_SOFT_DELETE_RETENTION_DAYS = 30"

definition isExpired :: "int option \<Rightarrow> int \<Rightarrow> int \<Rightarrow> bool" where
  "isExpired deletedAt retentionDays now =
     (case deletedAt of None \<Rightarrow> False | Some ms \<Rightarrow> ms \<le> now - retentionDays * 86400000)"

definition purge_candidates :: "int \<Rightarrow> int \<Rightarrow> mock_repo \<Rightarrow> tenant list" where
  "purge_candidates days now r = filter (\<lambda>t. isDeleted t \<and> isExpired (t_deletedAt t) days now) (mock_all r True None)"

definition purge_one :: "('d, 'u, 'b, 'r) life_env \<Rightarrow> tenant \<Rightarrow> ('d, 'u, 'b, 'r, unit) L" where
  "purge_one env t =
     thenM (life_hooks env Before destroy t)
     (thenM (on_driver (le_destroy env t))
     (thenM (life_hooks env After destroy t)
        (dispatch_event env (TenantDeleted t))))"

fun purge_loop :: "('d, 'u, 'b, 'r) life_env \<Rightarrow> tenant list \<Rightarrow> nat \<Rightarrow> nat \<Rightarrow> ('d, 'u, 'b, 'r, nat \<times> nat) L" where
  "purge_loop env [] purged bad = returnM (purged, bad)"
| "purge_loop env (t # ts) purged bad =
     bindM (catchM (thenM (purge_one env t) (returnM True)) (\<lambda>_. returnM False)) (\<lambda>ok.
       purge_loop env ts (if ok then Suc purged else purged) (if ok then bad else Suc bad))"

definition cmd_purge_expired ::
  "('d, 'u, 'b, 'r) life_env \<Rightarrow> int option \<Rightarrow> int option \<Rightarrow> int \<Rightarrow> bool \<Rightarrow> bool \<Rightarrow> bool \<Rightarrow>
   ('d, 'u, 'b, 'r, cmd_outcome \<times> nat \<times> nat) L"
where
  "cmd_purge_expired env flag configured now dryRun force confirmed =
     (let days = or_else flag (or_else configured DEFAULT_SOFT_DELETE_RETENTION_DAYS) in
      bindM (getM (\<lambda>s. purge_candidates days now (rows s))) (\<lambda>ts.
        if ts = [] \<or> dryRun then returnM (CmdDone, 0, 0)
        else if \<not> force \<and> \<not> confirmed then returnM (CmdAborted, 0, 0)
        else bindM (purge_loop env ts 0 0) (\<lambda>(purged, bad).
               returnM (if 0 < bad then CmdFailed else CmdDone, purged, bad))))"

section \<open>The step relation\<close>

text \<open>
  What can happen next: a request to the admin API, a command, the application
  dispatching an uninstall job, or a worker taking the oldest pending job.
\<close>

datatype life_op =
    AdminCreate string int js_input js_input
  | AdminActivate string | AdminSuspend string
  | AdminDestroy int js_input string | AdminRestore string
  | AdminEnter "string option" string | AdminExit string
  | CmdCreate bool string int string string
  | CmdActivate string | CmdSuspend string
  | CmdDestroy int bool bool bool string
  | CmdMaintenance bool "string option" string
  | CmdPurge "int option" "int option" int bool bool bool
  | AppUninstall string

definition run_state :: "('s, 'e, 'a) M \<Rightarrow> 's \<Rightarrow> 's" where
  "run_state m s = snd (m s)"

fun life_run :: "('d, 'u, 'b, 'r) life_env \<Rightarrow> life_op \<Rightarrow> ('d, 'u, 'b, 'r) life \<Rightarrow> ('d, 'u, 'b, 'r) life" where
  "life_run env (AdminCreate uuid now n e) = run_state (admin_create env uuid now n e)"
| "life_run env (AdminActivate i) = run_state (admin_activate env i)"
| "life_run env (AdminSuspend i) = run_state (admin_suspend env i)"
| "life_run env (AdminDestroy now keep i) = run_state (admin_destroy env now keep i)"
| "life_run env (AdminRestore i) = run_state (admin_restore env i)"
| "life_run env (AdminEnter msg i) = run_state (admin_enterMaintenance env msg i)"
| "life_run env (AdminExit i) = run_state (admin_exitMaintenance env i)"
| "life_run env (CmdCreate g uuid now n e) = run_state (cmd_create env g uuid now n e)"
| "life_run env (CmdActivate i) = run_state (cmd_activate env i)"
| "life_run env (CmdSuspend i) = run_state (cmd_suspend env i)"
| "life_run env (CmdDestroy now force conf keep i) = run_state (cmd_destroy env now force conf keep i)"
| "life_run env (CmdMaintenance off msg i) = run_state (cmd_maintenance env off msg i)"
| "life_run env (CmdPurge flag conf now dry force yes) = run_state (cmd_purge_expired env flag conf now dry force yes)"
| "life_run env (AppUninstall i) = run_state (dispatch_job env (UninstallTenant i))"

text \<open>The ids an operation takes from \<open>randomUUID()\<close>.\<close>

fun new_id :: "life_op \<Rightarrow> string option" where
  "new_id (AdminCreate uuid now n e) = Some uuid"
| "new_id (CmdCreate g uuid now n e) = Some uuid"
| "new_id _ = None"

definition run_job :: "('d, 'u, 'b, 'r) life_env \<Rightarrow> int \<Rightarrow> job \<Rightarrow> ('d, 'u, 'b, 'r, unit) L" where
  "run_job env now j = (case j of InstallTenant i \<Rightarrow> install_execute env i | UninstallTenant i \<Rightarrow> uninstall_execute env now i)"

inductive life_step ::
  "('d, 'u, 'b, 'r) life_env \<Rightarrow> life_op option \<Rightarrow> ('d, 'u, 'b, 'r) life \<Rightarrow> ('d, 'u, 'b, 'r) life \<Rightarrow> bool"
  for env
where
  request: "(\<And>i. new_id op = Some i \<Longrightarrow> jm_get i (rows s) = None) \<Longrightarrow>
    life_step env (Some op) s (life_run env op s)"
| worker: "jobs s = j # js \<Longrightarrow> life_step env None s (run_state (run_job env now j) (s\<lparr>jobs := js\<rparr>))"

inductive_cases request_cases: "life_step env (Some op) s s'"
inductive_cases worker_cases: "life_step env None s s'"
inductive_simps worker_simps: "life_step env None s s'"

text \<open>Runs made of the operations that satisfy \<open>P\<close>.\<close>

inductive life_run_star ::
  "('d, 'u, 'b, 'r) life_env \<Rightarrow> (life_op option \<Rightarrow> bool) \<Rightarrow> ('d, 'u, 'b, 'r) life \<Rightarrow> ('d, 'u, 'b, 'r) life \<Rightarrow> bool"
  for env P
where
  start: "life_run_star env P s s"
| then_step: "life_run_star env P s s' \<Longrightarrow> P op \<Longrightarrow> life_step env op s' s'' \<Longrightarrow> life_run_star env P s s''"

section \<open>Frames\<close>

lemma keeps_on_outside: "(\<And>s w. P s \<Longrightarrow> P (s\<lparr>outside := w\<rparr>)) \<Longrightarrow> keeps P (on_outside m)"
  by (auto simp add: keeps_def on_outside_def split: prod.splits sum.splits)

lemma keeps_on_driver: "(\<And>s w. P s \<Longrightarrow> P (s\<lparr>drv := w\<rparr>)) \<Longrightarrow> keeps P (on_driver m)"
  by (auto simp add: keeps_def on_driver_def split: prod.splits sum.splits)

lemma keeps_life_hooks: "(\<And>s w. P s \<Longrightarrow> P (s\<lparr>outside := w\<rparr>)) \<Longrightarrow> keeps P (life_hooks env ph ev t)"
  unfolding life_hooks_def by (rule keeps_on_outside)

lemma keeps_queue_open: "(\<And>s w. P s \<Longrightarrow> P (s\<lparr>bulls := w\<rparr>)) \<Longrightarrow> keeps P (fresh_queue_open env i)"
  by (auto simp add: keeps_def fresh_queue_open_def split: prod.splits sum.splits)

lemma keeps_queue_destroy: "(\<And>s w. P s \<Longrightarrow> P (s\<lparr>bulls := w\<rparr>)) \<Longrightarrow> keeps P (fresh_queue_destroy env i)"
  by (auto simp add: keeps_def fresh_queue_destroy_def split: prod.splits sum.splits)

lemma keeps_breaker_destroy: "(\<And>s w. P s \<Longrightarrow> P (s\<lparr>redis := w\<rparr>)) \<Longrightarrow> keeps P (fresh_breaker_destroy env i)"
  by (auto simp add: keeps_def fresh_breaker_destroy_def split: prod.splits sum.splits)

lemma keeps_dispatch_event:
  "(\<And>s w. P s \<Longrightarrow> P (s\<lparr>outside := w\<rparr>)) \<Longrightarrow> (\<And>s. P s \<Longrightarrow> P (s\<lparr>events := events s @ [ev]\<rparr>)) \<Longrightarrow>
   keeps P (dispatch_event env ev)"
  unfolding dispatch_event_def by (intro keeps_intros keeps_on_outside) auto

lemma keeps_dispatch_job:
  "(\<And>s w. P s \<Longrightarrow> P (s\<lparr>outside := w\<rparr>)) \<Longrightarrow> (\<And>s. P s \<Longrightarrow> P (s\<lparr>jobs := jobs s @ [j]\<rparr>)) \<Longrightarrow>
   keeps P (dispatch_job env j)"
  unfolding dispatch_job_def by (intro keeps_intros keeps_on_outside) auto

lemma keeps_save:
  "(\<And>s w. P s \<Longrightarrow> P (s\<lparr>outside := w\<rparr>)) \<Longrightarrow> (\<And>s. P s \<Longrightarrow> P (s\<lparr>rows := mock_add t (rows s)\<rparr>)) \<Longrightarrow>
   keeps P (save_tenant env t)"
  unfolding save_tenant_def by (intro keeps_intros keeps_on_outside) auto

lemma save_Inr:
  "save_tenant env t s = (Inr (), s') \<Longrightarrow> \<exists>w. s' = s\<lparr>outside := w, rows := mock_add t (rows s)\<rparr>"
  by (auto simp add: save_tenant_def on_outside_def run_simps split: prod.splits sum.splits)

lemma save_Inl: "save_tenant env t s = (Inl e, s') \<Longrightarrow> \<exists>w. s' = s\<lparr>outside := w\<rparr>"
  by (auto simp add: save_tenant_def on_outside_def run_simps split: prod.splits sum.splits)

text \<open>A lookup hands its continuation a stored tenant.\<close>

lemma keeps_with_tenant:
  assumes "\<And>t s. P s \<Longrightarrow> mock_findById (rows s) i d = Some t \<Longrightarrow> Q t s \<and> R t"
    and "\<And>t. R t \<Longrightarrow> keeps (Q t) (f t)" and "\<And>t s. Q t s \<Longrightarrow> P s"
  shows "keeps P (with_tenant i d f)"
proof
  fix s assume P: "P s"
  show "P (snd (with_tenant i d f s))"
  proof (cases "mock_findById (rows s) i d")
    case None
    then show ?thesis using P by (simp add: with_tenant_def repo_findById_def run_simps)
  next
    case (Some t)
    then have "P (snd (f t s))" using assms P by (blast dest: keepsD)
    then show ?thesis using Some by (simp add: with_tenant_def repo_findById_def run_simps)
  qed
qed

lemma keeps_or_fail:
  assumes "\<And>t s. P s \<Longrightarrow> mock_findById (rows s) i d = Some t \<Longrightarrow> Q t s \<and> R t"
    and "\<And>t. R t \<Longrightarrow> keeps (Q t) (f t)" and "\<And>t s. Q t s \<Longrightarrow> P s"
  shows "keeps P (bindM (repo_findByIdOrFail i d) f)"
proof
  fix s assume P: "P s"
  show "P (snd (bindM (repo_findByIdOrFail i d) f s))"
  proof (cases "mock_findById (rows s) i d")
    case None
    then show ?thesis using P by (simp add: repo_findByIdOrFail_def repo_findById_def run_simps)
  next
    case (Some t)
    then have "P (snd (f t s))" using assms P by (blast dest: keepsD)
    then show ?thesis using Some by (simp add: repo_findByIdOrFail_def repo_findById_def run_simps)
  qed
qed

lemma keeps_cmd_try [keeps_intros]: "keeps P m \<Longrightarrow> keeps P (cmd_try m)"
  unfolding cmd_try_def by (intro keeps_intros)

lemmas admin_ops = admin_activate_def admin_suspend_def admin_destroy_def admin_restore_def
  admin_enterMaintenance_def admin_exitMaintenance_def
lemmas cmd_ops = cmd_activate_def cmd_suspend_def cmd_destroy_def cmd_maintenance_def
lemmas job_ops = install_execute_def install_provision_def uninstall_execute_def

section \<open>A concrete environment\<close>

text \<open>An environment whose driver keeps the list of provisioned ids.\<close>

definition demo_env :: "(string list, unit, string \<Rightarrow> string list, string \<Rightarrow> string option) life_env" where
  "demo_env = \<lparr>le_save = (\<lambda>t. returnM ()), le_enqueue = (\<lambda>j. returnM ()), le_listen = (\<lambda>e. returnM ()),
     le_hooks = [], le_hooklog = (\<lambda>p v e w. w),
     le_provision = (\<lambda>t. modM (\<lambda>d. t_id t # d)), le_destroy = (\<lambda>t. modM (removeAll (t_id t))),
     le_bull = map_bull, le_qcfg = \<lparr>queuePrefix = [], queueAttempts = 3\<rparr>, le_kv = Some map_kv,
     le_maintenance = True\<rparr>"

definition demo_life :: "(string list, unit, string \<Rightarrow> string list, string \<Rightarrow> string option) life" where
  "demo_life = \<lparr>rows = [], drv = [], outside = (), jobs = [], events = [], bulls = (\<lambda>_. []), redis = Map.empty\<rparr>"

definition demo_created :: "(string list, unit, string \<Rightarrow> string list, string \<Rightarrow> string option) life" where
  "demo_created = life_run demo_env (AdminCreate ''a'' 0 (InpStr ''n'') (InpStr ''e'')) demo_life"

definition demo_installed :: "(string list, unit, string \<Rightarrow> string list, string \<Rightarrow> string option) life" where
  "demo_installed = run_state (run_job demo_env 0 (InstallTenant ''a'')) (demo_created\<lparr>jobs := []\<rparr>)"

lemma demo_created_jobs: "jobs demo_created = [InstallTenant ''a'']"
  by code_simp

end
