(* ===== verification/Life_Rows.thy ===== *)
theory Life_Rows
  imports Lifecycle
begin

text \<open>
  What every run of the lifecycle operations, requests and workers in any order,
  keeps of the stored rows: no tenant is lost or loses its identity, and jobs
  and events concern stored tenants.
\<close>

section \<open>The rows of a run\<close>

definition ident :: "tenant \<Rightarrow> string \<times> string \<times> string \<times> int" where
  "ident t = (t_id t, t_name t, t_email t, t_createdAt t)"

fun event_tenant :: "domain_event \<Rightarrow> tenant" where
  "event_tenant (TenantCreated t) = t"
| "event_tenant (TenantActivated t) = t"
| "event_tenant (EvSuspended t) = t"
| "event_tenant (TenantDeleted t) = t"
| "event_tenant (TenantProvisioned t) = t"
| "event_tenant (EnteredMaintenance t m) = t"
| "event_tenant (ExitedMaintenance t) = t"

text \<open>
  Rows are keyed by id and never lost, no row has the status \<open>deleted\<close>, every
  pending install job and every event concerns a stored tenant.
\<close>

definition life_inv :: "mock_repo \<Rightarrow> ('d, 'u, 'b, 'r) life \<Rightarrow> bool" where
  "life_inv r0 s \<longleftrightarrow>
     mock_inv (rows s) \<and>
     (\<forall>i t. jm_get i r0 = Some t \<longrightarrow> (\<exists>u. jm_get i (rows s) = Some u \<and> ident u = ident t)) \<and>
     (\<forall>i t. jm_get i (rows s) = Some t \<longrightarrow> t_status t \<noteq> deleted) \<and>
     (\<forall>i. InstallTenant i \<in> set (jobs s) \<longrightarrow> jm_get i (rows s) \<noteq> None) \<and>
     (\<forall>ev \<in> set (events s). jm_get (t_id (event_tenant ev)) (rows s) \<noteq> None)"

definition held :: "mock_repo \<Rightarrow> tenant \<Rightarrow> ('d, 'u, 'b, 'r) life \<Rightarrow> bool" where
  "held r0 t s \<longleftrightarrow> life_inv r0 s \<and> (\<exists>u. jm_get (t_id t) (rows s) = Some u \<and> ident u = ident t)"

lemma held_inv: "held r0 t s \<Longrightarrow> life_inv r0 s"
  by (simp add: held_def)

lemma life_inv_frames [simp]:
  "life_inv r0 (s\<lparr>outside := w\<rparr>) = life_inv r0 s"
  "life_inv r0 (s\<lparr>drv := d\<rparr>) = life_inv r0 s"
  "life_inv r0 (s\<lparr>bulls := b\<rparr>) = life_inv r0 s"
  "life_inv r0 (s\<lparr>redis := r\<rparr>) = life_inv r0 s"
  by (simp_all add: life_inv_def)

lemma held_frames [simp]:
  "held r0 t (s\<lparr>outside := w\<rparr>) = held r0 t s"
  "held r0 t (s\<lparr>drv := d\<rparr>) = held r0 t s"
  "held r0 t (s\<lparr>bulls := b\<rparr>) = held r0 t s"
  "held r0 t (s\<lparr>redis := r\<rparr>) = held r0 t s"
  by (simp_all add: held_def)

lemma life_inv_lookup:
  "life_inv r0 s \<Longrightarrow> mock_findById (rows s) i d = Some t \<Longrightarrow> held r0 t s \<and> (t_status t \<noteq> deleted \<and> t_id t = i)"
  using mock.findById_id [of "rows s" i d t]
  by (auto simp add: held_def life_inv_def mock_findById_def split: option.splits if_splits)

lemma life_inv_add:
  assumes "life_inv r0 s" and "t_status t \<noteq> deleted"
    and "\<And>u. jm_get (t_id t) (rows s) = Some u \<Longrightarrow> ident u = ident t"
  shows "held r0 t (s\<lparr>rows := mock_add t (rows s)\<rparr>)"
proof -
  let ?r = "mock_add t (rows s)"
  have get: "jm_get i ?r = (if i = t_id t then Some t else jm_get i (rows s))" for i
    by (simp add: mock_add_def js_map.get_put)
  have "\<exists>u. jm_get i ?r = Some u \<and> ident u = ident x" if old: "jm_get i r0 = Some x" for i x
  proof -
    obtain u where "jm_get i (rows s) = Some u" "ident u = ident x"
      using assms(1) old unfolding life_inv_def by blast
    then show ?thesis using assms(3) by (cases "i = t_id t") (auto simp add: get)
  qed
  moreover have "mock_inv ?r" using assms(1) by (simp add: life_inv_def mock_inv_add)
  ultimately show ?thesis using assms(1,2) by (simp add: held_def life_inv_def get)
qed

lemma held_save:
  assumes "ident t' = ident t" "t_status t' \<noteq> deleted"
  shows "keeps (held r0 t) (save_tenant env t')"
proof (rule keeps_save)
  fix s :: "('a, 'b, 'c, 'd) life"
  assume h: "held r0 t s"
  have id: "t_id t' = t_id t" using assms(1) by (simp add: ident_def)
  have "held r0 t' (s\<lparr>rows := mock_add t' (rows s)\<rparr>)"
    using h assms id by (intro life_inv_add) (auto simp add: held_def)
  then show "held r0 t (s\<lparr>rows := mock_add t' (rows s)\<rparr>)" using assms(1) id by (simp add: held_def)
qed simp

lemma held_event:
  "t_id (event_tenant ev) = t_id t \<Longrightarrow> keeps (held r0 t) (dispatch_event env ev)"
  by (rule keeps_dispatch_event) (auto simp add: held_def life_inv_def)

lemma held_job: "j = InstallTenant (t_id t) \<Longrightarrow> keeps (held r0 t) (dispatch_job env j)"
  by (rule keeps_dispatch_job) (auto simp add: held_def life_inv_def)

lemma held_steps:
  "keeps (held r0 t) (life_hooks env ph ev x)"
  "keeps (held r0 t) (on_driver m)"
  "keeps (held r0 t) (fresh_queue_open env i)"
  "keeps (held r0 t) (fresh_queue_destroy env i)"
  "keeps (held r0 t) (fresh_breaker_destroy env i)"
  by (simp_all add: keeps_life_hooks keeps_on_driver keeps_queue_open keeps_queue_destroy keeps_breaker_destroy)

lemmas held_intros = keeps_intros held_save held_event held_job held_steps

lemmas life_changes = ident_def activate_def suspend_def enterMaintenance_def exitMaintenance_def

text \<open>Every operation on a tenant keeps the invariant.\<close>

lemma inv_with_tenant:
  "(\<And>t. t_status t \<noteq> deleted \<Longrightarrow> t_id t = i \<Longrightarrow> keeps (held r0 t) (f t)) \<Longrightarrow>
   keeps (life_inv r0) (with_tenant i d f)"
  by (rule keeps_with_tenant [where Q = "held r0" and R = "\<lambda>t. t_status t \<noteq> deleted \<and> t_id t = i"])
     (use life_inv_lookup held_inv in blast)+

lemma inv_or_fail:
  "(\<And>t. t_status t \<noteq> deleted \<Longrightarrow> t_id t = i \<Longrightarrow> keeps (held r0 t) (f t)) \<Longrightarrow>
   keeps (life_inv r0) (bindM (repo_findByIdOrFail i d) f)"
  by (rule keeps_or_fail [where Q = "held r0" and R = "\<lambda>t. t_status t \<noteq> deleted \<and> t_id t = i"])
     (use life_inv_lookup held_inv in blast)+

lemmas inv_lookup = inv_with_tenant inv_or_fail

lemma inv_admin:
  "keeps (life_inv r0) (admin_activate env i) \<and> keeps (life_inv r0) (admin_suspend env i) \<and>
   keeps (life_inv r0) (admin_destroy env now keep i) \<and> keeps (life_inv r0) (admin_restore env i) \<and>
   keeps (life_inv r0) (admin_enterMaintenance env msg i) \<and> keeps (life_inv r0) (admin_exitMaintenance env i)"
  unfolding admin_ops Let_def
  by (intro conjI; rule inv_lookup; intro held_intros; simp add: life_changes)

lemma inv_cmd:
  "keeps (life_inv r0) (cmd_activate env i) \<and> keeps (life_inv r0) (cmd_suspend env i) \<and>
   keeps (life_inv r0) (cmd_destroy env now force conf keep i) \<and>
   keeps (life_inv r0) (cmd_maintenance env off msg i)"
  unfolding cmd_ops Let_def
  by (intro conjI keeps_cmd_try; rule inv_lookup; intro held_intros; simp add: life_changes)

lemma inv_jobs:
  "keeps (life_inv r0) (install_execute env i) \<and> keeps (life_inv r0) (uninstall_execute env now i)"
  unfolding job_ops Let_def
  by (intro conjI; rule inv_lookup; intro held_intros; simp add: life_changes)

text \<open>Creation, under a fresh id, and the purge.\<close>

lemma inv_repo_create:
  assumes "status \<noteq> deleted"
  shows "hoare (\<lambda>s. life_inv r0 s \<and> jm_get uuid (rows s) = None) (repo_create env uuid now name email status)
     (held r0) (life_inv r0)"
proof -
  let ?t = "fst (mock_create uuid now name email status [])"
  have t: "t_status ?t = status" "t_id ?t = uuid"
    by (simp_all add: mock_create_def buildTestTenant_def or_else_def Let_def)
  have "hoare (\<lambda>s. life_inv r0 s \<and> jm_get uuid (rows s) = None) (save_tenant env ?t) (\<lambda>_. held r0 ?t) (life_inv r0)"
  proof (rule hoareI)
    fix s x s'
    assume P: "life_inv r0 s \<and> jm_get uuid (rows s) = None" and run: "save_tenant env ?t s = (Inr x, s')"
    then obtain w where s': "s' = s\<lparr>outside := w, rows := mock_add ?t (rows s)\<rparr>"
      using save_Inr by (metis old.unit.exhaust)
    have "held r0 ?t ((s\<lparr>outside := w\<rparr>)\<lparr>rows := mock_add ?t (rows (s\<lparr>outside := w\<rparr>))\<rparr>)"
      using P t assms by (intro life_inv_add) auto
    then show "held r0 ?t s'" using s' by simp
  qed (use save_Inl in fastforce)
  then show ?thesis
    unfolding repo_create_def Let_def by (rule hoare_then) (auto intro: hoare_basic)
qed

lemma held_hoare: "keeps (held r0 t) m \<Longrightarrow> hoare (held r0 t) m (\<lambda>_. life_inv r0) (life_inv r0)"
  unfolding hoare_keeps by (erule hoare_weaken) (auto dest: held_inv)

lemma inv_admin_create:
  "hoare (\<lambda>s. life_inv r0 s \<and> jm_get uuid (rows s) = None) (admin_create env uuid now n e)
     (\<lambda>_. life_inv r0) (life_inv r0)"
  unfolding admin_create_def Let_def
  by (intro hoare_if hoare_basic hoare_bind [OF inv_repo_create] held_hoare held_intros) auto

lemma inv_cmd_create:
  "hoare (\<lambda>s. life_inv r0 s \<and> jm_get uuid (rows s) = None) (cmd_create env g uuid now n e)
     (\<lambda>_. life_inv r0) (life_inv r0)"
proof -
  have id: "hoare (\<lambda>s. life_inv r0 s \<and> jm_get uuid (rows s) = None) (create_task env uuid now n e)
      (\<lambda>(created, ok) s. case created of None \<Rightarrow> life_inv r0 s | Some i \<Rightarrow> \<exists>t. t_id t = i \<and> held r0 t s) (life_inv r0)"
    unfolding create_task_def
  proof (rule hoare_catch [OF hoare_bind [OF inv_repo_create]])
    fix t
    have "hoare (held r0 t) (catchM (thenM (dispatch_event env (TenantCreated t)) (returnM (Some (t_id t), True)))
        (\<lambda>_. returnM (Some (t_id t), False)))
      (\<lambda>x s. x \<in> {(Some (t_id t), True), (Some (t_id t), False)} \<and> held r0 t s) (life_inv r0)"
      by (rule hoare_catch [OF hoare_then [OF held_event [THEN hoare_keeps [THEN iffD1]]]])
         (auto intro: hoare_basic)
    then show "hoare (held r0 t) (catchM (thenM (dispatch_event env (TenantCreated t)) (returnM (Some (t_id t), True)))
        (\<lambda>_. returnM (Some (t_id t), False)))
      (\<lambda>(created, ok) s. case created of None \<Rightarrow> life_inv r0 s | Some i \<Rightarrow> \<exists>t. t_id t = i \<and> held r0 t s) (life_inv r0)"
      by (rule hoare_weaken) auto
  qed (auto intro: hoare_basic)
  have two: "hoare (\<lambda>s. case c of None \<Rightarrow> life_inv r0 s | Some i \<Rightarrow> \<exists>t. t_id t = i \<and> held r0 t s) (queue_task env c)
      (\<lambda>_. life_inv r0) (life_inv r0)" for c
  proof (cases c)
    case (Some i)
    have "hoare (held r0 t) (queue_task env (Some (t_id t))) (\<lambda>_. life_inv r0) (life_inv r0)" for t
      unfolding queue_task_def option.case
      by (intro held_hoare held_intros) simp
    then have "hoare (\<lambda>s. \<exists>t. t_id t = i \<and> held r0 t s) (queue_task env (Some i)) (\<lambda>_. life_inv r0) (life_inv r0)"
      by (intro hoare_ex) auto
    then show ?thesis using Some by simp
  qed (auto simp add: queue_task_def intro: hoare_basic)
  have weak: "(case c of None \<Rightarrow> life_inv r0 s | Some i \<Rightarrow> \<exists>t. t_id t = i \<and> held r0 t s) \<Longrightarrow> life_inv r0 s"
    for c and s :: "('a, 'b, 'c, 'd) life" by (auto dest: held_inv split: option.splits)
  show ?thesis
    unfolding cmd_create_def
    by (rule hoare_bind [OF id])
       (auto intro!: hoare_basic hoare_bind [OF two] dest: weak)
qed

definition inv_ids :: "mock_repo \<Rightarrow> string set \<Rightarrow> ('d, 'u, 'b, 'r) life \<Rightarrow> bool" where
  "inv_ids r0 ids s \<longleftrightarrow> life_inv r0 s \<and> (\<forall>i \<in> ids. jm_get i (rows s) \<noteq> None)"

lemma inv_purge_one: "t_id t \<in> ids \<Longrightarrow> keeps (inv_ids r0 ids) (purge_one env t)"
  unfolding purge_one_def
  by (intro keeps_intros keeps_life_hooks keeps_on_driver keeps_dispatch_event)
     (auto simp add: inv_ids_def life_inv_def)

lemma inv_purge_loop:
  "\<forall>t \<in> set ts. t_id t \<in> ids \<Longrightarrow> keeps (inv_ids r0 ids) (purge_loop env ts p b)"
  by (induction ts arbitrary: p b) (auto intro!: keeps_intros inv_purge_one)

lemma inv_purge: "keeps (life_inv r0) (cmd_purge_expired env flag conf now dry force yes)"
proof
  fix s :: "('a, 'b, 'c, 'd) life"
  assume inv: "life_inv r0 s"
  let ?ts = "purge_candidates (or_else flag (or_else conf DEFAULT_SOFT_DELETE_RETENTION_DAYS)) now (rows s)"
  have "inv_ids r0 (t_id ` set ?ts) s"
    using inv mock.all_iff [of "rows s"]
    by (auto simp add: inv_ids_def purge_candidates_def life_inv_def mock_findById_def split: option.splits)
  then have "inv_ids r0 (t_id ` set ?ts) (snd (purge_loop env ?ts 0 0 s))"
    by (rule keepsD [OF inv_purge_loop, rotated]) simp
  then have "life_inv r0 (snd (purge_loop env ?ts 0 0 s))" by (simp add: inv_ids_def)
  then show "life_inv r0 (snd (cmd_purge_expired env flag conf now dry force yes s))"
    using inv by (auto simp add: cmd_purge_expired_def Let_def run_simps split: prod.splits sum.splits)
qed

lemma inv_dispatch_uninstall: "keeps (life_inv r0) (dispatch_job env (UninstallTenant i))"
  by (rule keeps_dispatch_job) (auto simp add: life_inv_def)

lemma inv_request:
  assumes "life_inv r0 s" and "\<And>i. new_id op = Some i \<Longrightarrow> jm_get i (rows s) = None"
  shows "life_inv r0 (life_run env op s)"
proof -
  have k: "keeps (life_inv r0) m \<Longrightarrow> life_inv r0 (run_state m s)" for m
    using assms(1) by (simp add: run_state_def keepsD)
  have h: "hoare (\<lambda>s. life_inv r0 s \<and> jm_get u (rows s) = None) m (\<lambda>_. life_inv r0) (life_inv r0) \<Longrightarrow>
      jm_get u (rows s) = None \<Longrightarrow> life_inv r0 (run_state m s)" for u m
    using assms(1) unfolding run_state_def
    by (rule_tac P = "\<lambda>s. life_inv r0 s \<and> jm_get u (rows s) = None" in hoare_snd) simp_all
  have a: "life_inv r0 (run_state (admin_activate env i) s)" "life_inv r0 (run_state (admin_suspend env i) s)"
    "life_inv r0 (run_state (admin_destroy env now keep i) s)" "life_inv r0 (run_state (admin_restore env i) s)"
    "life_inv r0 (run_state (admin_enterMaintenance env msg i) s)"
    "life_inv r0 (run_state (admin_exitMaintenance env i) s)" for i now keep msg
    using inv_admin by (blast intro: k)+
  have c: "life_inv r0 (run_state (cmd_activate env i) s)" "life_inv r0 (run_state (cmd_suspend env i) s)"
    "life_inv r0 (run_state (cmd_destroy env now force conf kp i) s)"
    "life_inv r0 (run_state (cmd_maintenance env off msg i) s)" for i now force conf kp off msg
    using inv_cmd by (blast intro: k)+
  show ?thesis
  proof (cases op)
    case (AdminCreate uuid now n e)
    then show ?thesis using assms(2) h [OF inv_admin_create] by simp
  next
    case (CmdCreate g uuid now n e)
    then show ?thesis using assms(2) h [OF inv_cmd_create] by simp
  qed (simp_all add: a c k [OF inv_purge] k [OF inv_dispatch_uninstall])
qed

lemma life_step_inv: "life_step env op s s' \<Longrightarrow> life_inv r0 s \<Longrightarrow> life_inv r0 s'"
proof (induction rule: life_step.induct)
  case (request op s)
  then show ?case by (intro inv_request) auto
next
  case (worker s j js)
  then have "life_inv r0 (s\<lparr>jobs := js\<rparr>)" by (auto simp add: life_inv_def)
  then show ?case
    by (cases j) (simp_all add: run_state_def run_job_def inv_jobs keepsD)
qed

lemma life_run_star_inv: "life_run_star env P s s' \<Longrightarrow> life_inv r0 s \<Longrightarrow> life_inv r0 s'"
  by (induction rule: life_run_star.induct) (auto intro: life_step_inv)



section \<open>One installation\<close>

lemma outside_fields [simp]:
  "rows (snd (on_outside m s)) = rows s" "drv (snd (on_outside m s)) = drv s"
  "events (snd (on_outside m s)) = events s" "jobs (snd (on_outside m s)) = jobs s"
  by (auto simp add: on_outside_def split: prod.splits sum.splits)

lemma save_accepted:
  "\<forall>t w. \<not> isl (fst (le_save env t w)) \<Longrightarrow>
   \<exists>w. save_tenant env t s = (Inr (), s\<lparr>outside := w, rows := mock_add t (rows s)\<rparr>)"
  by (cases "le_save env t (outside s)"; cases "fst (le_save env t (outside s))")
     (auto simp add: save_tenant_def on_outside_def run_simps dest!: spec [where x = t] spec [where x = "outside s"])

lemma hooks_frame:
  "life_hooks env ph ev t s = (r, s') \<Longrightarrow>
   rows s' = rows s \<and> drv s' = drv s \<and> events s' = events s \<and> jobs s' = jobs s"
  unfolding life_hooks_def by (metis outside_fields snd_conv)

lemma after_hooks_Inr: "fst (life_hooks env After ev t s) = Inr ()"
  unfolding life_hooks_def on_outside_def by (simp add: run_hooks_after split: prod.splits)

text \<open>
  When its before-hooks pass and the saves are accepted, the install job does
  exactly what the driver decides. If provisioning succeeds the tenant is stored
  active and its provisioned event is dispatched; if it throws, the job fails
  with that error, the tenant is stored failed and no event is dispatched. No
  other tenant's row changes.
\<close>

theorem install_outcome:
  assumes "mock_inv (rows s)" and "mock_findById (rows s) i False = Some t"
    and "\<forall>t w. \<not> isl (fst (le_save env t w))"
    and "fst (life_hooks env Before provision t s) = Inr ()"
  shows "(case le_provision env (t\<lparr>t_status := provisioning\<rparr>) (drv s) of
       (Inr _, d) \<Rightarrow>
         jm_get i (rows (snd (install_execute env i s))) = Some (t\<lparr>t_status := active\<rparr>) \<and>
         events (snd (install_execute env i s)) = events s @ [TenantProvisioned (t\<lparr>t_status := active\<rparr>)] \<and>
         drv (snd (install_execute env i s)) = d
     | (Inl e, d) \<Rightarrow>
         fst (install_execute env i s) = Inl (Threw e) \<and>
         jm_get i (rows (snd (install_execute env i s))) = Some (t\<lparr>t_status := failed\<rparr>) \<and>
         events (snd (install_execute env i s)) = events s) \<and>
     (\<forall>j. j \<noteq> i \<longrightarrow> jm_get j (rows (snd (install_execute env i s))) = jm_get j (rows s))"
proof -
  let ?p = "t\<lparr>t_status := provisioning\<rparr>" and ?a = "t\<lparr>t_status := active\<rparr>" and ?f = "t\<lparr>t_status := failed\<rparr>"
  have id: "t_id t = i" using assms(1,2) mock.findById_id by blast
  obtain s1 where s1: "life_hooks env Before provision t s = (Inr (), s1)"
    using assms(4) by (metis prod.collapse)
  note f1 = hooks_frame [OF s1]
  obtain w2 where s2: "save_tenant env ?p s1 = (Inr (), s1\<lparr>outside := w2, rows := mock_add ?p (rows s1)\<rparr>)"
    using save_accepted [OF assms(3)] by blast
  let ?s2 = "s1\<lparr>outside := w2, rows := mock_add ?p (rows s1)\<rparr>"
  have get: "jm_get j (mock_add x r) = (if j = t_id x then Some x else jm_get j r)" for j x r
    by (simp add: mock_add_def js_map.get_put)
  have look: "repo_findByIdOrFail i False s = (Inr t, s)"
    using assms(2) by (simp add: repo_findByIdOrFail_def repo_findById_def run_simps)
  obtain x d where d: "le_provision env ?p (drv s) = (x, d)" by fastforce
  have drv2: "drv ?s2 = drv s" using f1 by simp
  show ?thesis
  proof (cases x)
    case (Inl e)
    let ?s3 = "?s2\<lparr>drv := d\<rparr>"
    obtain w4 where s4: "save_tenant env ?f ?s3 = (Inr (), ?s3\<lparr>outside := w4, rows := mock_add ?f (rows ?s3)\<rparr>)"
      using save_accepted [OF assms(3)] by blast
    have "install_execute env i s = (Inl (Threw e), ?s3\<lparr>outside := w4, rows := mock_add ?f (rows ?s3)\<rparr>)"
      using s1 s2 s4 d Inl drv2
      by (simp add: install_execute_def install_provision_def run_simps look on_driver_def)
    then show ?thesis using d Inl f1 id by (simp add: get)
  next
    case (Inr u)
    let ?s3 = "?s2\<lparr>drv := d\<rparr>"
    obtain w4 where s4: "save_tenant env ?a ?s3 = (Inr (), ?s3\<lparr>outside := w4, rows := mock_add ?a (rows ?s3)\<rparr>)"
      using save_accepted [OF assms(3)] by blast
    let ?s4 = "?s3\<lparr>outside := w4, rows := mock_add ?a (rows ?s3)\<rparr>"
    obtain q where s5: "fresh_queue_open env i ?s4 = (Inr (), ?s4\<lparr>bulls := q\<rparr>)"
      by (auto simp add: fresh_queue_open_def queue_getOrCreate_def new_queue_service_def Let_def)
    obtain s6 where s6: "life_hooks env After provision ?a (?s4\<lparr>bulls := q\<rparr>) = (Inr (), s6)"
      using after_hooks_Inr by (metis prod.collapse)
    note f6 = hooks_frame [OF s6]
    have run: "install_execute env i s = dispatch_event env (TenantProvisioned ?a) s6"
      using s1 s2 s4 s5 s6 d Inr drv2
      by (simp add: install_execute_def install_provision_def run_simps look on_driver_def)
    have ev: "rows (snd (dispatch_event env e s6)) = rows s6 \<and> drv (snd (dispatch_event env e s6)) = drv s6 \<and>
        events (snd (dispatch_event env e s6)) = events s6 @ [e]" for e
      by (simp add: dispatch_event_def run_simps)
    show ?thesis using d Inr f1 f6 id by (simp add: run ev get)
  qed
qed

theorem install_outcome_witness:
  "map_option t_status (jm_get ''a'' (rows (snd (install_execute demo_env ''a'' demo_created)))) = Some active"
proof -
  let ?t = "fst (mock_create ''a'' 0 ''n'' ''e'' provisioning [])"
  have f: "mock_findById (rows demo_created) ''a'' False = Some ?t" by code_simp
  have inv: "mock_inv (rows demo_created)" by (simp add: mock_inv_def jm_inv_def) code_simp
  have h: "fst (life_hooks demo_env Before provision ?t demo_created) = Inr ()" by code_simp
  from install_outcome [OF inv f _ h] show ?thesis by (simp add: demo_env_def run_simps)
qed

section \<open>Requests that change nothing\<close>

text \<open>
  An admin request for an unknown tenant answers not found, and one that asks
  for the state the tenant already has answers unchanged; both leave the whole
  state as it was, so they dispatch no event and save nothing.
\<close>

theorem admin_noop_requests:
  "(mock_findById (rows s) i True = None \<longrightarrow>
      admin_show i s = (Inr AdminNotFound, s) \<and> admin_activate env i s = (Inr AdminNotFound, s) \<and>
      admin_suspend env i s = (Inr AdminNotFound, s) \<and> admin_destroy env now keep i s = (Inr AdminNotFound, s) \<and>
      admin_restore env i s = (Inr AdminNotFound, s) \<and> admin_enterMaintenance env msg i s = (Inr AdminNotFound, s) \<and>
      admin_exitMaintenance env i s = (Inr AdminNotFound, s)) \<and>
   (\<forall>t. mock_findById (rows s) i True = Some t \<longrightarrow>
      (isActive t \<longrightarrow> admin_activate env i s = (Inr (AdminUnchanged t), s)) \<and>
      (isSuspended t \<longrightarrow> admin_suspend env i s = (Inr (AdminUnchanged t), s)) \<and>
      (isDeleted t \<longrightarrow> admin_destroy env now keep i s = (Inr AdminNotFound, s)) \<and>
      (\<not> isDeleted t \<longrightarrow> admin_restore env i s = (Inr (AdminUnchanged t), s)))"
proof -
  have del: "mock_findById (rows s) i False = None"
    if "mock_findById (rows s) i True = None \<or> (\<exists>t. mock_findById (rows s) i True = Some t \<and> isDeleted t)"
    using that by (auto simp add: mock_findById_def split: option.splits if_splits)
  show ?thesis
    using del by (auto simp add: admin_ops admin_show_def with_tenant_def repo_findById_def run_simps)
qed

theorem admin_noop_requests_witness:
  "admin_destroy demo_env 0 InpUndef ''x'' demo_life = (Inr AdminNotFound, demo_life)"
  using admin_noop_requests [where s = demo_life and i = "''x''" and env = demo_env and now = 0 and keep = InpUndef and msg = None]
  by (simp add: demo_life_def mock_findById_def)

end
