(* ===== verification/Life_Ready.thy ===== *)
theory Life_Ready
  imports Lifecycle
begin

text \<open>
  Which runs serve only tenants whose storage is ready: all those without a manual
  activation, a restore or an uninstall job, with the runs that show why these
  three are excluded.
\<close>

section \<open>Active tenants are provisioned\<close>

text \<open>
  What the driver promises: a successful \<open>provision\<close> leaves the tenant's storage
  ready, and work on one tenant leaves the storage of the others as it is.
\<close>

definition driver_contract :: "('d, 'u, 'b, 'r) life_env \<Rightarrow> (string \<Rightarrow> 'd \<Rightarrow> bool) \<Rightarrow> bool" where
  "driver_contract env ready \<longleftrightarrow>
     (\<forall>t d d'. le_provision env t d = (Inr (), d') \<longrightarrow> ready (t_id t) d') \<and>
     (\<forall>t d i. i \<noteq> t_id t \<longrightarrow> ready i d \<longrightarrow>
        ready i (snd (le_provision env t d)) \<and> ready i (snd (le_destroy env t d)))"

definition served :: "tenant \<Rightarrow> bool" where
  "served t \<longleftrightarrow> isActive t \<and> \<not> isDeleted t"

definition ready_inv :: "(string \<Rightarrow> 'd \<Rightarrow> bool) \<Rightarrow> ('d, 'u, 'b, 'r) life \<Rightarrow> bool" where
  "ready_inv ready s \<longleftrightarrow>
     mock_inv (rows s) \<and>
     (\<forall>i t. jm_get i (rows s) = Some t \<longrightarrow> served t \<longrightarrow> ready i (drv s)) \<and>
     (\<forall>i. UninstallTenant i \<notin> set (jobs s))"

text \<open>While one operation holds \<open>t\<close>: \<open>t\<close> is ready if it is served; or its row is not served.\<close>

definition ready_held :: "(string \<Rightarrow> 'd \<Rightarrow> bool) \<Rightarrow> tenant \<Rightarrow> ('d, 'u, 'b, 'r) life \<Rightarrow> bool" where
  "ready_held ready t s \<longleftrightarrow> ready_inv ready s \<and> (served t \<longrightarrow> ready (t_id t) (drv s))"

definition ready_off :: "(string \<Rightarrow> 'd \<Rightarrow> bool) \<Rightarrow> string \<Rightarrow> ('d, 'u, 'b, 'r) life \<Rightarrow> bool" where
  "ready_off ready i s \<longleftrightarrow> ready_inv ready s \<and> (\<forall>u. jm_get i (rows s) = Some u \<longrightarrow> \<not> served u)"

definition ready_on :: "(string \<Rightarrow> 'd \<Rightarrow> bool) \<Rightarrow> string \<Rightarrow> ('d, 'u, 'b, 'r) life \<Rightarrow> bool" where
  "ready_on ready i s \<longleftrightarrow> ready_inv ready s \<and> ready i (drv s)"

lemmas ready_defs = ready_inv_def ready_held_def ready_off_def ready_on_def

lemma ready_frames [simp]:
  "ready_inv ready (s\<lparr>outside := w\<rparr>) = ready_inv ready s"
  "ready_inv ready (s\<lparr>events := e\<rparr>) = ready_inv ready s"
  "ready_inv ready (s\<lparr>bulls := b\<rparr>) = ready_inv ready s"
  "ready_inv ready (s\<lparr>redis := r\<rparr>) = ready_inv ready s"
  by (simp_all add: ready_inv_def)

lemma ready_forget:
  "ready_held ready t s \<Longrightarrow> ready_inv ready s" "ready_off ready i s \<Longrightarrow> ready_inv ready s"
  "ready_on ready i s \<Longrightarrow> ready_inv ready s"
  by (simp_all add: ready_defs)

lemma ready_lookup:
  "ready_inv ready s \<Longrightarrow> mock_findById (rows s) i d = Some t \<Longrightarrow> ready_held ready t s \<and> t_id t = i"
  using mock.findById_id [of "rows s" i d t]
  by (auto simp add: ready_held_def ready_inv_def mock_findById_def split: option.splits if_splits)

lemma ready_add:
  "ready_inv ready s \<Longrightarrow> (served t \<Longrightarrow> ready (t_id t) (drv s)) \<Longrightarrow> ready_inv ready (s\<lparr>rows := mock_add t (rows s)\<rparr>)"
  using mock_inv_add [of "rows s" t] by (auto simp add: ready_inv_def mock_add_def js_map.get_put)

lemma ready_save:
  "t_id t' = t_id t \<Longrightarrow> (served t' \<Longrightarrow> served t) \<Longrightarrow> keeps (ready_held ready t) (save_tenant env t')"
  by (rule keeps_save) (auto simp add: ready_held_def ready_add)

lemma ready_unserved_save: "\<not> served t \<Longrightarrow> keeps (ready_inv ready) (save_tenant env t)"
  by (rule keeps_save) (auto intro: ready_add)

lemma ready_save_off:
  assumes "t_id t = i" "\<not> served t"
  shows "hoare (ready_inv ready) (save_tenant env t) (\<lambda>_. ready_off ready i) (ready_inv ready)"
proof (rule hoareI)
  fix s x s'
  assume "ready_inv ready s" "save_tenant env t s = (Inr x, s')"
  then obtain w where "s' = s\<lparr>outside := w, rows := mock_add t (rows s)\<rparr>"
    using save_Inr by (metis old.unit.exhaust)
  moreover have "ready_inv ready (s\<lparr>outside := w, rows := mock_add t (rows (s\<lparr>outside := w\<rparr>))\<rparr>)"
    using \<open>ready_inv ready s\<close> assms by (intro ready_add) auto
  ultimately show "ready_off ready i s'"
    using assms by (simp add: ready_off_def mock_add_def js_map.get_put)
qed (use save_Inl in fastforce)

lemma ready_save_on:
  assumes "t_id t = i"
  shows "hoare (ready_on ready i) (save_tenant env t) (\<lambda>_. ready_inv ready) (ready_inv ready)"
proof -
  have "keeps (ready_on ready i) (save_tenant env t)"
    using assms by (intro keeps_save) (auto simp add: ready_on_def ready_add)
  then show ?thesis unfolding hoare_keeps by (rule hoare_weaken) (auto simp add: ready_on_def)
qed

lemma driver_run:
  "on_driver m s = (r, s') \<Longrightarrow> drv s' = snd (m (drv s)) \<and> s' = s\<lparr>drv := drv s'\<rparr> \<and>
     (\<forall>x. r = Inr x \<longrightarrow> fst (m (drv s)) = Inr x)"
  by (auto simp add: on_driver_def split: prod.splits sum.splits)

lemma ready_off_driver:
  fixes env :: "('d, 'u, 'b, 'r) life_env"
  assumes "driver_contract env ready" and "m = le_provision env t \<or> m = le_destroy env t" and "t_id t = i"
  shows "hoare (ready_off ready i) (on_driver m :: ('d, 'u, 'b, 'r, unit) L) (\<lambda>_. ready_off ready i) (ready_off ready i)"
proof -
  have "ready_off ready i s \<Longrightarrow> ready_off ready i (s\<lparr>drv := snd (m (drv s))\<rparr>)" for s :: "('d, 'u, 'b, 'r) life"
  proof -
    assume off: "ready_off ready i s"
    have "ready j (snd (m (drv s)))" if "jm_get j (rows s) = Some u" "served u" for j u
    proof -
      have "j \<noteq> t_id t" "ready j (drv s)" using off that assms(3) by (auto simp add: ready_off_def ready_inv_def)
      then show ?thesis using assms(1,2) unfolding driver_contract_def by blast
    qed
    then show ?thesis using off by (simp add: ready_off_def ready_inv_def)
  qed
  note off = this
  have "on_driver m s = (r, s') \<Longrightarrow> ready_off ready i s \<Longrightarrow> ready_off ready i s'" for r s' and s :: "('d, 'u, 'b, 'r) life"
  proof -
    assume "on_driver m s = (r, s')" "ready_off ready i s"
    then have "s' = s\<lparr>drv := snd (m (drv s))\<rparr>" using driver_run [of m s r s'] by metis
    then show "ready_off ready i s'"
      using off [OF \<open>ready_off ready i s\<close>] by simp
  qed
  then show ?thesis by (intro hoareI) blast+
qed

lemma ready_off_destroy:
  fixes env :: "('d, 'u, 'b, 'r) life_env"
  assumes "driver_contract env ready" and "t_id t = i"
  shows "hoare (ready_off ready i) (on_driver (le_destroy env t) :: ('d, 'u, 'b, 'r, unit) L)
    (\<lambda>_. ready_off ready i) (ready_off ready i)"
  by (rule ready_off_driver [OF assms(1) disjI2 [OF refl] assms(2)])

lemma ready_provision:
  fixes env :: "('d, 'u, 'b, 'r) life_env"
  assumes "driver_contract env ready" and "t_id t = i"
  shows "hoare (ready_off ready i) (on_driver (le_provision env t) :: ('d, 'u, 'b, 'r, unit) L) (\<lambda>_. ready_on ready i) (ready_inv ready)"
proof -
  have off: "hoare (ready_off ready i) (on_driver (le_provision env t) :: ('d, 'u, 'b, 'r, unit) L)
      (\<lambda>_. ready_off ready i) (ready_off ready i)"
    using assms by (intro ready_off_driver) auto
  show ?thesis
  proof (rule hoareI)
    fix s s' :: "('d, 'u, 'b, 'r) life" and x
    assume P: "ready_off ready i s" and run: "on_driver (le_provision env t) s = (Inr x, s')"
    have "fst (le_provision env t (drv s)) = Inr ()" "snd (le_provision env t (drv s)) = drv s'"
      using driver_run [OF run] by simp_all
    then have "le_provision env t (drv s) = (Inr (), drv s')" by (metis prod.collapse)
    then have "ready i (drv s')" using assms by (auto simp add: driver_contract_def)
    then show "ready_on ready i s'"
      using hoare_Inr [OF off P run] by (simp add: ready_on_def ready_off_def)
  next
    fix s s' :: "('d, 'u, 'b, 'r) life" and e
    assume P: "ready_off ready i s" and run: "on_driver (le_provision env t) s = (Inl e, s')"
    then show "ready_inv ready s'"
      using hoare_Inl [OF off P run] by (simp add: ready_off_def)
  qed
qed

subsection \<open>Operations\<close>

lemma ready_into:
  "keeps (ready_held ready t) m \<Longrightarrow> hoare (ready_held ready t) m (\<lambda>_. ready_inv ready) (ready_inv ready)"
  "keeps (ready_inv ready) m \<Longrightarrow> hoare (ready_held ready t) m (\<lambda>_. ready_inv ready) (ready_inv ready)"
  unfolding hoare_keeps by (erule hoare_weaken; simp add: ready_forget)+

lemma ready_with_tenant:
  fixes f :: "tenant \<Rightarrow> ('d, 'u, 'b, 'r, admin_reply) L"
  assumes "\<And>t. t_id t = i \<Longrightarrow> hoare (ready_held ready t) (f t) (\<lambda>_. ready_inv ready) (ready_inv ready)"
  shows "keeps (ready_inv ready) (with_tenant i d f)"
proof
  fix s :: "('d, 'u, 'b, 'r) life"
  assume P: "ready_inv ready s"
  show "ready_inv ready (snd (with_tenant i d f s))"
  proof (cases "mock_findById (rows s) i d")
    case None
    then show ?thesis using P by (simp add: with_tenant_def repo_findById_def run_simps)
  next
    case (Some t)
    then have held: "ready_held ready t s" and id: "t_id t = i" using P ready_lookup by blast+
    have "ready_inv ready (snd (f t s))" using held by (rule hoare_snd [OF assms [OF id]])
    then show ?thesis using Some by (simp add: with_tenant_def repo_findById_def run_simps)
  qed
qed

lemma ready_or_fail:
  fixes f :: "tenant \<Rightarrow> ('d, 'u, 'b, 'r, 'a) L"
  assumes "\<And>t. t_id t = i \<Longrightarrow> hoare (ready_held ready t) (f t) (\<lambda>_. ready_inv ready) (ready_inv ready)"
  shows "keeps (ready_inv ready) (bindM (repo_findByIdOrFail i d) f)"
proof
  fix s :: "('d, 'u, 'b, 'r) life"
  assume P: "ready_inv ready s"
  show "ready_inv ready (snd (bindM (repo_findByIdOrFail i d) f s))"
  proof (cases "mock_findById (rows s) i d")
    case None
    then show ?thesis using P by (simp add: repo_findByIdOrFail_def repo_findById_def run_simps)
  next
    case (Some t)
    then have held: "ready_held ready t s" and id: "t_id t = i" using P ready_lookup by blast+
    have "ready_inv ready (snd (f t s))" using held by (rule hoare_snd [OF assms [OF id]])
    then show ?thesis using Some by (simp add: repo_findByIdOrFail_def repo_findById_def run_simps)
  qed
qed

lemma ready_steps:
  "keeps (ready_held ready t) (life_hooks env ph ev x)"
  "keeps (ready_held ready t) (dispatch_event env e)"
  "keeps (ready_inv ready) (life_hooks env ph ev x)"
  "keeps (ready_inv ready) (dispatch_event env e)"
  "keeps (ready_off ready i) (life_hooks env ph ev x)"
  "keeps (ready_off ready i) (dispatch_event env e)"
  "keeps (ready_inv ready) (fresh_queue_open env q)"
  by (auto intro!: keeps_life_hooks keeps_dispatch_event keeps_queue_open
      simp add: ready_held_def ready_off_def)

lemma ready_install_job: "keeps (ready_inv ready) (dispatch_job env (InstallTenant i))"
  by (rule keeps_dispatch_job) (auto simp add: ready_inv_def)

lemmas ready_intros = keeps_intros ready_save ready_unserved_save ready_steps ready_install_job

lemmas served_simps = served_def isActive_def isDeleted_def suspend_def enterMaintenance_def exitMaintenance_def

lemma ready_admin:
  "keeps (ready_inv ready) (admin_suspend env i) \<and> keeps (ready_inv ready) (admin_enterMaintenance env msg i) \<and>
   keeps (ready_inv ready) (admin_exitMaintenance env i)"
  unfolding admin_ops Let_def
  by (intro conjI; rule ready_with_tenant; rule ready_into(1); intro ready_intros; simp add: served_simps)

lemma ready_cmd:
  "keeps (ready_inv ready) (cmd_suspend env i) \<and> keeps (ready_inv ready) (cmd_maintenance env off msg i)"
  unfolding cmd_ops Let_def
  by (intro conjI keeps_cmd_try; rule ready_or_fail; rule ready_into(1); intro ready_intros; simp add: served_simps)

text \<open>The common part of both destroys.\<close>

lemma ready_destroy:
  fixes env :: "('d, 'u, 'b, 'r) life_env"
  assumes "driver_contract env ready" and "t_id t = i" and "\<And>x. keeps (ready_off ready i) (rest x)"
  shows "hoare (ready_held ready t)
     (thenM (life_hooks env Before destroy t)
     (thenM (save_tenant env (t\<lparr>t_deletedAt := Some now\<rparr>))
     (thenM (if keep then returnM () else on_driver (le_destroy env (t\<lparr>t_deletedAt := Some now\<rparr>)))
        (rest ())))) (\<lambda>_. ready_inv ready) (ready_inv ready)"
proof (rule hoare_then [where R = "ready_inv ready"])
  show "hoare (ready_held ready t) (life_hooks env Before destroy t) (\<lambda>_. ready_inv ready) (ready_inv ready)"
    by (rule ready_into(1)) (rule ready_steps)
next
  have off: "hoare (ready_off ready i) (rest ()) (\<lambda>_. ready_inv ready) (ready_inv ready)"
    using assms(3) unfolding hoare_keeps by (rule hoare_weaken) (simp_all add: ready_forget)
  have d: "hoare (ready_off ready i) (on_driver (le_destroy env (t\<lparr>t_deletedAt := Some now\<rparr>)) :: ('d, 'u, 'b, 'r, unit) L)
      (\<lambda>_. ready_off ready i) (ready_off ready i)"
    using assms(1,2) by (intro ready_off_destroy) auto
  have drop: "hoare (ready_off ready i)
      (if keep then returnM () else on_driver (le_destroy env (t\<lparr>t_deletedAt := Some now\<rparr>)) :: ('d, 'u, 'b, 'r, unit) L)
      (\<lambda>_. ready_off ready i) (ready_inv ready)"
    by (rule hoare_weaken [where P = "ready_off ready i" and Q = "\<lambda>_. ready_off ready i" and E = "ready_off ready i"])
       (auto intro!: hoare_if hoare_basic d simp add: ready_forget)
  show "hoare (ready_inv ready)
     (thenM (save_tenant env (t\<lparr>t_deletedAt := Some now\<rparr>))
       (thenM (if keep then returnM () else on_driver (le_destroy env (t\<lparr>t_deletedAt := Some now\<rparr>))) (rest ())))
     (\<lambda>_. ready_inv ready) (ready_inv ready)"
    by (rule hoare_then [OF ready_save_off [where i = i] hoare_then [OF drop off]])
       (use assms(2) in \<open>simp_all add: served_simps\<close>)
qed

lemma ready_admin_destroy:
  assumes "driver_contract env ready"
  shows "keeps (ready_inv ready) (admin_destroy env now keep i)"
  unfolding admin_destroy_def Let_def
  by (rule ready_with_tenant,
      rule ready_destroy [OF assms, where rest = "\<lambda>_. thenM (life_hooks env After destroy (t\<lparr>t_deletedAt := Some now\<rparr>))
        (thenM (dispatch_event env (TenantDeleted (t\<lparr>t_deletedAt := Some now\<rparr>)))
        (returnM (AdminDestroyed (t\<lparr>t_deletedAt := Some now\<rparr>) (\<not> js_flag keep))))" for t])
     (auto intro!: ready_intros)

lemma ready_cmd_destroy:
  assumes "driver_contract env ready"
  shows "keeps (ready_inv ready) (cmd_destroy env now force conf keep i)"
  unfolding cmd_destroy_def Let_def
  by (rule keeps_cmd_try, rule ready_or_fail, rule hoare_if, rule ready_into(2), rule keeps_basic,
      rule ready_destroy [OF assms, where rest = "\<lambda>_. thenM (life_hooks env After destroy (t\<lparr>t_deletedAt := Some now\<rparr>))
        (thenM (dispatch_event env (TenantDeleted (t\<lparr>t_deletedAt := Some now\<rparr>))) (returnM CmdDone))" for t])
     (auto intro!: ready_intros)

lemma ready_install:
  assumes "driver_contract env ready"
  shows "keeps (ready_inv ready) (install_execute env i)"
proof -
  have "hoare (ready_inv ready) (install_provision env t) (\<lambda>_. ready_inv ready) (ready_inv ready)" for t
    unfolding install_provision_def
  proof (rule hoare_catch)
    show "hoare (ready_inv ready)
       (thenM (save_tenant env (t\<lparr>t_status := provisioning\<rparr>))
         (thenM (on_driver (le_provision env (t\<lparr>t_status := provisioning\<rparr>))) (save_tenant env (t\<lparr>t_status := active\<rparr>))))
       (\<lambda>_. ready_inv ready) (ready_inv ready)"
      by (rule hoare_then [OF ready_save_off [where i = "t_id t"] hoare_then [OF ready_provision [OF assms] ready_save_on]])
         (simp_all add: served_simps)
  next
    show "hoare (ready_inv ready) (thenM (save_tenant env (t\<lparr>t_status := failed\<rparr>)) (throwM e))
       (\<lambda>_. ready_inv ready) (ready_inv ready)" for e
      unfolding hoare_keeps [symmetric] by (intro ready_intros) (simp add: served_simps)
  qed
  then have "keeps (ready_inv ready) (install_provision env t)" for t by (simp add: hoare_keeps)
  then show ?thesis
    unfolding install_execute_def
    by (intro ready_or_fail ready_into(2) ready_intros)
qed

lemma ready_create:
  "keeps (ready_inv ready) (admin_create env uuid now n e) \<and> keeps (ready_inv ready) (cmd_create env g uuid now n' e')"
proof -
  have st: "t_status (fst (mock_create uuid now a b provisioning [])) = provisioning" for a b
    by (simp add: mock_create_def buildTestTenant_def or_else_def Let_def)
  have c: "keeps (ready_inv ready) (repo_create env uuid now a b provisioning)" for a b
    unfolding repo_create_def Let_def by (intro ready_intros) (simp add: served_simps st)
  have "keeps (ready_inv ready) (queue_task env x)" for x
    unfolding queue_task_def by (intro ready_intros)
  then show ?thesis
    unfolding admin_create_def cmd_create_def create_task_def Let_def
    by (auto intro!: ready_intros c)
qed

text \<open>The purge: its candidates stay deleted through the whole loop.\<close>

definition ready_offs :: "(string \<Rightarrow> 'd \<Rightarrow> bool) \<Rightarrow> tenant list \<Rightarrow> ('d, 'u, 'b, 'r) life \<Rightarrow> bool" where
  "ready_offs ready ts s \<longleftrightarrow> ready_inv ready s \<and> (\<forall>t \<in> set ts. ready_off ready (t_id t) s)"

lemma ready_offs_driver:
  fixes env :: "('d, 'u, 'b, 'r) life_env"
  assumes "driver_contract env ready" and "t \<in> set ts"
  shows "keeps (ready_offs ready ts) (on_driver (le_destroy env t) :: ('d, 'u, 'b, 'r, unit) L)"
proof
  fix s :: "('d, 'u, 'b, 'r) life"
  assume P: "ready_offs ready ts s"
  have "hoare (ready_off ready (t_id t)) (on_driver (le_destroy env t) :: ('d, 'u, 'b, 'r, unit) L)
      (\<lambda>_. ready_off ready (t_id t)) (ready_off ready (t_id t))"
    using assms(1) by (intro ready_off_destroy) auto
  then have "ready_off ready (t_id t) (snd (on_driver (le_destroy env t) s))"
    using P assms(2) by (auto simp add: ready_offs_def intro: hoare_snd)
  moreover have "rows (snd (on_driver (le_destroy env t) s)) = rows s"
    by (auto simp add: on_driver_def split: prod.splits sum.splits)
  ultimately show "ready_offs ready ts (snd (on_driver (le_destroy env t) s))"
    using P by (auto simp add: ready_offs_def ready_off_def)
qed

lemma ready_purge_loop:
  assumes "driver_contract env ready" and "set us \<subseteq> set ts"
  shows "keeps (ready_offs ready ts) (purge_loop env us p b)"
  using assms(2)
proof (induction us arbitrary: p b)
  case (Cons u us)
  have "keeps (ready_offs ready ts) (purge_one env u)"
    unfolding purge_one_def using Cons.prems
    by (intro keeps_intros keeps_life_hooks keeps_dispatch_event ready_offs_driver [OF assms(1)])
       (auto simp add: ready_offs_def ready_off_def)
  then show ?case using Cons by (auto intro!: keeps_intros)
qed (simp add: keeps_basic)

lemma ready_purge:
  fixes env :: "('d, 'u, 'b, 'r) life_env"
  assumes "driver_contract env ready"
  shows "keeps (ready_inv ready) (cmd_purge_expired env flag conf now dry force yes :: ('d, 'u, 'b, 'r, _) L)"
proof
  fix s :: "('d, 'u, 'b, 'r) life"
  assume inv: "ready_inv ready s"
  let ?ts = "purge_candidates (or_else flag (or_else conf DEFAULT_SOFT_DELETE_RETENTION_DAYS)) now (rows s)"
  have "ready_offs ready ?ts s"
    using inv mock.all_iff [of "rows s"]
    by (auto simp add: ready_offs_def ready_off_def ready_inv_def purge_candidates_def mock_findById_def served_def
        split: option.splits)
  then have "ready_inv ready (snd (purge_loop env ?ts 0 0 s))"
    using keepsD [OF ready_purge_loop [OF assms order_refl]] by (auto simp add: ready_offs_def)
  then show "ready_inv ready (snd (cmd_purge_expired env flag conf now dry force yes s))"
    using inv by (auto simp add: cmd_purge_expired_def Let_def run_simps split: prod.splits sum.splits)
qed

subsection \<open>Runs\<close>

text \<open>
  The operations covered: all but a manual activation, a restore and the
  dispatch of an uninstall job.
\<close>

fun provisioned_op :: "life_op option \<Rightarrow> bool" where
  "provisioned_op (Some (AdminActivate i)) = False"
| "provisioned_op (Some (CmdActivate i)) = False"
| "provisioned_op (Some (AdminRestore i)) = False"
| "provisioned_op (Some (AppUninstall i)) = False"
| "provisioned_op _ = True"

lemma ready_request:
  assumes "driver_contract env ready" and "ready_inv ready s" and "provisioned_op (Some op)"
  shows "ready_inv ready (life_run env op s)"
proof -
  have k: "keeps (ready_inv ready) m \<Longrightarrow> ready_inv ready (run_state m s)" for m
    using assms(2) by (simp add: run_state_def keepsD)
  have a: "ready_inv ready (run_state (admin_create env uuid now n e) s)"
    "ready_inv ready (run_state (cmd_create env g uuid now n' e') s)" for uuid now n e g n' e'
    using ready_create by (blast intro: k)+
  have b: "ready_inv ready (run_state (admin_suspend env i) s)"
    "ready_inv ready (run_state (admin_enterMaintenance env msg i) s)"
    "ready_inv ready (run_state (admin_exitMaintenance env i) s)" for i msg
    using ready_admin by (blast intro: k)+
  have c: "ready_inv ready (run_state (cmd_suspend env i) s)"
    "ready_inv ready (run_state (cmd_maintenance env off msg i) s)" for i off msg
    using ready_cmd by (blast intro: k)+
  note d = k [OF ready_admin_destroy [OF assms(1)]] k [OF ready_cmd_destroy [OF assms(1)]] k [OF ready_purge [OF assms(1)]]
  show ?thesis
    using assms(3) by (cases op) (simp_all add: a b c d)
qed

lemma ready_run_star:
  assumes "driver_contract env ready"
  shows "life_run_star env provisioned_op s s' \<Longrightarrow> ready_inv ready s \<Longrightarrow> ready_inv ready s'"
proof (induction rule: life_run_star.induct)
  case (then_step s s' op s'')
  from then_step.hyps(3) show ?case
  proof (cases rule: life_step.cases)
    case (request o')
    then show ?thesis using then_step ready_request [OF assms] by simp
  next
    case (worker j js)
    have inv: "ready_inv ready (s'\<lparr>jobs := js\<rparr>)" and nu: "j \<noteq> UninstallTenant i" for i
      using then_step.IH then_step.prems worker(3) by (auto simp add: ready_inv_def)
    obtain i where "j = InstallTenant i" using nu by (cases j) auto
    then show ?thesis
      using worker inv keepsD [OF ready_install [OF assms]] by (simp add: run_state_def run_job_def)
  qed
qed

text \<open>
  C7. Starting from a state where it holds, after any sequence of creations,
  suspensions, maintenance changes, destructions, purges and install jobs, with
  any of the saves, hooks, listeners and driver calls failing, every tenant that
  is active and not deleted has its storage provisioned.
\<close>

theorem active_tenants_are_provisioned:
  assumes "driver_contract env ready" and "ready_inv ready s"
    and "life_run_star env provisioned_op s s'"
    and "jm_get i (rows s') = Some t" and "isActive t" and "\<not> isDeleted t"
  shows "ready i (drv s')"
  using ready_run_star [OF assms(1,3,2)] assms(4-6) by (auto simp add: ready_inv_def served_def)

lemma demo_contract: "driver_contract demo_env (\<lambda>i d. i \<in> set d)"
  by (simp add: driver_contract_def demo_env_def run_simps)

lemma demo_run: "life_run_star demo_env provisioned_op demo_life demo_installed"
proof -
  have "life_step demo_env (Some (AdminCreate ''a'' 0 (InpStr ''n'') (InpStr ''e''))) demo_life demo_created"
    unfolding demo_created_def by (rule request) (simp add: demo_life_def)
  then have one: "life_run_star demo_env provisioned_op demo_life demo_created"
    by (rule then_step [OF start, rotated]) simp
  have "life_step demo_env None demo_created demo_installed"
    unfolding demo_installed_def by (rule worker) (rule demo_created_jobs)
  then show ?thesis by (rule then_step [OF one, rotated]) simp
qed

lemma demo_installed_row:
  "map_option (\<lambda>t. (t_status t, t_deletedAt t)) (jm_get ''a'' (rows demo_installed)) = Some (active, None)"
  by code_simp

theorem active_tenants_are_provisioned_witness:
  "''a'' \<in> set (drv demo_installed)"
proof -
  obtain t where "jm_get ''a'' (rows demo_installed) = Some t" "isActive t" "\<not> isDeleted t"
    using demo_installed_row by (auto simp add: isActive_def isDeleted_def)
  moreover have "ready_inv (\<lambda>i d. i \<in> set d) demo_life" by (simp add: ready_inv_def demo_life_def)
  ultimately show ?thesis by (intro active_tenants_are_provisioned [OF demo_contract _ demo_run])
qed

text \<open>
  Why the three are excluded. Destroying drops the storage and a restore only
  clears \<open>deletedAt\<close>; activating a tenant whose installation never ran makes it
  active; and the uninstall job drops the storage before it saves \<open>deletedAt\<close>, so
  a refused save leaves an active tenant without storage.
\<close>

lemma restore_revives_dropped:
  "let s = run_state (admin_restore demo_env ''a'') (run_state (admin_destroy demo_env 5 InpUndef ''a'') demo_installed)
   in (map_option (\<lambda>t. (t_status t, t_deletedAt t)) (jm_get ''a'' (rows s)), drv s) = (Some (active, None), [])"
  by code_simp

lemma activate_skips_provisioning:
  "let s = run_state (cmd_activate demo_env ''a'') demo_created
   in (map_option t_status (jm_get ''a'' (rows s)), drv s) = (Some active, [])"
  by code_simp

lemma uninstall_drops_before_saving:
  "let s = run_state (uninstall_execute (demo_env\<lparr>le_save := (\<lambda>t. throwM ''down'')\<rparr>) 5 ''a'') demo_installed
   in (map_option (\<lambda>t. (t_status t, t_deletedAt t)) (jm_get ''a'' (rows s)), drv s) = (Some (active, None), [])"
  by code_simp

text \<open>A second purge fires the destroy hooks and events of a tenant again: the row stays as it is.\<close>

lemma purge_repeats:
  "let s = run_state (admin_destroy demo_env 5 (InpBool True) ''a'') demo_installed;
       p = cmd_purge_expired demo_env (Some 1) None 90000000 False True False
   in (fst (p s), fst (p (run_state p s))) = (Inr (CmdDone, 1, 0), Inr (CmdDone, 1, 0))"
  by code_simp

end
