(* ===== verification/Paths.thy ===== *)
theory Paths
  imports Identifier
begin

text \<open>
  The part of \<open>node:path\<close> the file-based services use, and the fact they rest on:
  joining a normalised directory with a plain file name gives a direct child.
\<close>

text \<open>\<open>path.join\<close> of \<open>node:path\<close> on POSIX: the non-empty parts, joined and normalised.\<close>

fun norm_segments :: "bool \<Rightarrow> string list \<Rightarrow> string list \<Rightarrow> string list" where
  "norm_segments absolute acc [] = rev acc"
| "norm_segments absolute acc (x # xs) =
     (if x = [] \<or> x = ''.'' then norm_segments absolute acc xs
      else if x = ''..'' then
        (case acc of
           [] \<Rightarrow> norm_segments absolute (if absolute then [] else [''..'']) xs
         | y # ys \<Rightarrow> norm_segments absolute (if y = ''..'' then ''..'' # acc else ys) xs)
      else norm_segments absolute (x # acc) xs)"

definition path_normalize :: "string \<Rightarrow> string" where
  "path_normalize p =
     (let absolute = starts_with ''/'' p;
          body = js_join ''/'' (norm_segments absolute [] (js_split (CHR ''/'') p));
          trailing = (if p \<noteq> [] \<and> last p = CHR ''/'' then ''/'' else [])
      in if p = [] then ''.''
         else if body = [] then (if absolute then ''/'' else if trailing = [] then ''.'' else ''./'')
         else (if absolute then ''/'' else []) @ body @ trailing)"

definition path_join :: "string list \<Rightarrow> string" where
  "path_join ps = (case filter (\<lambda>p. p \<noteq> []) ps of [] \<Rightarrow> ''.'' | qs \<Rightarrow> path_normalize (js_join ''/'' qs))"

section \<open>Facts on paths\<close>

text \<open>A plain segment names a direct child of a directory.\<close>

definition plain_segment :: "string \<Rightarrow> bool" where
  "plain_segment x \<longleftrightarrow> x \<noteq> [] \<and> x \<noteq> ''.'' \<and> x \<noteq> ''..'' \<and> CHR ''/'' \<notin> set x"

definition norm_ok :: "bool \<Rightarrow> string list \<Rightarrow> bool" where
  "norm_ok absolute ss \<longleftrightarrow>
     (\<exists>n rest. ss = replicate n ''..'' @ rest \<and> list_all plain_segment rest \<and> (absolute \<longrightarrow> n = 0))"

lemma js_split_append_sep: "js_split c (p @ c # s) = js_split c p @ js_split c s"
proof (induction p)
  case (Cons x p)
  then show ?case by (cases "js_split c p") auto
qed simp

lemma norm_plain: "plain_segment x \<Longrightarrow> norm_segments absolute acc (xs @ [x]) = norm_segments absolute acc xs @ [x]"
proof (induction xs arbitrary: acc)
  case (Cons y ys)
  then show ?case by (cases acc) auto
qed (simp add: plain_segment_def)

lemma norm_ok_snoc: "norm_ok a (ss @ [x]) \<longleftrightarrow>
    (norm_ok a ss \<and> plain_segment x) \<or> (x = ''..'' \<and> \<not> a \<and> (\<exists>n. ss = replicate n ''..''))"
proof -
  have np: "\<not> plain_segment ''..''" by (simp add: plain_segment_def)
  show ?thesis
  proof
    assume "norm_ok a (ss @ [x])"
    then obtain n rest where r: "ss @ [x] = replicate n ''..'' @ rest" "list_all plain_segment rest" "a \<longrightarrow> n = 0"
      unfolding norm_ok_def by blast
    show "(norm_ok a ss \<and> plain_segment x) \<or> (x = ''..'' \<and> \<not> a \<and> (\<exists>n. ss = replicate n ''..''))"
    proof (cases rest rule: rev_cases)
      case Nil
      then have "ss @ [x] = replicate n ''..''" using r by simp
      then obtain m where "n = Suc m" by (cases n) auto
      then show ?thesis using Nil r by (auto simp add: replicate_append_same [symmetric])
    next
      case (snoc ys y)
      then show ?thesis using r by (auto simp add: norm_ok_def)
    qed
  next
    assume "(norm_ok a ss \<and> plain_segment x) \<or> (x = ''..'' \<and> \<not> a \<and> (\<exists>n. ss = replicate n ''..''))"
    then show "norm_ok a (ss @ [x])"
    proof
      assume "norm_ok a ss \<and> plain_segment x"
      then obtain n rest where "ss = replicate n ''..'' @ rest" "list_all plain_segment rest" "a \<longrightarrow> n = 0" "plain_segment x"
        unfolding norm_ok_def by blast
      then show ?thesis unfolding norm_ok_def by (intro exI [of _ n] exI [of _ "rest @ [x]"]) simp
    next
      assume "x = ''..'' \<and> \<not> a \<and> (\<exists>n. ss = replicate n ''..'')"
      then obtain n where "x = ''..''" "\<not> a" "ss = replicate n ''..''" by blast
      then show ?thesis unfolding norm_ok_def
        by (intro exI [of _ "Suc n"] exI [of _ "[]"]) (simp add: replicate_append_same)
    qed
  qed
qed

lemma norm_segments_ok:
  "norm_ok absolute (rev acc) \<Longrightarrow> \<forall>x \<in> set xs. CHR ''/'' \<notin> set x \<Longrightarrow> norm_ok absolute (norm_segments absolute acc xs)"
proof (induction xs arbitrary: acc)
  case (Cons x xs)
  have step: "norm_ok absolute (rev acc') \<Longrightarrow> norm_ok absolute (norm_segments absolute acc' xs)" for acc'
    using Cons by simp
  consider "x = [] \<or> x = ''.''" | "x = ''..''" | "plain_segment x"
    using Cons.prems(2) by (auto simp add: plain_segment_def)
  then show ?case
  proof cases
    case 1
    then show ?thesis using step [OF Cons.prems(1)] by auto
  next
    case 2
    show ?thesis
    proof (cases acc)
      case Nil
      have "norm_ok False [''..'']" "norm_ok True []"
        using norm_ok_snoc [of False "[]" "''..''"] by (auto simp add: norm_ok_def)
      then show ?thesis using 2 Nil step [of "if absolute then [] else [''..'']"] by (cases absolute) simp_all
    next
      case (Cons y ys)
      have ok: "(norm_ok absolute (rev ys) \<and> plain_segment y) \<or> (y = ''..'' \<and> \<not> absolute \<and> (\<exists>n. rev ys = replicate n ''..''))"
        using Cons.prems(1) Cons norm_ok_snoc [of absolute "rev ys" y] by simp
      show ?thesis
      proof (cases "y = ''..''")
        case True
        then obtain n where "rev ys = replicate n ''..''" "\<not> absolute" using ok by (auto simp add: plain_segment_def)
        then have "norm_ok absolute (rev (''..'' # acc))"
          using Cons True norm_ok_snoc [of absolute "rev acc" "''..''"]
          by (auto simp add: replicate_append_same simp flip: replicate_Suc)
        then show ?thesis using 2 Cons True step by simp
      next
        case False
        then show ?thesis using 2 Cons ok step [of ys] by simp
      qed
    qed
  next
    case 3
    then show ?thesis
      using Cons.prems(1) step [of "x # acc"] norm_ok_snoc [of absolute "rev acc" x]
      by (auto simp add: plain_segment_def)
  qed
qed simp

lemma norm_segments_id: "norm_ok absolute ss \<Longrightarrow> norm_segments absolute [] ss = ss"
proof (induction ss rule: rev_induct)
  case (snoc x ss)
  have dd: "norm_segments False acc (replicate n ''..'' @ xs) = norm_segments False (replicate n ''..'' @ acc) xs"
    if "set acc \<subseteq> {''..''}" for n acc xs
    using that
  proof (induction n arbitrary: acc)
    case (Suc n)
    then show ?case by (cases acc) (auto simp add: replicate_app_Cons_same)
  qed simp
  from snoc.prems show ?case unfolding norm_ok_snoc
  proof
    assume "norm_ok absolute ss \<and> plain_segment x"
    then show ?thesis using snoc.IH norm_plain by simp
  next
    assume "x = ''..'' \<and> \<not> absolute \<and> (\<exists>n. ss = replicate n ''..'')"
    then obtain n where "\<not> absolute" "ss @ [x] = replicate n ''..'' @ [''..'']" by blast
    then obtain N where N: "ss @ [x] = replicate N ''..''" and na: "\<not> absolute"
      by (metis replicate_Suc replicate_append_same)
    have "norm_segments False [] (replicate N ''..'') = replicate N ''..''"
      using dd [of "[]" N "[]"] by simp
    then show ?thesis using na unfolding N by simp
  qed
qed simp

lemma norm_ok_no_slash: "norm_ok a ss \<Longrightarrow> x \<in> set ss \<Longrightarrow> CHR ''/'' \<notin> set x \<and> x \<noteq> []"
proof -
  assume "norm_ok a ss" "x \<in> set ss"
  then obtain n rest where r: "ss = replicate n ''..'' @ rest" "list_all plain_segment rest"
    unfolding norm_ok_def by blast
  then have "x = ''..'' \<or> plain_segment x" using \<open>x \<in> set ss\<close> by (auto simp add: list_all_iff)
  then show ?thesis by (auto simp add: plain_segment_def)
qed

lemma starts_slash: "starts_with ''/'' p \<longleftrightarrow> p \<noteq> [] \<and> hd p = CHR ''/''"
  by (cases p) auto

lemma plain_last: "plain_segment x \<Longrightarrow> last x \<noteq> CHR ''/''"
  unfolding plain_segment_def by (metis last_in_set)

lemma hd_join: "xs \<noteq> [] \<Longrightarrow> hd xs \<noteq> [] \<Longrightarrow> hd (js_join sep xs) = hd (hd xs) \<and> js_join sep xs \<noteq> []"
  by (cases xs; cases "tl xs") auto

lemma join_snoc: "xs \<noteq> [] \<Longrightarrow> js_join sep (xs @ [x]) = js_join sep xs @ sep @ x"
proof (induction xs)
  case (Cons y ys)
  then show ?case by (cases ys) auto
qed simp

text \<open>The normal form of a path whose last segment is plain.\<close>

lemma normalize_plain_end:
  fixes q :: string
  assumes "plain_segment x" and a: "starts_with ''/'' (q @ ''/'' @ x) = a"
  shows "\<exists>ss. norm_ok a ss \<and> norm_segments a [] (js_split (CHR ''/'') (q @ ''/'' @ x)) = ss @ [x] \<and>
     path_normalize (q @ ''/'' @ x) = (if a then ''/'' else []) @ js_join ''/'' (ss @ [x])"
proof -
  let ?ss = "norm_segments a [] (js_split (CHR ''/'') q)"
  have split: "js_split (CHR ''/'') (q @ ''/'' @ x) = js_split (CHR ''/'') q @ [x]"
    using assms(1) by (simp add: js_split_append_sep js_split_no_char plain_segment_def)
  have n: "norm_segments a [] (js_split (CHR ''/'') (q @ ''/'' @ x)) = ?ss @ [x]"
    unfolding split by (rule norm_plain [OF assms(1)])
  have ok: "norm_ok a ?ss"
    by (rule norm_segments_ok) (auto simp add: norm_ok_def js_split_no_sep)
  have okx: "norm_ok a (?ss @ [x])" using ok assms(1) norm_ok_snoc by blast
  have ne: "js_join ''/'' (?ss @ [x]) \<noteq> []"
    using norm_ok_no_slash [OF okx] by (intro hd_join [THEN conjunct2]) (auto simp add: hd_append)
  have last: "last (q @ ''/'' @ x) \<noteq> CHR ''/''" and q: "q @ ''/'' @ x \<noteq> []"
    using assms(1) plain_last [OF assms(1)] by (auto simp add: plain_segment_def)
  show ?thesis
  proof (intro exI conjI)
    show "path_normalize (q @ ''/'' @ x) = (if a then ''/'' else []) @ js_join ''/'' (?ss @ [x])"
      unfolding path_normalize_def Let_def a n using ne last q by simp
  qed (rule ok n)+
qed

text \<open>Joining a directory so obtained with a plain name appends the name.\<close>

lemma join_child:
  assumes "plain_segment x" and "plain_segment f" and dir: "dir = path_normalize (q @ ''/'' @ x)"
  shows "path_join [dir, f] = dir @ ''/'' @ f \<and> (\<exists>d. dir = d @ x \<and> (d = [] \<or> last d = CHR ''/''))"
proof -
  define a where "a = starts_with ''/'' (q @ ''/'' @ x)"
  obtain ss where ok: "norm_ok a ss" and d: "dir = (if a then ''/'' else []) @ js_join ''/'' (ss @ [x])"
    using normalize_plain_end [OF assms(1) a_def [symmetric]] dir by blast
  have okx: "norm_ok a (ss @ [x])" using ok assms(1) norm_ok_snoc by blast
  have okf: "norm_ok a ((ss @ [x]) @ [f])" using okx assms(2) norm_ok_snoc by blast
  have hdx: "hd (ss @ [x]) \<noteq> [] \<and> CHR ''/'' \<notin> set (hd (ss @ [x]))"
    using norm_ok_no_slash [OF okx] by (cases ss) auto
  have body: "hd (js_join ''/'' (ss @ [x])) = hd (hd (ss @ [x]))" "js_join ''/'' (ss @ [x]) \<noteq> []"
    using hd_join [of "ss @ [x]" "''/''"] hdx by auto
  have dne: "dir \<noteq> []" and fne: "f \<noteq> []" using d body assms(2) by (auto simp add: plain_segment_def)
  have da: "starts_with ''/'' (dir @ ''/'' @ f) = a"
  proof (cases a)
    case False
    have "hd (hd (ss @ [x])) \<noteq> CHR ''/''" using hdx by (metis hd_in_set)
    then show ?thesis using d body False dne by (simp add: starts_slash)
  qed (use d in simp)
  have splitdir: "js_split (CHR ''/'') dir = (if a then [[]] else []) @ ss @ [x]"
    using d norm_ok_no_slash [OF okx] by (auto simp add: js_split_join)
  have segs: "norm_segments a [] (js_split (CHR ''/'') (dir @ ''/'' @ f)) = (ss @ [x]) @ [f]"
  proof -
    have "js_split (CHR ''/'') (dir @ ''/'' @ f) = js_split (CHR ''/'') dir @ [f]"
      using assms(2) by (simp add: js_split_append_sep js_split_no_char plain_segment_def)
    then show ?thesis using splitdir norm_segments_id [OF okf] by (cases a) auto
  qed
  have "path_join [dir, f] = path_normalize (dir @ ''/'' @ f)" using dne fne by (simp add: path_join_def)
  also have "\<dots> = (if a then ''/'' else []) @ js_join ''/'' ((ss @ [x]) @ [f])"
  proof -
    have "js_join ''/'' ((ss @ [x]) @ [f]) \<noteq> []" using join_snoc [of "ss @ [x]" "''/''" f] by simp
    moreover have "last (dir @ ''/'' @ f) \<noteq> CHR ''/''" using assms(2) plain_last [OF assms(2)] by (auto simp add: plain_segment_def)
    ultimately show ?thesis using segs da by (simp add: path_normalize_def Let_def)
  qed
  also have "\<dots> = dir @ ''/'' @ f" using d join_snoc [of "ss @ [x]" "''/''" f] by simp
  finally have "path_join [dir, f] = dir @ ''/'' @ f" .
  moreover have "\<exists>d. dir = d @ x \<and> (d = [] \<or> last d = CHR ''/'')"
    using d by (cases "ss = []") (auto simp add: join_snoc)
  ultimately show ?thesis by blast
qed

lemma safe_ident_plain: "SAFE_IDENT i \<Longrightarrow> plain_segment i"
  by (auto simp add: plain_segment_def SAFE_IDENT_def list_all_iff safe_ident_char_def is_alnum_def char_class_defs
      dest: safe_ident_chars safe_char_not_special)

lemma last_slash_split:
  assumes "c \<notin> set x" "c \<notin> set y"
  shows "a @ c # x = b @ c # y \<longleftrightarrow> a = b \<and> x = y"
proof -
  have "a @ c # x = b @ c # y \<longleftrightarrow> rev x @ c # rev a = rev y @ c # rev b"
    by (metis append.assoc append_Cons append_Nil rev.simps(2) rev_append rev_rev_ident)
  then show ?thesis using slash_split [of c "rev x" "rev y" "rev a" "rev b"] assms by auto
qed

lemma last_segment:
  assumes "plain_segment x" and "d = [] \<or> last d = CHR ''/''"
  shows "last (js_split (CHR ''/'') (d @ x)) = x"
proof (cases d rule: rev_cases)
  case Nil
  then show ?thesis using assms(1) by (simp add: plain_segment_def js_split_no_char)
next
  case (snoc p c)
  then show ?thesis using assms js_split_append_sep [of "CHR ''/''" p x]
    by (simp add: plain_segment_def js_split_no_char)
qed

end
