(* ===== verification/Backup.thy ===== *)
theory Backup
  imports Hooks Runtime Paths
begin

text \<open>
  services/backup_service.ts, services/backup_retention_service.ts, the jobs
  backup_tenant.ts and restore_tenant.ts and the command tenant_backups_run.ts.
  The file system, the child processes, Redis, S3 and JSON text are operations on
  a state \<open>'w\<close>, the parameters of the model; a promise that rejects is a throw.
\<close>

section \<open>Configuration and parameters\<close>

record pg_target =
  pt_host :: string
  pt_port :: nat
  pt_user :: string
  pt_database :: string
  pt_password :: string

record backup_config =
  bc_storagePath :: string
  bc_pg :: pg_target
  bc_s3 :: bool
  bc_metadataTtl :: nat

record BackupMetadata =
  bm_file :: string
  bm_size :: nat
  bm_timestamp :: string
  bm_tenantId :: string
  bm_schema :: string

datatype proc_outcome = SpawnError string | Closed "int option" string

text \<open>
  \<open>bo_iso\<close> is \<open>new Date().toISOString()\<close>; \<open>bo_exists\<close> is a \<open>stat\<close> that succeeds. The
  S3 operations take the object key.
\<close>

record 'w backup_ops =
  bo_iso :: "'w \<Rightarrow> string"
  bo_mkdir :: "string \<Rightarrow> ('w, string, unit) M"
  bo_stat :: "string \<Rightarrow> ('w, string, nat) M"
  bo_unlink :: "string \<Rightarrow> ('w, string, unit) M"
  bo_readFile :: "string \<Rightarrow> ('w, string, string) M"
  bo_writeFile :: "string \<Rightarrow> string \<Rightarrow> ('w, string, unit) M"
  bo_spawn :: "string \<Rightarrow> string list \<Rightarrow> (string \<times> string) list \<Rightarrow> 'w \<Rightarrow> proc_outcome \<times> 'w"
  bo_redis :: "'w kv option"
  bo_putObject :: "string \<Rightarrow> string \<Rightarrow> ('w, string, unit) M"
  bo_getObject :: "string \<Rightarrow> ('w, string, string) M"
  bo_deleteObject :: "string \<Rightarrow> ('w, string, unit) M"
  bo_pipeline :: "string \<Rightarrow> string \<Rightarrow> ('w, string, unit) M"
  bo_stringify :: "BackupMetadata list \<Rightarrow> string"
  bo_parse :: "string \<Rightarrow> BackupMetadata list option"

section \<open>The backup service\<close>

definition file_char :: "char \<Rightarrow> bool" where
  "file_char c \<longleftrightarrow> is_alnum c \<or> c = CHR ''.'' \<or> c = CHR ''_'' \<or> c = CHR ''-''"

definition FILE_PATTERN :: "string \<Rightarrow> bool" where
  "FILE_PATTERN s \<longleftrightarrow> ends_with ''.dump'' s \<and> 5 < length s \<and> list_all file_char s"

definition getBackupDir :: "backup_config \<Rightarrow> string \<Rightarrow> string" where
  "getBackupDir cfg tenantId = path_join [bc_storagePath cfg, tenantId]"

definition metaKey :: "string \<Rightarrow> string" where
  "metaKey tenantId = ''backup:meta:'' @ tenantId"

definition sidecarPath :: "backup_config \<Rightarrow> string \<Rightarrow> string" where
  "sidecarPath cfg tenantId = path_join [getBackupDir cfg tenantId, ''backup.json'']"

definition buildConnectionArgs :: "backup_config \<Rightarrow> string list" where
  "buildConnectionArgs cfg =
     [''-h'', pt_host (bc_pg cfg), ''-p'', show_nat (pt_port (bc_pg cfg)), ''-U'', pt_user (bc_pg cfg),
      ''-d'', pt_database (bc_pg cfg)]"

definition runProcess ::
  "'w backup_ops \<Rightarrow> string \<Rightarrow> string list \<Rightarrow> (string \<times> string) list \<Rightarrow> ('w, string, unit) M"
where
  "runProcess ops command args penv = (\<lambda>w.
     case bo_spawn ops command args penv w of
       (SpawnError e, w') \<Rightarrow> (Inl e, w')
     | (Closed code stderr, w') \<Rightarrow>
         if code = Some 0 then (Inr (), w')
         else (Inl (command @ '' exited with code '' @
                 (case code of None \<Rightarrow> ''null'' | Some k \<Rightarrow> show_int k) @ '': '' @ stderr), w'))"

text \<open>A read that fails, is missing or does not parse falls through to the next source.\<close>

definition load_redis :: "'w backup_ops \<Rightarrow> string \<Rightarrow> ('w, string, BackupMetadata list option) M" where
  "load_redis ops tenantId =
     (case bo_redis ops of
        None \<Rightarrow> returnM None
      | Some k \<Rightarrow> catchM (bindM (kv_get k (metaKey tenantId)) (\<lambda>raw. returnM
            (case raw of None \<Rightarrow> None | Some r \<Rightarrow> if r = [] then None else bo_parse ops r)))
          (\<lambda>_. returnM None))"

definition load_sidecar :: "'w backup_ops \<Rightarrow> backup_config \<Rightarrow> string \<Rightarrow> ('w, string, BackupMetadata list option) M" where
  "load_sidecar ops cfg tenantId =
     catchM (bindM (bo_readFile ops (sidecarPath cfg tenantId)) (\<lambda>raw. returnM (bo_parse ops raw)))
       (\<lambda>_. returnM None)"

definition loadMetadata :: "'w backup_ops \<Rightarrow> backup_config \<Rightarrow> string \<Rightarrow> ('w, string, BackupMetadata list) M" where
  "loadMetadata ops cfg tenantId =
     bindM (load_redis ops tenantId) (\<lambda>r. case r of
       Some list \<Rightarrow> returnM list
     | None \<Rightarrow> bindM (load_sidecar ops cfg tenantId) (\<lambda>f. returnM (or_else f [])))"

definition persistMetadata ::
  "'w backup_ops \<Rightarrow> backup_config \<Rightarrow> string \<Rightarrow> BackupMetadata list \<Rightarrow> ('w, string, unit) M"
where
  "persistMetadata ops cfg tenantId list =
     (let json = bo_stringify ops list in
      thenM (case bo_redis ops of
               None \<Rightarrow> returnM ()
             | Some k \<Rightarrow> swallow (kv_setex k (metaKey tenantId) (bc_metadataTtl cfg) json))
        (swallow (bo_writeFile ops (sidecarPath cfg tenantId) json)))"

definition saveMetadata ::
  "'w backup_ops \<Rightarrow> backup_config \<Rightarrow> string \<Rightarrow> BackupMetadata \<Rightarrow> ('w, string, unit) M"
where
  "saveMetadata ops cfg tenantId meta =
     bindM (loadMetadata ops cfg tenantId) (\<lambda>list.
       persistMetadata ops cfg tenantId (take 30 (meta # list)))"

definition s3_key :: "string \<Rightarrow> string \<Rightarrow> string" where
  "s3_key tenantId fileName = tenantId @ ''/'' @ fileName"

definition uploadToS3 :: "'w backup_ops \<Rightarrow> string \<Rightarrow> string \<Rightarrow> string \<Rightarrow> ('w, string, unit) M" where
  "uploadToS3 ops tenantId fileName filePath = bo_putObject ops (s3_key tenantId fileName) filePath"

definition deleteFromS3 :: "'w backup_ops \<Rightarrow> string \<Rightarrow> string \<Rightarrow> ('w, string, unit) M" where
  "deleteFromS3 ops tenantId fileName = bo_deleteObject ops (s3_key tenantId fileName)"

definition downloadFromS3 ::
  "'w backup_ops \<Rightarrow> backup_config \<Rightarrow> string \<Rightarrow> string \<Rightarrow> string \<Rightarrow> ('w, string, unit) M"
where
  "downloadFromS3 ops cfg tenantId fileName destPath =
     bindM (catchM (thenM (bo_stat ops destPath) (returnM True)) (\<lambda>_. returnM False)) (\<lambda>there.
       if there then returnM ()
       else bindM (bo_getObject ops (s3_key tenantId fileName)) (\<lambda>body.
              thenM (bo_mkdir ops (getBackupDir cfg tenantId)) (bo_pipeline ops body destPath)))"

text \<open>The file name of a new backup: the time with colons and dots rewritten.\<close>

definition stamp :: "string \<Rightarrow> string" where
  "stamp time = replace_char (CHR ''.'') (CHR ''-'') (replace_char (CHR '':'') (CHR ''-'') time)"

definition backup_name :: "string \<Rightarrow> string \<Rightarrow> string" where
  "backup_name tenantId time = ''tenant_'' @ tenantId @ ''_'' @ stamp time @ ''.dump''"

definition dump_args :: "backup_config \<Rightarrow> string \<Rightarrow> string \<Rightarrow> string list" where
  "dump_args cfg schema filePath =
     buildConnectionArgs cfg @
     [''--format=custom'', ''--schema='' @ schema, ''--compress=9'', ''--file'', filePath]"

definition restore_args :: "backup_config \<Rightarrow> string \<Rightarrow> string \<Rightarrow> string list" where
  "restore_args cfg schema filePath =
     buildConnectionArgs cfg @
     [''--format=custom'', ''--schema='' @ schema, ''--clean'', ''--if-exists'', filePath]"

definition service_backup ::
  "'w backup_ops \<Rightarrow> backup_config \<Rightarrow> tenant \<Rightarrow> string \<Rightarrow> ('w, string, BackupMetadata) M"
where
  "service_backup ops cfg t schema =
     bindM (getM (bo_iso ops)) (\<lambda>start.
       let fileName = backup_name (t_id t) start;
           dir = getBackupDir cfg (t_id t);
           filePath = path_join [dir, fileName]
       in thenM (bo_mkdir ops dir)
         (thenM (runProcess ops ''pg_dump'' (dump_args cfg schema filePath)
                   [(''PGPASSWORD'', pt_password (bc_pg cfg))])
         (bindM (bo_stat ops filePath) (\<lambda>size.
          bindM (getM (bo_iso ops)) (\<lambda>finish.
            let meta = \<lparr>bm_file = fileName, bm_size = size, bm_timestamp = finish, bm_tenantId = t_id t,
                        bm_schema = schema\<rparr>
            in thenM (saveMetadata ops cfg (t_id t) meta)
              (thenM (if bc_s3 cfg then uploadToS3 ops (t_id t) fileName filePath else returnM ())
                 (returnM meta)))))))"

definition invalid_name :: "string \<Rightarrow> string" where
  "invalid_name fileName = ''Invalid backup file name: '' @ fileName"

definition service_restore ::
  "'w backup_ops \<Rightarrow> backup_config \<Rightarrow> tenant \<Rightarrow> string \<Rightarrow> string \<Rightarrow> ('w, string, unit) M"
where
  "service_restore ops cfg t schema fileName =
     (if \<not> FILE_PATTERN fileName then throwM (invalid_name fileName)
      else
        let filePath = path_join [getBackupDir cfg (t_id t), fileName]
        in thenM (if bc_s3 cfg then downloadFromS3 ops cfg (t_id t) fileName filePath else returnM ())
             (runProcess ops ''pg_restore'' (restore_args cfg schema filePath)
                [(''PGPASSWORD'', pt_password (bc_pg cfg))]))"

definition listBackups :: "'w backup_ops \<Rightarrow> backup_config \<Rightarrow> string \<Rightarrow> ('w, string, BackupMetadata list) M" where
  "listBackups ops cfg tenantId = loadMetadata ops cfg tenantId"

definition deleteBackup :: "'w backup_ops \<Rightarrow> backup_config \<Rightarrow> string \<Rightarrow> string \<Rightarrow> ('w, string, unit) M" where
  "deleteBackup ops cfg tenantId fileName =
     (if \<not> FILE_PATTERN fileName then throwM (invalid_name fileName)
      else
        thenM (swallow (bo_unlink ops (path_join [getBackupDir cfg tenantId, fileName])))
        (thenM (if bc_s3 cfg then swallow (deleteFromS3 ops tenantId fileName) else returnM ())
        (bindM (loadMetadata ops cfg tenantId) (\<lambda>list.
           persistMetadata ops cfg tenantId (filter (\<lambda>m. bm_file m \<noteq> fileName) list)))))"

section \<open>Retention\<close>

record retention_tier =
  rt_intervalHours :: int
  rt_keepLast :: nat

record retention_config =
  rc_defaultTier :: string
  rc_tiers :: "(string, retention_tier) jmap"
  rc_getTier :: "(tenant \<Rightarrow> string option) option"

definition DEFAULT_RETENTION :: retention_config where
  "DEFAULT_RETENTION = \<lparr>rc_defaultTier = ''standard'',
     rc_tiers = [(''standard'', \<lparr>rt_intervalHours = 24, rt_keepLast = 7\<rparr>)], rc_getTier = None\<rparr>"

definition getTierFor :: "retention_config option \<Rightarrow> tenant \<Rightarrow> string + retention_tier" where
  "getTierFor configured t =
     (let cfg = or_else configured DEFAULT_RETENTION;
          resolved = or_else (Option.bind (rc_getTier cfg) (\<lambda>f. f t)) (rc_defaultTier cfg)
      in case jm_get resolved (rc_tiers cfg) of
           None \<Rightarrow> Inl (''BackupRetentionService: tier '' @ resolved @ '' is not declared'')
         | Some tier \<Rightarrow> Inr tier)"

definition tierM :: "retention_config option \<Rightarrow> tenant \<Rightarrow> ('w, string, retention_tier) M" where
  "tierM configured t = (case getTierFor configured t of Inl e \<Rightarrow> throwM e | Inr tier \<Rightarrow> returnM tier)"

text \<open>\<open>parse_date\<close> is \<open>Date.parse\<close>, \<open>None\<close> where it gives \<open>NaN\<close>.\<close>

definition backup_due :: "(string \<Rightarrow> int option) \<Rightarrow> retention_tier \<Rightarrow> int \<Rightarrow> BackupMetadata list \<Rightarrow> bool" where
  "backup_due parse_date tier now list =
     (case List.map_filter (\<lambda>m. parse_date (bm_timestamp m)) list of
        [] \<Rightarrow> True
      | ts \<Rightarrow> rt_intervalHours tier * 3600000 \<le> now - foldr max ts (hd ts))"

definition shouldBackup ::
  "'w backup_ops \<Rightarrow> backup_config \<Rightarrow> (string \<Rightarrow> int option) \<Rightarrow> retention_config option \<Rightarrow> int \<Rightarrow> tenant \<Rightarrow>
   ('w, string, bool) M"
where
  "shouldBackup ops cfg parse_date retention now t =
     bindM (tierM retention t) (\<lambda>tier.
     bindM (listBackups ops cfg (t_id t)) (\<lambda>list.
       if list = [] then returnM True else returnM (backup_due parse_date tier now list)))"

text \<open>
  The sort is stable and newest first. The comparison subtracts the two times;
  where one of them does not parse JavaScript leaves the order open, so
  statements about it assume that the times parse, as those the service writes do.
\<close>

definition newest_first :: "(string \<Rightarrow> int option) \<Rightarrow> BackupMetadata list \<Rightarrow> BackupMetadata list" where
  "newest_first parse_date list = sort_key (\<lambda>m. - or_else (parse_date (bm_timestamp m)) 0) list"

record RetentionPlan =
  rp_kept :: "BackupMetadata list"
  rp_purged :: "BackupMetadata list"

definition planRetention ::
  "'w backup_ops \<Rightarrow> backup_config \<Rightarrow> (string \<Rightarrow> int option) \<Rightarrow> retention_config option \<Rightarrow> tenant \<Rightarrow>
   ('w, string, RetentionPlan) M"
where
  "planRetention ops cfg parse_date retention t =
     bindM (tierM retention t) (\<lambda>tier.
     bindM (listBackups ops cfg (t_id t)) (\<lambda>list.
       returnM \<lparr>rp_kept = take (rt_keepLast tier) (newest_first parse_date list),
                rp_purged = drop (rt_keepLast tier) (newest_first parse_date list)\<rparr>))"

definition applyRetention ::
  "'w backup_ops \<Rightarrow> backup_config \<Rightarrow> (string \<Rightarrow> int option) \<Rightarrow> retention_config option \<Rightarrow> tenant \<Rightarrow>
   ('w, string, RetentionPlan) M"
where
  "applyRetention ops cfg parse_date retention t =
     bindM (planRetention ops cfg parse_date retention t) (\<lambda>plan.
       thenM (forM (rp_purged plan) (\<lambda>m. swallow (deleteBackup ops cfg (t_id t) (bm_file m)))) (returnM plan))"

section \<open>Jobs and the scheduled run\<close>

datatype backup_event = TenantBackedUp tenant BackupMetadata | TenantRestored tenant string

text \<open>\<open>find\<close> is \<open>repo.findByIdOrFail\<close>, \<open>listen\<close> the dispatch of an event; hooks see the tenant.\<close>

record 'w backup_job_env =
  bj_find :: "string \<Rightarrow> ('w, string, tenant) M"
  bj_hooks :: "(tenant, 'w, string) hook_registry"
  bj_hooklog :: "phase \<Rightarrow> lifecycle_event \<Rightarrow> string \<Rightarrow> 'w \<Rightarrow> 'w"
  bj_listen :: "backup_event \<Rightarrow> ('w, string, unit) M"
  bj_schema :: "tenant \<Rightarrow> string"

definition backup_execute ::
  "'w backup_job_env \<Rightarrow> 'w backup_ops \<Rightarrow> backup_config \<Rightarrow> string \<Rightarrow> ('w, string, unit) M"
where
  "backup_execute env ops cfg tenantId =
     bindM (bj_find env tenantId) (\<lambda>t.
     thenM (run_hooks (bj_hooklog env) (bj_hooks env) Before backup t)
     (bindM (service_backup ops cfg t (bj_schema env t)) (\<lambda>meta.
      thenM (run_hooks (bj_hooklog env) (bj_hooks env) After backup t)
        (bj_listen env (TenantBackedUp t meta)))))"

definition restore_execute ::
  "'w backup_job_env \<Rightarrow> 'w backup_ops \<Rightarrow> backup_config \<Rightarrow> string \<Rightarrow> string \<Rightarrow> ('w, string, unit) M"
where
  "restore_execute env ops cfg tenantId fileName =
     bindM (bj_find env tenantId) (\<lambda>t.
     thenM (run_hooks (bj_hooklog env) (bj_hooks env) Before restore t)
     (thenM (service_restore ops cfg t (bj_schema env t) fileName)
     (thenM (run_hooks (bj_hooklog env) (bj_hooks env) After restore t)
        (bj_listen env (TenantRestored t fileName)))))"

record run_flags =
  rf_force :: bool
  rf_dryRun :: bool
  rf_noRetention :: bool

record run_totals =
  tot_backedUp :: nat
  tot_skipped :: nat
  tot_failed :: nat
  tot_purged :: nat

definition sweepRetention ::
  "'w backup_ops \<Rightarrow> backup_config \<Rightarrow> (string \<Rightarrow> int option) \<Rightarrow> retention_config option \<Rightarrow> run_flags \<Rightarrow> tenant \<Rightarrow>
   ('w, string, nat) M"
where
  "sweepRetention ops cfg parse_date retention fl t =
     catchM
       (bindM ((if rf_dryRun fl then planRetention else applyRetention) ops cfg parse_date retention t) (\<lambda>plan.
          returnM (length (rp_purged plan))))
       (\<lambda>_. returnM 0)"

fun backups_loop ::
  "'w backup_ops \<Rightarrow> backup_config \<Rightarrow> (string \<Rightarrow> int option) \<Rightarrow> retention_config option \<Rightarrow> (tenant \<Rightarrow> string) \<Rightarrow>
   int \<Rightarrow> run_flags \<Rightarrow> tenant list \<Rightarrow> run_totals \<Rightarrow> ('w, string, run_totals) M"
where
  "backups_loop ops cfg pd ret schema now fl [] tot = returnM tot"
| "backups_loop ops cfg pd ret schema now fl (t # ts) tot =
     bindM (if rf_force fl then returnM True else shouldBackup ops cfg pd ret now t) (\<lambda>due.
       if \<not> due then backups_loop ops cfg pd ret schema now fl ts (tot\<lparr>tot_skipped := Suc (tot_skipped tot)\<rparr>)
       else bindM (if rf_dryRun fl then returnM True
                   else catchM (thenM (service_backup ops cfg t (schema t)) (returnM True)) (\<lambda>_. returnM False)) (\<lambda>ok.
         if \<not> ok then backups_loop ops cfg pd ret schema now fl ts (tot\<lparr>tot_failed := Suc (tot_failed tot)\<rparr>)
         else bindM (if rf_noRetention fl then returnM 0 else sweepRetention ops cfg pd ret fl t) (\<lambda>n.
           backups_loop ops cfg pd ret schema now fl ts
             (tot\<lparr>tot_backedUp := Suc (tot_backedUp tot), tot_purged := tot_purged tot + n\<rparr>))))"

text \<open>The command on the active tenants; the flag is the exit code 1.\<close>

definition tenant_backups_run ::
  "'w backup_ops \<Rightarrow> backup_config \<Rightarrow> (string \<Rightarrow> int option) \<Rightarrow> retention_config option \<Rightarrow> (tenant \<Rightarrow> string) \<Rightarrow>
   int \<Rightarrow> run_flags \<Rightarrow> string list \<Rightarrow> tenant list \<Rightarrow> ('w, string, run_totals \<times> bool) M"
where
  "tenant_backups_run ops cfg pd ret schema now fl only allActive =
     (let ts = (if only = [] then allActive else filter (\<lambda>t. t_id t \<in> set only) allActive)
      in bindM (backups_loop ops cfg pd ret schema now fl ts
             \<lparr>tot_backedUp = 0, tot_skipped = 0, tot_failed = 0, tot_purged = 0\<rparr>) (\<lambda>tot.
           returnM (tot, 0 < tot_failed tot)))"

section \<open>Facts on the files\<close>

lemma file_pattern_plain: "FILE_PATTERN f \<Longrightarrow> plain_segment f"
  by (auto simp add: FILE_PATTERN_def plain_segment_def list_all_iff file_char_def is_alnum_def char_class_defs)

lemma sidecar_plain: "plain_segment ''backup.json''"
  by code_simp

lemma dir_child:
  assumes "bc_storagePath cfg \<noteq> []" and "SAFE_IDENT i" and "plain_segment f"
  shows "path_join [getBackupDir cfg i, f] = getBackupDir cfg i @ ''/'' @ f"
    and "last (js_split (CHR ''/'') (getBackupDir cfg i)) = i"
proof -
  have i: "plain_segment i" by (rule safe_ident_plain [OF assms(2)])
  have dir: "getBackupDir cfg i = path_normalize (bc_storagePath cfg @ ''/'' @ i)"
    using assms(1) i by (simp add: getBackupDir_def path_join_def plain_segment_def)
  show "path_join [getBackupDir cfg i, f] = getBackupDir cfg i @ ''/'' @ f"
    using join_child [OF i assms(3) dir] by simp
  obtain d where "getBackupDir cfg i = d @ i" "d = [] \<or> last d = CHR ''/''"
    using join_child [OF i assms(3) dir] by blast
  then show "last (js_split (CHR ''/'') (getBackupDir cfg i)) = i"
    using last_segment [OF i] by metis
qed

text \<open>
  What the outside does to files: \<open>unlink\<close>, \<open>writeFile\<close> and the download stream act
  on the path they are given, a child process at most on its last argument (the
  archive), and nothing else touches the contents.
\<close>

definition file_laws :: "'w backup_ops \<Rightarrow> ('w \<Rightarrow> string \<Rightarrow> string option) \<Rightarrow> bool" where
  "file_laws ops contents \<longleftrightarrow>
     (\<forall>p q w. p \<noteq> q \<longrightarrow> contents (snd (bo_unlink ops p w)) q = contents w q) \<and>
     (\<forall>p x q w. p \<noteq> q \<longrightarrow> contents (snd (bo_writeFile ops p x w)) q = contents w q) \<and>
     (\<forall>b p q w. p \<noteq> q \<longrightarrow> contents (snd (bo_pipeline ops b p w)) q = contents w q) \<and>
     (\<forall>c args e q w. last args \<noteq> q \<longrightarrow> contents (snd (bo_spawn ops c args e w)) q = contents w q) \<and>
     (\<forall>p w. contents (snd (bo_mkdir ops p w)) = contents w) \<and>
     (\<forall>p w. contents (snd (bo_stat ops p w)) = contents w) \<and>
     (\<forall>p w. contents (snd (bo_readFile ops p w)) = contents w) \<and>
     (\<forall>k p w. contents (snd (bo_putObject ops k p w)) = contents w) \<and>
     (\<forall>k w. contents (snd (bo_getObject ops k w)) = contents w) \<and>
     (\<forall>k w. contents (snd (bo_deleteObject ops k w)) = contents w) \<and>
     (\<forall>r. bo_redis ops = Some r \<longrightarrow>
        (\<forall>k w. contents (snd (kv_get r k w)) = contents w) \<and>
        (\<forall>k t v w. contents (snd (kv_setex r k t v w)) = contents w))"

definition file_is :: "('w \<Rightarrow> string \<Rightarrow> string option) \<Rightarrow> string \<Rightarrow> string option \<Rightarrow> 'w \<Rightarrow> bool" where
  "file_is contents q c w \<longleftrightarrow> contents w q = c"

lemma file_keeps:
  assumes "file_laws ops contents"
  shows "p \<noteq> q \<Longrightarrow> keeps (file_is contents q c) (bo_unlink ops p)"
    "p \<noteq> q \<Longrightarrow> keeps (file_is contents q c) (bo_writeFile ops p x)"
    "p \<noteq> q \<Longrightarrow> keeps (file_is contents q c) (bo_pipeline ops b p)"
    "keeps (file_is contents q c) (bo_mkdir ops p)"
    "keeps (file_is contents q c) (bo_stat ops p)"
    "keeps (file_is contents q c) (bo_readFile ops p)"
    "keeps (file_is contents q c) (bo_putObject ops k p)"
    "keeps (file_is contents q c) (bo_getObject ops k)"
    "keeps (file_is contents q c) (bo_deleteObject ops k)"
    "bo_redis ops = Some r \<Longrightarrow> keeps (file_is contents q c) (kv_get r k)"
    "bo_redis ops = Some r \<Longrightarrow> keeps (file_is contents q c) (kv_setex r k t v)"
  using assms by (auto simp add: keeps_def file_is_def file_laws_def)

lemma file_keeps_process:
  assumes "file_laws ops contents" and "last args \<noteq> q"
  shows "keeps (file_is contents q c) (runProcess ops cmd args e)"
proof
  fix w assume "file_is contents q c w"
  moreover obtain o' w' where "bo_spawn ops cmd args e w = (o', w')" by fastforce
  moreover from this have "contents w' q = contents w q"
    using assms unfolding file_laws_def by (metis snd_conv)
  ultimately show "file_is contents q c (snd (runProcess ops cmd args e w))"
    by (auto simp add: runProcess_def file_is_def split: proc_outcome.splits)
qed

lemma keeps_swallow [keeps_intros]: "keeps P m \<Longrightarrow> keeps P (swallow m)"
  unfolding swallow_def by (intro keeps_intros)

lemma file_keeps_load:
  assumes "file_laws ops contents"
  shows "keeps (file_is contents q c) (loadMetadata ops cfg i)"
  unfolding loadMetadata_def load_redis_def load_sidecar_def
  by (cases "bo_redis ops") (auto intro!: keeps_intros file_keeps [OF assms])

lemma file_keeps_persist:
  assumes "file_laws ops contents" and "sidecarPath cfg i \<noteq> q"
  shows "keeps (file_is contents q c) (persistMetadata ops cfg i list)"
  unfolding persistMetadata_def Let_def
  by (cases "bo_redis ops") (auto intro!: keeps_intros file_keeps [OF assms(1)] assms(2))

lemmas file_intros = keeps_intros file_keeps file_keeps_process file_keeps_load file_keeps_persist

lemma file_keeps_service:
  assumes laws: "file_laws ops contents" and side: "sidecarPath cfg (t_id t) \<noteq> q"
    and other: "\<And>f. path_join [getBackupDir cfg (t_id t), f] \<noteq> q \<or> \<not> plain_segment f"
    and iso: "\<And>w. plain_segment (backup_name (t_id t) (bo_iso ops w))"
  shows "keeps (file_is contents q c) (deleteBackup ops cfg (t_id t) f)"
    "keeps (file_is contents q c) (service_restore ops cfg t schema f)"
    "keeps (file_is contents q c) (service_backup ops cfg t schema)"
proof -
  have p: "path_join [getBackupDir cfg (t_id t), f] \<noteq> q" if "FILE_PATTERN f" for f
    using other file_pattern_plain [OF that] by blast
  have b: "path_join [getBackupDir cfg (t_id t), backup_name (t_id t) (bo_iso ops w)] \<noteq> q" for w
    using other iso by blast
  show "keeps (file_is contents q c) (deleteBackup ops cfg (t_id t) f)"
    using p [of f] side unfolding deleteBackup_def deleteFromS3_def
    by (auto intro!: file_intros laws)
  show "keeps (file_is contents q c) (service_restore ops cfg t schema f)"
    using p [of f] unfolding service_restore_def downloadFromS3_def Let_def
    by (auto intro!: file_intros laws simp add: restore_args_def)
  have go: "keeps (file_is contents q c) (bindM (getM (bo_iso ops)) f)"
    if "\<And>w. keeps (file_is contents q c) (f (bo_iso ops w))" for f :: "string \<Rightarrow> ('a, string, 'z) M"
    using that by (auto simp add: keeps_def run_simps)
  show "keeps (file_is contents q c) (service_backup ops cfg t schema)"
    unfolding service_backup_def saveMetadata_def uploadToS3_def Let_def
    by (auto intro!: go file_intros laws side simp add: dump_args_def b b [THEN not_sym])
qed

section \<open>Facts on the metadata\<close>

text \<open>
  A Redis that answers: its writes succeed, JSON text reads back what it was made
  from, and the other operations do not touch the keys.
\<close>

definition meta_laws :: "'w backup_ops \<Rightarrow> 'w kv \<Rightarrow> bool" where
  "meta_laws ops k \<longleftrightarrow>
     bo_redis ops = Some k \<and> kv_laws k \<and>
     (\<forall>i t v w. fst (kv_setex k i t v w) = Inr ()) \<and>
     (\<forall>l. bo_stringify ops l \<noteq> [] \<and> bo_parse ops (bo_stringify ops l) = Some l) \<and>
     (\<forall>j w p. fst (kv_get k j (snd (bo_mkdir ops p w))) = fst (kv_get k j w)) \<and>
     (\<forall>j w p. fst (kv_get k j (snd (bo_stat ops p w))) = fst (kv_get k j w)) \<and>
     (\<forall>j w p. fst (kv_get k j (snd (bo_unlink ops p w))) = fst (kv_get k j w)) \<and>
     (\<forall>j w p. fst (kv_get k j (snd (bo_readFile ops p w))) = fst (kv_get k j w)) \<and>
     (\<forall>j w p x. fst (kv_get k j (snd (bo_writeFile ops p x w))) = fst (kv_get k j w)) \<and>
     (\<forall>j w c a e. fst (kv_get k j (snd (bo_spawn ops c a e w))) = fst (kv_get k j w)) \<and>
     (\<forall>j w i p. fst (kv_get k j (snd (bo_putObject ops i p w))) = fst (kv_get k j w)) \<and>
     (\<forall>j w i. fst (kv_get k j (snd (bo_deleteObject ops i w))) = fst (kv_get k j w))"

text \<open>\<open>listed ops k i l w\<close>: the stored list of tenant \<open>i\<close> is \<open>l\<close>.\<close>

definition listed :: "'w backup_ops \<Rightarrow> 'w kv \<Rightarrow> string \<Rightarrow> BackupMetadata list \<Rightarrow> 'w \<Rightarrow> bool" where
  "listed ops k i l w \<longleftrightarrow> fst (kv_get k (metaKey i) w) = Inr (Some (bo_stringify ops l))"

lemma metaKey_inj: "metaKey i = metaKey j \<longleftrightarrow> i = j"
  by (simp add: metaKey_def)

lemma listed_load:
  assumes "meta_laws ops k" and "listed ops k i l w"
  shows "fst (loadMetadata ops cfg i w) = Inr l \<and>
     (\<forall>j m. listed ops k j m w \<longrightarrow> listed ops k j m (snd (loadMetadata ops cfg i w)))"
proof -
  obtain w' where g: "kv_get k (metaKey i) w = (Inr (Some (bo_stringify ops l)), w')"
    using assms(2) unfolding listed_def by (metis prod.collapse)
  have "fst (kv_get k j w') = fst (kv_get k j w)" for j
    using assms(1) g unfolding meta_laws_def kv_laws_def by (metis snd_conv)
  then show ?thesis
    using assms g by (simp add: loadMetadata_def load_redis_def run_simps meta_laws_def listed_def)
qed

lemma listed_persist:
  assumes "meta_laws ops k"
  shows "fst (persistMetadata ops cfg i l w) = Inr () \<and> listed ops k i l (snd (persistMetadata ops cfg i l w)) \<and>
     (\<forall>j m. j \<noteq> i \<longrightarrow> listed ops k j m w \<longrightarrow> listed ops k j m (snd (persistMetadata ops cfg i l w)))"
proof -
  have red: "bo_redis ops = Some k" and kv: "kv_laws k"
    and wr: "fst (kv_get k j (snd (bo_writeFile ops p x u))) = fst (kv_get k j u)" for j p x u
    using assms by (auto simp add: meta_laws_def)
  obtain w' where s: "kv_setex k (metaKey i) (bc_metadataTtl cfg) (bo_stringify ops l) w = (Inr (), w')"
    using assms unfolding meta_laws_def by (metis prod.collapse)
  have "fst (kv_get k j w') = (if j = metaKey i then Inr (Some (bo_stringify ops l)) else fst (kv_get k j w))" for j
    using kv s unfolding kv_laws_def by simp
  then show ?thesis
    using s by (simp add: persistMetadata_def Let_def red run_simps listed_def wr metaKey_inj)
qed

lemma listed_delete:
  assumes "meta_laws ops k" and "listed ops k i l w" and "FILE_PATTERN f"
  shows "fst (deleteBackup ops cfg i f w) = Inr () \<and>
     listed ops k i (filter (\<lambda>m. bm_file m \<noteq> f) l) (snd (deleteBackup ops cfg i f w)) \<and>
     (\<forall>j m. j \<noteq> i \<longrightarrow> listed ops k j m w \<longrightarrow> listed ops k j m (snd (deleteBackup ops cfg i f w)))"
proof -
  define w1 where "w1 = snd (swallow (bo_unlink ops (path_join [getBackupDir cfg i, f])) w)"
  define w2 where "w2 = (if bc_s3 cfg then snd (swallow (deleteFromS3 ops i f) w1) else w1)"
  have l2: "listed ops k j m w2 \<longleftrightarrow> listed ops k j m w" for j m
    using assms(1) by (simp add: w2_def w1_def deleteFromS3_def listed_def run_simps meta_laws_def)
  obtain w3 where w3: "loadMetadata ops cfg i w2 = (Inr l, w3)" "\<forall>j m. listed ops k j m w2 \<longrightarrow> listed ops k j m w3"
    using listed_load [OF assms(1), of i l w2 cfg] assms(2) l2 by (metis prod.collapse)
  have "deleteBackup ops cfg i f w = persistMetadata ops cfg i (filter (\<lambda>m. bm_file m \<noteq> f) l) w3"
    using assms(3) w3(1) by (cases "bc_s3 cfg") (simp_all add: deleteBackup_def run_simps w1_def w2_def)
  then show ?thesis using listed_persist [OF assms(1)] w3(2) l2 by simp
qed

lemma listed_keeps:
  assumes "meta_laws ops k"
  shows "keeps (listed ops k j m) (bo_mkdir ops p)" "keeps (listed ops k j m) (bo_stat ops p)"
    "keeps (listed ops k j m) (runProcess ops c args e)" "keeps (listed ops k j m) (uploadToS3 ops i f p)"
proof -
  have sp: "bo_spawn ops c args e w = (o', w') \<Longrightarrow> fst (kv_get k q w') = fst (kv_get k q w)" for o' w w' q
    using assms unfolding meta_laws_def by (metis snd_conv)
  show "keeps (listed ops k j m) (runProcess ops c args e)"
    by (rule keepsI) (auto simp add: runProcess_def listed_def sp split: prod.splits proc_outcome.splits)
qed (use assms in \<open>simp_all add: keeps_def listed_def meta_laws_def uploadToS3_def\<close>)

lemma listed_save:
  assumes "meta_laws ops k"
  shows "hoare (listed ops k i l) (saveMetadata ops cfg i meta) (\<lambda>_. listed ops k i (take 30 (meta # l))) (\<lambda>_. False)"
proof (rule hoareI)
  fix w assume l: "listed ops k i l w"
  obtain w1 where "loadMetadata ops cfg i w = (Inr l, w1)" using listed_load [OF assms l] by (metis prod.collapse)
  then have run: "saveMetadata ops cfg i meta w = persistMetadata ops cfg i (take 30 (meta # l)) w1"
    by (simp add: saveMetadata_def run_simps)
  note p = listed_persist [OF assms, of cfg i "take 30 (meta # l)" w1]
  show "listed ops k i (take 30 (meta # l)) w'" if "saveMetadata ops cfg i meta w = (Inr x, w')" for x w'
    using run p that by (metis snd_conv)
  show False if "saveMetadata ops cfg i meta w = (Inl e, w')" for e w'
    using run p that by (metis fst_conv sum.simps(4))
qed

lemma listed_service_backup:
  assumes "meta_laws ops k"
  shows "hoare (listed ops k (t_id t) l) (service_backup ops cfg t schema)
     (\<lambda>meta w. bm_tenantId meta = t_id t \<and> listed ops k (t_id t) (take 30 (meta # l)) w) (\<lambda>_. True)"
proof -
  have k1: "hoare (listed ops k (t_id t) l') m (\<lambda>_. listed ops k (t_id t) l') (\<lambda>_. True)"
    if "keeps (listed ops k (t_id t) l') m" for l' and m :: "('a, string, 'x) M"
    using that unfolding hoare_keeps by (rule hoare_weaken) auto
  have s: "hoare (listed ops k (t_id t) l) (saveMetadata ops cfg (t_id t) meta)
      (\<lambda>_. listed ops k (t_id t) (take 30 (meta # l))) (\<lambda>_. True)" for meta
    by (rule hoare_weaken [OF listed_save [OF assms]]) auto
  have u: "hoare (listed ops k (t_id t) m) (if bc_s3 cfg then uploadToS3 ops (t_id t) f p else returnM ())
      (\<lambda>_. listed ops k (t_id t) m) (\<lambda>_. True)" for m f p
    by (intro hoare_if hoare_basic k1 [OF listed_keeps(4) [OF assms]])
  have g: "hoare P (getM f) (\<lambda>_. P) (\<lambda>_. True)" for P :: "'a \<Rightarrow> bool" and f :: "'a \<Rightarrow> string"
    by (rule hoare_getM)
  show ?thesis
    unfolding service_backup_def Let_def
    by (intro hoare_bind [OF g] hoare_then [OF k1 [OF listed_keeps(1) [OF assms]]]
        hoare_then [OF k1 [OF listed_keeps(3) [OF assms]]] hoare_bind [OF k1 [OF listed_keeps(2) [OF assms]]]
        hoare_then [OF s] hoare_then [OF u] hoare_basic) simp
qed

section \<open>Facts on retention\<close>

lemma newest_first_mset: "mset (newest_first pd l) = mset l"
  by (simp add: newest_first_def)

lemma newest_first_sorted:
  "sorted_wrt (\<lambda>a b. or_else (pd (bm_timestamp b)) 0 \<le> or_else (pd (bm_timestamp a)) 0) (newest_first pd l)"
proof -
  have "sorted (map (\<lambda>m. - or_else (pd (bm_timestamp m)) 0) (newest_first pd l))"
    unfolding newest_first_def by (rule sorted_sort_key)
  then show ?thesis by (simp add: sorted_map)
qed

lemma listed_purge:
  assumes "meta_laws ops k"
  shows "\<forall>m \<in> set ms. FILE_PATTERN (bm_file m) \<Longrightarrow> listed ops k i l w \<Longrightarrow>
     fst (forM ms (\<lambda>m. swallow (deleteBackup ops cfg i (bm_file m))) w) = Inr () \<and>
     listed ops k i (filter (\<lambda>x. bm_file x \<notin> bm_file ` set ms) l)
       (snd (forM ms (\<lambda>m. swallow (deleteBackup ops cfg i (bm_file m))) w))"
proof (induction ms arbitrary: l w)
  case (Cons m ms)
  let ?w = "snd (deleteBackup ops cfg i (bm_file m) w)"
  have "listed ops k i (filter (\<lambda>x. bm_file x \<noteq> bm_file m) l) ?w"
    using listed_delete [OF assms Cons.prems(2)] Cons.prems(1) by simp
  from Cons.IH [OF _ this] Cons.prems(1) show ?case
    by (simp add: run_simps)
qed (simp add: run_simps)

lemma plan_run:
  assumes "meta_laws ops k" and "listed ops k (t_id t) l w" and "getTierFor ret t = Inr tier"
  shows "\<exists>w'. planRetention ops cfg pd ret t w =
      (Inr \<lparr>rp_kept = take (rt_keepLast tier) (newest_first pd l), rp_purged = drop (rt_keepLast tier) (newest_first pd l)\<rparr>, w') \<and>
      listed ops k (t_id t) l w'"
proof -
  obtain w' where "loadMetadata ops cfg (t_id t) w = (Inr l, w')" "listed ops k (t_id t) l w'"
    using listed_load [OF assms(1,2), of cfg] assms(2) by (metis prod.collapse)
  then show ?thesis using assms(3) by (simp add: planRetention_def tierM_def listBackups_def run_simps)
qed

section \<open>Properties\<close>


text \<open>
  While Redis answers, the list of a tenant's backups is right: a successful
  backup puts its record first and keeps at most thirty, deleting a file removes
  exactly its records, and other tenants' lists stay as they are.
\<close>

theorem backup_list_is_right:
  assumes "meta_laws ops k" and "listed ops k (t_id t) l w"
  shows "(\<forall>meta w'. service_backup ops cfg t schema w = (Inr meta, w') \<longrightarrow>
       bm_tenantId meta = t_id t \<and> fst (listBackups ops cfg (t_id t) w') = Inr (take 30 (meta # l))) \<and>
     (FILE_PATTERN f \<longrightarrow>
       fst (listBackups ops cfg (t_id t) (snd (deleteBackup ops cfg (t_id t) f w))) =
         Inr (filter (\<lambda>m. bm_file m \<noteq> f) l) \<and>
       (\<forall>j m. j \<noteq> t_id t \<longrightarrow> listed ops k j m w \<longrightarrow>
          fst (listBackups ops cfg j (snd (deleteBackup ops cfg (t_id t) f w))) = Inr m))"
proof (intro conjI allI impI)
  fix meta w'
  assume "service_backup ops cfg t schema w = (Inr meta, w')"
  from hoare_Inr [OF listed_service_backup [OF assms(1)] assms(2) this]
  show "bm_tenantId meta = t_id t" "fst (listBackups ops cfg (t_id t) w') = Inr (take 30 (meta # l))"
    using listed_load [OF assms(1)] unfolding listBackups_def by blast+
next
  assume "FILE_PATTERN f"
  note d = listed_delete [OF assms this, of cfg]
  show "fst (listBackups ops cfg (t_id t) (snd (deleteBackup ops cfg (t_id t) f w))) = Inr (filter (\<lambda>m. bm_file m \<noteq> f) l)"
    using d listed_load [OF assms(1)] unfolding listBackups_def by blast
  show "fst (listBackups ops cfg j (snd (deleteBackup ops cfg (t_id t) f w))) = Inr m"
    if "j \<noteq> t_id t" "listed ops k j m w" for j m
    using d that listed_load [OF assms(1)] unfolding listBackups_def by blast
qed


section \<open>A concrete outside\<close>

text \<open>
  Files and keys are maps, \<open>pg_dump\<close> writes its archive, and a text holds a list
  of records as marked characters ended by full stops.
\<close>

fun text_of :: "string list \<Rightarrow> string" where
  "text_of [] = ''!''"
| "text_of (x # xs) = concat (map (\<lambda>c. [CHR ''x'', c]) x) @ ''.'' @ text_of xs"

fun of_text :: "string \<Rightarrow> string \<Rightarrow> string list option" where
  "of_text acc (m # rest) =
     (if m = CHR ''!'' then Some []
      else if m = CHR ''.'' then map_option (\<lambda>xs. rev acc # xs) (of_text [] rest)
      else (case rest of [] \<Rightarrow> None | c # cs \<Rightarrow> of_text (c # acc) cs))"
| "of_text acc [] = None"

fun fields_of :: "BackupMetadata list \<Rightarrow> string list" where
  "fields_of [] = []"
| "fields_of (m # ms) =
     [bm_file m, replicate (bm_size m) (CHR ''1''), bm_timestamp m, bm_tenantId m, bm_schema m] @ fields_of ms"

fun of_fields :: "string list \<Rightarrow> BackupMetadata list" where
  "of_fields (f # n # ts # i # sc # rest) =
     \<lparr>bm_file = f, bm_size = length n, bm_timestamp = ts, bm_tenantId = i, bm_schema = sc\<rparr> # of_fields rest"
| "of_fields _ = []"

lemma of_text_text: "of_text acc (concat (map (\<lambda>c. [CHR ''x'', c]) x) @ ''.'' @ text_of xs) =
    map_option (\<lambda>ys. (rev acc @ x) # ys) (of_text [] (text_of xs))"
  by (induction x arbitrary: acc) auto

lemma text_roundtrip: "of_text [] (text_of xs) = Some xs"
  by (induction xs) (use of_text_text [of "[]"] in auto)

lemma fields_roundtrip: "of_fields (fields_of ms) = ms"
  by (induction ms) auto

record outside_world =
  ow_files :: "string \<Rightarrow> string option"
  ow_keys :: "string \<Rightarrow> string option"

definition world_kv :: "outside_world kv" where
  "world_kv = \<lparr>kv_get = (\<lambda>k w. (Inr (ow_keys w k), w)),
     kv_setex = (\<lambda>k t v w. (Inr (), w\<lparr>ow_keys := (ow_keys w)(k := Some v)\<rparr>)),
     kv_del = (\<lambda>k w. (Inr (), w\<lparr>ow_keys := (ow_keys w)(k := None)\<rparr>))\<rparr>"

definition world_ops :: "outside_world backup_ops" where
  "world_ops = \<lparr>bo_iso = (\<lambda>w. ''2026-01-01T00:00:00.000Z''), bo_mkdir = (\<lambda>p. returnM ()),
     bo_stat = (\<lambda>p w. (case ow_files w p of None \<Rightarrow> (Inl ''ENOENT'', w) | Some c \<Rightarrow> (Inr (length c), w))),
     bo_unlink = (\<lambda>p. modM (\<lambda>w. w\<lparr>ow_files := (ow_files w)(p := None)\<rparr>)),
     bo_readFile = (\<lambda>p w. (case ow_files w p of None \<Rightarrow> (Inl ''ENOENT'', w) | Some c \<Rightarrow> (Inr c, w))),
     bo_writeFile = (\<lambda>p c. modM (\<lambda>w. w\<lparr>ow_files := (ow_files w)(p := Some c)\<rparr>)),
     bo_spawn = (\<lambda>c args e w. (Closed (Some 0) [], w\<lparr>ow_files := (ow_files w)(last args := Some ''dump'')\<rparr>)),
     bo_redis = Some world_kv, bo_putObject = (\<lambda>k p. returnM ()), bo_getObject = (\<lambda>k. returnM []),
     bo_deleteObject = (\<lambda>k. returnM ()),
     bo_pipeline = (\<lambda>b p. modM (\<lambda>w. w\<lparr>ow_files := (ow_files w)(p := Some b)\<rparr>)),
     bo_stringify = (\<lambda>l. text_of (fields_of l)), bo_parse = (\<lambda>s. map_option of_fields (of_text [] s))\<rparr>"

lemma world_file_laws: "file_laws world_ops ow_files"
  by (auto simp add: file_laws_def world_ops_def world_kv_def run_simps split: option.splits)

lemma text_of_ne: "text_of xs \<noteq> []"
  by (cases xs) simp_all

lemma world_meta_laws: "meta_laws world_ops world_kv"
  unfolding meta_laws_def
  by (auto simp add: kv_laws_def world_ops_def world_kv_def run_simps text_roundtrip fields_roundtrip text_of_ne
      split: option.splits)

definition demo_backups :: backup_config where
  "demo_backups = \<lparr>bc_storagePath = ''/var/backups'',
     bc_pg = \<lparr>pt_host = ''db'', pt_port = 5432, pt_user = ''u'', pt_database = ''d'', pt_password = ''p''\<rparr>,
     bc_s3 = False, bc_metadataTtl = 60\<rparr>"

definition demo_backup_tenant :: tenant where
  "demo_backup_tenant = fst (mock_create ''a'' 0 ''n'' ''e'' active [])"

lemma demo_backup_id: "t_id demo_backup_tenant = ''a''"
  by code_simp


definition demo_meta :: "string \<Rightarrow> string \<Rightarrow> BackupMetadata" where
  "demo_meta f ts = \<lparr>bm_file = f, bm_size = 4, bm_timestamp = ts, bm_tenantId = ''a'', bm_schema = ''s''\<rparr>"

definition demo_listed :: "BackupMetadata list \<Rightarrow> outside_world" where
  "demo_listed l = \<lparr>ow_files = Map.empty, ow_keys = [metaKey ''a'' \<mapsto> text_of (fields_of l)]\<rparr>"

lemma demo_listed_listed: "listed world_ops world_kv (t_id demo_backup_tenant) l (demo_listed l)"
  by (simp add: listed_def demo_listed_def world_ops_def world_kv_def demo_backup_id)

theorem backup_list_is_right_witness:
  "fst (listBackups world_ops demo_backups ''a''
     (snd (deleteBackup world_ops demo_backups ''a'' ''x.dump'' (demo_listed [demo_meta ''x.dump'' ''1'', demo_meta ''y.dump'' ''2''])))) =
   Inr [demo_meta ''y.dump'' ''2'']"
proof -
  have "FILE_PATTERN ''x.dump''" by code_simp
  then show ?thesis
    using backup_list_is_right [OF world_meta_laws demo_listed_listed, where f = "''x.dump''" and cfg = demo_backups
        and l = "[demo_meta ''x.dump'' ''1'', demo_meta ''y.dump'' ''2'']" and schema = "[]"]
    by (simp add: demo_backup_id) (simp add: demo_meta_def)
qed


text \<open>
  A Redis write that fails leaves the older list in place, and reads prefer it
  to the newer sidecar file: the new backup is not listed.
\<close>

definition failing_ops :: "outside_world backup_ops" where
  "failing_ops = world_ops\<lparr>bo_redis := Some (world_kv\<lparr>kv_setex := (\<lambda>k t v. throwM ''down'')\<rparr>)\<rparr>"

lemma stale_list_after_failed_write:
  "let w = snd (saveMetadata failing_ops demo_backups ''a'' (demo_meta ''y.dump'' ''2'') (demo_listed [demo_meta ''x.dump'' ''1'']))
   in fst (listBackups failing_ops demo_backups ''a'' w) = Inr [demo_meta ''x.dump'' ''1''] \<and>
      fst (load_sidecar failing_ops demo_backups ''a'' w) = Inr (Some [demo_meta ''y.dump'' ''2'', demo_meta ''x.dump'' ''1''])"
  by code_simp

text \<open>
  The thirty-first backup drops out of the list, so retention never purges it
  and its archive stays; a tier that keeps more than thirty keeps no more than thirty listed.
\<close>

lemma list_forgets_the_oldest:
  assumes "meta_laws ops k" and "listed ops k i l w" and "length l = 30" and "m = last l"
    and "m \<notin> set (butlast l)" and "meta \<noteq> m"
  shows "hoare (listed ops k i l) (saveMetadata ops cfg i meta)
     (\<lambda>_ w. listed ops k i (meta # butlast l) w \<and> m \<notin> set (meta # butlast l)) (\<lambda>_. False)"
proof -
  have "take 30 (meta # l) = meta # butlast l" using assms(3) by (simp add: butlast_conv_take)
  then show ?thesis
    using listed_save [OF assms(1), of i l cfg meta] assms(5,6) by (auto intro: hoare_weaken)
qed

text \<open>An undeclared tier aborts the whole scheduled run, also for the tenants after it.\<close>

lemma bad_tier_aborts_run:
  "fst (tenant_backups_run world_ops demo_backups (\<lambda>s. None)
     (Some \<lparr>rc_defaultTier = ''gold'', rc_tiers = [], rc_getTier = None\<rparr>) (\<lambda>t. []) 0
     \<lparr>rf_force = False, rf_dryRun = False, rf_noRetention = True\<rparr> [] [demo_backup_tenant] w) =
   Inl (''BackupRetentionService: tier '' @ ''gold'' @ '' is not declared'')"
  by (simp add: tenant_backups_run_def Let_def shouldBackup_def tierM_def getTierFor_def or_else_def run_simps)

end
