(* ===== verification/Impersonation.thy ===== *)
theory Impersonation
  imports Runtime
begin

text \<open>
  services/impersonation_service.ts and middleware/impersonation_middleware.ts: an
  admin's short-lived tokens \<open><sessionId>.<hmac>\<close>. The cache, the audit log, the
  clock, the random source and HMAC-SHA256 are operations on a state \<open>'w\<close>, the
  parameters of the model; hexadecimal text and its decoding by \<open>Buffer.from\<close> are
  modelled.
\<close>

section \<open>Hexadecimal text\<close>

definition hex_digit :: "nat \<Rightarrow> char" where
  "hex_digit n = (if n < 10 then char_of (48 + n) else char_of (87 + n))"

definition hex_value :: "char \<Rightarrow> nat option" where
  "hex_value c =
     (if is_digit c then Some (code_of c - 48)
      else if in_codes 97 102 c then Some (code_of c - 87)
      else if in_codes 65 70 c then Some (code_of c - 55)
      else None)"

definition hex_byte :: "8 word \<Rightarrow> string" where
  "hex_byte b = [hex_digit (unat b div 16), hex_digit (unat b mod 16)]"

definition to_hex :: "8 word list \<Rightarrow> string" where
  "to_hex bs = concat (map hex_byte bs)"

text \<open>\<open>Buffer.from(s, 'hex')\<close> stops at the first pair that is not two digits.\<close>

fun from_hex :: "string \<Rightarrow> 8 word list" where
  "from_hex (a # b # rest) =
     (case (hex_value a, hex_value b) of
        (Some x, Some y) \<Rightarrow> word_of_nat (16 * x + y) # from_hex rest
      | _ \<Rightarrow> [])"
| "from_hex _ = []"

section \<open>Sessions\<close>

datatype adminType = ActorAdmin | ActorSystem

record ImpersonationSession =
  is_id :: string
  is_tenantId :: string
  is_targetUserId :: string
  is_adminId :: string
  is_adminType :: adminType
  is_reason :: "string option"
  is_startedAt :: string
  is_expiresAt :: int
  is_ipAddress :: "string option"
  is_firstVerifyAt :: "string option"

record ImpersonationContext =
  ic_sessionId :: string
  ic_tenantId :: string
  ic_userId :: string
  ic_adminId :: string
  ic_adminType :: adminType
  ic_startedAt :: string

record ImpersonationStartOptions =
  so_tenantId :: string
  so_targetUserId :: string
  so_adminId :: string
  so_adminType :: "adminType option"
  so_reason :: "string option"
  so_durationSeconds :: "int option"
  so_ipAddress :: "string option"

record ImpersonationStartResult =
  sr_token :: string
  sr_sessionId :: string
  sr_expiresAt :: int

record impersonation_config =
  im_secret :: "string option"
  im_defaultDuration :: "int option"
  im_maxDuration :: "int option"
  im_headerName :: "string option"
  im_cookieName :: "string option"

datatype audit_entry =
    AuditStart ImpersonationSession int
  | AuditStop ImpersonationSession "string option"
  | AuditFirstUse ImpersonationSession string

record 'w imp_ops =
  io_get :: "string \<Rightarrow> ('w, string, ImpersonationSession option) M"
  io_set :: "string \<Rightarrow> ImpersonationSession \<Rightarrow> int \<Rightarrow> ('w, string, unit) M"
  io_delete :: "string \<Rightarrow> ('w, string, unit) M"
  io_audit :: "(audit_entry \<Rightarrow> ('w, string, unit) M) option"
  io_now :: "'w \<Rightarrow> int"
  io_iso :: "'w \<Rightarrow> string"
  io_randomBytes :: "'w \<Rightarrow> 8 word list \<times> 'w"
  io_hmac :: "string \<Rightarrow> string \<Rightarrow> 8 word list"

section \<open>The service\<close>

definition DEFAULT_DURATION :: int where
  "DEFAULT_DURATION = 15 * 60"

definition MAX_DURATION :: int where
  "MAX_DURATION = 24 * 60 * 60"

definition user_id_char :: "char \<Rightarrow> bool" where
  "user_id_char c \<longleftrightarrow> is_alnum c \<or> c \<in> set ''._:@-''"

definition TARGET_USER_ID_RE :: "string \<Rightarrow> bool" where
  "TARGET_USER_ID_RE s \<longleftrightarrow> 1 \<le> length s \<and> length s \<le> 128 \<and> list_all user_id_char s"

definition secret_of :: "impersonation_config option \<Rightarrow> string + string" where
  "secret_of cfg =
     (case Option.bind cfg im_secret of
        None \<Rightarrow> Inl ''secret is not configured''
      | Some s \<Rightarrow> if length s < 32 then Inl ''secret is not configured'' else Inr s)"

definition secretM :: "impersonation_config option \<Rightarrow> ('w, string, string) M" where
  "secretM cfg = (case secret_of cfg of Inl e \<Rightarrow> throwM e | Inr s \<Rightarrow> returnM s)"

definition session_duration :: "impersonation_config option \<Rightarrow> int option \<Rightarrow> int" where
  "session_duration cfg requested =
     min (max (or_else requested (or_else (Option.bind cfg im_defaultDuration) DEFAULT_DURATION)) 60)
       (or_else (Option.bind cfg im_maxDuration) MAX_DURATION)"

definition auditM :: "'w imp_ops \<Rightarrow> audit_entry \<Rightarrow> ('w, string, unit) M" where
  "auditM ops a = (case io_audit ops of None \<Rightarrow> returnM () | Some log \<Rightarrow> swallow (log a))"

definition sign_token :: "'w imp_ops \<Rightarrow> string \<Rightarrow> string \<Rightarrow> string" where
  "sign_token ops secret sessionId = sessionId @ ''.'' @ to_hex (io_hmac ops secret sessionId)"

definition start_session ::
  "'w imp_ops \<Rightarrow> impersonation_config option \<Rightarrow> ImpersonationStartOptions \<Rightarrow> ('w, string, ImpersonationStartResult) M"
where
  "start_session ops cfg opts =
     bindM (secretM cfg) (\<lambda>secret.
       if \<not> TARGET_USER_ID_RE (so_targetUserId opts) then throwM ''targetUserId does not match''
       else if \<not> TARGET_USER_ID_RE (so_adminId opts) then throwM ''adminId does not match''
       else
         let duration = session_duration cfg (so_durationSeconds opts)
         in bindM (\<lambda>w. case io_randomBytes ops w of (bs, w') \<Rightarrow> (Inr (to_hex bs), w')) (\<lambda>sessionId.
            bindM (getM (\<lambda>w. (io_iso ops w, io_now ops w + duration * 1000))) (\<lambda>(startedAt, expiresAt).
              let session = \<lparr>is_id = sessionId, is_tenantId = so_tenantId opts,
                    is_targetUserId = so_targetUserId opts, is_adminId = so_adminId opts,
                    is_adminType = or_else (so_adminType opts) ActorAdmin, is_reason = so_reason opts,
                    is_startedAt = startedAt, is_expiresAt = expiresAt, is_ipAddress = so_ipAddress opts,
                    is_firstVerifyAt = None\<rparr>
              in thenM (io_set ops sessionId session (duration * 1000))
                (thenM (auditM ops (AuditStart session duration))
                   (returnM \<lparr>sr_token = sign_token ops secret sessionId, sr_sessionId = sessionId,
                             sr_expiresAt = expiresAt\<rparr>)))))"

text \<open>\<open>#extractSessionId\<close>: the part before the first dot when the rest decodes to its HMAC.\<close>

definition extractSessionId ::
  "'w imp_ops \<Rightarrow> impersonation_config option \<Rightarrow> string \<Rightarrow> ('w, string, string option) M"
where
  "extractSessionId ops cfg token =
     (let sessionId = takeWhile (\<lambda>c. c \<noteq> CHR ''.'') token;
          dot = length sessionId;
          presented = drop (Suc dot) token
      in if length token < 33 then returnM None
         else if dot = 0 \<or> length token \<le> dot \<or> dot = length token - 1 then returnM None
         else bindM (secretM cfg) (\<lambda>secret.
           let a = from_hex presented;
               b = from_hex (to_hex (io_hmac ops secret sessionId))
           in if length a \<noteq> length b \<or> length a = 0 then returnM None
              else if a \<noteq> b then returnM None
              else returnM (Some sessionId)))"

definition stop_session ::
  "'w imp_ops \<Rightarrow> impersonation_config option \<Rightarrow> string \<Rightarrow> string option \<Rightarrow> ('w, string, bool) M"
where
  "stop_session ops cfg token ip =
     bindM (extractSessionId ops cfg token) (\<lambda>sid. case sid of
       None \<Rightarrow> returnM False
     | Some sessionId \<Rightarrow>
         bindM (io_get ops sessionId) (\<lambda>session. case session of
           None \<Rightarrow> returnM False
         | Some se \<Rightarrow>
             thenM (io_delete ops sessionId) (thenM (auditM ops (AuditStop se ip)) (returnM True))))"

definition revokeById :: "'w imp_ops \<Rightarrow> string \<Rightarrow> ('w, string, bool) M" where
  "revokeById ops sessionId =
     bindM (io_get ops sessionId) (\<lambda>session. case session of
       None \<Rightarrow> returnM False
     | Some _ \<Rightarrow> thenM (io_delete ops sessionId) (returnM True))"

definition context_of :: "ImpersonationSession \<Rightarrow> ImpersonationContext" where
  "context_of s = \<lparr>ic_sessionId = is_id s, ic_tenantId = is_tenantId s, ic_userId = is_targetUserId s,
     ic_adminId = is_adminId s, ic_adminType = is_adminType s, ic_startedAt = is_startedAt s\<rparr>"

text \<open>
  \<open>verify\<close> in two parts, before and after its second access to the cache: the
  lookup, and the first-use record with the answer.
\<close>

definition verify_lookup ::
  "'w imp_ops \<Rightarrow> impersonation_config option \<Rightarrow> string \<Rightarrow> ('w, string, ImpersonationSession option) M"
where
  "verify_lookup ops cfg token =
     bindM (extractSessionId ops cfg token) (\<lambda>sid. case sid of
       None \<Rightarrow> returnM None
     | Some sessionId \<Rightarrow>
         bindM (io_get ops sessionId) (\<lambda>session. case session of
           None \<Rightarrow> returnM None
         | Some se \<Rightarrow>
             bindM (getM (io_now ops)) (\<lambda>now.
               if is_expiresAt se \<le> now then thenM (io_delete ops sessionId) (returnM None)
               else returnM (Some se))))"

definition first_use :: "'w imp_ops \<Rightarrow> string \<Rightarrow> ImpersonationSession \<Rightarrow> ('w, string, unit) M" where
  "first_use ops sessionId se =
     (if is_firstVerifyAt se \<noteq> None \<and> is_firstVerifyAt se \<noteq> Some [] then returnM ()
      else bindM (getM (\<lambda>w. (max (is_expiresAt se - io_now ops w) 1000, io_iso ops w))) (\<lambda>(remaining, at).
        let se' = se\<lparr>is_firstVerifyAt := Some at\<rparr>
        in swallow (thenM (io_set ops sessionId se' remaining) (auditM ops (AuditFirstUse se' at)))))"

definition token_session :: "string \<Rightarrow> string" where
  "token_session token = takeWhile (\<lambda>c. c \<noteq> CHR ''.'') token"

definition verify_token ::
  "'w imp_ops \<Rightarrow> impersonation_config option \<Rightarrow> string \<Rightarrow> ('w, string, ImpersonationContext option) M"
where
  "verify_token ops cfg token =
     bindM (verify_lookup ops cfg token) (\<lambda>session. case session of
       None \<Rightarrow> returnM None
     | Some se \<Rightarrow> thenM (first_use ops (token_session token) se) (returnM (Some (context_of se))))"

section \<open>The middleware and the admin endpoints\<close>

datatype imp_error = ImpersonationInvalid | ServiceThrew string

text \<open>The handler receives the context the middleware attaches, if any.\<close>

definition impersonation_handle ::
  "'w imp_ops \<Rightarrow> impersonation_config option \<Rightarrow> (string \<Rightarrow> string option) \<Rightarrow> (string \<Rightarrow> string option) \<Rightarrow>
   (ImpersonationContext option \<Rightarrow> ('w, imp_error, 'a) M) \<Rightarrow> ('w, imp_error, 'a) M"
where
  "impersonation_handle ops cfg header cookie nxt =
     (let fromHeader = header (or_else (Option.bind cfg im_headerName) ''x-impersonation-token'');
          token = (case fromHeader of
             Some h \<Rightarrow> Some h
           | None \<Rightarrow> cookie (or_else (Option.bind cfg im_cookieName) ''__impersonation''))
      in if token = None \<or> token = Some [] then nxt None
         else bindM (catchM (\<lambda>w. case verify_token ops cfg (the token) w of
                 (Inl e, w') \<Rightarrow> (Inl e, w') | (Inr v, w') \<Rightarrow> (Inr v, w')) (\<lambda>e. throwM (ServiceThrew e))) (\<lambda>verified.
           case verified of
             None \<Rightarrow> throwM ImpersonationInvalid
           | Some c \<Rightarrow> nxt (Some c)))"

datatype imp_reply =
    ImpNotImplemented | ImpUnauthorized | ImpNotFound | ImpBadRequest
  | ImpCreated ImpersonationStartResult | ImpRevoked bool

text \<open>
  \<open>actor\<close> is the configured resolver applied to the request, \<open>None\<close> when none is
  set; \<open>user\<close> is the text of the \<open>userId\<close> input; \<open>duration\<close> is the number given, or
  what \<open>Number(x) || undefined\<close> makes of other input.
\<close>

definition startImpersonation ::
  "'w imp_ops \<Rightarrow> impersonation_config option \<Rightarrow> string option option \<Rightarrow> (string \<Rightarrow> tenant option) \<Rightarrow>
   string \<Rightarrow> string \<Rightarrow> int option \<Rightarrow> string option \<Rightarrow> string option \<Rightarrow> ('w, string, imp_reply) M"
where
  "startImpersonation ops cfg actor find_tenant i user duration reason ip =
     (case actor of
        None \<Rightarrow> returnM ImpNotImplemented
      | Some a \<Rightarrow>
          (case truthy a of
             None \<Rightarrow> returnM ImpUnauthorized
           | Some adminId \<Rightarrow>
               (case find_tenant i of
                  None \<Rightarrow> returnM ImpNotFound
                | Some t \<Rightarrow>
                    if js_trim user = [] then returnM ImpBadRequest
                    else bindM (start_session ops cfg
                           \<lparr>so_tenantId = t_id t, so_targetUserId = js_trim user, so_adminId = adminId,
                            so_adminType = Some ActorAdmin, so_reason = reason, so_durationSeconds = duration,
                            so_ipAddress = ip\<rparr>) (\<lambda>r. returnM (ImpCreated r)))))"

definition stopImpersonation ::
  "'w imp_ops \<Rightarrow> impersonation_config option \<Rightarrow> string option \<Rightarrow> string option \<Rightarrow> string option \<Rightarrow> ('w, string, imp_reply) M"
where
  "stopImpersonation ops cfg token sessionId ip =
     (case truthy token of
        Some t \<Rightarrow> bindM (stop_session ops cfg t ip) (\<lambda>b. returnM (ImpRevoked b))
      | None \<Rightarrow>
          (case truthy sessionId of
             Some i \<Rightarrow> bindM (revokeById ops i) (\<lambda>b. returnM (ImpRevoked b))
           | None \<Rightarrow> returnM (ImpRevoked False)))"

section \<open>Facts\<close>

lemma hex_digit_value: "n < 16 \<Longrightarrow> hex_value (hex_digit n) = Some n"
  by (simp add: hex_digit_def hex_value_def is_digit_def in_codes_def code_of_def)

lemma byte_bound: "unat (b :: 8 word) < 256"
  by (rule order_less_le_trans [OF unsigned_less]) simp

lemma from_hex_byte: "from_hex (hex_byte b @ rest) = b # from_hex rest"
proof -
  have "unat b < 256" by (rule byte_bound)
  then have "hex_value (hex_digit (unat b div 16)) = Some (unat b div 16)"
    "hex_value (hex_digit (unat b mod 16)) = Some (unat b mod 16)"
    by (simp_all add: hex_digit_value)
  moreover have "(word_of_nat (16 * (unat b div 16) + unat b mod 16) :: 8 word) = b"
    by (simp add: mult_div_mod_eq)
  ultimately show ?thesis by (simp add: hex_byte_def)
qed

lemma from_to_hex: "from_hex (to_hex bs @ rest) = bs @ from_hex rest"
proof (induction bs)
  case (Cons b bs)
  then show ?case using from_hex_byte [of b "to_hex bs @ rest"] by (simp add: to_hex_def)
qed (simp add: to_hex_def)

lemma from_to_hex_id [simp]: "from_hex (to_hex bs) = bs"
  using from_to_hex [of bs "[]"] by simp

lemma length_to_hex [simp]: "length (to_hex bs) = 2 * length bs"
  by (induction bs) (simp_all add: to_hex_def hex_byte_def)

lemma hex_digits: "c \<in> set (to_hex bs) \<Longrightarrow> hex_value c \<noteq> None"
proof -
  have "hex_value (hex_digit (unat b div 16)) \<noteq> None \<and> hex_value (hex_digit (unat b mod 16)) \<noteq> None" for b :: "8 word"
  proof -
    have "unat b div 16 < 16" by (rule less_mult_imp_div_less) (use byte_bound [of b] in simp)
    then show ?thesis by (simp add: hex_digit_value)
  qed
  then show "c \<in> set (to_hex bs) \<Longrightarrow> hex_value c \<noteq> None" by (auto simp add: to_hex_def hex_byte_def)
qed

lemma hex_no_dot: "CHR ''.'' \<notin> set (to_hex bs)"
proof
  assume "CHR ''.'' \<in> set (to_hex bs)"
  then have "hex_value CHR ''.'' \<noteq> None" by (rule hex_digits)
  then show False by (simp add: hex_value_def is_digit_def in_codes_def code_of_def)
qed

lemma hex_no_colon: "CHR '':'' \<notin> set (to_hex bs)"
proof
  assume "CHR '':'' \<in> set (to_hex bs)"
  then have "hex_value CHR '':'' \<noteq> None" by (rule hex_digits)
  then show False by (simp add: hex_value_def is_digit_def in_codes_def code_of_def)
qed

text \<open>Exactly the tokens whose part after the dot decodes to the HMAC give their session id.\<close>

lemma extract_run:
  assumes "secret_of cfg = Inr secret" and "\<forall>k m. length (io_hmac ops k m) = 32"
  shows "extractSessionId ops cfg token w =
     (Inr (if 33 \<le> length token \<and> token_session token \<noteq> [] \<and>
             from_hex (drop (Suc (length (token_session token))) token) = io_hmac ops secret (token_session token)
           then Some (token_session token) else None), w)"
proof -
  let ?s = "token_session token"
  have short: "from_hex (drop (Suc (length ?s)) token) \<noteq> io_hmac ops secret ?s"
    if "length token \<le> length ?s \<or> length ?s = length token - 1"
  proof -
    have "drop (Suc (length ?s)) token = []" using that by auto
    then have "length (from_hex (drop (Suc (length ?s)) token)) \<noteq> length (io_hmac ops secret ?s)" using assms(2) by simp
    then show ?thesis by metis
  qed
  have len: "length x = 32" if "x = io_hmac ops secret ?s" for x using that assms(2) by simp
  have "io_hmac ops secret ?s \<noteq> []" using assms(2) by (metis list.size(3) zero_neq_numeral)
  then show ?thesis
    using assms short len
    by (auto simp add: extractSessionId_def Let_def secretM_def run_simps token_session_def)
qed

lemma sign_session:
  assumes "CHR ''.'' \<notin> set sid"
  shows "token_session (sign_token ops secret sid) = sid"
    and "drop (Suc (length sid)) (sign_token ops secret sid) = to_hex (io_hmac ops secret sid)"
proof -
  have "takeWhile (\<lambda>c. c \<noteq> CHR ''.'') (sid @ CHR ''.'' # rest) = sid" for rest
    using assms by (induction sid) auto
  then show "token_session (sign_token ops secret sid) = sid"
    by (simp add: token_session_def sign_token_def)
qed (simp add: sign_token_def)

section \<open>The cache\<close>

text \<open>
  What the service relies on: a stored session is read back until it is
  replaced or deleted, under its own key only; a failed write, reading and
  auditing change no entry; digests have 32 bytes and random ids 16.
\<close>

definition cache_laws :: "'w imp_ops \<Rightarrow> bool" where
  "cache_laws ops \<longleftrightarrow>
     (\<forall>i j w. fst (io_get ops j (snd (io_get ops i w))) = fst (io_get ops j w)) \<and>
     (\<forall>i s ttl w w'. io_set ops i s ttl w = (Inr (), w') \<longrightarrow>
        (\<forall>j. fst (io_get ops j w') = (if j = i then Inr (Some s) else fst (io_get ops j w)))) \<and>
     (\<forall>i w w'. io_delete ops i w = (Inr (), w') \<longrightarrow>
        (\<forall>j. fst (io_get ops j w') = (if j = i then Inr None else fst (io_get ops j w)))) \<and>
     (\<forall>i s ttl w e w'. io_set ops i s ttl w = (Inl e, w') \<longrightarrow> (\<forall>j. fst (io_get ops j w') = fst (io_get ops j w))) \<and>
     (\<forall>log a w. io_audit ops = Some log \<longrightarrow>
        (\<forall>j. fst (io_get ops j (snd (log a w))) = fst (io_get ops j w))) \<and>
     (\<forall>k m. length (io_hmac ops k m) = 32) \<and>
     (\<forall>w. length (fst (io_randomBytes ops w)) = 16)"

lemma audit_reads:
  "cache_laws ops \<Longrightarrow> auditM ops a w = (r, w') \<Longrightarrow>
   r = Inr () \<and> fst (io_get ops j w') = fst (io_get ops j w)"
  by (cases "io_audit ops") (auto simp add: auditM_def run_simps cache_laws_def)

lemma get_reads: "cache_laws ops \<Longrightarrow> io_get ops i w = (r, w') \<Longrightarrow> fst (io_get ops j w') = fst (io_get ops j w)"
  unfolding cache_laws_def by (metis snd_conv)

lemma set_reads:
  "cache_laws ops \<Longrightarrow> io_set ops i s ttl w = (r, w') \<Longrightarrow>
   fst (io_get ops j w') = (if r = Inr () \<and> j = i then Inr (Some s) else fst (io_get ops j w))"
  unfolding cache_laws_def by (cases r) auto

lemma delete_reads:
  "cache_laws ops \<Longrightarrow> io_delete ops i w = (Inr (), w') \<Longrightarrow>
   fst (io_get ops j w') = (if j = i then Inr None else fst (io_get ops j w))"
  unfolding cache_laws_def by simp

definition stored :: "'w imp_ops \<Rightarrow> string \<Rightarrow> ImpersonationSession \<Rightarrow> 'w \<Rightarrow> bool" where
  "stored ops i se w \<longleftrightarrow>
     (\<exists>s. fst (io_get ops i w) = Inr (Some s) \<and> context_of s = context_of se \<and> is_expiresAt s = is_expiresAt se)"

lemma first_use_run:
  assumes "cache_laws ops" and "stored ops i se w"
  shows "\<exists>w'. first_use ops i se w = (Inr (), w') \<and> stored ops i se w'"
proof (cases "is_firstVerifyAt se \<noteq> None \<and> is_firstVerifyAt se \<noteq> Some []")
  case True
  then show ?thesis using assms(2) by (simp add: first_use_def run_simps)
next
  case False
  let ?s = "se\<lparr>is_firstVerifyAt := Some (io_iso ops w)\<rparr>"
  obtain r w1 where set: "io_set ops i ?s (max (is_expiresAt se - io_now ops w) 1000) w = (r, w1)" by fastforce
  have st: "stored ops i se w1"
    using assms(2) set_reads [OF assms(1) set, of i] by (auto simp add: stored_def context_of_def)
  obtain r' w2 where au: "auditM ops (AuditFirstUse ?s (io_iso ops w)) w1 = (r', w2)" by fastforce
  have st2: "stored ops i se w2" using st audit_reads [OF assms(1) au] by (simp add: stored_def)
  show ?thesis
  proof (cases r)
    case Inl
    then show ?thesis using False st set by (auto simp add: first_use_def Let_def run_simps)
  next
    case Inr
    then show ?thesis using False st2 set au by (auto simp add: first_use_def Let_def run_simps)
  qed
qed

lemma verify_run:
  assumes "secret_of cfg = Inr secret" and "cache_laws ops"
    and "33 \<le> length token" and "token_session token \<noteq> []"
    and "from_hex (drop (Suc (length (token_session token))) token) = io_hmac ops secret (token_session token)"
  shows "verify_token ops cfg token w =
     (case io_get ops (token_session token) w of
        (Inl e, w1) \<Rightarrow> (Inl e, w1)
      | (Inr None, w1) \<Rightarrow> (Inr None, w1)
      | (Inr (Some se), w1) \<Rightarrow>
          if is_expiresAt se \<le> io_now ops w1
          then (case io_delete ops (token_session token) w1 of (Inl e, w2) \<Rightarrow> (Inl e, w2) | (Inr _, w2) \<Rightarrow> (Inr None, w2))
          else (Inr (Some (context_of se)), snd (first_use ops (token_session token) se w1)))"
proof -
  have hm: "\<forall>k m. length (io_hmac ops k m) = 32" using assms(2) by (simp add: cache_laws_def)
  have fu: "first_use ops i se w1 = (Inr (), snd (first_use ops i se w1))" for i se w1
    by (rule prod_eqI) (simp_all add: first_use_def Let_def run_simps)
  let ?i = "token_session token"
  have ex: "extractSessionId ops cfg token w = (Inr (Some ?i), w)"
    using assms(3-5) extract_run [OF assms(1) hm, of token w] by simp
  obtain g w1 where get: "io_get ops ?i w = (g, w1)" by fastforce
  show ?thesis
  proof (cases g)
    case Inl
    then show ?thesis using ex get by (simp add: verify_token_def verify_lookup_def run_simps)
  next
    case (Inr session)
    note look = ex get Inr verify_token_def verify_lookup_def run_simps
    show ?thesis
    proof (cases session)
      case None
      then show ?thesis by (simp add: look)
    next
      case (Some se)
      then show ?thesis
        using fu [of ?i se w1] by (cases "io_delete ops ?i w1") (auto simp add: look split: sum.splits prod.splits)
    qed
  qed
qed

section \<open>Properties\<close>

text \<open>
  C12. A token is accepted exactly when the text after its first dot decodes to
  the HMAC of the session id before it under the configured secret, and that
  session is in the cache and not expired; the answer is then the session's
  tenant, user and admin. A token that fails the HMAC reaches no cache entry.
\<close>

theorem verify_accepts_exactly:
  assumes "secret_of cfg = Inr secret" and "cache_laws ops"
  shows "(fst (verify_token ops cfg token w) = Inr (Some c) \<longleftrightarrow>
       33 \<le> length token \<and> token_session token \<noteq> [] \<and>
       from_hex (drop (Suc (length (token_session token))) token) = io_hmac ops secret (token_session token) \<and>
       (\<exists>se w1. io_get ops (token_session token) w = (Inr (Some se), w1) \<and>
          io_now ops w1 < is_expiresAt se \<and> c = context_of se)) \<and>
     (from_hex (drop (Suc (length (token_session token))) token) \<noteq> io_hmac ops secret (token_session token) \<longrightarrow>
       verify_token ops cfg token w = (Inr None, w))"
proof -
  have hm: "\<forall>k m. length (io_hmac ops k m) = 32" using assms(2) by (simp add: cache_laws_def)
  have bad: "verify_token ops cfg token w = (Inr None, w)"
    if "\<not> (33 \<le> length token \<and> token_session token \<noteq> [] \<and>
       from_hex (drop (Suc (length (token_session token))) token) = io_hmac ops secret (token_session token))"
    using extract_run [OF assms(1) hm, of token w] that
    by (auto simp add: verify_token_def verify_lookup_def run_simps)
  show ?thesis
  proof (cases "33 \<le> length token \<and> token_session token \<noteq> [] \<and>
       from_hex (drop (Suc (length (token_session token))) token) = io_hmac ops secret (token_session token)")
    case True
    then show ?thesis using verify_run [OF assms, of token w]
      by (auto split: prod.splits sum.splits option.splits)
  next
    case False
    then show ?thesis using bad by auto
  qed
qed

definition live_token :: "'w imp_ops \<Rightarrow> string \<Rightarrow> string \<Rightarrow> string \<Rightarrow> bool" where
  "live_token ops secret sid token \<longleftrightarrow> 33 \<le> length token \<and> sid \<noteq> [] \<and> token_session token = sid \<and>
     from_hex (drop (Suc (length sid)) token) = io_hmac ops secret sid"

lemma live_verify:
  assumes "secret_of cfg = Inr secret" and "cache_laws ops" and "live_token ops secret sid token"
  shows "verify_token ops cfg token w =
     (case io_get ops sid w of
        (Inl e, w1) \<Rightarrow> (Inl e, w1)
      | (Inr None, w1) \<Rightarrow> (Inr None, w1)
      | (Inr (Some se), w1) \<Rightarrow>
          if is_expiresAt se \<le> io_now ops w1
          then (case io_delete ops sid w1 of (Inl e, w2) \<Rightarrow> (Inl e, w2) | (Inr _, w2) \<Rightarrow> (Inr None, w2))
          else (Inr (Some (context_of se)), snd (first_use ops sid se w1)))"
proof -
  have ts: "token_session token = sid" using assms(3) by (simp add: live_token_def)
  show ?thesis
    using verify_run [OF assms(1,2), of token w, unfolded ts] assms(3) by (simp add: live_token_def)
qed

text \<open>What a successful start leaves: the session in the cache and a token for it.\<close>

lemma start_run:
  assumes "secret_of cfg = Inr secret" and "cache_laws ops"
    and "start_session ops cfg opts w = (Inr r, w1)"
  shows "\<exists>se. fst (io_get ops (sr_sessionId r) w1) = Inr (Some se) \<and> is_expiresAt se = sr_expiresAt r \<and>
     is_tenantId se = so_tenantId opts \<and> is_targetUserId se = so_targetUserId opts \<and> is_adminId se = so_adminId opts \<and>
     live_token ops secret (sr_sessionId r) (sr_token r)"
proof -
  have rb: "\<forall>w. length (fst (io_randomBytes ops w)) = 16" using assms(2) by (simp add: cache_laws_def)
  obtain bs wa where rnd: "io_randomBytes ops w = (bs, wa)" by fastforce
  let ?sid = "to_hex bs" and ?dur = "session_duration cfg (so_durationSeconds opts)"
  define se where "se = \<lparr>is_id = ?sid, is_tenantId = so_tenantId opts, is_targetUserId = so_targetUserId opts,
     is_adminId = so_adminId opts, is_adminType = or_else (so_adminType opts) ActorAdmin, is_reason = so_reason opts,
     is_startedAt = io_iso ops wa, is_expiresAt = io_now ops wa + ?dur * 1000, is_ipAddress = so_ipAddress opts,
     is_firstVerifyAt = None\<rparr>"
  obtain wb where set: "io_set ops ?sid se (?dur * 1000) wa = (Inr (), wb)"
    and au: "auditM ops (AuditStart se ?dur) wb = (Inr (), w1)"
    and r: "r = \<lparr>sr_token = sign_token ops secret ?sid, sr_sessionId = ?sid, sr_expiresAt = is_expiresAt se\<rparr>"
    using assms(3) assms(1) rnd
    by (auto simp add: start_session_def secretM_def run_simps Let_def se_def split: if_splits prod.splits sum.splits)
  have "fst (io_get ops ?sid w1) = Inr (Some se)"
    using set_reads [OF assms(2) set] audit_reads [OF assms(2) au] by simp
  moreover have l: "length ?sid = 32" using rb rnd by (metis fst_conv length_to_hex mult_2 numeral_Bit0)
  moreover have "?sid \<noteq> []" using l by (metis list.size(3) zero_neq_numeral)
  ultimately show ?thesis
    using r sign_session [OF hex_no_dot [of bs], of ops secret]
    by (simp del: length_to_hex add: live_token_def se_def) (simp add: sign_token_def)
qed

text \<open>Stopping a stored session with its token removes it.\<close>

lemma stop_run:
  assumes "secret_of cfg = Inr secret" and "cache_laws ops" and "live_token ops secret sid token"
    and "fst (io_get ops sid w) = Inr (Some s)" and "stop_session ops cfg token ip w = (Inr b, w')"
  shows "b \<and> fst (io_get ops sid w') = Inr None"
proof -
  have hm: "\<forall>k m. length (io_hmac ops k m) = 32" using assms(2) by (simp add: cache_laws_def)
  obtain w1 where g: "io_get ops sid w = (Inr (Some s), w1)" using assms(4) by (metis prod.collapse)
  have "extractSessionId ops cfg token w = (Inr (Some sid), w)"
    using extract_run [OF assms(1) hm, of token w] assms(3) by (auto simp add: live_token_def)
  then obtain w2 where "io_delete ops sid w1 = (Inr (), w2)" "b" "auditM ops (AuditStop s ip) w2 = (Inr (), w')"
    using assms(5) g by (auto simp add: stop_session_def run_simps split: prod.splits sum.splits)
  then show ?thesis using delete_reads [OF assms(2)] audit_reads [OF assms(2)] by metis
qed

text \<open>
  C13. A started session works until it is stopped: the token it returns verifies
  to the tenant, user and admin it was started for as long as it is not
  expired, stopping it with that token reports success, and from then on the
  token verifies to nothing.
\<close>

theorem session_start_verify_stop:
  assumes "secret_of cfg = Inr secret" and "cache_laws ops"
    and "start_session ops cfg opts w = (Inr r, w1)"
    and "io_now ops (snd (io_get ops (sr_sessionId r) w1)) < sr_expiresAt r"
  shows "\<exists>c w2. verify_token ops cfg (sr_token r) w1 = (Inr (Some c), w2) \<and>
     ic_tenantId c = so_tenantId opts \<and> ic_userId c = so_targetUserId opts \<and> ic_adminId c = so_adminId opts \<and>
     (\<forall>b w3. stop_session ops cfg (sr_token r) ip w2 = (Inr b, w3) \<longrightarrow>
        b \<and> fst (verify_token ops cfg (sr_token r) w3) = Inr None)"
proof -
  let ?sid = "sr_sessionId r"
  obtain se where se: "fst (io_get ops ?sid w1) = Inr (Some se)" "is_expiresAt se = sr_expiresAt r"
      "is_tenantId se = so_tenantId opts" "is_targetUserId se = so_targetUserId opts" "is_adminId se = so_adminId opts"
    and live: "live_token ops secret ?sid (sr_token r)"
    using start_run [OF assms(1-3)] by blast
  note run = live_verify [OF assms(1,2) live]
  obtain wc where g: "io_get ops ?sid w1 = (Inr (Some se), wc)" using se(1) by (metis prod.collapse)
  have "stored ops ?sid se wc" using get_reads [OF assms(2) g] se(1) by (simp add: stored_def)
  then obtain w2 where fu: "first_use ops ?sid se wc = (Inr (), w2)" and "stored ops ?sid se w2"
    using first_use_run [OF assms(2)] by blast
  then obtain s where s: "fst (io_get ops ?sid w2) = Inr (Some s)" by (auto simp add: stored_def)
  have v: "verify_token ops cfg (sr_token r) w1 = (Inr (Some (context_of se)), w2)"
    using run g assms(4) se(2) fu by simp
  have c: "ic_tenantId (context_of se) = so_tenantId opts \<and> ic_userId (context_of se) = so_targetUserId opts \<and>
      ic_adminId (context_of se) = so_adminId opts"
    by (simp add: context_of_def se)
  have "b \<and> fst (verify_token ops cfg (sr_token r) w3) = Inr None"
    if st: "stop_session ops cfg (sr_token r) ip w2 = (Inr b, w3)" for b w3
  proof -
    have "b" "fst (io_get ops ?sid w3) = Inr None" using stop_run [OF assms(1,2) live s st] by simp_all
    then show ?thesis using run by (cases "io_get ops ?sid w3") simp
  qed
  then show ?thesis using v c by blast
qed

text \<open>The middleware: no token lets the request through with no context, an invalid one stops it.\<close>

lemma impersonation_handle_runs:
  assumes "secret_of cfg = Inr secret" and "cache_laws ops"
    and "token = (case header (or_else (Option.bind cfg im_headerName) ''x-impersonation-token'') of
        Some h \<Rightarrow> Some h | None \<Rightarrow> cookie (or_else (Option.bind cfg im_cookieName) ''__impersonation''))"
  shows "impersonation_handle ops cfg header cookie nxt w =
     (case truthy token of
        None \<Rightarrow> nxt None w
      | Some t \<Rightarrow> (case verify_token ops cfg t w of
           (Inl e, w1) \<Rightarrow> (Inl (ServiceThrew e), w1)
         | (Inr None, w1) \<Rightarrow> (Inl ImpersonationInvalid, w1)
         | (Inr (Some c), w1) \<Rightarrow> nxt (Some c) w1))"
  using assms(3)
  by (auto simp add: impersonation_handle_def Let_def truthy_def run_simps split: prod.splits sum.splits option.splits)

section \<open>Durations and races\<close>

text \<open>A session lasts between a minute and the configured maximum, when that allows a minute.\<close>

lemma session_duration_bounds:
  assumes "60 \<le> or_else (Option.bind cfg im_maxDuration) MAX_DURATION"
  shows "60 \<le> session_duration cfg d \<and> session_duration cfg d \<le> or_else (Option.bind cfg im_maxDuration) MAX_DURATION"
  using assms by (simp add: session_duration_def)

definition demo_cfg :: "impersonation_config option" where
  "demo_cfg = Some \<lparr>im_secret = Some (replicate 32 CHR ''s''), im_defaultDuration = None, im_maxDuration = None,
     im_headerName = None, im_cookieName = None\<rparr>"

text \<open>A configured maximum under a minute wins over the minimum; the default is 15 minutes.\<close>

lemma short_maximum_wins:
  "session_duration (map_option (im_maxDuration_update (\<lambda>_. Some 5)) demo_cfg) (Some 600) = 5"
  "session_duration demo_cfg None = 900"
  by (simp_all add: session_duration_def demo_cfg_def MAX_DURATION_def DEFAULT_DURATION_def or_else_def)

text \<open>A cache held in a map with a clock, on which the laws hold.\<close>

type_synonym imp_world = "(string \<rightharpoonup> ImpersonationSession) \<times> int"

definition demo_imp :: "imp_world imp_ops" where
  "demo_imp = \<lparr>
     io_get = (\<lambda>i w. (Inr (fst w i), w)),
     io_set = (\<lambda>i s ttl w. (Inr (), ((fst w)(i \<mapsto> s), snd w))),
     io_delete = (\<lambda>i w. (Inr (), ((fst w)(i := None), snd w))),
     io_audit = None,
     io_now = snd,
     io_iso = (\<lambda>w. ''now''),
     io_randomBytes = (\<lambda>w. (replicate 16 171, w)),
     io_hmac = (\<lambda>k m. replicate 32 (of_nat (length m) + of_nat (length k)))\<rparr>"

lemma demo_imp_laws: "cache_laws demo_imp"
  by (simp add: cache_laws_def demo_imp_def)

definition demo_start :: ImpersonationStartOptions where
  "demo_start = \<lparr>so_tenantId = ''t1'', so_targetUserId = ''u1'', so_adminId = ''a1'', so_adminType = None,
     so_reason = None, so_durationSeconds = None, so_ipAddress = None\<rparr>"

definition demo_sid :: string where
  "demo_sid = concat (replicate 16 ''ab'')"

definition demo_token :: string where
  "demo_token = demo_sid @ ''.'' @ concat (replicate 32 ''40'')"

definition demo_session :: ImpersonationSession where
  "demo_session = \<lparr>is_id = demo_sid, is_tenantId = ''t1'', is_targetUserId = ''u1'', is_adminId = ''a1'',
     is_adminType = ActorAdmin, is_reason = None, is_startedAt = ''now'', is_expiresAt = 900000,
     is_ipAddress = None, is_firstVerifyAt = None\<rparr>"

lemma demo_hex: "to_hex (replicate 16 171) = demo_sid" "to_hex (replicate 32 64) = concat (replicate 32 ''40'')"
  by code_simp+

lemma demo_sid_length: "length demo_sid = 32"
  by code_simp

lemma demo_hmac: "io_hmac demo_imp (replicate 32 CHR ''s'') demo_sid = replicate 32 64"
  by (simp add: demo_imp_def demo_sid_length)

lemma demo_ops [simp]:
  "io_get demo_imp i w = (Inr (fst w i), w)"
  "io_set demo_imp i s ttl w = (Inr (), ((fst w)(i \<mapsto> s), snd w))"
  "io_delete demo_imp i w = (Inr (), ((fst w)(i := None), snd w))"
  "io_audit demo_imp = None" "io_now demo_imp = snd" "io_iso demo_imp w = ''now''"
  by (simp_all add: demo_imp_def)

lemma demo_secret: "secret_of demo_cfg = Inr (replicate 32 CHR ''s'')"
  by code_simp

lemma demo_sign: "sign_token demo_imp (replicate 32 CHR ''s'') demo_sid = demo_token"
  by (simp add: sign_token_def demo_hmac demo_hex demo_token_def)

lemma demo_started:
  "start_session demo_imp demo_cfg demo_start (Map.empty, 0) =
     (Inr \<lparr>sr_token = demo_token, sr_sessionId = demo_sid, sr_expiresAt = 900000\<rparr>, ([demo_sid \<mapsto> demo_session], 0))"
proof -
  have r: "io_randomBytes demo_imp w = (replicate 16 171, w)" for w by (simp add: demo_imp_def)
  have re: "TARGET_USER_ID_RE ''u1''" "TARGET_USER_ID_RE ''a1''" by code_simp+
  have o: "so_targetUserId demo_start = ''u1''" "so_adminId demo_start = ''a1''" "so_tenantId demo_start = ''t1''"
    "so_adminType demo_start = None" "so_reason demo_start = None" "so_durationSeconds demo_start = None"
    "so_ipAddress demo_start = None"
    by (simp_all add: demo_start_def)
  show ?thesis
    by (simp add: start_session_def secretM_def demo_secret r re o run_simps Let_def demo_hex(1) short_maximum_wins(2)
        demo_sign auditM_def or_else_def demo_session_def)
qed

lemma demo_token_parts:
  "33 \<le> length demo_token" "token_session demo_token = demo_sid" "demo_sid \<noteq> []"
  "from_hex (drop (Suc (length demo_sid)) demo_token) = io_hmac demo_imp (replicate 32 CHR ''s'') demo_sid"
proof -
  have d: "CHR ''.'' \<notin> set demo_sid" by (rule hex_no_dot [of "replicate 16 171", unfolded demo_hex])
  show "token_session demo_token = demo_sid"
    using sign_session(1) [OF d, of demo_imp "replicate 32 CHR ''s''"] by (simp only: demo_sign)
  have "drop (Suc (length demo_sid)) demo_token = to_hex (io_hmac demo_imp (replicate 32 CHR ''s'') demo_sid)"
    using sign_session(2) [OF d, of demo_imp "replicate 32 CHR ''s''"] by (simp only: demo_sign)
  then show "from_hex (drop (Suc (length demo_sid)) demo_token) = io_hmac demo_imp (replicate 32 CHR ''s'') demo_sid"
    by simp
  show "33 \<le> length demo_token" by (simp add: demo_token_def demo_sid_length)
  show "demo_sid \<noteq> []" by code_simp
qed

theorem verify_accepts_exactly_witness:
  "fst (verify_token demo_imp demo_cfg demo_token ([demo_sid \<mapsto> demo_session], 0)) = Inr (Some (context_of demo_session))"
  using verify_accepts_exactly [OF demo_secret demo_imp_laws, of demo_token "([demo_sid \<mapsto> demo_session], 0)"]
  by (simp add: demo_token_parts demo_session_def)

theorem session_start_verify_stop_witness:
  "\<exists>c w2. verify_token demo_imp demo_cfg demo_token ([demo_sid \<mapsto> demo_session], 0) = (Inr (Some c), w2) \<and>
     ic_tenantId c = ''t1'' \<and> ic_userId c = ''u1'' \<and> ic_adminId c = ''a1'' \<and>
     fst (stop_session demo_imp demo_cfg demo_token None w2) = Inr True"
proof -
  have hm: "\<forall>k m. length (io_hmac demo_imp k m) = 32" by (simp add: demo_imp_def)
  have ex: "extractSessionId demo_imp demo_cfg demo_token w = (Inr (Some demo_sid), w)" for w
    using extract_run [OF demo_secret hm, of demo_token w] by (simp add: demo_token_parts)
  have st: "\<exists>b w3. stop_session demo_imp demo_cfg demo_token None w = (Inr b, w3)" for w
    by (cases "fst w demo_sid") (auto simp add: stop_session_def ex run_simps auditM_def)
  have o: "so_targetUserId demo_start = ''u1''" "so_adminId demo_start = ''a1''" "so_tenantId demo_start = ''t1''"
    by (simp_all add: demo_start_def)
  show ?thesis
    using session_start_verify_stop [OF demo_secret demo_imp_laws demo_started, of None] st o
    by (simp del: fun_upd_apply) (metis fst_conv)
qed

section \<open>What the tokens do not exclude\<close>

text \<open>Text that is not hexadecimal after the HMAC is ignored by the decoding: other tokens pass.\<close>

lemma token_is_malleable:
  assumes "secret_of cfg = Inr secret" and "cache_laws ops" and "32 \<le> length sid" and "CHR ''.'' \<notin> set sid"
  shows "verify_token ops cfg (sign_token ops secret sid @ CHR ''.'' # junk) w = verify_token ops cfg (sign_token ops secret sid) w"
proof -
  have dot: "hex_value CHR ''.'' = None" by code_simp
  then have "from_hex (CHR ''.'' # junk) = []" by (cases junk) simp_all
  then have h: "from_hex (to_hex bs @ CHR ''.'' # junk) = bs" for bs by (simp add: from_to_hex)
  have tw: "takeWhile (\<lambda>c. c \<noteq> CHR ''.'') (sid @ CHR ''.'' # rest) = sid" for rest
    using assms(4) by (induction sid) auto
  have t: "token_session (sign_token ops secret sid @ CHR ''.'' # junk) = sid" "token_session (sign_token ops secret sid) = sid"
    by (simp_all add: token_session_def sign_token_def tw)
  have d: "drop (Suc (length sid)) (sign_token ops secret sid @ CHR ''.'' # junk) = to_hex (io_hmac ops secret sid) @ CHR ''.'' # junk"
    "drop (Suc (length sid)) (sign_token ops secret sid) = to_hex (io_hmac ops secret sid)"
    by (simp_all add: sign_token_def)
  have l: "33 \<le> length (sign_token ops secret sid)" "sid \<noteq> []" using assms(3) by (auto simp add: sign_token_def)
  show ?thesis
    using l verify_run [OF assms(1,2), of "sign_token ops secret sid" w, unfolded t]
      verify_run [OF assms(1,2), of "sign_token ops secret sid @ CHR ''.'' # junk" w, unfolded t d h]
    by (simp add: d)
qed

text \<open>
  A session stopped between the lookup and the first-use write of a concurrent
  \<open>verify\<close> is back in the cache after that write, and its token verifies again.
\<close>

lemma stopped_session_returns:
  "\<exists>se w1 w2 w3 w4. verify_lookup demo_imp demo_cfg demo_token ([demo_sid \<mapsto> demo_session], 0) = (Inr (Some se), w1) \<and>
     stop_session demo_imp demo_cfg demo_token None w1 = (Inr True, w2) \<and>
     first_use demo_imp demo_sid se w2 = (Inr (), w3) \<and>
     verify_token demo_imp demo_cfg demo_token w3 = (Inr (Some (context_of demo_session)), w4)"
proof -
  have hm: "\<forall>k m. length (io_hmac demo_imp k m) = 32" by (simp add: demo_imp_def)
  have ex: "extractSessionId demo_imp demo_cfg demo_token w = (Inr (Some demo_sid), w)" for w
    using extract_run [OF demo_secret hm, of demo_token w] by (simp add: demo_token_parts)
  show ?thesis
    by (simp add: verify_lookup_def stop_session_def verify_token_def first_use_def ex run_simps auditM_def Let_def
        demo_session_def demo_token_parts context_of_def)
qed

end
