(* ===== verification/Webhook.thy ===== *)
theory Webhook
  imports Impersonation Url_Guard
begin

text \<open>
  utils/crypto.ts, services/webhook_service.ts and admin/controllers/webhooks_controller.ts:
  outbound webhooks, their encrypted secrets, the deliveries with their retries, and the
  admin endpoints. AES-GCM, HMAC, the HTTP client, the random numbers and the
  database's identifiers and failures are parameters.
\<close>

section \<open>Encrypted values\<close>

record crypto_env =
  cr_appKey :: "string option"
  cr_hash :: "string \<Rightarrow> 8 word list"
  cr_seal :: "8 word list \<Rightarrow> 8 word list \<Rightarrow> string \<Rightarrow> 8 word list \<times> 8 word list"
  cr_open :: "8 word list \<Rightarrow> 8 word list \<Rightarrow> 8 word list \<Rightarrow> 8 word list \<Rightarrow> string + string"

definition ENC_PREFIX :: string where
  "ENC_PREFIX = ''enc_v1:''"

definition getKey :: "crypto_env \<Rightarrow> string + 8 word list" where
  "getKey cr =
     (case truthy (cr_appKey cr) of
        None \<Rightarrow> Inl ''APP_KEY environment variable is not set''
      | Some k \<Rightarrow> Inr (cr_hash cr k))"

text \<open>\<open>iv\<close> stands for the random bytes drawn; \<open>cr_seal\<close> gives the cipher text and the tag.\<close>

definition encrypt :: "crypto_env \<Rightarrow> 8 word list \<Rightarrow> string \<Rightarrow> string + string" where
  "encrypt cr iv plaintext =
     (case getKey cr of
        Inl e \<Rightarrow> Inl e
      | Inr key \<Rightarrow>
          (case cr_seal cr key iv plaintext of
             (ct, tag) \<Rightarrow> Inr (ENC_PREFIX @ to_hex iv @ '':'' @ to_hex tag @ '':'' @ to_hex ct)))"

definition decrypt :: "crypto_env \<Rightarrow> string \<Rightarrow> string + string" where
  "decrypt cr v =
     (if \<not> starts_with ENC_PREFIX v then Inr v
      else (case js_split (CHR '':'') (drop (length ENC_PREFIX) v) of
              [ivHex, tagHex, cipherHex] \<Rightarrow>
                (case getKey cr of
                   Inl e \<Rightarrow> Inl e
                 | Inr key \<Rightarrow> cr_open cr key (from_hex ivHex) (from_hex tagHex) (from_hex cipherHex))
            | _ \<Rightarrow> Inl ''Invalid encrypted value format''))"

definition isEncrypted :: "string \<Rightarrow> bool" where
  "isEncrypted v \<longleftrightarrow> starts_with ENC_PREFIX v"

text \<open>Authenticated decryption gives back what was sealed under the same key and nonce.\<close>

definition seal_law :: "crypto_env \<Rightarrow> bool" where
  "seal_law cr \<longleftrightarrow> (\<forall>k iv s. cr_open cr k iv (snd (cr_seal cr k iv s)) (fst (cr_seal cr k iv s)) = Inr s)"

section \<open>Rows and requests\<close>

record TenantWebhook =
  wh_id :: string
  wh_tenantId :: string
  wh_url :: string
  wh_events :: "string list"
  wh_secret :: "string option"
  wh_enabled :: bool
  wh_createdAt :: int
  wh_updatedAt :: int

datatype DeliveryStatus = DPending | DSuccess | DFailed | DRetrying

record 'p TenantWebhookDelivery =
  wd_id :: string
  wd_webhookId :: string
  wd_event :: string
  wd_payload :: 'p
  wd_statusCode :: "int option"
  wd_responseBody :: "string option"
  wd_attempt :: nat
  wd_status :: DeliveryStatus
  wd_nextRetryAt :: "int option"
  wd_createdAt :: int

record http_request =
  rq_url :: string
  rq_headers :: "(string \<times> string) list"
  rq_body :: string

text \<open>The body of a response is \<open>None\<close> when reading it fails.\<close>

datatype fetch_outcome = FetchResponse int "string option" | FetchThrew string

record 'p wh_state =
  ws_hooks :: "TenantWebhook list"
  ws_deliveries :: "'p TenantWebhookDelivery list"
  ws_sent :: "http_request list"
  ws_now :: int

text \<open>
  The world around the service. What the remote side answers and what
  \<open>Math.random\<close> gives may depend on everything sent before.
\<close>

record 'p wh_env =
  we_crypto :: crypto_env
  we_iv :: "'p wh_state \<Rightarrow> 8 word list"
  we_hmac :: "string \<Rightarrow> string \<Rightarrow> 8 word list"
  we_stringify :: "'p \<Rightarrow> string"
  we_fetch :: "http_request list \<Rightarrow> http_request \<Rightarrow> fetch_outcome"
  we_random :: "http_request list \<Rightarrow> rat"
  we_newId :: "'p wh_state \<Rightarrow> string"
  we_dbError :: "'p wh_state \<Rightarrow> string option"

type_synonym ('p, 'a) W = "('p wh_state, string, 'a) M"

section \<open>The service\<close>

definition MAX_ATTEMPTS :: nat where
  "MAX_ATTEMPTS = 5"

definition BACKOFF_BASE_SECONDS :: "rat list" where
  "BACKOFF_BASE_SECONDS = [10, 60, 300, 1800, 7200]"

definition RETRY_CONCURRENCY :: nat where
  "RETRY_CONCURRENCY = 10"

definition js_round :: "rat \<Rightarrow> int" where
  "js_round x = \<lfloor>x + 1 / 2\<rfloor>"

definition backoffWithJitter :: "rat \<Rightarrow> nat \<Rightarrow> int" where
  "backoffWithJitter random attempt =
     (let base = (if 1 \<le> attempt \<and> attempt \<le> length BACKOFF_BASE_SECONDS
                  then BACKOFF_BASE_SECONDS ! (attempt - 1) else 7200);
          jitter = base * (2 / 10) * (random * 2 - 1)
      in js_round (base + jitter))"

text \<open>
  \<open>Promise.all\<close>: every task runs, one to its end before the next, and the first
  exception is the result. \<open>mapConcurrent\<close> starts a batch when the one before
  has succeeded; the concurrency is positive.
\<close>

fun promise_all :: "'a list \<Rightarrow> ('a \<Rightarrow> ('s, 'e, unit) M) \<Rightarrow> ('s, 'e, unit) M" where
  "promise_all [] f = returnM ()"
| "promise_all (x # xs) f =
     (\<lambda>s. case f x s of (r, t) \<Rightarrow>
        (case promise_all xs f t of (r', u) \<Rightarrow> ((case r of Inl e \<Rightarrow> Inl e | Inr _ \<Rightarrow> r'), u)))"

fun mapConcurrent :: "'a list \<Rightarrow> nat \<Rightarrow> ('a \<Rightarrow> ('s, 'e, unit) M) \<Rightarrow> ('s, 'e, unit) M" where
  "mapConcurrent [] c f = returnM ()"
| "mapConcurrent (x # xs) c f =
     thenM (promise_all (x # take (c - 1) xs) f) (mapConcurrent (drop (c - 1) xs) c f)"

text \<open>A database statement fails before it changes anything.\<close>

definition db_write :: "'p wh_env \<Rightarrow> ('p wh_state \<Rightarrow> 'p wh_state) \<Rightarrow> ('p, unit) W" where
  "db_write env f = (\<lambda>s. case we_dbError env s of Some e \<Rightarrow> (Inl e, s) | None \<Rightarrow> (Inr (), f s))"

definition save_delivery :: "'p wh_env \<Rightarrow> 'p TenantWebhookDelivery \<Rightarrow> ('p, unit) W" where
  "save_delivery env d = db_write env (\<lambda>s.
     s\<lparr>ws_deliveries := map (\<lambda>x. if wd_id x = wd_id d then d else x) (ws_deliveries s)\<rparr>)"

text \<open>Saving a webhook stamps its \<open>updatedAt\<close>.\<close>

definition save_hook :: "'p wh_env \<Rightarrow> TenantWebhook \<Rightarrow> ('p, TenantWebhook) W" where
  "save_hook env h =
     bindM (getM (\<lambda>s. h\<lparr>wh_updatedAt := ws_now s\<rparr>)) (\<lambda>h'.
       thenM (db_write env (\<lambda>s. s\<lparr>ws_hooks := map (\<lambda>x. if wh_id x = wh_id h then h' else x) (ws_hooks s)\<rparr>))
         (returnM h'))"

text \<open>What \<open>send\<close> makes of the outcome of the request, before it saves the row.\<close>

definition after_fetch ::
  "rat \<Rightarrow> int \<Rightarrow> fetch_outcome \<Rightarrow> 'p TenantWebhookDelivery \<Rightarrow> 'p TenantWebhookDelivery"
where
  "after_fetch random now out d =
     (let again = (\<lambda>d. d\<lparr>wd_status := DRetrying,
            wd_nextRetryAt := Some (now + 1000 * backoffWithJitter random (wd_attempt d)),
            wd_attempt := wd_attempt d + 1\<rparr>)
      in case out of
           FetchResponse code body \<Rightarrow>
             let ok = (200 \<le> code \<and> code \<le> 299);
                 d1 = d\<lparr>wd_statusCode := Some code, wd_responseBody := body,
                        wd_status := (if ok then DSuccess else DFailed)\<rparr>
             in if \<not> ok \<and> wd_attempt d < MAX_ATTEMPTS then again d1 else d1
         | FetchThrew e \<Rightarrow>
             let d1 = d\<lparr>wd_statusCode := None, wd_responseBody := Some e\<rparr>
             in if wd_attempt d < MAX_ATTEMPTS then again d1 else d1\<lparr>wd_status := DFailed\<rparr>)"

definition request_for ::
  "'p wh_env \<Rightarrow> TenantWebhook \<Rightarrow> string option \<Rightarrow> 'p TenantWebhookDelivery \<Rightarrow> http_request"
where
  "request_for env hook plainSecret d =
     (let body = we_stringify env (wd_payload d)
      in \<lparr>rq_url = wh_url hook,
          rq_headers = [(''content-type'', ''application/json''), (''x-webhook-event'', wd_event d),
              (''x-delivery-id'', wd_id d)] @
            (case plainSecret of None \<Rightarrow> []
             | Some s \<Rightarrow> [(''x-webhook-signature'', to_hex (we_hmac env s body))]),
          rq_body = body\<rparr>)"

definition plain_secret :: "'p wh_env \<Rightarrow> TenantWebhook \<Rightarrow> string + string option" where
  "plain_secret env hook =
     (case truthy (wh_secret hook) of
        None \<Rightarrow> Inr None
      | Some c \<Rightarrow> (case decrypt (we_crypto env) c of Inl e \<Rightarrow> Inl e | Inr s \<Rightarrow> Inr (Some s)))"

definition send ::
  "'p wh_env \<Rightarrow> TenantWebhook \<Rightarrow> 'p TenantWebhookDelivery \<Rightarrow> ('p, 'p TenantWebhookDelivery) W"
where
  "send env hook d =
     (case plain_secret env hook of
        Inl e \<Rightarrow> throwM e
      | Inr secret \<Rightarrow>
          let rq = request_for env hook secret d
          in bindM (getM (\<lambda>s. (ws_sent s, ws_now s))) (\<lambda>(sent, now).
             thenM (modM (\<lambda>s. s\<lparr>ws_sent := ws_sent s @ [rq]\<rparr>))
               (let d' = after_fetch (we_random env sent) now (we_fetch env sent rq) d
                in thenM (save_delivery env d') (returnM d'))))"

definition deliver :: "'p wh_env \<Rightarrow> TenantWebhook \<Rightarrow> string \<Rightarrow> 'p \<Rightarrow> ('p, unit) W" where
  "deliver env hook event payload =
     bindM (getM (\<lambda>s. \<lparr>wd_id = we_newId env s, wd_webhookId = wh_id hook, wd_event = event,
         wd_payload = payload, wd_statusCode = None, wd_responseBody = None, wd_attempt = 1,
         wd_status = DPending, wd_nextRetryAt = None, wd_createdAt = ws_now s\<rparr>)) (\<lambda>d.
       thenM (db_write env (\<lambda>s. s\<lparr>ws_deliveries := ws_deliveries s @ [d]\<rparr>))
         (bindM (send env hook d) (\<lambda>_. returnM ())))"

definition subscribed :: "string \<Rightarrow> string \<Rightarrow> TenantWebhook \<Rightarrow> bool" where
  "subscribed tenantId event h \<longleftrightarrow> wh_tenantId h = tenantId \<and> wh_enabled h \<and> event \<in> set (wh_events h)"

definition webhook_dispatch :: "'p wh_env \<Rightarrow> string \<Rightarrow> string \<Rightarrow> 'p \<Rightarrow> ('p, unit) W" where
  "webhook_dispatch env tenantId event payload =
     bindM (getM (\<lambda>s. filter (subscribed tenantId event) (ws_hooks s)))
       (\<lambda>hooks. promise_all hooks (\<lambda>hook. deliver env hook event payload))"

definition is_due :: "int \<Rightarrow> 'p TenantWebhookDelivery \<Rightarrow> bool" where
  "is_due now d \<longleftrightarrow> wd_status d = DRetrying \<and> (case wd_nextRetryAt d of None \<Rightarrow> False | Some t \<Rightarrow> t \<le> now)"

definition find_hook :: "string \<Rightarrow> 'p wh_state \<Rightarrow> TenantWebhook option" where
  "find_hook i s = find (\<lambda>h. wh_id h = i) (ws_hooks s)"

text \<open>
  The rows come with their webhook preloaded; a row without one makes \<open>send\<close>
  throw on its first line. No order is asked of the rows: the model takes the
  table's.
\<close>

definition processRetries :: "'p wh_env \<Rightarrow> ('p, unit) W" where
  "processRetries env =
     bindM (getM (\<lambda>s. map (\<lambda>d. (find_hook (wd_webhookId d) s, d))
         (take 100 (filter (is_due (ws_now s)) (ws_deliveries s))))) (\<lambda>due.
       mapConcurrent due RETRY_CONCURRENCY (\<lambda>(hook, d).
         case hook of
           None \<Rightarrow> throwM ''Cannot read properties of null''
         | Some h \<Rightarrow> bindM (send env h d) (\<lambda>_. returnM ())))"

definition registerWebhook ::
  "'p wh_env \<Rightarrow> string \<Rightarrow> string \<Rightarrow> string list \<Rightarrow> string option \<Rightarrow> ('p, TenantWebhook) W"
where
  "registerWebhook env tenantId url events secret =
     bindM (\<lambda>s. case truthy secret of
         None \<Rightarrow> (Inr None, s)
       | Some p \<Rightarrow> (case encrypt (we_crypto env) (we_iv env s) p of Inl e \<Rightarrow> (Inl e, s) | Inr c \<Rightarrow> (Inr (Some c), s)))
       (\<lambda>encryptedSecret.
         bindM (getM (\<lambda>s. \<lparr>wh_id = we_newId env s, wh_tenantId = tenantId, wh_url = url, wh_events = events,
             wh_secret = encryptedSecret, wh_enabled = True,
             wh_createdAt = ws_now s, wh_updatedAt = ws_now s\<rparr>)) (\<lambda>h.
           thenM (db_write env (\<lambda>s. s\<lparr>ws_hooks := ws_hooks s @ [h]\<rparr>)) (returnM h)))"

definition listWebhooks :: "string \<Rightarrow> 'p wh_state \<Rightarrow> TenantWebhook list" where
  "listWebhooks tenantId s =
     sort_key (\<lambda>h. - wh_createdAt h) (filter (\<lambda>h. wh_tenantId h = tenantId) (ws_hooks s))"

text \<open>The foreign key of the deliveries cascades.\<close>

definition deleteWebhook :: "'p wh_env \<Rightarrow> string \<Rightarrow> string \<Rightarrow> ('p, unit) W" where
  "deleteWebhook env i tenantId = db_write env (\<lambda>s.
     let gone = (\<lambda>h. wh_id h = i \<and> wh_tenantId h = tenantId)
     in s\<lparr>ws_hooks := filter (\<lambda>h. \<not> gone h) (ws_hooks s),
          ws_deliveries := filter (\<lambda>d. \<not> (\<exists>h \<in> set (ws_hooks s). gone h \<and> wd_webhookId d = wh_id h)) (ws_deliveries s)\<rparr>)"

section \<open>The admin endpoints\<close>

text \<open>
  Inputs as the request carries them: \<open>events\<close> and \<open>enabled\<close> may be missing
  or of another type, the elements of an array that are not strings are \<open>None\<close>;
  a \<open>url\<close> is missing (\<open>None\<close>), not a string (\<open>Some None\<close>) or a string.
\<close>

datatype events_input = EventsAbsent | EventsNotArray | EventsArray "string option list"

datatype enabled_input = EnabledAbsent | EnabledNotBoolean | EnabledIs bool

record webhook_json =
  wj_id :: string
  wj_tenantId :: string
  wj_url :: string
  wj_events :: "string list"
  wj_enabled :: bool
  wj_hasSecret :: bool
  wj_createdAt :: int
  wj_updatedAt :: int

definition serialize_webhook :: "TenantWebhook \<Rightarrow> webhook_json" where
  "serialize_webhook w = \<lparr>wj_id = wh_id w, wj_tenantId = wh_tenantId w, wj_url = wh_url w,
     wj_events = wh_events w, wj_enabled = wh_enabled w, wj_hasSecret = (truthy (wh_secret w) \<noteq> None),
     wj_createdAt = wh_createdAt w, wj_updatedAt = wh_updatedAt w\<rparr>"

record delivery_json =
  dj_id :: string
  dj_webhookId :: string
  dj_event :: string
  dj_status :: DeliveryStatus
  dj_statusCode :: "int option"
  dj_attempt :: nat
  dj_nextRetryAt :: "int option"
  dj_createdAt :: int

definition serializeDelivery :: "'p TenantWebhookDelivery \<Rightarrow> delivery_json" where
  "serializeDelivery d = \<lparr>dj_id = wd_id d, dj_webhookId = wd_webhookId d, dj_event = wd_event d,
     dj_status = wd_status d, dj_statusCode = wd_statusCode d, dj_attempt = wd_attempt d,
     dj_nextRetryAt = wd_nextRetryAt d, dj_createdAt = wd_createdAt d\<rparr>"

datatype wh_reply =
    WhTenantNotFound | WhWebhookNotFound | WhDeliveryNotFound
  | WhBadUrl url_error | WhEventsRequired | WhEventsInvalid | WhEnabledInvalid
  | WhForbidden | WhUrlUnsafe url_error
  | WhHooks "webhook_json list" | WhCreated webhook_json | WhUpdated webhook_json | WhNoContent
  | WhDeliveries "delivery_json list" | WhSent delivery_json

definition with_loaded_tenant ::
  "(string \<Rightarrow> bool \<Rightarrow> tenant option) \<Rightarrow> string \<Rightarrow> (tenant \<Rightarrow> ('p, wh_reply) W) \<Rightarrow> ('p, wh_reply) W"
where
  "with_loaded_tenant findById i f =
     (case loadTenantOr404 findById i of NotFound404 \<Rightarrow> returnM WhTenantNotFound | Found t \<Rightarrow> f t)"

definition webhooks_list :: "(string \<Rightarrow> bool \<Rightarrow> tenant option) \<Rightarrow> string \<Rightarrow> ('p, wh_reply) W" where
  "webhooks_list findById i = with_loaded_tenant findById i (\<lambda>t.
     getM (\<lambda>s. WhHooks (map serialize_webhook (listWebhooks (t_id t) s))))"

definition webhooks_create ::
  "'p wh_env \<Rightarrow> url_parser \<Rightarrow> (string \<Rightarrow> bool \<Rightarrow> tenant option) \<Rightarrow> string \<Rightarrow>
   string option \<Rightarrow> events_input \<Rightarrow> string option \<Rightarrow> ('p, wh_reply) W"
where
  "webhooks_create env parse findById i url events secret = with_loaded_tenant findById i (\<lambda>t.
     case validateExternalHttpsUrl parse url of
       Some e \<Rightarrow> returnM (WhBadUrl e)
     | None \<Rightarrow>
         (case events of
            EventsArray es \<Rightarrow>
              if es = [] \<or> \<not> list_all isNonEmptyString es then returnM WhEventsRequired
              else bindM (registerWebhook env (t_id t) (the url) (map the es)
                            (if isNonEmptyString secret then secret else None))
                     (\<lambda>h. returnM (WhCreated (serialize_webhook h)))
          | _ \<Rightarrow> returnM WhEventsRequired))"

definition find_tenant_hook :: "string \<Rightarrow> string \<Rightarrow> 'p wh_state \<Rightarrow> TenantWebhook option" where
  "find_tenant_hook webhookId tenantId s =
     find (\<lambda>h. wh_id h = webhookId \<and> wh_tenantId h = tenantId) (ws_hooks s)"

text \<open>The fields are checked and set in turn on the loaded row; only the end saves it.\<close>

definition set_url :: "url_parser \<Rightarrow> string option option \<Rightarrow> TenantWebhook \<Rightarrow> wh_reply + TenantWebhook" where
  "set_url parse url h =
     (case url of
        None \<Rightarrow> Inr h
      | Some v \<Rightarrow> (case validateExternalHttpsUrl parse v of
                     Some e \<Rightarrow> Inl (WhBadUrl e) | None \<Rightarrow> Inr (h\<lparr>wh_url := the v\<rparr>)))"

definition set_events :: "events_input \<Rightarrow> TenantWebhook \<Rightarrow> wh_reply + TenantWebhook" where
  "set_events events h =
     (case events of
        EventsAbsent \<Rightarrow> Inr h
      | EventsNotArray \<Rightarrow> Inl WhEventsInvalid
      | EventsArray es \<Rightarrow>
          if list_all isNonEmptyString es then Inr (h\<lparr>wh_events := map the es\<rparr>) else Inl WhEventsInvalid)"

definition set_enabled :: "enabled_input \<Rightarrow> TenantWebhook \<Rightarrow> wh_reply + TenantWebhook" where
  "set_enabled enabled h =
     (case enabled of
        EnabledAbsent \<Rightarrow> Inr h | EnabledNotBoolean \<Rightarrow> Inl WhEnabledInvalid
      | EnabledIs b \<Rightarrow> Inr (h\<lparr>wh_enabled := b\<rparr>))"

definition webhooks_update ::
  "'p wh_env \<Rightarrow> url_parser \<Rightarrow> (string \<Rightarrow> bool \<Rightarrow> tenant option) \<Rightarrow> string \<Rightarrow> string \<Rightarrow>
   string option option \<Rightarrow> events_input \<Rightarrow> enabled_input \<Rightarrow> ('p, wh_reply) W"
where
  "webhooks_update env parse findById i webhookId url events enabled = with_loaded_tenant findById i (\<lambda>t.
     bindM (getM (find_tenant_hook webhookId (t_id t))) (\<lambda>hook.
       case hook of
         None \<Rightarrow> returnM WhWebhookNotFound
       | Some h \<Rightarrow>
           (case set_url parse url h of
              Inl r \<Rightarrow> returnM r
            | Inr h1 \<Rightarrow>
                (case set_events events h1 of
                   Inl r \<Rightarrow> returnM r
                 | Inr h2 \<Rightarrow>
                     (case set_enabled enabled h2 of
                        Inl r \<Rightarrow> returnM r
                      | Inr h3 \<Rightarrow> bindM (save_hook env h3) (\<lambda>h4. returnM (WhUpdated (serialize_webhook h4))))))))"

definition webhooks_destroy ::
  "'p wh_env \<Rightarrow> (string \<Rightarrow> bool \<Rightarrow> tenant option) \<Rightarrow> string \<Rightarrow> string \<Rightarrow> ('p, wh_reply) W"
where
  "webhooks_destroy env findById i webhookId = with_loaded_tenant findById i (\<lambda>t.
     thenM (deleteWebhook env webhookId (t_id t)) (returnM WhNoContent))"

definition listDeliveries ::
  "(string \<Rightarrow> bool \<Rightarrow> tenant option) \<Rightarrow> string \<Rightarrow> string \<Rightarrow> ('p, wh_reply) W"
where
  "listDeliveries findById i webhookId = with_loaded_tenant findById i (\<lambda>t.
     getM (\<lambda>s. case find_tenant_hook webhookId (t_id t) s of
       None \<Rightarrow> WhWebhookNotFound
     | Some h \<Rightarrow> WhDeliveries (map serializeDelivery (take 100
         (sort_key (\<lambda>d. - wd_createdAt d) (filter (\<lambda>d. wd_webhookId d = wh_id h) (ws_deliveries s)))))))"

definition find_delivery :: "string \<Rightarrow> 'p wh_state \<Rightarrow> 'p TenantWebhookDelivery option" where
  "find_delivery i s = find (\<lambda>d. wd_id d = i) (ws_deliveries s)"

definition retryDelivery ::
  "'p wh_env \<Rightarrow> url_parser \<Rightarrow> (string \<Rightarrow> bool \<Rightarrow> tenant option) \<Rightarrow> string \<Rightarrow> string \<Rightarrow> ('p, wh_reply) W"
where
  "retryDelivery env parse findById i deliveryId = with_loaded_tenant findById i (\<lambda>t.
     bindM (getM (\<lambda>s. (find_delivery deliveryId s,
         Option.bind (find_delivery deliveryId s) (\<lambda>d. find_hook (wd_webhookId d) s)))) (\<lambda>(delivery, webhook).
       case delivery of
         None \<Rightarrow> returnM WhDeliveryNotFound
       | Some d \<Rightarrow>
           (case webhook of
              None \<Rightarrow> throwM ''Cannot read properties of null''
            | Some h \<Rightarrow>
                if wh_tenantId h \<noteq> t_id t then returnM WhForbidden
                else (case validateExternalHttpsUrl parse (Some (wh_url h)) of
                        Some e \<Rightarrow> returnM (WhUrlUnsafe e)
                      | None \<Rightarrow> bindM (send env h d) (\<lambda>d'. returnM (WhSent (serializeDelivery d')))))))"

section \<open>Secrets\<close>

text \<open>A secret encrypted under the application's key is decrypted to itself; plain text passes.\<close>

lemma encrypt_decrypt:
  assumes "seal_law cr" and "encrypt cr iv s = Inr v"
  shows "isEncrypted v \<and> decrypt cr v = Inr s"
proof -
  obtain key where k: "getKey cr = Inr key" using assms(2) by (auto simp add: encrypt_def split: sum.splits)
  obtain ct tag where se: "cr_seal cr key iv s = (ct, tag)" by fastforce
  then have v: "v = ENC_PREFIX @ to_hex iv @ CHR '':'' # to_hex tag @ CHR '':'' # to_hex ct"
    using assms(2) k by (simp add: encrypt_def)
  have "js_split (CHR '':'') (drop (length ENC_PREFIX) v) = [to_hex iv, to_hex tag, to_hex ct]"
    by (simp add: v js_split_append js_split_no_char hex_no_colon)
  moreover have "cr_open cr key iv tag ct = Inr s" using assms(1) se unfolding seal_law_def by (metis fst_conv snd_conv)
  moreover have "starts_with ENC_PREFIX v" by (simp add: v)
  ultimately show ?thesis by (simp add: decrypt_def isEncrypted_def k)
qed

lemma decrypt_plain: "\<not> isEncrypted v \<Longrightarrow> decrypt cr v = Inr v"
  by (simp add: decrypt_def isEncrypted_def)

lemma registered_secret:
  assumes "seal_law (we_crypto env)" and "registerWebhook env t url events secret s = (Inr h, s')"
  shows "plain_secret env h = Inr (truthy secret) \<and> wh_tenantId h = t \<and> wh_url h = url \<and> wh_events h = events \<and>
     wh_enabled h \<and> ws_hooks s' = ws_hooks s @ [h] \<and> ws_deliveries s' = ws_deliveries s \<and> ws_sent s' = ws_sent s"
proof (cases "truthy secret")
  case None
  then show ?thesis
    using assms(2) by (auto simp add: registerWebhook_def run_simps db_write_def plain_secret_def truthy_def split: option.splits)
next
  case (Some p)
  then obtain c where c: "encrypt (we_crypto env) (we_iv env s) p = Inr c"
    using assms(2) by (auto simp add: registerWebhook_def run_simps split: sum.splits)
  have d: "isEncrypted c" "decrypt (we_crypto env) c = Inr p" using encrypt_decrypt [OF assms(1) c] by simp_all
  then have ne: "c \<noteq> []" by (auto simp add: isEncrypted_def ENC_PREFIX_def)
  then show ?thesis
    using assms(2) Some c d by (auto simp add: registerWebhook_def run_simps db_write_def plain_secret_def truthy_def split: option.splits)
qed

section \<open>Runs of the service\<close>

lemma send_run:
  assumes "plain_secret env h = Inr secret" and "\<forall>s. we_dbError env s = None"
  shows "send env h d s =
     (let d' = after_fetch (we_random env (ws_sent s)) (ws_now s)
                 (we_fetch env (ws_sent s) (request_for env h secret d)) d
      in (Inr d', s\<lparr>ws_sent := ws_sent s @ [request_for env h secret d],
            ws_deliveries := map (\<lambda>x. if wd_id x = wd_id d then d' else x) (ws_deliveries s)\<rparr>))"
proof -
  have "wd_id (after_fetch r now out d) = wd_id d" for r now out
    by (cases out) (simp_all add: after_fetch_def Let_def)
  then show ?thesis
    using assms by (simp add: send_def Let_def run_simps save_delivery_def db_write_def)
qed

lemma send_throws: "plain_secret env h = Inl e \<Longrightarrow> send env h d s = (Inl e, s)"
  by (simp add: send_def run_simps)

section \<open>Outbound requests go to checked addresses\<close>

definition urls_safe :: "url_parser \<Rightarrow> 'p wh_state \<Rightarrow> bool" where
  "urls_safe parse s \<longleftrightarrow> (\<forall>h \<in> set (ws_hooks s). url_ok parse (wh_url h)) \<and> (\<forall>r \<in> set (ws_sent s). url_ok parse (rq_url r))"

lemma keeps_read: "(\<And>s. P s \<Longrightarrow> keeps P (g (f s))) \<Longrightarrow> keeps P (bindM (getM f) g)"
  by (simp add: keeps_def run_simps)

lemma keeps_db_write: "(\<And>s. P s \<Longrightarrow> P (f s)) \<Longrightarrow> keeps P (db_write env f)"
  by (auto simp add: keeps_def db_write_def split: option.splits)

lemma keeps_promise_all [keeps_intros]: "(\<And>x. x \<in> set xs \<Longrightarrow> keeps P (f x)) \<Longrightarrow> keeps P (promise_all xs f)"
proof (induction xs)
  case (Cons x xs)
  then have "keeps P (f x)" "keeps P (promise_all xs f)" by simp_all
  then show ?case by (auto simp add: keeps_def split: prod.splits)
qed (simp add: keeps_def run_simps)

lemma keeps_mapConcurrent [keeps_intros]: "(\<And>x. x \<in> set xs \<Longrightarrow> keeps P (f x)) \<Longrightarrow> keeps P (mapConcurrent xs c f)"
proof (induction xs c f rule: mapConcurrent.induct)
  case (2 x xs c f)
  have "keeps P (promise_all (x # take (c - 1) xs) f)"
    by (rule keeps_promise_all, rule 2(2)) (auto dest: in_set_takeD)
  moreover have "keeps P (mapConcurrent (drop (c - 1) xs) c f)"
    by (rule 2(1), rule 2(2)) (auto dest: in_set_dropD)
  ultimately show ?case unfolding mapConcurrent.simps by (rule keeps_thenM)
qed (simp add: keeps_intros)

lemma send_keeps_safe: "url_ok parse (wh_url h) \<Longrightarrow> keeps (urls_safe parse) (send env h d)"
  unfolding send_def Let_def save_delivery_def
  by (auto intro!: keeps_intros keeps_db_write simp: urls_safe_def request_for_def Let_def split: sum.splits prod.splits)

lemma deliver_keeps_safe: "url_ok parse (wh_url h) \<Longrightarrow> keeps (urls_safe parse) (deliver env h event payload)"
  unfolding deliver_def
  by (intro keeps_intros keeps_db_write send_keeps_safe) (simp_all add: urls_safe_def)

lemma find_hook_in: "find_hook i s = Some h \<Longrightarrow> h \<in> set (ws_hooks s) \<and> wh_id h = i"
  unfolding find_hook_def by (auto simp add: find_Some_iff)

lemma find_tenant_hook_in: "find_tenant_hook i t s = Some h \<Longrightarrow> h \<in> set (ws_hooks s) \<and> wh_id h = i \<and> wh_tenantId h = t"
  unfolding find_tenant_hook_def by (auto simp add: find_Some_iff)

lemma dispatch_keeps_safe: "keeps (urls_safe parse) (webhook_dispatch env t event payload)"
  unfolding webhook_dispatch_def
  by (intro keeps_read keeps_promise_all deliver_keeps_safe) (auto simp add: urls_safe_def)

lemma retries_keep_safe: "keeps (urls_safe parse) (processRetries env)"
  unfolding processRetries_def
proof (intro keeps_read keeps_mapConcurrent)
  fix s :: "'a wh_state" and x
  assume s: "urls_safe parse s"
    and x: "x \<in> set (map (\<lambda>d. (find_hook (wd_webhookId d) s, d)) (take 100 (filter (is_due (ws_now s)) (ws_deliveries s))))"
  obtain hook d where xd: "x = (hook, d)" "hook = find_hook (wd_webhookId d) s" using x by auto
  show "keeps (urls_safe parse) (case x of (hook, d) \<Rightarrow>
       (case hook of None \<Rightarrow> throwM ''Cannot read properties of null'' | Some h \<Rightarrow> bindM (send env h d) (\<lambda>_. returnM ())))"
  proof (cases hook)
    case (Some h)
    then have "url_ok parse (wh_url h)" using s xd find_hook_in [of _ s h] by (auto simp add: urls_safe_def)
    then show ?thesis by (simp add: xd(1) Some keeps_bindM keeps_basic send_keeps_safe)
  qed (simp add: xd(1) keeps_basic)
qed

lemma keeps_with_loaded_tenant: "(\<And>t. keeps P (f t)) \<Longrightarrow> keeps P (with_loaded_tenant findById i f)"
  by (simp add: with_loaded_tenant_def keeps_intros split: reply.splits)

lemma register_keeps_safe: "url_ok parse url \<Longrightarrow> keeps (urls_safe parse) (registerWebhook env t url es secret)"
  unfolding registerWebhook_def
  by (rule keeps_bindM)
     (auto simp add: keeps_def urls_safe_def run_simps db_write_def split: option.splits sum.splits prod.splits)

lemma create_keeps_safe: "keeps (urls_safe parse) (webhooks_create env parse findById i url events secret)"
  unfolding webhooks_create_def
proof (intro keeps_with_loaded_tenant)
  fix t
  show "keeps (urls_safe parse) (case validateExternalHttpsUrl parse url of
       Some e \<Rightarrow> returnM (WhBadUrl e)
     | None \<Rightarrow>
         (case events of
            EventsArray es \<Rightarrow>
              if es = [] \<or> \<not> list_all isNonEmptyString es then returnM WhEventsRequired
              else bindM (registerWebhook env (t_id t) (the url) (map the es)
                            (if isNonEmptyString secret then secret else None))
                     (\<lambda>h. returnM (WhCreated (serialize_webhook h)))
          | _ \<Rightarrow> returnM WhEventsRequired))"
  proof (cases "validateExternalHttpsUrl parse url")
    case None
    then have "url_ok parse (the url)" by (rule checked_url)
    then show ?thesis using None by (auto intro!: keeps_intros register_keeps_safe split: events_input.splits)
  qed (simp add: keeps_intros)
qed

lemma set_fields:
  assumes "set_url parse url h = Inr h1" and "set_events events h1 = Inr h2" and "set_enabled enabled h2 = Inr h3"
    and "url_ok parse (wh_url h)"
  shows "wh_id h3 = wh_id h \<and> wh_tenantId h3 = wh_tenantId h \<and> url_ok parse (wh_url h3)"
proof -
  have "url_ok parse (wh_url h1) \<and> wh_id h1 = wh_id h \<and> wh_tenantId h1 = wh_tenantId h"
    using assms(1,4) unfolding set_url_def by (auto simp add: checked_url split: option.splits)
  then show ?thesis
    using assms(2,3) by (auto simp add: set_events_def set_enabled_def split: events_input.splits enabled_input.splits if_splits)
qed

lemma update_keeps_safe: "keeps (urls_safe parse) (webhooks_update env parse findById i webhookId url events enabled)"
  unfolding webhooks_update_def save_hook_def
  by (intro keeps_with_loaded_tenant keeps_read)
     (auto intro!: keeps_intros keeps_read keeps_db_write dest!: find_tenant_hook_in
       simp: urls_safe_def split: option.splits sum.splits, blast dest: set_fields)

lemma destroy_keeps_safe: "keeps (urls_safe parse) (webhooks_destroy env findById i webhookId)"
  unfolding webhooks_destroy_def deleteWebhook_def
  by (intro keeps_with_loaded_tenant keeps_intros keeps_db_write) (auto simp add: urls_safe_def Let_def)

lemma retry_keeps_safe: "keeps (urls_safe parse) (retryDelivery env parse findById i deliveryId)"
  unfolding retryDelivery_def
  by (intro keeps_with_loaded_tenant keeps_read)
     (auto intro!: keeps_intros send_keeps_safe simp: url_ok_def split: option.splits)

text \<open>What may happen between two states: time passes, an endpoint runs, the host dispatches an event, the worker runs.\<close>

inductive wh_step ::
  "'p wh_env \<Rightarrow> url_parser \<Rightarrow> (string \<Rightarrow> bool \<Rightarrow> tenant option) \<Rightarrow> 'p wh_state \<Rightarrow> 'p wh_state \<Rightarrow> bool"
  for env parse findById
where
  step_time: "0 \<le> dt \<Longrightarrow> wh_step env parse findById s (s\<lparr>ws_now := ws_now s + dt\<rparr>)"
| step_create: "wh_step env parse findById s (snd (webhooks_create env parse findById i url events secret s))"
| step_update: "wh_step env parse findById s (snd (webhooks_update env parse findById i webhookId url' events enabled s))"
| step_destroy: "wh_step env parse findById s (snd (webhooks_destroy env findById i webhookId s))"
| step_retry: "wh_step env parse findById s (snd (retryDelivery env parse findById i deliveryId s))"
| step_dispatch: "wh_step env parse findById s (snd (webhook_dispatch env tenantId event payload s))"
| step_worker: "wh_step env parse findById s (snd (processRetries env s))"

lemma wh_step_safe: "wh_step env parse findById s s' \<Longrightarrow> urls_safe parse s \<Longrightarrow> urls_safe parse s'"
proof (induction rule: wh_step.induct)
  case (step_time dt s)
  then show ?case by (simp add: urls_safe_def)
qed (auto intro: keepsD create_keeps_safe update_keeps_safe destroy_keeps_safe retry_keeps_safe
       dispatch_keeps_safe retries_keep_safe)

lemma wh_steps_safe: "(wh_step env parse findById)\<^sup>*\<^sup>* s s' \<Longrightarrow> urls_safe parse s \<Longrightarrow> urls_safe parse s'"
  by (induction rule: rtranclp_induct) (auto intro: wh_step_safe)

text \<open>
  C11. Whatever the admin endpoints, the dispatches and the retry worker do in
  any order, starting with no webhook, every request the service sends goes to
  an https URL whose host the guard on internal addresses accepts.
\<close>

theorem webhook_requests_external:
  assumes "(wh_step env parse findById)\<^sup>*\<^sup>* s s'" and "ws_hooks s = []" and "ws_sent s = []"
  shows "\<forall>r \<in> set (ws_sent s'). \<exists>h. parse (rq_url r) = Some (''https:'', h) \<and> check_host h = None"
proof -
  have "urls_safe parse s" by (simp add: urls_safe_def assms(2,3))
  then have "urls_safe parse s'" using assms(1) by (rule wh_steps_safe [rotated])
  then show ?thesis by (simp add: urls_safe_def url_ok_parts)
qed

definition demo_crypto :: crypto_env where
  "demo_crypto = \<lparr>cr_appKey = Some ''key'', cr_hash = (\<lambda>k. replicate 32 (of_nat (length k))),
     cr_seal = (\<lambda>k iv p. (map (\<lambda>c. of_nat (of_char c)) p, [])),
     cr_open = (\<lambda>k iv tag ct. Inr (map (\<lambda>b. char_of (unat b)) ct))\<rparr>"

definition demo_wh :: "string wh_env" where
  "demo_wh = \<lparr>we_crypto = demo_crypto, we_iv = (\<lambda>s. replicate 12 7), we_hmac = (\<lambda>k m. replicate 32 (of_nat (length k))),
     we_stringify = (\<lambda>p. p), we_fetch = (\<lambda>sent rq. FetchResponse 503 None), we_random = (\<lambda>sent. 1 / 2),
     we_newId = (\<lambda>s. show_nat (length (ws_hooks s) + length (ws_deliveries s))), we_dbError = (\<lambda>s. None)\<rparr>"

definition demo_parse :: url_parser where
  "demo_parse url = Some (''https:'', drop 8 url)"

definition demo_find :: "string \<Rightarrow> bool \<Rightarrow> tenant option" where
  "demo_find i b = Some \<lparr>t_id = i, t_name = ''T'', t_email = ''t@x'', t_status = active, t_customDomain = None,
     t_createdAt = 0, t_deletedAt = None, t_maintenance = False, t_maintenanceMessage = None\<rparr>"

definition demo_wh_start :: "string wh_state" where
  "demo_wh_start = \<lparr>ws_hooks = [], ws_deliveries = [], ws_sent = [], ws_now = 0\<rparr>"

definition demo_wh_created :: "string wh_state" where
  "demo_wh_created = snd (webhooks_create demo_wh demo_parse demo_find ''t1'' (Some ''https://hooks.example.com'')
     (EventsArray [Some ''tenant.created'']) None demo_wh_start)"

definition demo_wh_sent :: "string wh_state" where
  "demo_wh_sent = snd (webhook_dispatch demo_wh ''t1'' ''tenant.created'' ''{}'' demo_wh_created)"

lemma demo_wh_reach: "(wh_step demo_wh demo_parse demo_find)\<^sup>*\<^sup>* demo_wh_start demo_wh_sent"
  unfolding demo_wh_sent_def demo_wh_created_def
  by (rule rtranclp_trans [OF r_into_rtranclp [where r = "wh_step demo_wh demo_parse demo_find", OF step_create]
        r_into_rtranclp [where r = "wh_step demo_wh demo_parse demo_find", OF step_dispatch]])

lemma demo_wh_value:
  "map rq_url (ws_sent demo_wh_sent) = [''https://hooks.example.com'']"
  "map wd_status (ws_deliveries demo_wh_sent) = [DRetrying]"
  "map wd_attempt (ws_deliveries demo_wh_sent) = [2]"
  by code_simp+

theorem webhook_requests_external_witness:
  "\<exists>r. r \<in> set (ws_sent demo_wh_sent) \<and> rq_url r = ''https://hooks.example.com'' \<and>
     (\<exists>h. demo_parse (rq_url r) = Some (''https:'', h) \<and> check_host h = None)"
proof -
  obtain r where r: "r \<in> set (ws_sent demo_wh_sent)" "rq_url r = ''https://hooks.example.com''"
    using demo_wh_value(1) by (cases "ws_sent demo_wh_sent") auto
  then show ?thesis
    using webhook_requests_external [OF demo_wh_reach] by (auto simp add: demo_wh_start_def)
qed

end
