(* ===== verification/Webhook_Retries.thy ===== *)
theory Webhook_Retries
  imports Webhook
begin

text \<open>
  services/webhook_service.ts: what the retry worker does to the deliveries over time.
  A due delivery is sent once, and either ends or waits longer with one attempt
  less; after five attempts it has ended.
\<close>

section \<open>Waiting times\<close>

lemma js_round_between: "rat_of_int a \<le> x \<Longrightarrow> x \<le> rat_of_int b \<Longrightarrow> a \<le> js_round x \<and> js_round x \<le> b"
  unfolding js_round_def by linarith

lemma backoff_between:
  assumes "0 \<le> r" and "r < 1" and "1 \<le> a" and "a < MAX_ATTEMPTS"
  shows "8 \<le> backoffWithJitter r a \<and> backoffWithJitter r a \<le> 2160"
proof -
  have "a = 1 \<or> a = 2 \<or> a = 3 \<or> a = 4" using assms(3,4) unfolding MAX_ATTEMPTS_def by linarith
  define base where "base = BACKOFF_BASE_SECONDS ! (a - 1)"
  have b: "backoffWithJitter r a = js_round (base + base * (2 / 10) * (r * 2 - 1))"
    using assms(3,4) by (simp add: backoffWithJitter_def base_def Let_def MAX_ATTEMPTS_def BACKOFF_BASE_SECONDS_def)
  have bb: "10 \<le> base" "base \<le> 1800"
    using \<open>a = 1 \<or> a = 2 \<or> a = 3 \<or> a = 4\<close> by (auto simp add: base_def BACKOFF_BASE_SECONDS_def)
  define y where "y = base * (r * 2 - 1)"
  have "base * (- 1) \<le> y" "y \<le> base * 1"
    unfolding y_def using assms(1,2) bb by (intro mult_left_mono; simp)+
  moreover have "base + base * (2 / 10) * (r * 2 - 1) = base + y / 5" by (simp add: y_def)
  ultimately show ?thesis unfolding b using bb by (intro js_round_between) simp_all
qed

section \<open>One delivery\<close>

text \<open>What the worker's rows satisfy: the attempt to come is numbered up to five, and a row that waits has a date.\<close>

definition delivery_ok :: "int \<Rightarrow> 'p TenantWebhookDelivery \<Rightarrow> bool" where
  "delivery_ok now d \<longleftrightarrow> 1 \<le> wd_attempt d \<and> wd_attempt d \<le> MAX_ATTEMPTS \<and>
     (wd_status d = DRetrying \<longrightarrow> 2 \<le> wd_attempt d \<and>
        (case wd_nextRetryAt d of None \<Rightarrow> False | Some t \<Rightarrow> t \<le> now + 2160000))"

lemma delivery_ok_later: "delivery_ok now d \<Longrightarrow> 0 \<le> dt \<Longrightarrow> delivery_ok (now + dt) d"
  by (auto simp add: delivery_ok_def split: option.splits)

lemma due_when_late: "delivery_ok now d \<Longrightarrow> 2160000 \<le> dt \<Longrightarrow> is_due (now + dt) d \<longleftrightarrow> wd_status d = DRetrying"
  by (auto simp add: delivery_ok_def is_due_def split: option.splits)

lemma after_fetch_attempt:
  "wd_attempt (after_fetch r now out d) = wd_attempt d + (if wd_status (after_fetch r now out d) = DRetrying then 1 else 0)"
  by (cases out) (simp_all add: after_fetch_def Let_def)

lemma after_fetch_ok:
  assumes "delivery_ok now d" and "0 \<le> r" and "r < 1"
  shows "delivery_ok now (after_fetch r now out d)"
proof (cases "wd_attempt d < MAX_ATTEMPTS")
  case True
  then have "backoffWithJitter r (wd_attempt d) \<le> 2160"
    using backoff_between [OF assms(2,3), of "wd_attempt d"] assms(1) by (simp add: delivery_ok_def)
  then show ?thesis
    using assms(1) True by (cases out) (auto simp add: delivery_ok_def after_fetch_def Let_def)
next
  case False
  then show ?thesis using assms(1) by (cases out) (auto simp add: delivery_ok_def after_fetch_def Let_def)
qed

lemma after_fetch_keys [simp]:
  "wd_id (after_fetch r now out d) = wd_id d" "wd_webhookId (after_fetch r now out d) = wd_webhookId d"
  "wd_event (after_fetch r now out d) = wd_event d" "wd_payload (after_fetch r now out d) = wd_payload d"
  by (cases out; simp add: after_fetch_def Let_def)+

text \<open>The sends a delivery may still cause without an operator.\<close>

definition sends_left :: "'p TenantWebhookDelivery \<Rightarrow> nat" where
  "sends_left d = (if wd_status d = DRetrying then MAX_ATTEMPTS + 1 - wd_attempt d else 0)"

lemma sends_left_drops:
  "delivery_ok now d \<Longrightarrow> wd_status d = DRetrying \<Longrightarrow> sends_left (after_fetch r now' out d) < sends_left d"
  using after_fetch_attempt [of r now' out d]
  by (cases out) (auto simp add: sends_left_def delivery_ok_def after_fetch_def Let_def MAX_ATTEMPTS_def)

definition pending_sends :: "'p wh_state \<Rightarrow> nat" where
  "pending_sends s = sum_list (map sends_left (ws_deliveries s))"

section \<open>A pass of the worker\<close>

text \<open>The world answers: the database does not fail, the random numbers are in range.\<close>

definition calm :: "'p wh_env \<Rightarrow> bool" where
  "calm env \<longleftrightarrow> (\<forall>s. we_dbError env s = None) \<and> (\<forall>sent. 0 \<le> we_random env sent \<and> we_random env sent < 1)"

definition rows_ok :: "'p wh_state \<Rightarrow> bool" where
  "rows_ok s \<longleftrightarrow> distinct (map wd_id (ws_deliveries s)) \<and> (\<forall>d \<in> set (ws_deliveries s). delivery_ok (ws_now s) d)"

text \<open>The row can be sent: its webhook is there and its secret can be decrypted.\<close>

definition sendable :: "'p wh_env \<Rightarrow> TenantWebhook option \<Rightarrow> bool" where
  "sendable env hook \<longleftrightarrow> (case hook of None \<Rightarrow> False | Some h \<Rightarrow> \<not> isl (plain_secret env h))"

definition resend :: "'p wh_env \<Rightarrow> TenantWebhook option \<times> 'p TenantWebhookDelivery \<Rightarrow> ('p, unit) W" where
  "resend env = (\<lambda>(hook, d). case hook of
      None \<Rightarrow> throwM ''Cannot read properties of null''
    | Some h \<Rightarrow> bindM (send env h d) (\<lambda>_. returnM ()))"

text \<open>The rows \<open>ds\<close> are still in the table as they were read.\<close>

definition unsent :: "'p TenantWebhookDelivery list \<Rightarrow> 'p wh_state \<Rightarrow> bool" where
  "unsent ds s \<longleftrightarrow> rows_ok s \<and> distinct (map wd_id ds) \<and>
     (\<forall>d \<in> set ds. d \<in> set (ws_deliveries s) \<and> wd_status d = DRetrying)"

text \<open>
  From \<open>s\<close> to \<open>t\<close> the rows \<open>ds\<close> have been sent once each: one request per row, the other rows
  as they were, and the work to come reduced by as much.
\<close>

definition sent_once :: "'p TenantWebhookDelivery list \<Rightarrow> 'p wh_state \<Rightarrow> 'p wh_state \<Rightarrow> bool" where
  "sent_once ds s t \<longleftrightarrow>
     ws_now t = ws_now s \<and> ws_hooks t = ws_hooks s \<and>
     length (ws_sent t) = length (ws_sent s) + length ds \<and>
     pending_sends t + length ds \<le> pending_sends s \<and>
     length (ws_deliveries t) = length (ws_deliveries s) \<and>
     (\<forall>d' \<in> set (ws_deliveries t). d' \<in> set (ws_deliveries s) \<and> d' \<notin> set ds \<or>
        (\<exists>d r out. d \<in> set ds \<and> d' = after_fetch r (ws_now s) out d))"

lemma sum_list_map_upd:
  assumes "distinct (map k xs)" and "x \<in> set xs" and "f y < (f x :: nat)"
  shows "sum_list (map f (map (\<lambda>z. if k z = k x then y else z) xs)) + 1 \<le> sum_list (map f xs)"
  using assms
proof (induction xs)
  case (Cons a xs)
  show ?case
  proof (cases "a = x")
    case True
    then have "map (\<lambda>z. if k z = k x then y else z) xs = xs" using Cons.prems(1) by (intro map_idI) (auto simp add: rev_image_eqI)
    then show ?thesis using True Cons.prems(3) by simp
  next
    case False
    then have "x \<in> set xs" "k a \<noteq> k x" using Cons.prems(1,2) by (auto simp add: rev_image_eqI)
    then show ?thesis using Cons by simp
  qed
qed simp

lemma resend_run:
  assumes "calm env" and "unsent (d # ds) s" and "sendable env hook"
  shows "\<exists>t. resend env (hook, d) s = (Inr (), t) \<and> unsent ds t \<and> sent_once [d] s t"
proof -
  obtain h secret where h: "hook = Some h" "plain_secret env h = Inr secret"
    using assms(3) by (cases hook; cases "plain_secret env (the hook)") (auto simp add: sendable_def)
  have db: "\<forall>s. we_dbError env s = None" using assms(1) by (simp add: calm_def)
  define d' where "d' = after_fetch (we_random env (ws_sent s)) (ws_now s)
      (we_fetch env (ws_sent s) (request_for env h secret d)) d"
  define t where "t = s\<lparr>ws_sent := ws_sent s @ [request_for env h secret d],
      ws_deliveries := map (\<lambda>x. if wd_id x = wd_id d then d' else x) (ws_deliveries s)\<rparr>"
  have run: "resend env (hook, d) s = (Inr (), t)"
    using send_run [OF h(2) db, of d s] by (simp add: resend_def h(1) run_simps Let_def t_def d'_def)
  have ok: "rows_ok s" and d: "d \<in> set (ws_deliveries s)" "wd_status d = DRetrying" "delivery_ok (ws_now s) d"
    using assms(2) by (auto simp add: unsent_def rows_ok_def)
  have dist: "distinct (map wd_id (ws_deliveries s))" using ok by (simp add: rows_ok_def)
  have same: "x = d" if "x \<in> set (ws_deliveries s)" "wd_id x = wd_id d" for x
    using dist that d(1) by (metis distinct_map inj_onD)
  have ids: "map wd_id (ws_deliveries t) = map wd_id (ws_deliveries s)"
    by (simp add: t_def d'_def)
  have ok': "delivery_ok (ws_now s) d'"
    unfolding d'_def by (rule after_fetch_ok) (use d(3) assms(1) in \<open>simp_all add: calm_def\<close>)
  have "distinct (map wd_id (ws_deliveries t))" using dist ids by metis
  then have "rows_ok t" using ok ok' by (auto simp add: rows_ok_def t_def)
  moreover have "\<forall>x \<in> set ds. x \<in> set (ws_deliveries t) \<and> wd_status x = DRetrying"
    using assms(2) by (auto simp add: unsent_def t_def rev_image_eqI)
  ultimately have "unsent ds t" using assms(2) by (simp add: unsent_def)
  moreover have "pending_sends t + 1 \<le> pending_sends s"
    unfolding pending_sends_def t_def
    using sum_list_map_upd [OF dist d(1), of sends_left d'] sends_left_drops [OF d(3,2)] by (simp add: d'_def)
  moreover have "d'' \<in> set (ws_deliveries s) \<and> d'' \<notin> set [d] \<or> (\<exists>x r out. x \<in> set [d] \<and> d'' = after_fetch r (ws_now s) out x)"
    if "d'' \<in> set (ws_deliveries t)" for d''
    using that same by (auto simp add: t_def d'_def)
  ultimately show ?thesis using run by (auto simp add: sent_once_def t_def)
qed

lemma sent_once_Nil: "rows_ok s \<Longrightarrow> sent_once [] s s"
  by (simp add: sent_once_def)

lemma sent_once_append: "sent_once ds s t \<Longrightarrow> sent_once es t u \<Longrightarrow> sent_once (ds @ es) s u"
  unfolding sent_once_def by (simp, blast)

lemma promise_all_resend:
  assumes "calm env"
  shows "unsent (map snd xs @ rest) s \<Longrightarrow> \<forall>x \<in> set xs. sendable env (fst x) \<Longrightarrow>
    \<exists>t. promise_all xs (resend env) s = (Inr (), t) \<and> unsent rest t \<and> sent_once (map snd xs) s t"
proof (induction xs arbitrary: s)
  case Nil
  then show ?case by (simp add: run_simps sent_once_def)
next
  case (Cons x xs)
  obtain t where t: "resend env x s = (Inr (), t)" "unsent (map snd xs @ rest) t" "sent_once [snd x] s t"
    using resend_run [OF assms, of "snd x" "map snd xs @ rest" s "fst x"] Cons.prems by auto
  obtain u where u: "promise_all xs (resend env) t = (Inr (), u)" "unsent rest u" "sent_once (map snd xs) t u"
    using Cons.IH [OF t(2)] Cons.prems by auto
  then show ?case using t(1) sent_once_append [OF t(3) u(3)] by simp
qed

lemma mapConcurrent_resend:
  assumes "calm env"
  shows "unsent (map snd xs @ rest) s \<Longrightarrow> \<forall>x \<in> set xs. sendable env (fst x) \<Longrightarrow> 0 < c \<Longrightarrow>
    \<exists>t. mapConcurrent xs c (resend env) s = (Inr (), t) \<and> unsent rest t \<and> sent_once (map snd xs) s t"
proof (induction "length xs" arbitrary: xs s rule: less_induct)
  case less
  show ?case
  proof (cases xs)
    case Nil
    then show ?thesis using less.prems(1) by (simp add: run_simps sent_once_def)
  next
    case (Cons x ys)
    let ?a = "x # take (c - 1) ys" and ?b = "drop (c - 1) ys"
    have ab: "xs = ?a @ ?b" by (simp add: Cons)
    have "unsent (map snd ?a @ (map snd ?b @ rest)) s" using less.prems(1) unfolding ab [symmetric] append_assoc [symmetric] map_append [symmetric] .
    then obtain t where t: "promise_all ?a (resend env) s = (Inr (), t)" "unsent (map snd ?b @ rest) t" "sent_once (map snd ?a) s t"
      using promise_all_resend [OF assms, of ?a "map snd ?b @ rest" s] less.prems(2) ab by (metis Un_iff set_append)
    have "\<forall>x \<in> set ?b. sendable env (fst x)" using less.prems(2) Cons by (auto dest: in_set_dropD)
    then obtain u where u: "mapConcurrent ?b c (resend env) t = (Inr (), u)" "unsent rest u" "sent_once (map snd ?b) t u"
      using less.hyps [of ?b t] t(2) less.prems(3) Cons by auto
    have "sent_once (map snd xs) s u"
      using sent_once_append [OF t(3) u(3)] unfolding map_append [symmetric] ab [symmetric] .
    then show ?thesis using t(1) u(1,2) by (auto simp add: Cons run_simps)
  qed
qed

definition due_rows :: "'p wh_state \<Rightarrow> 'p TenantWebhookDelivery list" where
  "due_rows s = take 100 (filter (is_due (ws_now s)) (ws_deliveries s))"

definition all_sendable :: "'p wh_env \<Rightarrow> 'p wh_state \<Rightarrow> bool" where
  "all_sendable env s \<longleftrightarrow> (\<forall>d \<in> set (ws_deliveries s). sendable env (find_hook (wd_webhookId d) s))"

lemma processRetries_run:
  assumes "calm env" and "rows_ok s" and "all_sendable env s"
  shows "\<exists>t. processRetries env s = (Inr (), t) \<and> rows_ok t \<and> sent_once (due_rows s) s t"
proof -
  let ?xs = "map (\<lambda>d. (find_hook (wd_webhookId d) s, d)) (due_rows s)"
  have snd: "map snd ?xs = due_rows s" by (simp add: comp_def)
  have sub: "d \<in> set (ws_deliveries s) \<and> wd_status d = DRetrying" if "d \<in> set (due_rows s)" for d
    using that by (auto simp add: due_rows_def is_due_def dest: in_set_takeD)
  have "distinct (map wd_id (due_rows s))"
    using assms(2) by (simp add: due_rows_def rows_ok_def take_map [symmetric] distinct_map_filter)
  then have "unsent (map snd ?xs @ []) s" using assms(2) sub by (simp add: unsent_def comp_def)
  moreover have "\<forall>x \<in> set ?xs. sendable env (fst x)" using assms(3) sub by (auto simp add: all_sendable_def)
  moreover have "processRetries env s = mapConcurrent ?xs RETRY_CONCURRENCY (resend env) s"
    by (simp add: processRetries_def run_simps resend_def due_rows_def)
  moreover have "0 < RETRY_CONCURRENCY" by (simp add: RETRY_CONCURRENCY_def)
  ultimately show ?thesis
    using mapConcurrent_resend [OF assms(1), of ?xs "[]" s RETRY_CONCURRENCY] snd by (auto simp add: unsent_def)
qed

section \<open>The worker over time\<close>

text \<open>Rows the service creates satisfy what the worker needs, when the database's ids are fresh.\<close>

lemma deliver_rows_ok:
  fixes env :: "'p wh_env"
  assumes "calm env" and "\<forall>s. we_newId env s \<notin> wd_id ` set (ws_deliveries s)"
  shows "keeps rows_ok (deliver env h event payload)"
proof
  fix s :: "'p wh_state" assume s: "rows_ok s"
  define d where "d = \<lparr>wd_id = we_newId env s, wd_webhookId = wh_id h, wd_event = event, wd_payload = payload,
     wd_statusCode = None, wd_responseBody = None, wd_attempt = 1, wd_status = DPending, wd_nextRetryAt = None,
     wd_createdAt = ws_now s\<rparr>"
  let ?s = "s\<lparr>ws_deliveries := ws_deliveries s @ [d]\<rparr>"
  have db: "\<forall>s. we_dbError env s = None" using assms(1) by (simp add: calm_def)
  have fresh: "wd_id d \<notin> wd_id ` set (ws_deliveries s)" using assms(2) by (simp add: d_def)
  have ok: "delivery_ok (ws_now s) d" by (simp add: d_def delivery_ok_def MAX_ATTEMPTS_def)
  have s': "rows_ok ?s" using s fresh ok by (auto simp add: rows_ok_def)
  have run: "snd (deliver env h event payload s) = snd (send env h d ?s)"
    by (simp add: deliver_def run_simps db_write_def db d_def split: prod.splits sum.splits)
  show "rows_ok (snd (deliver env h event payload s))"
  proof (cases "plain_secret env h")
    case (Inl e)
    then show ?thesis using s' run by (simp add: send_throws)
  next
    case (Inr secret)
    have ok': "delivery_ok (ws_now s) (after_fetch (we_random env (ws_sent s)) (ws_now s) out d)" for out
      by (rule after_fetch_ok [OF ok]) (use assms(1) in \<open>simp_all add: calm_def\<close>)
    have keep: "map (\<lambda>x. if wd_id x = wd_id d then y else x) (ws_deliveries s) = ws_deliveries s" for y
      using fresh by (intro map_idI) (metis (mono_tags) imageI)
    show ?thesis using s' run ok' fresh by (simp add: send_run [OF Inr db] Let_def keep rows_ok_def)
  qed
qed

lemma dispatch_rows_ok:
  "calm env \<Longrightarrow> \<forall>s. we_newId env s \<notin> wd_id ` set (ws_deliveries s) \<Longrightarrow> keeps rows_ok (webhook_dispatch env t event payload)"
  unfolding webhook_dispatch_def by (intro keeps_read keeps_promise_all deliver_rows_ok)

text \<open>The scheduler: time passes by each of the numbers, and the worker runs after it.\<close>

fun worker :: "'p wh_env \<Rightarrow> int list \<Rightarrow> 'p wh_state \<Rightarrow> 'p wh_state" where
  "worker env [] s = s"
| "worker env (dt # dts) s = worker env dts (snd (processRetries env (s\<lparr>ws_now := ws_now s + dt\<rparr>)))"

definition waiting :: "'p wh_state \<Rightarrow> 'p TenantWebhookDelivery list" where
  "waiting s = filter (\<lambda>d. wd_status d = DRetrying) (ws_deliveries s)"

text \<open>At most a hundred rows wait, each with at least \<open>n\<close> as the number of the attempt to come.\<close>

definition worker_ok :: "'p wh_env \<Rightarrow> nat \<Rightarrow> 'p wh_state \<Rightarrow> bool" where
  "worker_ok env n s \<longleftrightarrow> rows_ok s \<and> all_sendable env s \<and> length (waiting s) \<le> 100 \<and>
     (\<forall>d \<in> set (waiting s). n \<le> wd_attempt d)"

lemma due_after_pause:
  assumes "worker_ok env n s" and "2160000 \<le> dt"
  shows "due_rows (s\<lparr>ws_now := ws_now s + dt\<rparr>) = waiting s"
proof -
  have "is_due (ws_now s + dt) d \<longleftrightarrow> wd_status d = DRetrying" if "d \<in> set (ws_deliveries s)" for d
    using assms that by (intro due_when_late) (simp_all add: worker_ok_def rows_ok_def)
  then have "filter (is_due (ws_now s + dt)) (ws_deliveries s) = waiting s"
    unfolding waiting_def by (rule filter_cong [OF refl])
  then show ?thesis using assms(1) by (simp add: due_rows_def worker_ok_def)
qed

lemma waiting_count:
  assumes "distinct (map wd_id (ws_deliveries s))"
  shows "length (waiting s) = card (wd_id ` set (waiting s))"
proof -
  have "distinct (map wd_id (waiting s))" using assms by (simp add: waiting_def distinct_map_filter)
  then show ?thesis by (metis distinct_card length_map set_map)
qed

lemma worker_pass:
  assumes "calm env" and "worker_ok env n s" and "2160000 \<le> dt"
  shows "\<exists>t. processRetries env (s\<lparr>ws_now := ws_now s + dt\<rparr>) = (Inr (), t) \<and> worker_ok env (Suc n) t \<and>
     sent_once (waiting s) (s\<lparr>ws_now := ws_now s + dt\<rparr>) t"
proof -
  let ?s = "s\<lparr>ws_now := ws_now s + dt\<rparr>"
  have s': "rows_ok ?s" using assms(2,3) by (simp add: worker_ok_def rows_ok_def delivery_ok_later)
  have "find_hook i ?s = find_hook i s" for i by (simp add: find_hook_def)
  then have se: "all_sendable env ?s" using assms(2) by (simp add: worker_ok_def all_sendable_def)
  obtain t where t: "processRetries env ?s = (Inr (), t)" "rows_ok t" "sent_once (waiting s) ?s t"
    using processRetries_run [OF assms(1) s' se] due_after_pause [OF assms(2,3)] by auto
  have row: "(d' \<in> set (ws_deliveries s) \<and> d' \<notin> set (waiting s)) \<or>
      (\<exists>d r out. d \<in> set (waiting s) \<and> d' = after_fetch r (ws_now ?s) out d)" if "d' \<in> set (ws_deliveries t)" for d'
    using t(3) that by (auto simp add: sent_once_def)
  have wait: "\<exists>d. d \<in> set (waiting s) \<and> wd_id d' = wd_id d \<and> wd_attempt d' = Suc (wd_attempt d)"
    if d': "d' \<in> set (waiting t)" for d'
  proof -
    have d: "d' \<in> set (ws_deliveries t)" "wd_status d' = DRetrying" using d' by (simp_all add: waiting_def)
    then obtain d r out where "d \<in> set (waiting s)" "d' = after_fetch r (ws_now ?s) out d"
      using row [OF d(1)] by (auto simp add: waiting_def)
    then show ?thesis using after_fetch_attempt [of r "ws_now ?s" out d] d(2) by auto
  qed
  have "wd_id ` set (waiting t) \<subseteq> wd_id ` set (waiting s)" using wait by fastforce
  then have "card (wd_id ` set (waiting t)) \<le> card (wd_id ` set (waiting s))" by (intro card_mono) simp_all
  then have "length (waiting t) \<le> length (waiting s)"
    using t(2) s' by (simp add: waiting_count rows_ok_def)
  moreover have "all_sendable env t"
  proof -
    have "find_hook i t = find_hook i s" for i using t(3) by (simp add: find_hook_def sent_once_def)
    moreover have "\<exists>d \<in> set (ws_deliveries s). wd_webhookId d' = wd_webhookId d" if "d' \<in> set (ws_deliveries t)" for d'
      using row [OF that] by (auto simp add: waiting_def)
    ultimately show ?thesis using assms(2) by (fastforce simp add: worker_ok_def all_sendable_def)
  qed
  moreover have "Suc n \<le> wd_attempt d'" if "d' \<in> set (waiting t)" for d'
    using wait [OF that] assms(2) by (auto simp add: worker_ok_def)
  ultimately show ?thesis using t assms(2) by (auto simp add: worker_ok_def)
qed

lemma worker_runs:
  assumes "calm env"
  shows "worker_ok env n s \<Longrightarrow> \<forall>dt \<in> set dts. 2160000 \<le> dt \<Longrightarrow>
    worker_ok env (n + length dts) (worker env dts s) \<and>
    length (ws_sent (worker env dts s)) + pending_sends (worker env dts s) \<le> length (ws_sent s) + pending_sends s"
proof (induction dts arbitrary: n s)
  case (Cons dt dts)
  obtain t where t: "processRetries env (s\<lparr>ws_now := ws_now s + dt\<rparr>) = (Inr (), t)" "worker_ok env (Suc n) t"
      "sent_once (waiting s) (s\<lparr>ws_now := ws_now s + dt\<rparr>) t"
    using worker_pass [OF assms Cons.prems(1)] Cons.prems(2) by auto
  have "pending_sends (s\<lparr>ws_now := ws_now s + dt\<rparr>) = pending_sends s" by (simp add: pending_sends_def)
  then have "length (ws_sent t) + pending_sends t \<le> length (ws_sent s) + pending_sends s"
    using t(3) by (simp add: sent_once_def)
  then show ?case using Cons.IH [OF t(2)] Cons.prems(2) t(1) by auto
qed simp

lemma pending_bound: "rows_ok s \<Longrightarrow> pending_sends s \<le> 4 * length (waiting s)"
proof -
  have "sum_list (map sends_left ds) \<le> 4 * length (filter (\<lambda>d. wd_status d = DRetrying) ds)"
    if "\<forall>d \<in> set ds. delivery_ok now d" for now and ds :: "'p TenantWebhookDelivery list"
    using that by (induction ds) (auto simp add: sends_left_def delivery_ok_def MAX_ATTEMPTS_def)
  then show "rows_ok s \<Longrightarrow> ?thesis" by (auto simp add: pending_sends_def waiting_def rows_ok_def)
qed


lemma demo_calm: "calm demo_wh"
  by (simp add: calm_def demo_wh_def)

lemma demo_rows: "rows_ok demo_wh_sent" "all_sendable demo_wh demo_wh_sent" "length (waiting demo_wh_sent) = 1"
  by code_simp+


section \<open>What stops the worker\<close>

text \<open>
  A row that throws, for instance because its webhook's secret cannot be
  decrypted any more, ends the pass after its batch: the rows of the later
  batches are not sent, and the row itself stays as it is, due again.
\<close>

lemma failing_row_stops_batches:
  "resend env x s = (Inl e, s) \<Longrightarrow>
   mapConcurrent (x # xs) c (resend env) s = (Inl e, snd (promise_all (take (c - 1) xs) (resend env) s))"
  by (simp add: run_simps split: prod.splits)

lemma undecryptable_row: "plain_secret env h = Inl e \<Longrightarrow> resend env (Some h, d) s = (Inl e, s)"
  by (simp add: resend_def run_simps send_throws)

text \<open>An update may leave a webhook without events, which the creation refuses.\<close>

lemma update_accepts_no_events: "set_events (EventsArray []) h = Inr (h\<lparr>wh_events := []\<rparr>)"
  by (simp add: set_events_def)

end
