(* ===== verification/Sso.thy ===== *)
theory Sso
  imports Impersonation Url_Guard
begin

text \<open>
  services/sso_service.ts and admin/controllers/sso_controller.ts: sign-in of a
  tenant's users through its OpenID Connect provider. Redis, the discovery cache, the
  HTTP requests, the JWT library jose, JSON text and the URL parser are parameters
  on a state \<open>'w\<close>; the configurations are rows of the model.
\<close>

section \<open>Rows, documents, claims\<close>

record TenantSsoConfig =
  sc_id :: string
  sc_tenantId :: string
  sc_provider :: string
  sc_clientId :: string
  sc_clientSecret :: string
  sc_issuerUrl :: string
  sc_redirectUri :: string
  sc_scopes :: "string list"
  sc_enabled :: bool
  sc_createdAt :: int
  sc_updatedAt :: int

record OidcDiscovery =
  od_issuer :: string
  od_authorization_endpoint :: string
  od_token_endpoint :: string
  od_userinfo_endpoint :: "string option"
  od_jwks_uri :: string

record partial_discovery =
  pd_issuer :: "string option"
  pd_authorization_endpoint :: "string option"
  pd_token_endpoint :: "string option"
  pd_userinfo_endpoint :: "string option"
  pd_jwks_uri :: "string option"

record IdTokenClaims =
  ct_iss :: string
  ct_aud :: "string list"
  ct_exp :: int
  ct_iat :: int
  ct_sub :: string
  ct_nonce :: "string option"
  ct_email :: "string option"
  ct_email_verified :: "bool option"
  ct_name :: "string option"

text \<open>
  \<open>ss_parse\<close> gives the two properties of the parsed payload, or fails;
  \<open>ss_discovery\<close> and \<open>ss_token\<close> answer \<open>None\<close> for a response that is not ok;
  \<open>ss_jwt\<close> is \<open>None\<close> when the peer dependency is not installed.
\<close>

record 'w sso_ops =
  ss_kv :: "'w kv"
  ss_random :: "'w \<Rightarrow> 8 word list \<times> 'w"
  ss_stringify :: "string \<Rightarrow> string \<Rightarrow> string"
  ss_parse :: "string \<Rightarrow> (string option \<times> string option) option"
  ss_url :: url_parser
  ss_cacheGet :: "string \<Rightarrow> ('w, string, OidcDiscovery option) M"
  ss_cacheSet :: "string \<Rightarrow> OidcDiscovery \<Rightarrow> ('w, string, unit) M"
  ss_discovery :: "string \<Rightarrow> ('w, string, partial_discovery option) M"
  ss_token :: "string \<Rightarrow> (string \<times> string) list \<Rightarrow> ('w, string, string option option) M"
  ss_jwt :: "(string \<Rightarrow> string \<Rightarrow> string \<Rightarrow> string \<Rightarrow> nat \<Rightarrow> ('w, string, IdTokenClaims) M) option"

record 'w sso_state =
  sso_rows :: "TenantSsoConfig list"
  sso_now :: int
  sso_w :: 'w

definition on_w :: "('w, string, 'a) M \<Rightarrow> ('w sso_state, string, 'a) M" where
  "on_w m = (\<lambda>s. case m (sso_w s) of (r, w) \<Rightarrow> (r, s\<lparr>sso_w := w\<rparr>))"

section \<open>The service\<close>

definition STATE_TTL_SECONDS :: nat where
  "STATE_TTL_SECONDS = 600"

definition CLOCK_SKEW_SECONDS :: nat where
  "CLOCK_SKEW_SECONDS = 60"

definition isLoopbackIssuer :: "url_parser \<Rightarrow> string \<Rightarrow> bool" where
  "isLoopbackIssuer parse issuerUrl =
     (case parse issuerUrl of
        None \<Rightarrow> False
      | Some (_, hostname) \<Rightarrow>
          let h = js_lower hostname
          in h = ''localhost'' \<or> h = ''127.0.0.1'' \<or> h = ''::1'' \<or> h = ''[::1]'')"

definition sso_getConfig :: "string \<Rightarrow> 'w sso_state \<Rightarrow> TenantSsoConfig option" where
  "sso_getConfig tenantId s = find (\<lambda>c. sc_tenantId c = tenantId \<and> sc_enabled c) (sso_rows s)"

record sso_input =
  si_clientId :: string
  si_clientSecret :: string
  si_issuerUrl :: string
  si_redirectUri :: string
  si_scopes :: "string list option"

definition upsertConfig :: "string \<Rightarrow> string \<Rightarrow> sso_input \<Rightarrow> ('w sso_state, string, TenantSsoConfig) M" where
  "upsertConfig newId tenantId d = (\<lambda>s.
     let fill = (\<lambda>c. c\<lparr>sc_provider := ''oidc'', sc_clientId := si_clientId d, sc_clientSecret := si_clientSecret d,
           sc_issuerUrl := si_issuerUrl d, sc_redirectUri := si_redirectUri d,
           sc_scopes := or_else (si_scopes d) [''openid'', ''email'', ''profile''], sc_enabled := True,
           sc_updatedAt := sso_now s\<rparr>)
     in case find (\<lambda>c. sc_tenantId c = tenantId) (sso_rows s) of
          Some c \<Rightarrow> (Inr (fill c), s\<lparr>sso_rows := map (\<lambda>x. if sc_id x = sc_id c then fill c else x) (sso_rows s)\<rparr>)
        | None \<Rightarrow>
            let c = fill \<lparr>sc_id = newId, sc_tenantId = tenantId, sc_provider = [], sc_clientId = [], sc_clientSecret = [],
                  sc_issuerUrl = [], sc_redirectUri = [], sc_scopes = [], sc_enabled = True, sc_createdAt = sso_now s,
                  sc_updatedAt = sso_now s\<rparr>
            in (Inr c, s\<lparr>sso_rows := sso_rows s @ [c]\<rparr>))"

text \<open>\<open>s.replace(/\/$/, '')\<close>\<close>

definition strip_slash :: "string \<Rightarrow> string" where
  "strip_slash s = (if ends_with ''/'' s then butlast s else s)"

definition full_discovery :: "partial_discovery \<Rightarrow> OidcDiscovery option" where
  "full_discovery doc =
     (case (truthy (pd_issuer doc), truthy (pd_authorization_endpoint doc), truthy (pd_token_endpoint doc),
            truthy (pd_jwks_uri doc)) of
        (Some i, Some a, Some t, Some j) \<Rightarrow>
          Some \<lparr>od_issuer = i, od_authorization_endpoint = a, od_token_endpoint = t,
                od_userinfo_endpoint = pd_userinfo_endpoint doc, od_jwks_uri = j\<rparr>
      | _ \<Rightarrow> None)"

definition check_discovery :: "url_parser \<Rightarrow> string \<Rightarrow> partial_discovery option \<Rightarrow> string + OidcDiscovery" where
  "check_discovery parse issuerUrl res =
     (case res of
        None \<Rightarrow> Inl (''OIDC discovery failed for '' @ issuerUrl)
      | Some doc \<Rightarrow>
          (case full_discovery doc of
             None \<Rightarrow> Inl ''OIDC discovery is missing required fields''
           | Some d \<Rightarrow>
               if strip_slash (od_issuer d) \<noteq> strip_slash issuerUrl then Inl ''OIDC discovery returned a mismatched issuer''
               else if \<not> isLoopbackIssuer parse issuerUrl \<and>
                 validateExternalHttpsUrl parse (Some (od_token_endpoint d)) \<noteq> None
               then Inl ''OIDC discovery returned an unsafe token_endpoint''
               else if \<not> isLoopbackIssuer parse issuerUrl \<and>
                 validateExternalHttpsUrl parse (Some (od_jwks_uri d)) \<noteq> None
               then Inl ''OIDC discovery returned an unsafe jwks_uri''
               else Inr d))"

text \<open>\<open>getOrSet\<close>: the cached document, or the factory's, which is then cached.\<close>

definition discover :: "'w sso_ops \<Rightarrow> string \<Rightarrow> ('w, string, OidcDiscovery) M" where
  "discover ops issuerUrl =
     (let key = ''oidc:discovery:'' @ issuerUrl
      in bindM (ss_cacheGet ops key) (\<lambda>hit. case hit of
           Some d \<Rightarrow> returnM d
         | None \<Rightarrow>
             bindM (ss_discovery ops (strip_slash issuerUrl @ ''/.well-known/openid-configuration'')) (\<lambda>res.
               case check_discovery (ss_url ops) issuerUrl res of
                 Inl e \<Rightarrow> throwM e
               | Inr d \<Rightarrow> thenM (ss_cacheSet ops key d) (returnM d))))"

text \<open>\<open>URLSearchParams\<close>: the form encoding, of the UTF-8 bytes of a unit below 256.\<close>

definition percent :: "nat \<Rightarrow> string" where
  "percent n = CHR ''%'' # map (\<lambda>c. if is_lower c then char_of (code_of c - 32) else c) (to_hex [word_of_nat n])"

definition form_char :: "char \<Rightarrow> string" where
  "form_char c =
     (if is_alnum c \<or> c \<in> set ''*-._'' then [c]
      else if c = CHR '' '' then ''+''
      else if code_of c < 128 then percent (code_of c)
      else percent (192 + code_of c div 64) @ percent (128 + code_of c mod 64))"

definition form_encode :: "(string \<times> string) list \<Rightarrow> string" where
  "form_encode ps = js_join ''&'' (map (\<lambda>(k, v). concat (map form_char k) @ ''='' @ concat (map form_char v)) ps)"

definition state_key :: "string \<Rightarrow> string" where
  "state_key state = ''sso:state:'' @ state"

definition random_hex :: "'w sso_ops \<Rightarrow> ('w, string, string) M" where
  "random_hex ops = (\<lambda>w. case ss_random ops w of (bs, w') \<Rightarrow> (Inr (to_hex bs), w'))"

definition auth_params :: "TenantSsoConfig \<Rightarrow> string \<Rightarrow> string \<Rightarrow> (string \<times> string) list" where
  "auth_params c state nonce =
     [(''response_type'', ''code''), (''client_id'', sc_clientId c), (''redirect_uri'', sc_redirectUri c),
      (''scope'', js_join '' '' (sc_scopes c)), (''state'', state), (''nonce'', nonce)]"

definition buildAuthUrl :: "'w sso_ops \<Rightarrow> TenantSsoConfig \<Rightarrow> ('w, string, string) M" where
  "buildAuthUrl ops config =
     bindM (discover ops (sc_issuerUrl config)) (\<lambda>discovery.
     bindM (random_hex ops) (\<lambda>state.
     bindM (random_hex ops) (\<lambda>nonce.
     thenM (kv_setex (ss_kv ops) (state_key state) STATE_TTL_SECONDS (ss_stringify ops (sc_tenantId config) nonce))
       (returnM (od_authorization_endpoint discovery @ ''?'' @
          form_encode (auth_params config state nonce))))))"

definition verifyIdToken ::
  "'w sso_ops \<Rightarrow> string \<Rightarrow> string \<Rightarrow> string \<Rightarrow> string \<Rightarrow> string option \<Rightarrow> ('w, string, IdTokenClaims) M"
where
  "verifyIdToken ops idToken expectedIssuer expectedAudience jwksUri expectedNonce =
     (case ss_jwt ops of
        None \<Rightarrow> throwM ''OIDC verification requires the optional peer dependency jose''
      | Some jwtVerify \<Rightarrow>
          if ss_url ops jwksUri = None then throwM ''Invalid URL''
          else bindM (jwtVerify idToken jwksUri expectedIssuer expectedAudience CLOCK_SKEW_SECONDS) (\<lambda>claims.
            if ct_nonce claims \<noteq> expectedNonce then throwM ''id_token nonce mismatch'' else returnM claims))"

text \<open>
  \<open>handleCallback\<close> in the two accesses to its state: the read, and all that
  follows, which begins with the deletion.
\<close>

definition read_state :: "'w sso_ops \<Rightarrow> string \<Rightarrow> ('w, string, string) M" where
  "read_state ops state =
     bindM (kv_get (ss_kv ops) (state_key state)) (\<lambda>raw.
       case truthy raw of None \<Rightarrow> throwM ''Invalid or expired SSO state'' | Some r \<Rightarrow> returnM r)"

definition exchange ::
  "'w sso_ops \<Rightarrow> TenantSsoConfig \<Rightarrow> string option \<Rightarrow> string \<Rightarrow> ('w, string, IdTokenClaims) M"
where
  "exchange ops config nonce code =
     bindM (discover ops (sc_issuerUrl config)) (\<lambda>discovery.
     bindM (ss_token ops (od_token_endpoint discovery)
         [(''grant_type'', ''authorization_code''), (''code'', code), (''redirect_uri'', sc_redirectUri config),
          (''client_id'', sc_clientId config), (''client_secret'', sc_clientSecret config)]) (\<lambda>res.
       case res of
         None \<Rightarrow> throwM ''Token exchange failed''
       | Some id_token \<Rightarrow>
           (case truthy id_token of
              None \<Rightarrow> throwM ''OIDC token response missing required id_token''
            | Some t \<Rightarrow> verifyIdToken ops t (od_issuer discovery) (sc_clientId config) (od_jwks_uri discovery) nonce)))"

definition consume_state ::
  "'w sso_ops \<Rightarrow> string \<Rightarrow> string \<Rightarrow> string \<Rightarrow> ('w sso_state, string, string \<times> IdTokenClaims) M"
where
  "consume_state ops state code raw =
     thenM (on_w (kv_del (ss_kv ops) (state_key state)))
       (case ss_parse ops raw of
          None \<Rightarrow> throwM ''Corrupted SSO state payload''
        | Some (None, _) \<Rightarrow> throwM ''Undefined binding''
        | Some (Some tenantId, nonce) \<Rightarrow>
            bindM (getM (sso_getConfig tenantId)) (\<lambda>config. case config of
              None \<Rightarrow> throwM ''SSO not configured for this tenant''
            | Some c \<Rightarrow> bindM (on_w (exchange ops c nonce code)) (\<lambda>claims. returnM (tenantId, claims))))"

definition handleCallback ::
  "'w sso_ops \<Rightarrow> string \<Rightarrow> string \<Rightarrow> ('w sso_state, string, string \<times> IdTokenClaims) M"
where
  "handleCallback ops state code = bindM (on_w (read_state ops state)) (consume_state ops state code)"

section \<open>The admin endpoints\<close>

datatype scopes_input = ScopesAbsent | ScopesNotArray | ScopesArray "string option list"

record sso_json =
  sj_id :: string
  sj_tenantId :: string
  sj_provider :: string
  sj_clientId :: string
  sj_issuerUrl :: string
  sj_redirectUri :: string
  sj_scopes :: "string list"
  sj_enabled :: bool
  sj_hasClientSecret :: bool
  sj_createdAt :: int
  sj_updatedAt :: int

definition serialize_sso :: "TenantSsoConfig \<Rightarrow> sso_json" where
  "serialize_sso c = \<lparr>sj_id = sc_id c, sj_tenantId = sc_tenantId c, sj_provider = sc_provider c,
     sj_clientId = sc_clientId c, sj_issuerUrl = sc_issuerUrl c, sj_redirectUri = sc_redirectUri c,
     sj_scopes = sc_scopes c, sj_enabled = sc_enabled c, sj_hasClientSecret = (sc_clientSecret c \<noteq> []),
     sj_createdAt = sc_createdAt c, sj_updatedAt = sc_updatedAt c\<rparr>"

definition isHttpsUrl :: "url_parser \<Rightarrow> string option \<Rightarrow> bool" where
  "isHttpsUrl parse v =
     (case Option.bind v parse of
        None \<Rightarrow> False | Some (protocol, _) \<Rightarrow> protocol = ''https:'' \<or> protocol = ''http:'')"

datatype sso_reply =
    SsoTenantNotFound | SsoConfigNotFound | SsoBad string | SsoBadIssuer url_error | SsoOk "sso_json option"

definition sso_show :: "(string \<Rightarrow> bool \<Rightarrow> tenant option) \<Rightarrow> string \<Rightarrow> 'w sso_state \<Rightarrow> sso_reply" where
  "sso_show findById i s =
     (case loadTenantOr404 findById i of
        NotFound404 \<Rightarrow> SsoTenantNotFound
      | Found t \<Rightarrow> SsoOk (map_option serialize_sso (sso_getConfig (t_id t) s)))"

definition sso_update ::
  "url_parser \<Rightarrow> string \<Rightarrow> (string \<Rightarrow> bool \<Rightarrow> tenant option) \<Rightarrow> string \<Rightarrow> string option \<Rightarrow> string option \<Rightarrow>
   string option \<Rightarrow> string option \<Rightarrow> scopes_input \<Rightarrow> ('w sso_state, string, sso_reply) M"
where
  "sso_update parse newId findById i clientId clientSecret issuerUrl redirectUri scopes =
     (case loadTenantOr404 findById i of
        NotFound404 \<Rightarrow> returnM SsoTenantNotFound
      | Found t \<Rightarrow>
          if \<not> isNonEmptyString clientId then returnM (SsoBad ''clientId_required'')
          else if \<not> isNonEmptyString clientSecret then returnM (SsoBad ''clientSecret_required'')
          else (case validateExternalHttpsUrl parse issuerUrl of
            Some e \<Rightarrow> returnM (SsoBadIssuer e)
          | None \<Rightarrow>
              if \<not> isHttpsUrl parse redirectUri then returnM (SsoBad ''redirectUri_invalid'')
              else if (case scopes of ScopesAbsent \<Rightarrow> False | ScopesNotArray \<Rightarrow> True
                        | ScopesArray xs \<Rightarrow> \<not> list_all isNonEmptyString xs)
              then returnM (SsoBad ''scopes_must_be_string_array'')
              else bindM (upsertConfig newId (t_id t)
                     \<lparr>si_clientId = the clientId, si_clientSecret = the clientSecret, si_issuerUrl = the issuerUrl,
                      si_redirectUri = the redirectUri,
                      si_scopes = (case scopes of ScopesArray xs \<Rightarrow> Some (map the xs) | _ \<Rightarrow> None)\<rparr>)
                   (\<lambda>c. returnM (SsoOk (Some (serialize_sso c))))))"

definition sso_disable ::
  "(string \<Rightarrow> bool \<Rightarrow> tenant option) \<Rightarrow> string \<Rightarrow> ('w sso_state, string, sso_reply) M"
where
  "sso_disable findById i =
     (case loadTenantOr404 findById i of
        NotFound404 \<Rightarrow> returnM SsoTenantNotFound
      | Found t \<Rightarrow> (\<lambda>s. case find (\<lambda>c. sc_tenantId c = t_id t) (sso_rows s) of
            None \<Rightarrow> (Inr SsoConfigNotFound, s)
          | Some c \<Rightarrow>
              let c' = c\<lparr>sc_enabled := False, sc_updatedAt := sso_now s\<rparr>
              in (Inr (SsoOk (Some (serialize_sso c'))),
                  s\<lparr>sso_rows := map (\<lambda>x. if sc_id x = sc_id c then c' else x) (sso_rows s)\<rparr>)))"

section \<open>What the service relies on\<close>

text \<open>
  Redis and the cache are keyed stores apart from each other; requests, the JWT
  library and the random source change neither; the JSON text of the payload is
  not empty and parses to its properties.
\<close>

definition sso_reads :: "'w sso_ops \<Rightarrow> 'w \<Rightarrow> (string \<Rightarrow> string + OidcDiscovery option) \<times> (string \<Rightarrow> string + string option)" where
  "sso_reads ops w = (\<lambda>i. fst (ss_cacheGet ops i w), \<lambda>k. fst (kv_get (ss_kv ops) k w))"

definition sso_laws :: "'w sso_ops \<Rightarrow> bool" where
  "sso_laws ops \<longleftrightarrow>
     kv_laws (ss_kv ops) \<and>
     (\<forall>w. sso_reads ops (snd (ss_random ops w)) = sso_reads ops w) \<and>
     (\<forall>i w. sso_reads ops (snd (ss_cacheGet ops i w)) = sso_reads ops w) \<and>
     (\<forall>u w. sso_reads ops (snd (ss_discovery ops u w)) = sso_reads ops w) \<and>
     (\<forall>u b w. sso_reads ops (snd (ss_token ops u b w)) = sso_reads ops w) \<and>
     (\<forall>f t j i a n w. ss_jwt ops = Some f \<longrightarrow> sso_reads ops (snd (f t j i a n w)) = sso_reads ops w) \<and>
     (\<forall>k w. sso_reads ops (snd (kv_get (ss_kv ops) k w)) = sso_reads ops w) \<and>
     (\<forall>k t v w. fst (sso_reads ops (snd (kv_setex (ss_kv ops) k t v w))) = fst (sso_reads ops w)) \<and>
     (\<forall>k w. fst (sso_reads ops (snd (kv_del (ss_kv ops) k w))) = fst (sso_reads ops w)) \<and>
     (\<forall>i d w r w'. ss_cacheSet ops i d w = (r, w') \<longrightarrow>
        sso_reads ops w' = ((if r = Inr () then (fst (sso_reads ops w))(i := Inr (Some d)) else fst (sso_reads ops w)),
                            snd (sso_reads ops w))) \<and>
     (\<forall>a b. ss_stringify ops a b \<noteq> [] \<and> ss_parse ops (ss_stringify ops a b) = Some (Some a, Some b))"

lemma same_reads:
  assumes "sso_laws ops"
  shows "sso_reads ops (snd (ss_random ops w)) = sso_reads ops w"
    and "sso_reads ops (snd (ss_cacheGet ops i w)) = sso_reads ops w"
    and "sso_reads ops (snd (ss_discovery ops u w)) = sso_reads ops w"
    and "sso_reads ops (snd (ss_token ops u b w)) = sso_reads ops w"
    and "ss_jwt ops = Some f \<Longrightarrow> sso_reads ops (snd (f t j u a n w)) = sso_reads ops w"
    and "sso_reads ops (snd (kv_get (ss_kv ops) k w)) = sso_reads ops w"
    and "fst (sso_reads ops (snd (kv_setex (ss_kv ops) k ttl v w))) = fst (sso_reads ops w)"
    and "fst (sso_reads ops (snd (kv_del (ss_kv ops) k w))) = fst (sso_reads ops w)"
  using assms by (simp_all add: sso_laws_def)

text \<open>A document that passed the checks for an issuer, and a cache that holds only such.\<close>

definition trusted :: "url_parser \<Rightarrow> string \<Rightarrow> OidcDiscovery \<Rightarrow> bool" where
  "trusted parse issuerUrl d \<longleftrightarrow> strip_slash (od_issuer d) = strip_slash issuerUrl \<and>
     (isLoopbackIssuer parse issuerUrl \<or> url_ok parse (od_token_endpoint d) \<and> url_ok parse (od_jwks_uri d))"

definition docs_trusted :: "'w sso_ops \<Rightarrow> 'w \<Rightarrow> bool" where
  "docs_trusted ops w \<longleftrightarrow>
     (\<forall>i d. fst (sso_reads ops w) (''oidc:discovery:'' @ i) = Inr (Some d) \<longrightarrow> trusted (ss_url ops) i d)"

lemma check_discovery_trusted: "check_discovery parse i res = Inr d \<Longrightarrow> trusted parse i d"
  by (auto simp add: check_discovery_def trusted_def url_ok_def split: option.splits if_splits)

lemma discover_run:
  assumes "sso_laws ops" and "docs_trusted ops w" and "discover ops i w = (r, w')"
  shows "docs_trusted ops w' \<and> snd (sso_reads ops w') = snd (sso_reads ops w) \<and>
     (\<forall>d. r = Inr d \<longrightarrow> trusted (ss_url ops) i d)"
proof -
  let ?k = "''oidc:discovery:'' @ i" and ?u = "strip_slash i @ ''/.well-known/openid-configuration''"
  obtain hit w1 where get: "ss_cacheGet ops ?k w = (hit, w1)" by fastforce
  have r1: "sso_reads ops w1 = sso_reads ops w" using same_reads(2) [OF assms(1)] get by (metis snd_conv)
  have t1: "docs_trusted ops w1" using assms(2) r1 by (simp add: docs_trusted_def)
  have hit: "hit = fst (sso_reads ops w) ?k" using get by (simp add: sso_reads_def)
  show ?thesis
  proof (cases "\<exists>d. hit = Inr (Some d) \<or> (\<exists>e. hit = Inl e)")
    case True
    then show ?thesis
      using assms(2,3) get t1 r1 hit by (auto simp add: discover_def Let_def run_simps docs_trusted_def)
  next
    case False
    then have none: "hit = Inr None" by (cases hit; cases "projr hit") auto
    obtain res w2 where disc: "ss_discovery ops ?u w1 = (res, w2)" by fastforce
    have r2: "sso_reads ops w2 = sso_reads ops w" using same_reads(3) [OF assms(1)] disc r1 by (metis snd_conv)
    have t2: "docs_trusted ops w2" using assms(2) r2 by (simp add: docs_trusted_def)
    show ?thesis
    proof (cases "\<exists>p d. res = Inr p \<and> check_discovery (ss_url ops) i p = Inr d")
      case False
      then show ?thesis
        using assms(3) get none disc t2 r2
        by (cases res; cases "check_discovery (ss_url ops) i (projr res)") (auto simp add: discover_def Let_def run_simps)
    next
      case True
      then obtain p d where pd: "res = Inr p" "check_discovery (ss_url ops) i p = Inr d" by blast
      obtain c w3 where set: "ss_cacheSet ops ?k d w2 = (c, w3)" by fastforce
      have r3: "sso_reads ops w3 = ((if c = Inr () then (fst (sso_reads ops w2))(?k := Inr (Some d)) else fst (sso_reads ops w2)),
          snd (sso_reads ops w2))"
        using assms(1) set unfolding sso_laws_def by blast
      have tr: "trusted (ss_url ops) i d" using pd(2) by (rule check_discovery_trusted)
      have "docs_trusted ops w3" using t2 tr r3 by (auto simp add: docs_trusted_def)
      then show ?thesis
        using assms(3) get none disc pd set r2 r3 tr
        by (cases c) (auto simp add: discover_def Let_def run_simps)
    qed
  qed
qed

definition quiet :: "'w sso_ops \<Rightarrow> (string \<Rightarrow> string + string option) \<Rightarrow> 'w \<Rightarrow> bool" where
  "quiet ops kv w \<longleftrightarrow> docs_trusted ops w \<and> snd (sso_reads ops w) = kv"

lemma keeps_same_reads: "(\<And>w. sso_reads ops (snd (m w)) = sso_reads ops w) \<Longrightarrow> keeps (quiet ops kv) m"
  by (simp add: keeps_def quiet_def docs_trusted_def)

lemma keeps_discover: "sso_laws ops \<Longrightarrow> keeps (quiet ops kv) (discover ops i)"
proof
  fix w assume a: "sso_laws ops" "quiet ops kv w"
  obtain r w' where d: "discover ops i w = (r, w')" by fastforce
  show "quiet ops kv (snd (discover ops i w))" using discover_run [OF a(1) _ d] a(2) d by (simp add: quiet_def)
qed

lemma keeps_verifyIdToken:
  assumes "sso_laws ops"
  shows "keeps (quiet ops kv) (verifyIdToken ops t i a j n)"
proof -
  have "keeps (quiet ops kv) (f t j i a CLOCK_SKEW_SECONDS)" if "ss_jwt ops = Some f" for f
    by (intro keeps_same_reads same_reads(5) [OF assms that])
  then show ?thesis
    unfolding verifyIdToken_def by (cases "ss_jwt ops") (auto intro!: keeps_intros)
qed

lemma keeps_exchange:
  assumes "sso_laws ops"
  shows "keeps (quiet ops kv) (exchange ops c nonce code)"
proof -
  have "keeps (quiet ops kv) (ss_token ops u b)" for u b
    by (intro keeps_same_reads same_reads(4) [OF assms])
  then show ?thesis
    unfolding exchange_def by (intro keeps_intros keeps_discover keeps_verifyIdToken assms)
qed

lemma verifyIdToken_Inr:
  "verifyIdToken ops t i a j n w = (Inr claims, w') \<Longrightarrow>
   \<exists>jwt. ss_jwt ops = Some jwt \<and> jwt t j i a CLOCK_SKEW_SECONDS w = (Inr claims, w') \<and> ct_nonce claims = n"
  by (auto simp add: verifyIdToken_def bindM_Inr run_basic split: option.splits if_splits)

text \<open>What a successful exchange has established about the claims.\<close>

definition claims_of ::
  "'w sso_ops \<Rightarrow> TenantSsoConfig \<Rightarrow> string option \<Rightarrow> IdTokenClaims \<Rightarrow> bool"
where
  "claims_of ops c nonce claims \<longleftrightarrow> ct_nonce claims = nonce \<and>
     (\<exists>d jwt t w w'. trusted (ss_url ops) (sc_issuerUrl c) d \<and> ss_jwt ops = Some jwt \<and>
        jwt t (od_jwks_uri d) (od_issuer d) (sc_clientId c) CLOCK_SKEW_SECONDS w = (Inr claims, w'))"

lemma exchange_Inr:
  assumes "sso_laws ops" and "docs_trusted ops w" and "exchange ops c nonce code w = (Inr claims, w')"
  shows "claims_of ops c nonce claims"
proof -
  obtain d w1 idt w2 where d: "discover ops (sc_issuerUrl c) w = (Inr d, w1)"
    and v: "verifyIdToken ops idt (od_issuer d) (sc_clientId c) (od_jwks_uri d) nonce w2 = (Inr claims, w')"
    using assms(3) unfolding exchange_def by (auto simp add: run_basic elim!: bindM_InrE split: option.split_asm)
  have "trusted (ss_url ops) (sc_issuerUrl c) d" using discover_run [OF assms(1,2) d] by simp
  then show ?thesis using verifyIdToken_Inr [OF v] unfolding claims_of_def by blast
qed

lemma getConfig_Some: "sso_getConfig i s = Some c \<Longrightarrow> c \<in> set (sso_rows s) \<and> sc_tenantId c = i \<and> sc_enabled c"
  unfolding sso_getConfig_def by (auto simp add: find_Some_iff)

lemma on_w_run: "on_w m s = (fst (m (sso_w s)), s\<lparr>sso_w := snd (m (sso_w s))\<rparr>)"
  by (simp add: on_w_def split: prod.splits)

text \<open>The steps of a callback that succeeds.\<close>

lemma handleCallback_Inr:
  assumes "handleCallback ops state code s = (Inr (tenantId, claims), s')"
  shows "\<exists>raw w1 w2 w3 nonce c. kv_get (ss_kv ops) (state_key state) (sso_w s) = (Inr (Some raw), w1) \<and>
     kv_del (ss_kv ops) (state_key state) w1 = (Inr (), w2) \<and> ss_parse ops raw = Some (Some tenantId, nonce) \<and>
     sso_getConfig tenantId s = Some c \<and> exchange ops c nonce code w2 = (Inr claims, w3) \<and> s' = s\<lparr>sso_w := w3\<rparr>"
proof -
  obtain raw w1 where rd: "read_state ops state (sso_w s) = (Inr raw, w1)"
    and co: "consume_state ops state code raw (s\<lparr>sso_w := w1\<rparr>) = (Inr (tenantId, claims), s')"
    using assms unfolding handleCallback_def by (elim bindM_InrE) (auto simp add: on_w_run prod_eq_iff)
  have raw: "kv_get (ss_kv ops) (state_key state) (sso_w s) = (Inr (Some raw), w1)"
    using rd by (auto simp add: read_state_def bindM_Inr truthy_def run_basic split: option.splits if_splits)
  have cfg: "sso_getConfig i (s\<lparr>sso_w := w\<rparr>) = sso_getConfig i s" for i w by (simp add: sso_getConfig_def)
  obtain w2 nonce c w3 where "kv_del (ss_kv ops) (state_key state) w1 = (Inr (), w2)"
    "ss_parse ops raw = Some (Some tenantId, nonce)" "sso_getConfig tenantId s = Some c"
    "exchange ops c nonce code w2 = (Inr claims, w3)" "s' = s\<lparr>sso_w := w3\<rparr>"
    using co unfolding consume_state_def
    by (auto simp add: run_basic on_w_run cfg elim!: bindM_InrE thenM_InrE split: option.split_asm) (metis prod.collapse)
  then show ?thesis using raw by blast
qed

lemma exchange_nonce: "exchange ops c nonce code w = (Inr claims, w') \<Longrightarrow> ct_nonce claims = nonce"
  unfolding exchange_def by (auto simp add: run_basic dest: verifyIdToken_Inr elim!: bindM_InrE split: option.split_asm)

text \<open>After a successful deletion and an exchange the state is gone.\<close>

lemma state_gone:
  assumes "sso_laws ops" and "docs_trusted ops w1" and "kv_del (ss_kv ops) (state_key state) w1 = (Inr (), w2)"
  shows "docs_trusted ops w2 \<and>
     (\<forall>c nonce code r w3. exchange ops c nonce code w2 = (r, w3) \<longrightarrow> fst (kv_get (ss_kv ops) (state_key state) w3) = Inr None)"
proof -
  have "fst (sso_reads ops w2) = fst (sso_reads ops w1)" using same_reads(8) [OF assms(1)] assms(3) by (metis snd_conv)
  then have t2: "docs_trusted ops w2" using assms(2) by (simp add: docs_trusted_def)
  have gone: "snd (sso_reads ops w2) (state_key state) = Inr None"
    using assms(1,3) unfolding sso_laws_def kv_laws_def by (simp add: sso_reads_def)
  have "fst (kv_get (ss_kv ops) (state_key state) w3) = Inr None" if "exchange ops c nonce code w2 = (r, w3)" for c nonce code r w3
  proof -
    have "quiet ops (snd (sso_reads ops w2)) w3"
      using keeps_run [OF keeps_exchange [OF assms(1)] _ that] t2 by (simp add: quiet_def)
    then show ?thesis using gone by (simp add: quiet_def sso_reads_def fun_eq_iff)
  qed
  then show ?thesis using t2 by blast
qed

section \<open>Configurations the endpoints store\<close>

definition issuers_ok :: "url_parser \<Rightarrow> 'w sso_state \<Rightarrow> bool" where
  "issuers_ok parse s \<longleftrightarrow> (\<forall>c \<in> set (sso_rows s). url_ok parse (sc_issuerUrl c))"

lemma keeps_issuers:
  "keeps (issuers_ok parse) (sso_update parse newId findById i clientId clientSecret issuerUrl redirectUri scopes)"
  "keeps (issuers_ok parse) (sso_disable findById i)"
proof -
  have up: "keeps (issuers_ok parse) (upsertConfig newId t d)" if "url_ok parse (si_issuerUrl d)" for t d
    using that by (auto simp add: keeps_def issuers_ok_def upsertConfig_def Let_def split: option.splits)
  show "keeps (issuers_ok parse) (sso_update parse newId findById i clientId clientSecret issuerUrl redirectUri scopes)"
    unfolding sso_update_def
    by (auto intro!: keeps_intros up dest: checked_url split: reply.splits option.splits scopes_input.splits)
  show "keeps (issuers_ok parse) (sso_disable findById i)"
    by (auto simp add: keeps_def issuers_ok_def sso_disable_def Let_def run_basic find_Some_iff
        split: reply.splits option.splits)
qed

text \<open>An issuer the guard accepts is not one of the loopback names that lift the checks.\<close>

lemma checked_issuer_not_loopback: "url_ok parse i \<Longrightarrow> \<not> isLoopbackIssuer parse i"
proof -
  have l: "check_host h \<noteq> None"
    if "js_lower h = ''localhost'' \<or> js_lower h = ''127.0.0.1'' \<or> js_lower h = ''::1'' \<or> js_lower h = ''[::1]''" for h
  proof -
    have "js_lower (js_lower h) = js_lower h" by (simp add: js_lower_def to_lower_def char_class_defs)
    then have "check_host h = check_host (js_lower h)" by (simp add: check_host_def)
    moreover have "check_host ''localhost'' \<noteq> None" "check_host ''127.0.0.1'' \<noteq> None" "check_host ''::1'' \<noteq> None"
        "check_host ''[::1]'' \<noteq> None"
      by code_simp+
    ultimately show ?thesis using that by metis
  qed
  assume "url_ok parse i"
  then obtain h where h: "parse i = Some (''https:'', h)" "check_host h = None" by (auto simp add: url_ok_parts)
  then show "\<not> isLoopbackIssuer parse i" using l [of h] by (simp only: isLoopbackIssuer_def Let_def) auto
qed

text \<open>The same world, except that requests to addresses the guard refuses have other answers.\<close>

definition only_checked ::
  "'w sso_ops \<Rightarrow> (string \<Rightarrow> (string \<times> string) list \<Rightarrow> ('w, string, string option option) M) \<Rightarrow>
   (string \<Rightarrow> string \<Rightarrow> string \<Rightarrow> string \<Rightarrow> nat \<Rightarrow> ('w, string, IdTokenClaims) M) \<Rightarrow> 'w sso_ops"
where
  "only_checked ops token jwt = ops\<lparr>
     ss_token := (\<lambda>u b. if url_ok (ss_url ops) u then ss_token ops u b else token u b),
     ss_jwt := map_option (\<lambda>f t j. if url_ok (ss_url ops) j then f t j else jwt t j) (ss_jwt ops)\<rparr>"

lemma only_checked_fields [simp]:
  "ss_kv (only_checked ops token jwt) = ss_kv ops" "ss_parse (only_checked ops token jwt) = ss_parse ops"
  "ss_url (only_checked ops token jwt) = ss_url ops" "discover (only_checked ops token jwt) i = discover ops i"
  "read_state (only_checked ops token jwt) state = read_state ops state"
  by (simp_all add: only_checked_def discover_def read_state_def Let_def cong: option.case_cong sum.case_cong)

lemma exchange_only_checked:
  assumes "sso_laws ops" and "docs_trusted ops w" and "url_ok (ss_url ops) (sc_issuerUrl c)"
  shows "exchange (only_checked ops token jwt) c nonce code w = exchange ops c nonce code w"
proof -
  obtain r w1 where d: "discover ops (sc_issuerUrl c) w = (r, w1)" by fastforce
  show ?thesis
  proof (cases r)
    case (Inr d')
    then have "url_ok (ss_url ops) (od_token_endpoint d') \<and> url_ok (ss_url ops) (od_jwks_uri d')"
      using discover_run [OF assms(1,2) d] checked_issuer_not_loopback [OF assms(3)] by (auto simp add: trusted_def)
    then have "ss_token (only_checked ops token jwt) (od_token_endpoint d') = ss_token ops (od_token_endpoint d')"
      "verifyIdToken (only_checked ops token jwt) t i a (od_jwks_uri d') n = verifyIdToken ops t i a (od_jwks_uri d') n" for t i a n
      by (auto simp add: only_checked_def verifyIdToken_def split: option.splits)
    then show ?thesis
      using d Inr by (simp add: exchange_def run_simps cong: prod.case_cong sum.case_cong option.case_cong)
  qed (use d in \<open>simp add: exchange_def run_simps\<close>)
qed

section \<open>Properties\<close>

text \<open>
  C20. Who signs in: a callback that succeeds presented a state stored for that
  tenant, whose enabled configuration names the issuer; the discovery document
  declares that issuer, the JWT library accepted the token under the document's
  keys for that issuer and the tenant's client id, and the token carries the nonce
  stored with the state. The same state is refused from then on.
\<close>

theorem sso_callback_sound:
  assumes "sso_laws ops" and "docs_trusted ops (sso_w s)"
    and "handleCallback ops state code s = (Inr (tenantId, claims), s')"
  shows "(\<exists>raw nonce c. fst (kv_get (ss_kv ops) (state_key state) (sso_w s)) = Inr (Some raw) \<and>
       ss_parse ops raw = Some (Some tenantId, nonce) \<and>
       c \<in> set (sso_rows s) \<and> sc_tenantId c = tenantId \<and> sc_enabled c \<and> claims_of ops c nonce claims) \<and>
     fst (handleCallback ops state code' s') = Inl ''Invalid or expired SSO state''"
proof -
  obtain raw w1 w2 w3 nonce c where raw: "kv_get (ss_kv ops) (state_key state) (sso_w s) = (Inr (Some raw), w1)"
    and del: "kv_del (ss_kv ops) (state_key state) w1 = (Inr (), w2)"
    and pa: "ss_parse ops raw = Some (Some tenantId, nonce)" and c: "sso_getConfig tenantId s = Some c"
    and ex: "exchange ops c nonce code w2 = (Inr claims, w3)" and s': "s' = s\<lparr>sso_w := w3\<rparr>"
    using handleCallback_Inr [OF assms(3)] by blast
  have "sso_reads ops w1 = sso_reads ops (sso_w s)" using same_reads(6) [OF assms(1)] raw by (metis snd_conv)
  then have t1: "docs_trusted ops w1" using assms(2) by (simp add: docs_trusted_def)
  note gone = state_gone [OF assms(1) t1 del]
  then have "fst (kv_get (ss_kv ops) (state_key state) w3) = Inr None" using ex by blast
  then have "fst (handleCallback ops state code' s') = Inl ''Invalid or expired SSO state''"
    by (cases "kv_get (ss_kv ops) (state_key state) w3")
       (simp add: handleCallback_def read_state_def run_simps on_w_run s' truthy_def)
  moreover have "claims_of ops c nonce claims" using exchange_Inr [OF assms(1) _ ex] gone by blast
  ultimately show ?thesis using raw pa getConfig_Some [OF c] by auto
qed

text \<open>
  C21. A sign-in ends where it began: the address built for a configuration carries a
  fresh state under which the configuration's tenant and nonce are stored, and
  whoever comes back with that state and succeeds is signed in to that tenant with
  a token that carries that nonce.
\<close>

theorem sso_login_roundtrip:
  assumes "sso_laws ops" and "buildAuthUrl ops c (sso_w s) = (Inr url, w')"
  shows "\<exists>endpoint state nonce. url = endpoint @ ''?'' @ form_encode (auth_params c state nonce) \<and>
     fst (read_state ops state w') = Inr (ss_stringify ops (sc_tenantId c) nonce) \<and>
     (\<forall>code t claims s2. handleCallback ops state code (s\<lparr>sso_w := w'\<rparr>) = (Inr (t, claims), s2) \<longrightarrow>
        t = sc_tenantId c \<and> ct_nonce claims = Some nonce)"
proof -
  obtain endpoint state nonce w1 where url: "url = endpoint @ ''?'' @ form_encode (auth_params c state nonce)"
    and set: "kv_setex (ss_kv ops) (state_key state) STATE_TTL_SECONDS (ss_stringify ops (sc_tenantId c) nonce) w1 = (Inr (), w')"
    using assms(2) unfolding buildAuthUrl_def
    by (auto simp add: run_basic elim!: bindM_InrE thenM_InrE)
  let ?raw = "ss_stringify ops (sc_tenantId c) nonce"
  have js: "?raw \<noteq> []" "ss_parse ops ?raw = Some (Some (sc_tenantId c), Some nonce)"
    using assms(1) by (simp_all add: sso_laws_def)
  have "fst (kv_get (ss_kv ops) (state_key state) w') = Inr (Some ?raw)"
    using assms(1) set unfolding sso_laws_def kv_laws_def by simp
  then obtain w2 where get: "kv_get (ss_kv ops) (state_key state) w' = (Inr (Some ?raw), w2)" by (metis prod.collapse)
  then have "fst (read_state ops state w') = Inr ?raw" using js(1) by (simp add: read_state_def run_simps truthy_def)
  moreover have "t = sc_tenantId c \<and> ct_nonce claims = Some nonce"
    if "handleCallback ops state code (s\<lparr>sso_w := w'\<rparr>) = (Inr (t, claims), s2)" for code t claims s2
    using handleCallback_Inr [OF that] get js(2) by (auto dest: exchange_nonce)
  ultimately show ?thesis using url by blast
qed

text \<open>
  No callback makes the server fetch an internal address: with issuers that
  passed the check of the admin endpoint, a callback never depends on what the
  token or key addresses answer that the guard refuses, whatever a provider's
  discovery document names.
\<close>

theorem sso_fetches_checked_endpoints:
  assumes "sso_laws ops" and "docs_trusted ops (sso_w s)" and "issuers_ok (ss_url ops) s"
  shows "handleCallback (only_checked ops token jwt) state code s = handleCallback ops state code s"
proof -
  obtain r w1 where rd: "read_state ops state (sso_w s) = (r, w1)" by fastforce
  have "sso_reads ops w1 = sso_reads ops (sso_w s)"
    using same_reads(6) [OF assms(1)] rd
    by (auto simp add: read_state_def run_simps split: prod.splits sum.splits option.splits) (metis snd_conv)+
  then have t1: "docs_trusted ops w1" using assms(2) by (simp add: docs_trusted_def)
  obtain q w2 where del: "kv_del (ss_kv ops) (state_key state) w1 = (q, w2)" by fastforce
  have "fst (sso_reads ops w2) = fst (sso_reads ops w1)" using same_reads(8) [OF assms(1)] del by (metis snd_conv)
  then have t2: "docs_trusted ops w2" using t1 by (simp add: docs_trusted_def)
  have ex: "exchange (only_checked ops token jwt) c nonce code w2 = exchange ops c nonce code w2"
    if "sso_getConfig i (s\<lparr>sso_w := w2\<rparr>) = Some c" for i c nonce
    using exchange_only_checked [OF assms(1) t2] getConfig_Some [OF that] assms(3) by (simp add: issuers_ok_def)
  have "consume_state (only_checked ops token jwt) state code raw (s\<lparr>sso_w := w1\<rparr>) =
      consume_state ops state code raw (s\<lparr>sso_w := w1\<rparr>)" for raw
    using ex del
    by (auto simp add: consume_state_def run_simps on_w_run split: sum.splits option.splits)
  then show ?thesis using rd by (auto simp add: handleCallback_def run_simps on_w_run split: sum.splits)
qed

section \<open>A world in which the laws hold\<close>

type_synonym sso_world = "(string \<rightharpoonup> string) \<times> (string \<rightharpoonup> OidcDiscovery)"

fun demo_payload :: "string \<Rightarrow> string \<Rightarrow> string" where
  "demo_payload [] nonce = CHR ''n'' # nonce"
| "demo_payload (c # tenant) nonce = CHR ''c'' # c # demo_payload tenant nonce"

fun demo_unpayload :: "string \<Rightarrow> (string option \<times> string option) option" where
  "demo_unpayload (k # s) =
     (if k = CHR ''n'' then Some (Some [], Some s)
      else (case s of
              [] \<Rightarrow> None
            | c # r \<Rightarrow> (case demo_unpayload r of Some (Some t, n) \<Rightarrow> Some (Some (c # t), n) | _ \<Rightarrow> None)))"
| "demo_unpayload [] = None"

lemma demo_payload_parses: "demo_unpayload (demo_payload a b) = Some (Some a, Some b) \<and> demo_payload a b \<noteq> []"
  by (induction a) simp_all

definition demo_url :: url_parser where
  "demo_url u = (if starts_with ''https://'' u then Some (''https:'', takeWhile (\<lambda>c. c \<noteq> CHR ''/'') (drop 8 u)) else None)"

definition demo_doc :: partial_discovery where
  "demo_doc = \<lparr>pd_issuer = Some ''https://idp.example.com'', pd_authorization_endpoint = Some ''https://idp.example.com/auth'',
     pd_token_endpoint = Some ''https://idp.example.com/token'', pd_userinfo_endpoint = None,
     pd_jwks_uri = Some ''https://idp.example.com/keys''\<rparr>"

definition demo_claims :: IdTokenClaims where
  "demo_claims = \<lparr>ct_iss = ''https://idp.example.com'', ct_aud = [''app''], ct_exp = 10, ct_iat = 0, ct_sub = ''u1'',
     ct_nonce = Some ''n1'', ct_email = None, ct_email_verified = None, ct_name = None\<rparr>"

definition demo_sso :: "sso_world sso_ops" where
  "demo_sso = \<lparr>
     ss_kv = \<lparr>kv_get = (\<lambda>k w. (Inr (fst w k), w)), kv_setex = (\<lambda>k t v w. (Inr (), ((fst w)(k \<mapsto> v), snd w))),
              kv_del = (\<lambda>k w. (Inr (), ((fst w)(k := None), snd w)))\<rparr>,
     ss_random = (\<lambda>w. ([7, 7], w)),
     ss_stringify = demo_payload, ss_parse = demo_unpayload, ss_url = demo_url,
     ss_cacheGet = (\<lambda>i w. (Inr (snd w i), w)),
     ss_cacheSet = (\<lambda>i d w. (Inr (), (fst w, (snd w)(i \<mapsto> d)))),
     ss_discovery = (\<lambda>u w. (Inr (Some demo_doc), w)),
     ss_token = (\<lambda>u b w. (Inr (Some (Some ''jwt'')), w)),
     ss_jwt = Some (\<lambda>t j i a n w. (Inr demo_claims, w))\<rparr>"

lemma demo_sso_laws: "sso_laws demo_sso"
  by (auto simp add: sso_laws_def kv_laws_def sso_reads_def demo_sso_def demo_payload_parses)

definition demo_sso_cfg :: TenantSsoConfig where
  "demo_sso_cfg = \<lparr>sc_id = ''1'', sc_tenantId = ''t1'', sc_provider = ''oidc'', sc_clientId = ''app'', sc_clientSecret = ''x'',
     sc_issuerUrl = ''https://idp.example.com/'', sc_redirectUri = ''https://app/cb'', sc_scopes = [''openid''],
     sc_enabled = True, sc_createdAt = 0, sc_updatedAt = 0\<rparr>"

definition demo_sso_start :: "sso_world sso_state" where
  "demo_sso_start = \<lparr>sso_rows = [demo_sso_cfg], sso_now = 0, sso_w = ([state_key ''s1'' \<mapsto> demo_payload ''t1'' ''n1''], Map.empty)\<rparr>"

lemma demo_docs: "docs_trusted demo_sso (sso_w demo_sso_start)"
  by (simp add: docs_trusted_def sso_reads_def demo_sso_def demo_sso_start_def)

lemma demo_callback: "fst (handleCallback demo_sso ''s1'' ''code'' demo_sso_start) = Inr (''t1'', demo_claims)"
  by code_simp

theorem sso_callback_sound_witness:
  "fst (handleCallback demo_sso ''s1'' ''code'' demo_sso_start) = Inr (''t1'', demo_claims) \<and>
   fst (handleCallback demo_sso ''s1'' ''code'' (snd (handleCallback demo_sso ''s1'' ''code'' demo_sso_start))) =
     Inl ''Invalid or expired SSO state''"
proof -
  obtain s' where run: "handleCallback demo_sso ''s1'' ''code'' demo_sso_start = (Inr (''t1'', demo_claims), s')"
    using demo_callback by (metis prod.collapse)
  show ?thesis using sso_callback_sound [OF demo_sso_laws demo_docs run, of "''code''"] run by simp
qed

theorem sso_login_roundtrip_witness:
  "\<exists>endpoint state nonce. fst (buildAuthUrl demo_sso demo_sso_cfg (sso_w demo_sso_start)) =
     Inr (endpoint @ ''?'' @ form_encode (auth_params demo_sso_cfg state nonce))"
proof -
  have "\<not> isl (fst (buildAuthUrl demo_sso demo_sso_cfg (sso_w demo_sso_start)))" by code_simp
  then obtain url w' where run: "buildAuthUrl demo_sso demo_sso_cfg (sso_w demo_sso_start) = (Inr url, w')"
    by (cases "buildAuthUrl demo_sso demo_sso_cfg (sso_w demo_sso_start)"; cases "fst (buildAuthUrl demo_sso demo_sso_cfg (sso_w demo_sso_start))") auto
  show ?thesis using sso_login_roundtrip [OF demo_sso_laws run] run by auto
qed

theorem sso_fetches_checked_endpoints_witness:
  "fst (handleCallback (only_checked demo_sso (\<lambda>u b w. (Inl ''internal'', w)) (\<lambda>t j i a n w. (Inl ''internal'', w)))
      ''s1'' ''code'' demo_sso_start) = Inr (''t1'', demo_claims)"
proof -
  have "issuers_ok demo_url demo_sso_start" by code_simp
  then have "issuers_ok (ss_url demo_sso) demo_sso_start" by (simp add: demo_sso_def)
  then show ?thesis using sso_fetches_checked_endpoints [OF demo_sso_laws demo_docs] demo_callback by simp
qed

section \<open>What the flow does not exclude\<close>

text \<open>
  The state is read and deleted in two commands: of two callbacks with one state
  that both read before either deletes, both go on.
\<close>

lemma state_read_twice:
  assumes "sso_laws ops" and "read_state ops state w = (Inr raw, w')"
  shows "fst (read_state ops state w') = Inr raw"
proof -
  have g: "kv_get (ss_kv ops) (state_key state) w = (Inr (Some raw), w')" "raw \<noteq> []"
    using assms(2) by (auto simp add: read_state_def bindM_Inr truthy_def run_basic split: option.splits if_splits)
  have "sso_reads ops w' = sso_reads ops w" using same_reads(6) [OF assms(1)] g(1) by (metis snd_conv)
  then have "fst (kv_get (ss_kv ops) (state_key state) w') = Inr (Some raw)"
    using g(1) by (simp add: sso_reads_def fun_eq_iff)
  then obtain w2 where "kv_get (ss_kv ops) (state_key state) w' = (Inr (Some raw), w2)" by (metis prod.collapse)
  then show ?thesis using g(2) by (simp add: read_state_def run_simps truthy_def)
qed

end
