(* ===== verification/Doctor.thy ===== *)
theory Doctor
  imports Backup Complex_Main
begin

text \<open>
  services/doctor/: the registry of checks, its \<open>run\<close>, the ten built-in checks, and
  the command tenant:doctor. The SQL server, the queue, backup and Redis libraries
  and the clock are parameters acting on one state \<open>'w\<close> of the world; the stored
  rows, the tenant objects a run has loaded, the breakers and the connections are
  parts of the state \<open>clinic\<close> of their own.

  A thrown error is its message; \<open>de_pgcode\<close> is its \<open>code\<close> property. The texts of
  the SQL queries are written on one line.
\<close>

section \<open>Reports\<close>

datatype DiagnosisSeverity = Info | Warn | Err

text \<open>A value of \<open>meta\<close> or of a column of a row.\<close>

datatype cell = CNull | CText string | CNum rat | CBool bool | CTexts "string list"

record DiagnosisIssue =
  di_code :: string
  di_severity :: DiagnosisSeverity
  di_message :: string
  di_tenantId :: "string option"
  di_fixable :: bool
  di_meta :: "(string, cell) jmap"

record DiagnosisReport =
  dr_check :: string
  dr_description :: string
  dr_durationMs :: int
  dr_issues :: "DiagnosisIssue list"
  dr_error :: "string option"

record doctor_totals =
  dt_info :: nat
  dt_warn :: nat
  dt_error :: nat
  dt_fixable :: nat

record DoctorRunOptions =
  op_tenants :: "string list"
  op_checks :: "string list"
  op_fix :: bool

definition issue :: "string \<Rightarrow> DiagnosisSeverity \<Rightarrow> string \<Rightarrow> string option \<Rightarrow> (string, cell) jmap \<Rightarrow> DiagnosisIssue" where
  "issue code sev msg tenantId meta =
     \<lparr>di_code = code, di_severity = sev, di_message = msg, di_tenantId = tenantId, di_fixable = False, di_meta = meta\<rparr>"

section \<open>State and parameters\<close>

record ('c, 'w) clinic =
  d_rows :: mock_repo
  d_objs :: "tenant list"
  d_circuits :: "(string, 'c) jmap"
  d_conns :: manager
  d_world :: 'w

type_synonym ('c, 'w, 'a) C = "(('c, 'w) clinic, string, 'a) M"

text \<open>A check; \<open>attemptFix\<close> is an argument and \<open>ctx.tenants\<close> the objects of the state.\<close>

record ('c, 'w) DoctorCheck =
  dc_name :: string
  dc_description :: string
  dc_run :: "bool \<Rightarrow> ('c, 'w, DiagnosisIssue list) C"

type_synonym row = "(string, cell) jmap"

record bull_job =
  bj_id :: string
  bj_processedOn :: "int option"
  bj_timestamp :: "int option"

record pool_stats =
  ps_numUsed :: nat
  ps_numFree :: nat
  ps_numPending :: nat
  ps_max :: "nat option"

text \<open>A node of \<open>db.manager.connections\<close>: whether it is open, and its pool.\<close>

record pool_node =
  pn_open :: bool
  pn_pool :: "pool_stats option"

record doctor_config =
  dg_central :: string
  dg_backoffice :: string
  dg_schemaPrefix :: string
  dg_connPrefix :: string
  dg_replicas :: "replica_config option"
  dg_queueStalledMinutes :: "nat option"
  dg_replicaLagWarn :: "rat option"
  dg_replicaLagError :: "rat option"
  dg_longQueryWarn :: "rat option"
  dg_longQueryError :: "rat option"
  dg_poolWarnRatio :: "rat option"

record ('c, 'w) doctor_env =
  de_cfg :: doctor_config
  de_now :: "'w \<Rightarrow> int"
  de_iso :: "int \<Rightarrow> string"
  de_fixed1 :: "rat \<Rightarrow> string"
  de_text :: "cell option \<Rightarrow> string"
  de_pgcode :: "string \<Rightarrow> string option"
  de_lucid :: bool
  de_query :: "string \<Rightarrow> string \<Rightarrow> cell list \<Rightarrow> ('w, string, row list) M"
  de_save :: "tenant \<Rightarrow> ('w, string, unit) M"
  de_schemaName :: "tenant \<Rightarrow> string"
  de_opossum :: "'c opossum"
  de_kv :: "'w kv option"
  de_bull :: "'w bull"
  de_qcfg :: queue_config
  de_getActive :: "string \<Rightarrow> nat \<Rightarrow> nat \<Rightarrow> ('w, string, bull_job list) M"
  de_backup :: "'w backup_ops"
  de_bcfg :: backup_config
  de_parseDate :: "string \<Rightarrow> int option"
  de_close :: "string \<Rightarrow> ('w, string, unit) M"
  de_pools :: "'w \<Rightarrow> (string \<times> pool_node) list option"

definition on_world :: "('w, string, 'a) M \<Rightarrow> ('c, 'w, 'a) C" where
  "on_world m = (\<lambda>s. case m (d_world s) of (r, w) \<Rightarrow> (r, s\<lparr>d_world := w\<rparr>))"

definition clock :: "('c, 'w) doctor_env \<Rightarrow> ('c, 'w, int) C" where
  "clock env = getM (\<lambda>s. de_now env (d_world s))"

text \<open>\<open>db.connection(name).rawQuery(sql, args)\<close>; an unregistered name throws.\<close>

definition connection :: "string \<Rightarrow> ('c, 'w, unit) C" where
  "connection name = bindM (getM (\<lambda>s. jm_has name (d_conns s))) (\<lambda>there.
     if there then returnM () else throwM ''E_UNMANAGED_DB_CONNECTION'')"

definition conn_query ::
  "('c, 'w) doctor_env \<Rightarrow> string \<Rightarrow> string \<Rightarrow> cell list \<Rightarrow> ('c, 'w, row list) C"
where
  "conn_query env name sql args = thenM (connection name) (on_world (de_query env name sql args))"

text \<open>\<open>tenant.save()\<close> of a loaded object.\<close>

definition doc_save :: "('c, 'w) doctor_env \<Rightarrow> tenant \<Rightarrow> ('c, 'w, unit) C" where
  "doc_save env t = thenM (on_world (de_save env t)) (modM (\<lambda>s. s\<lparr>d_rows := mock_add t (d_rows s)\<rparr>))"

section \<open>The checks on tenants\<close>

definition quote :: "string \<Rightarrow> string" where
  "quote s = DQ # s @ [DQ]"

definition failed_issue :: "tenant \<Rightarrow> DiagnosisIssue" where
  "failed_issue t = issue ''tenant_failed'' Err
     (''Tenant '' @ quote (t_name t) @ '' is in failed state'') (Some (t_id t)) []"

definition failedTenantsCheck :: "('c, 'w) DoctorCheck" where
  "failedTenantsCheck = \<lparr>dc_name = ''failed_tenants'',
     dc_description = ''Lists tenants whose status is `failed`.'',
     dc_run = (\<lambda>fix. getM (\<lambda>s. map failed_issue (filter isFailed (d_objs s))))\<rparr>"

definition STALL_MINUTES :: int where
  "STALL_MINUTES = 30"

definition stalled :: "int \<Rightarrow> tenant \<Rightarrow> bool" where
  "stalled cutoff t \<longleftrightarrow> isProvisioning t \<and> t_createdAt t \<le> cutoff"

definition stalled_issue :: "('c, 'w) doctor_env \<Rightarrow> int \<Rightarrow> tenant \<Rightarrow> DiagnosisIssue" where
  "stalled_issue env now t =
     (let m = (now - t_createdAt t) div 60000
      in (issue ''provisioning_stalled'' Err
           (''Tenant '' @ quote (t_name t) @ '' stuck in provisioning for '' @ show_int m @ '' minute(s)'')
           (Some (t_id t))
           [(''stalledMinutes'', CNum (of_int m)), (''createdAt'', CText (de_iso env (t_createdAt t)))])
         \<lparr>di_fixable := True\<rparr>)"

definition add_meta :: "(string, cell) jmap \<Rightarrow> DiagnosisIssue \<Rightarrow> DiagnosisIssue" where
  "add_meta m i = i\<lparr>di_meta := di_meta i @ m\<rparr>"

text \<open>
  One turn of the loop on the object at position \<open>k\<close>. The object's status is set
  before the save, and stays set when the save is refused.
\<close>

definition stalled_fix :: "('c, 'w) doctor_env \<Rightarrow> nat \<Rightarrow> tenant \<Rightarrow> DiagnosisIssue \<Rightarrow> ('c, 'w, DiagnosisIssue) C" where
  "stalled_fix env k t i =
     catchM
       (thenM (modM (\<lambda>s. s\<lparr>d_objs := (d_objs s)[k := t\<lparr>t_status := failed\<rparr>]\<rparr>))
       (thenM (doc_save env (t\<lparr>t_status := failed\<rparr>))
          (returnM (add_meta [(''fixed'', CBool True)] i))))
       (\<lambda>e. returnM (add_meta [(''fixed'', CBool False), (''fixError'', CText e)] i))"

definition stalled_turn :: "('c, 'w) doctor_env \<Rightarrow> bool \<Rightarrow> int \<Rightarrow> nat \<Rightarrow> ('c, 'w, DiagnosisIssue list) C" where
  "stalled_turn env fix cutoff k =
     bindM (getM (\<lambda>s. d_objs s ! k)) (\<lambda>t.
       if \<not> stalled cutoff t then returnM []
       else bindM (clock env) (\<lambda>now.
         let i = stalled_issue env now t in
         if fix then bindM (stalled_fix env k t i) (\<lambda>j. returnM [j]) else returnM [i]))"

definition provisioningStalledCheck :: "('c, 'w) doctor_env \<Rightarrow> ('c, 'w) DoctorCheck" where
  "provisioningStalledCheck env = \<lparr>dc_name = ''provisioning_stalled'',
     dc_description = ''Detects tenants stuck in 'provisioning' for more than 30 minutes; with --fix, marks them as 'failed'.'',
     dc_run = (\<lambda>fix.
       bindM (clock env) (\<lambda>now.
       bindM (getM (\<lambda>s. length (d_objs s))) (\<lambda>n.
       bindM (mapM [0..<n] (stalled_turn env fix (now - STALL_MINUTES * 60000))) (\<lambda>iss.
         returnM (concat iss)))))\<rparr>"

text \<open>A \<open>Set\<close> made of a list: each value once, in the order of its first occurrence.\<close>

definition js_set :: "'a list \<Rightarrow> 'a list" where
  "js_set xs = rev (remdups (rev xs))"

definition text_of :: "cell option \<Rightarrow> string" where
  "text_of c = (case c of Some (CText s) \<Rightarrow> s | _ \<Rightarrow> [])"

definition num_of :: "cell option \<Rightarrow> rat" where
  "num_of c = (case c of Some (CNum q) \<Rightarrow> q | _ \<Rightarrow> 0)"

definition lucid_unavailable :: "string \<Rightarrow> DiagnosisIssue" where
  "lucid_unavailable what = issue ''lucid_unavailable'' Err
     (''@adonisjs/lucid is not available; cannot '' @ what) None []"

definition schema_missing :: "('c, 'w) doctor_env \<Rightarrow> tenant \<Rightarrow> DiagnosisIssue" where
  "schema_missing env t = issue ''schema_missing'' Err
     (''Tenant '' @ quote (t_name t) @ '' registry says '' @ status_name (t_status t) @ '' but schema '' @
        quote (de_schemaName env t) @ '' is missing'')
     (Some (t_id t)) [(''schema'', CText (de_schemaName env t)), (''status'', CText (status_name (t_status t)))]"

definition schema_orphan :: "string \<Rightarrow> DiagnosisIssue" where
  "schema_orphan sch = issue ''schema_orphan'' Warn
     (''Orphan schema '' @ quote sch @ '' has no matching tenant in the registry'') None [(''schema'', CText sch)]"

definition SCHEMATA_SQL :: string where
  "SCHEMATA_SQL = ''SELECT schema_name FROM information_schema.schemata WHERE schema_name LIKE ?''"

definition drift_issues :: "('c, 'w) doctor_env \<Rightarrow> tenant list \<Rightarrow> string list \<Rightarrow> DiagnosisIssue list" where
  "drift_issues env ts physical =
     (let live = filter (\<lambda>t. \<not> isDeleted t) ts;
          expected = map (de_schemaName env) live
      in map (schema_missing env) (filter (\<lambda>t. de_schemaName env t \<notin> set physical) live) @
         map schema_orphan (filter (\<lambda>sch. sch \<notin> set expected) physical))"

definition schemaDriftCheck :: "('c, 'w) doctor_env \<Rightarrow> ('c, 'w) DoctorCheck" where
  "schemaDriftCheck env = \<lparr>dc_name = ''schema_drift'',
     dc_description = ''Compares tenants in the registry against PostgreSQL schemas; flags missing schemas and orphan ones.'',
     dc_run = (\<lambda>fix.
       if \<not> de_lucid env then returnM [lucid_unavailable ''inspect schemas'']
       else bindM (conn_query env (dg_central (de_cfg env)) SCHEMATA_SQL
                     [CText (dg_schemaPrefix (de_cfg env) @ ''%'')]) (\<lambda>rows.
              getM (\<lambda>s. drift_issues env (d_objs s) (js_set (map (\<lambda>r. text_of (jm_get ''schema_name'' r)) rows)))))\<rparr>"

definition ADONIS_SCHEMA_SQL :: string where
  "ADONIS_SCHEMA_SQL = ''SELECT 1 FROM information_schema.tables WHERE table_schema = ? AND table_name = 'adonis_schema' ''"

definition migration_turn :: "('c, 'w) doctor_env \<Rightarrow> tenant \<Rightarrow> ('c, 'w, DiagnosisIssue list) C" where
  "migration_turn env t =
     (if \<not> isActive t then returnM []
      else catchM
        (bindM (conn_query env (dg_central (de_cfg env)) ADONIS_SCHEMA_SQL [CText (de_schemaName env t)]) (\<lambda>rows.
           returnM (if rows = [] then
             [issue ''migrations_never_ran'' Err
               (''Active tenant '' @ quote (t_name t) @ '' has no adonis_schema table - migrations never ran'')
               (Some (t_id t)) [(''schema'', CText (de_schemaName env t))]] else [])))
        (\<lambda>e. returnM [issue ''migration_inspect_failed'' Warn
           (''Could not inspect migration state for '' @ quote (t_name t) @ '': '' @ e) (Some (t_id t)) []]))"

definition each_tenant :: "(tenant \<Rightarrow> ('c, 'w, DiagnosisIssue list) C) \<Rightarrow> ('c, 'w, DiagnosisIssue list) C" where
  "each_tenant f = bindM (getM d_objs) (\<lambda>ts. bindM (mapM ts f) (\<lambda>iss. returnM (concat iss)))"

definition migrationStateCheck :: "('c, 'w) doctor_env \<Rightarrow> ('c, 'w) DoctorCheck" where
  "migrationStateCheck env = \<lparr>dc_name = ''migration_state'',
     dc_description = ''Checks every tenant schema for an `adonis_schema` table; missing means migrations never ran.'',
     dc_run = (\<lambda>fix.
       if \<not> de_lucid env then returnM [lucid_unavailable ''inspect migrations'']
       else thenM (connection (dg_central (de_cfg env))) (each_tenant (migration_turn env)))\<rparr>"

section \<open>The checks on breakers, queues and backups\<close>

definition breakers_of :: "('c, 'w) clinic \<Rightarrow> ('c, 'w) breaker_service" where
  "breakers_of s = \<lparr>circuits = d_circuits s, kvw = d_world s\<rparr>"

definition on_breakers :: "(('c, 'w) breaker_service, string, 'a) M \<Rightarrow> ('c, 'w, 'a) C" where
  "on_breakers m = (\<lambda>s. case m (breakers_of s) of
     (r, b) \<Rightarrow> (r, s\<lparr>d_circuits := circuits b, d_world := kvw b\<rparr>))"

definition circuit_issue :: "string \<times> CircuitMetrics \<Rightarrow> DiagnosisIssue" where
  "circuit_issue e = (case e of (i, m) \<Rightarrow>
     (issue ''circuit_open'' Err
       (''Circuit OPEN for tenant '' @ i @ '' (failures='' @ show_nat (cm_failures m) @ '')'') (Some i)
       [(''state'', CText (state_name (cm_state m))), (''failures'', CNum (of_nat (cm_failures m))),
        (''successes'', CNum (of_nat (cm_successes m)))])\<lparr>di_fixable := True\<rparr>)"

definition circuit_fix :: "('c, 'w) doctor_env \<Rightarrow> DiagnosisIssue \<Rightarrow> ('c, 'w, DiagnosisIssue) C" where
  "circuit_fix env i =
     (case truthy (di_tenantId i) of
        None \<Rightarrow> returnM i
      | Some tid \<Rightarrow>
          catchM (thenM (on_breakers (breaker_reset (de_opossum env) (de_kv env) tid))
                    (returnM (add_meta [(''fixed'', CBool True)] i)))
            (\<lambda>e. returnM (add_meta [(''fixed'', CBool False), (''fixError'', CText e)] i)))"

definition circuitBreakerCheck :: "('c, 'w) doctor_env \<Rightarrow> ('c, 'w) DoctorCheck" where
  "circuitBreakerCheck env = \<lparr>dc_name = ''circuit_breakers'',
     dc_description = ''Reports OPEN circuit breakers; with --fix, resets each one (closes it).'',
     dc_run = (\<lambda>fix.
       bindM (getM (\<lambda>s. map circuit_issue
         (filter (\<lambda>e. cm_state (snd e) = OPEN) (getAllMetrics (de_opossum env) (breakers_of s))))) (\<lambda>iss.
         if fix \<and> iss \<noteq> [] then mapM iss (circuit_fix env) else returnM iss))\<rparr>"

text \<open>The queue service is made for the check; it lives on its own and shares the world.\<close>

definition with_fresh_queues :: "('w queue_service, string, 'a) M \<Rightarrow> ('c, 'w, 'a) C" where
  "with_fresh_queues m = (\<lambda>s. case m (new_queue_service (d_world s)) of (r, q) \<Rightarrow> (r, s\<lparr>d_world := bullw q\<rparr>))"

definition FAILED_THRESHOLD :: nat where "FAILED_THRESHOLD = 1"
definition DELAYED_THRESHOLD :: nat where "DELAYED_THRESHOLD = 50"
definition DEFAULT_STALLED_MINUTES :: nat where "DEFAULT_STALLED_MINUTES = 10"

definition stats_meta :: "TenantQueueStats \<Rightarrow> (string, cell) jmap" where
  "stats_meta st = [(''tenantId'', CText (qs_tenantId st)), (''queueName'', CText (qs_queueName st)),
     (''waiting'', CNum (of_nat (qs_waiting st))), (''active'', CNum (of_nat (qs_active st))),
     (''completed'', CNum (of_nat (qs_completed st))), (''failed'', CNum (of_nat (qs_failed st))),
     (''delayed'', CNum (of_nat (qs_delayed st)))]"

definition queue_warn :: "string \<Rightarrow> tenant \<Rightarrow> string \<Rightarrow> (string, cell) jmap \<Rightarrow> DiagnosisIssue" where
  "queue_warn code t what meta = issue code Warn (''Tenant '' @ quote (t_name t) @ what) (Some (t_id t)) meta"

definition started_at :: "bull_job \<Rightarrow> int option" where
  "started_at j = (case bj_processedOn j of Some p \<Rightarrow> Some p | None \<Rightarrow> bj_timestamp j)"

definition stalled_jobs :: "int \<Rightarrow> nat \<Rightarrow> bull_job list \<Rightarrow> bull_job list" where
  "stalled_jobs now minutes js =
     filter (\<lambda>j. case started_at j of None \<Rightarrow> False | Some st \<Rightarrow> int minutes * 60000 < now - st) js"

definition stalled_queue :: "('c, 'w) doctor_env \<Rightarrow> nat \<Rightarrow> tenant \<Rightarrow> ('w queue_service, string, DiagnosisIssue list) M" where
  "stalled_queue env minutes t =
     bindM (queue_getOrCreate (de_bull env) (de_qcfg env) (t_id t)) (\<lambda>q.
     bindM (on_bull (de_getActive env q 0 50)) (\<lambda>js.
     bindM (getM (\<lambda>s. de_now env (bullw s))) (\<lambda>now.
       let late = stalled_jobs now minutes js in
       returnM (if late = [] then [] else
         [queue_warn ''queue_stalled'' t
           ('' has '' @ show_nat (length late) @ '' job(s) active for > '' @ show_nat minutes @ ''m'')
           [(''stalledCount'', CNum (of_nat (length late))), (''stalledMinutes'', CNum (of_nat minutes)),
            (''jobIds'', CTexts (map bj_id (take 10 late)))]]))))"

definition queue_unread :: "tenant \<Rightarrow> string \<Rightarrow> DiagnosisIssue" where
  "queue_unread t e = issue ''queue_inspect_failed'' Info
     (''Could not inspect queue for '' @ quote (t_name t) @ '': '' @ e) (Some (t_id t)) []"

text \<open>The issues found before an error are kept, as the loop pushes them one by one.\<close>

definition queue_turn :: "('c, 'w) doctor_env \<Rightarrow> nat \<Rightarrow> tenant \<Rightarrow> ('w queue_service, string, DiagnosisIssue list) M" where
  "queue_turn env minutes t =
     bindM (queue_getStats (de_bull env) (de_qcfg env) (t_id t)) (\<lambda>st.
       let failures = (if FAILED_THRESHOLD \<le> qs_failed st then
             [queue_warn ''queue_failed_jobs'' t ('' queue has '' @ show_nat (qs_failed st) @ '' failed job(s)'')
                (stats_meta st)] else []);
           delays = (if DELAYED_THRESHOLD \<le> qs_delayed st then
             [queue_warn ''queue_delayed_backlog'' t
                ('' queue has '' @ show_nat (qs_delayed st) @ '' delayed jobs (threshold 50)'') (stats_meta st)] else [])
       in bindM (catchM (if 0 < qs_active st then stalled_queue env minutes t else returnM [])
                   (\<lambda>e. returnM [queue_unread t e]))
            (\<lambda>late. returnM (failures @ delays @ late)))"

definition queue_inspect :: "('c, 'w) doctor_env \<Rightarrow> nat \<Rightarrow> tenant \<Rightarrow> ('w queue_service, string, DiagnosisIssue list) M" where
  "queue_inspect env minutes t =
     (if \<not> isActive t \<and> \<not> isSuspended t then returnM []
      else catchM (queue_turn env minutes t)
        (\<lambda>e. returnM [queue_unread t e]))"

definition queueStuckCheck :: "('c, 'w) doctor_env \<Rightarrow> ('c, 'w) DoctorCheck" where
  "queueStuckCheck env = \<lparr>dc_name = ''queue_health'',
     dc_description = ''Flags tenant queues with failed jobs, delayed backlogs, or jobs that have been active for too long (stalled).'',
     dc_run = (\<lambda>fix.
       bindM (getM d_objs) (\<lambda>ts.
       bindM (with_fresh_queues (mapM ts (queue_inspect env
                (or_else (dg_queueStalledMinutes (de_cfg env)) DEFAULT_STALLED_MINUTES)))) (\<lambda>iss.
         returnM (concat iss))))\<rparr>"

definition STALE_DAYS :: int where "STALE_DAYS = 7"

text \<open>\<open>Math.max(...)\<close> of parsed dates; None is NaN, which one unreadable date makes it.\<close>

fun max_date :: "int option list \<Rightarrow> int option" where
  "max_date [] = None"
| "max_date [x] = x"
| "max_date (x # y # ys) = (case (x, max_date (y # ys)) of (Some a, Some b) \<Rightarrow> Some (max a b) | _ \<Rightarrow> None)"

definition backup_issues :: "('c, 'w) doctor_env \<Rightarrow> int \<Rightarrow> int \<Rightarrow> tenant \<Rightarrow> BackupMetadata list \<Rightarrow> DiagnosisIssue list" where
  "backup_issues env cutoff now t list =
     (if list = [] then
        [issue ''backup_never_taken'' Warn
          (''Active tenant '' @ quote (t_name t) @ '' has no backups recorded'') (Some (t_id t)) []]
      else (case max_date (map (\<lambda>b. de_parseDate env (bm_timestamp b)) list) of
          None \<Rightarrow> []
        | Some latest \<Rightarrow>
            if cutoff \<le> latest then []
            else let age = (now - latest) div 86400000 in
              [issue ''backup_stale'' Warn
                (''Latest backup of '' @ quote (t_name t) @ '' is '' @ show_int age @ '' day(s) old'') (Some (t_id t))
                [(''latest'', CText (de_iso env latest)), (''ageDays'', CNum (of_int age))]]))"

definition backup_turn :: "('c, 'w) doctor_env \<Rightarrow> int \<Rightarrow> tenant \<Rightarrow> ('c, 'w, DiagnosisIssue list) C" where
  "backup_turn env cutoff t =
     (if \<not> isActive t then returnM []
      else catchM
        (bindM (on_world (listBackups (de_backup env) (de_bcfg env) (t_id t))) (\<lambda>list.
         bindM (clock env) (\<lambda>now. returnM (backup_issues env cutoff now t list))))
        (\<lambda>e. returnM [issue ''backup_inspect_failed'' Info
           (''Could not inspect backups for '' @ quote (t_name t) @ '': '' @ e) (Some (t_id t)) []]))"

definition backupRecencyCheck :: "('c, 'w) doctor_env \<Rightarrow> ('c, 'w) DoctorCheck" where
  "backupRecencyCheck env = \<lparr>dc_name = ''backup_recency'',
     dc_description = ''Warns when an active tenant has no backup in the last 7 day(s) or none at all.'',
     dc_run = (\<lambda>fix. bindM (clock env) (\<lambda>now. each_tenant (backup_turn env (now - STALE_DAYS * 86400000))))\<rparr>"

section \<open>The checks on the database server\<close>

definition PROBE_CONNECTION_PREFIX :: string where
  "PROBE_CONNECTION_PREFIX = ''__doctor_replica_probe_''"

definition DEFAULT_WARN_SECONDS :: rat where "DEFAULT_WARN_SECONDS = 30"
definition DEFAULT_ERROR_SECONDS :: rat where "DEFAULT_ERROR_SECONDS = 120"

definition REPLICA_SQL :: string where
  "REPLICA_SQL = ''SELECT pg_is_in_recovery() AS is_replica, COALESCE(EXTRACT(EPOCH FROM (NOW() - pg_last_xact_replay_timestamp())), 0)::float AS lag_seconds''"

definition pg_code_char :: "char \<Rightarrow> bool" where
  "pg_code_char c \<longleftrightarrow> is_upper c \<or> is_digit c \<or> c = CHR ''_''"

definition reason_code :: "string option \<Rightarrow> string" where
  "reason_code code = (case code of
     Some c \<Rightarrow> (if c \<noteq> [] \<and> length c \<le> 32 \<and> list_all pg_code_char c then c else ''unknown'')
   | None \<Rightarrow> ''unknown'')"

definition replica_label :: "pg_connection \<Rightarrow> replica_host \<Rightarrow> string" where
  "replica_label base h = (case rh_name h of Some n \<Rightarrow> n | None \<Rightarrow>
     rh_host h @ '':'' @ show_nat (or_else (rh_port h) (or_else (pg_port base) 5432)))"

definition probe_config :: "pg_connection \<Rightarrow> replica_host \<Rightarrow> pg_config" where
  "probe_config base h = \<lparr>pc_client = ''pg'',
     pc_connection = Some (base\<lparr>pg_host := Some (rh_host h),
       pg_port := (case rh_port h of None \<Rightarrow> pg_port base | p \<Rightarrow> p),
       pg_user := (case rh_user h of None \<Rightarrow> pg_user base | u \<Rightarrow> u),
       pg_password := (case rh_password h of None \<Rightarrow> pg_password base | w \<Rightarrow> w)\<rparr>),
     pc_searchPath = None\<rparr>"

definition lag_issues :: "('c, 'w) doctor_env \<Rightarrow> string \<Rightarrow> row \<Rightarrow> DiagnosisIssue list" where
  "lag_issues env label r =
     (let isReplica = (jm_get ''is_replica'' r \<in> {Some (CBool True), Some (CText ''t'')});
          lag = num_of (jm_get ''lag_seconds'' r);
          warnSec = or_else (dg_replicaLagWarn (de_cfg env)) DEFAULT_WARN_SECONDS;
          errorSec = or_else (dg_replicaLagError (de_cfg env)) DEFAULT_ERROR_SECONDS;
          meta = (\<lambda>th. [(''host'', CText label), (''lagSeconds'', CNum lag), (''threshold'', CNum th)])
      in if \<not> isReplica then
           [issue ''replica_not_in_recovery'' Err
             (''Configured replica '' @ quote label @ '' is NOT in recovery mode (likely a primary)'') None
             [(''host'', CText label)]]
         else if errorSec \<le> lag then
           [issue ''replica_lag_critical'' Err
             (''Replica '' @ quote label @ '' lag '' @ de_fixed1 env lag @ ''s exceeds error threshold '' @
                de_text env (Some (CNum errorSec)) @ ''s'') None (meta errorSec)]
         else if warnSec \<le> lag then
           [issue ''replica_lag_high'' Warn
             (''Replica '' @ quote label @ '' lag '' @ de_fixed1 env lag @ ''s exceeds warn threshold '' @
                de_text env (Some (CNum warnSec)) @ ''s'') None (meta warnSec)]
         else [])"

text \<open>One replica: register its probe when missing, ask, and in any case close and release it.\<close>

definition close_probe :: "('c, 'w) doctor_env \<Rightarrow> string \<Rightarrow> ('c, 'w, unit) C" where
  "close_probe env probe = swallow (bindM (getM (\<lambda>s. jm_has probe (d_conns s))) (\<lambda>there.
     if there then thenM (on_world (de_close env probe)) (modM (\<lambda>s. s\<lparr>d_conns := jm_delete probe (d_conns s)\<rparr>))
     else returnM ()))"

definition replica_turn :: "('c, 'w) doctor_env \<Rightarrow> pg_connection \<Rightarrow> nat \<times> replica_host \<Rightarrow> ('c, 'w, DiagnosisIssue list) C" where
  "replica_turn env base ih = (case ih of (idx, h) \<Rightarrow>
     let probe = PROBE_CONNECTION_PREFIX @ show_nat idx; label = replica_label base h in
     finallyM
       (catchM
         (thenM (modM (\<lambda>s. if jm_has probe (d_conns s) then s
                            else s\<lparr>d_conns := jm_set probe (probe_config base h) (d_conns s)\<rparr>))
         (bindM (conn_query env probe REPLICA_SQL []) (\<lambda>rows.
            returnM (lag_issues env label (case rows of [] \<Rightarrow> [] | r # _ \<Rightarrow> r)))))
         (\<lambda>e. let code = reason_code (de_pgcode env e) in
            returnM [issue ''replica_unreachable'' Err
              (''Could not probe replica '' @ quote label @ '' (pg code: '' @ code @ '')'') None
              [(''host'', CText label), (''pgCode'', CText code)]]))
       (close_probe env probe))"

definition replicaLagCheck :: "('c, 'w) doctor_env \<Rightarrow> ('c, 'w) DoctorCheck" where
  "replicaLagCheck env = \<lparr>dc_name = ''replica_lag'',
     dc_description = ''Measures streaming replication lag against each configured PostgreSQL read replica.'',
     dc_run = (\<lambda>fix.
       (case dg_replicas (de_cfg env) of
          None \<Rightarrow> returnM []
        | Some rc \<Rightarrow>
            if rc_hosts rc = [] then returnM []
            else if \<not> de_lucid env then returnM [lucid_unavailable ''probe replicas'']
            else bindM (getM (\<lambda>s. or_else (Option.bind (jm_get (dg_central (de_cfg env)) (d_conns s)) pc_connection)
                                   empty_connection)) (\<lambda>base.
                 bindM (mapM (List.enumerate 0 (rc_hosts rc)) (replica_turn env base)) (\<lambda>iss.
                   returnM (concat iss)))))\<rparr>"

definition DEFAULT_WARN_RATIO :: rat where "DEFAULT_WARN_RATIO = 9 / 10"

definition uuid_like :: "string \<Rightarrow> bool" where
  "uuid_like s \<longleftrightarrow> (let ps = js_split (CHR ''-'') s in
     map length ps = [8, 4, 4, 4, 12] \<and> list_all (list_all is_hex_ci) ps)"

definition pool_tenant :: "doctor_config \<Rightarrow> string \<Rightarrow> string option" where
  "pool_tenant cfg name =
     (if starts_with (dg_connPrefix cfg) name \<and> uuid_like (drop (length (dg_connPrefix cfg)) name)
      then Some (drop (length (dg_connPrefix cfg)) name) else None)"

definition pool_watched :: "doctor_config \<Rightarrow> string \<Rightarrow> bool" where
  "pool_watched cfg name \<longleftrightarrow> \<not> starts_with ''__doctor_'' name \<and>
     (starts_with (dg_connPrefix cfg) name \<or> name = dg_central cfg \<or> name = dg_backoffice cfg)"

definition js_round :: "rat \<Rightarrow> int" where
  "js_round q = \<lfloor>q + 1 / 2\<rfloor>"

definition pool_issues :: "doctor_config \<Rightarrow> string \<Rightarrow> pool_stats \<Rightarrow> DiagnosisIssue list" where
  "pool_issues cfg name p =
     (let u = ps_numUsed p; mx = or_else (ps_max p) (u + ps_numFree p);
          ratio = rat_of_nat u / rat_of_nat mx; tid = pool_tenant cfg name;
          base = [(''connection'', CText name), (''numUsed'', CNum (of_nat u)), (''numFree'', CNum (of_nat (ps_numFree p))),
                  (''max'', CNum (of_nat mx))]
      in (if 0 < mx \<and> or_else (dg_poolWarnRatio cfg) DEFAULT_WARN_RATIO \<le> ratio then
            [issue ''pool_near_saturation'' (if mx \<le> u then Err else Warn)
              (''Pool '' @ quote name @ '' is '' @ show_int (js_round (ratio * 100)) @ ''% used ('' @ show_nat u @ ''/'' @
                 show_nat mx @ '')'') tid (base @ [(''ratio'', CNum ratio)])] else []) @
         (if 0 < ps_numPending p then
            [issue ''pool_pending_acquires'' Warn
              (''Pool '' @ quote name @ '' has '' @ show_nat (ps_numPending p) @
                 '' pending acquire(s); workers are waiting for a connection'') tid
              (base @ [(''numPending'', CNum (of_nat (ps_numPending p)))])] else []))"

definition connectionPoolCheck :: "('c, 'w) doctor_env \<Rightarrow> ('c, 'w) DoctorCheck" where
  "connectionPoolCheck env = \<lparr>dc_name = ''connection_pool'',
     dc_description = ''Reports per-connection pool saturation (numUsed/max) and pending acquire queues across tenant Lucid connections.'',
     dc_run = (\<lambda>fix.
       if \<not> de_lucid env then returnM [lucid_unavailable ''inspect pools'']
       else getM (\<lambda>s. case de_pools env (d_world s) of
              None \<Rightarrow> []
            | Some ns \<Rightarrow> concat (map (\<lambda>(name, n).
                if \<not> pool_watched (de_cfg env) name \<or> \<not> pn_open n then []
                else (case pn_pool n of None \<Rightarrow> [] | Some p \<Rightarrow> pool_issues (de_cfg env) name p)) ns)))\<rparr>"

definition ACTIVITY_SQL :: string where
  "ACTIVITY_SQL = ''SELECT pid, datname, usename, application_name, state, EXTRACT(EPOCH FROM (NOW() - query_start))::float AS duration_seconds, left(query, 500) AS query FROM pg_stat_activity WHERE state = 'active' AND pid <> pg_backend_pid() AND backend_type = 'client backend' AND query_start IS NOT NULL AND NOW() - query_start > make_interval(secs => ?) ORDER BY query_start ASC LIMIT 50''"

definition query_issue :: "('c, 'w) doctor_env \<Rightarrow> row \<Rightarrow> DiagnosisIssue" where
  "query_issue env r =
     (let d = num_of (jm_get ''duration_seconds'' r);
          bad = (or_else (dg_longQueryError (de_cfg env)) DEFAULT_ERROR_SECONDS \<le> d);
          col = (\<lambda>c. or_else (jm_get c r) CNull)
      in issue (if bad then ''long_running_query_critical'' else ''long_running_query'') (if bad then Err else Warn)
           (''Query on db '' @ quote (de_text env (jm_get ''datname'' r)) @ '' running for '' @ de_fixed1 env d @
              ''s (pid '' @ de_text env (jm_get ''pid'' r) @ '')'') None
           [(''pid'', col ''pid''), (''database'', col ''datname''), (''user'', col ''usename''),
            (''applicationName'', col ''application_name''), (''durationSeconds'', CNum d), (''query'', col ''query'')])"

text \<open>Lucid's \<open>connection\<close> throws on a name that is not registered.\<close>

definition longRunningQueriesCheck :: "('c, 'w) doctor_env \<Rightarrow> ('c, 'w) DoctorCheck" where
  "longRunningQueriesCheck env = \<lparr>dc_name = ''long_running_queries'',
     dc_description = ''Surfaces PostgreSQL backends with `state=active` whose query duration exceeds the configured threshold.'',
     dc_run = (\<lambda>fix.
       if \<not> de_lucid env then returnM [lucid_unavailable ''inspect activity'']
       else bindM (getM (\<lambda>s. jm_has (dg_central (de_cfg env)) (d_conns s))) (\<lambda>there.
         if \<not> there then returnM []
         else catchM
           (bindM (conn_query env (dg_central (de_cfg env)) ACTIVITY_SQL
              [CNum (or_else (dg_longQueryWarn (de_cfg env)) DEFAULT_WARN_SECONDS)]) (\<lambda>rows.
              returnM (map (query_issue env) rows)))
           (\<lambda>e. returnM [issue ''pg_stat_activity_unreadable'' Info
              (''Could not read pg_stat_activity: '' @ e) None []])))\<rparr>"

definition builtInChecks :: "('c, 'w) doctor_env \<Rightarrow> ('c, 'w) DoctorCheck list" where
  "builtInChecks env = [failedTenantsCheck, provisioningStalledCheck env, schemaDriftCheck env,
     migrationStateCheck env, circuitBreakerCheck env, queueStuckCheck env, backupRecencyCheck env,
     replicaLagCheck env, connectionPoolCheck env, longRunningQueriesCheck env]"

section \<open>The service\<close>

type_synonym ('c, 'w) checks = "(string, ('c, 'w) DoctorCheck) jmap"

definition doctor_register :: "('c, 'w) DoctorCheck \<Rightarrow> ('c, 'w) checks \<Rightarrow> ('c, 'w) checks" where
  "doctor_register c cs = jm_set (dc_name c) c cs"

definition doctor_unregister :: "string \<Rightarrow> ('c, 'w) checks \<Rightarrow> ('c, 'w) checks" where
  "doctor_unregister n cs = jm_delete n cs"

definition doctor_has :: "string \<Rightarrow> ('c, 'w) checks \<Rightarrow> bool" where
  "doctor_has n cs = jm_has n cs"

definition doctor_list :: "('c, 'w) checks \<Rightarrow> ('c, 'w) DoctorCheck list" where
  "doctor_list cs = jm_values cs"

definition count_issue :: "DiagnosisIssue \<Rightarrow> doctor_totals \<Rightarrow> doctor_totals" where
  "count_issue i tot =
     (let t1 = (case di_severity i of
            Info \<Rightarrow> tot\<lparr>dt_info := Suc (dt_info tot)\<rparr>
          | Warn \<Rightarrow> tot\<lparr>dt_warn := Suc (dt_warn tot)\<rparr>
          | Err \<Rightarrow> tot\<lparr>dt_error := Suc (dt_error tot)\<rparr>)
      in if di_fixable i then t1\<lparr>dt_fixable := Suc (dt_fixable t1)\<rparr> else t1)"

text \<open>One check: its issues or its error; either way a report is pushed.\<close>

definition run_check ::
  "('c, 'w) doctor_env \<Rightarrow> bool \<Rightarrow> ('c, 'w) DoctorCheck \<Rightarrow> ('c, 'w, DiagnosisReport) C"
where
  "run_check env fix c =
     bindM (clock env) (\<lambda>start.
     bindM (catchM (bindM (dc_run c fix) (\<lambda>iss. returnM (iss, None))) (\<lambda>e. returnM ([], Some e))) (\<lambda>(iss, err).
     bindM (clock env) (\<lambda>stop.
       returnM \<lparr>dr_check = dc_name c, dr_description = dc_description c, dr_durationMs = stop - start,
                dr_issues = iss, dr_error = err\<rparr>)))"

fun run_checks ::
  "('c, 'w) doctor_env \<Rightarrow> bool \<Rightarrow> ('c, 'w) DoctorCheck list \<Rightarrow> DiagnosisReport list \<Rightarrow> doctor_totals \<Rightarrow>
   ('c, 'w, DiagnosisReport list \<times> doctor_totals) C"
where
  "run_checks env fix [] reports totals = returnM (reports, totals)"
| "run_checks env fix (c # cs) reports totals =
     bindM (run_check env fix c) (\<lambda>r.
       run_checks env fix cs (reports @ [r]) (fold count_issue (dr_issues r) totals))"

definition selected :: "string list \<Rightarrow> string \<Rightarrow> bool" where
  "selected names n \<longleftrightarrow> names = [] \<or> n \<in> set names"

definition zero_totals :: doctor_totals where
  "zero_totals = \<lparr>dt_info = 0, dt_warn = 0, dt_error = 0, dt_fixable = 0\<rparr>"

definition doctor_run ::
  "('c, 'w) doctor_env \<Rightarrow> ('c, 'w) checks \<Rightarrow> DoctorRunOptions \<Rightarrow>
   ('c, 'w, DiagnosisReport list \<times> doctor_totals) C"
where
  "doctor_run env cs opts =
     thenM (modM (\<lambda>s. s\<lparr>d_objs := filter (\<lambda>t. selected (op_tenants opts) (t_id t)) (mock_all (d_rows s) True None)\<rparr>))
       (run_checks env (op_fix opts) (filter (\<lambda>c. selected (op_checks opts) (dc_name c)) (jm_values cs))
          [] zero_totals)"

section \<open>The command tenant:doctor\<close>

datatype doctor_output =
    CheckList "(string \<times> string) list"
  | Reported "DiagnosisReport list" doctor_totals nat

definition doctor_command ::
  "('c, 'w) doctor_env \<Rightarrow> ('c, 'w) checks \<Rightarrow> DoctorRunOptions \<Rightarrow> ('c, 'w, doctor_output) C"
where
  "doctor_command env cs opts =
     (if ''list'' \<in> set (op_checks opts)
      then returnM (CheckList (map (\<lambda>c. (dc_name c, dc_description c)) (doctor_list cs)))
      else bindM (doctor_run env cs opts) (\<lambda>(reports, totals).
             returnM (Reported reports totals (if 0 < dt_error totals then 1 else 0))))"

definition MIN_WATCH_INTERVAL_MS :: int where "MIN_WATCH_INTERVAL_MS = 1000"
definition DEFAULT_WATCH_INTERVAL_MS :: int where "DEFAULT_WATCH_INTERVAL_MS = 5000"

definition watch_interval :: "int option \<Rightarrow> int" where
  "watch_interval v = max MIN_WATCH_INTERVAL_MS (or_else v DEFAULT_WATCH_INTERVAL_MS)"

text \<open>One turn of the watch loop: a run that never fixes, and the pause after it.\<close>

definition watch_turn ::
  "('c, 'w) doctor_env \<Rightarrow> ('c, 'w) checks \<Rightarrow> DoctorRunOptions \<Rightarrow> int option \<Rightarrow>
   ('c, 'w, (DiagnosisReport list \<times> doctor_totals) \<times> int) C"
where
  "watch_turn env cs opts interval =
     bindM (clock env) (\<lambda>start.
     bindM (doctor_run env cs (opts\<lparr>op_fix := False\<rparr>)) (\<lambda>r.
     bindM (clock env) (\<lambda>stop. returnM (r, max 0 (watch_interval interval - (stop - start))))))"

datatype watch_tag = THROW | OKAY | FAIL | WARN | INFO

definition severity_count :: "DiagnosisSeverity \<Rightarrow> DiagnosisIssue list \<Rightarrow> nat" where
  "severity_count sev iss = length (filter (\<lambda>i. di_severity i = sev) iss)"

definition watch_counts :: "DiagnosisIssue list \<Rightarrow> string" where
  "watch_counts iss =
     (let part = (\<lambda>sev c. if 0 < severity_count sev iss then [show_nat (severity_count sev iss) @ [c]] else []);
          s = js_join '' '' (part Err (CHR ''E'') @ part Warn (CHR ''W'') @ part Info (CHR ''I''))
      in if s = [] then ''0'' else s)"

text \<open>The report on the terminal, line by line and without its colours.\<close>

fun severity_name :: "DiagnosisSeverity \<Rightarrow> string" where
  "severity_name Info = ''INFO''"
| "severity_name Warn = ''WARN''"
| "severity_name Err = ''ERROR''"

definition render_issue :: "DiagnosisIssue \<Rightarrow> string" where
  "render_issue i =
     ''  ['' @ severity_name (di_severity i) @ '']'' @
     (case truthy (di_tenantId i) of None \<Rightarrow> [] | Some t \<Rightarrow> '' '' @ t) @ '' '' @ di_message i @
     (if jm_get ''fixed'' (di_meta i) = Some (CBool True) then '' (fixed)''
      else if di_fixable i then '' (fixable; pass --fix)'' else [])"

definition render_report :: "DiagnosisReport \<Rightarrow> string list" where
  "render_report r =
     [[], dr_check r @ ''  ('' @ show_int (dr_durationMs r) @ ''ms)''] @
     (case truthy (dr_error r) of
        Some e \<Rightarrow> [''  Check threw: '' @ e]
      | None \<Rightarrow> (if dr_issues r = [] then [''  OK''] else map render_issue (dr_issues r)))"

definition render_reports :: "bool \<Rightarrow> DiagnosisReport list \<Rightarrow> doctor_totals \<Rightarrow> string list" where
  "render_reports fix reports totals =
     (if reports = [] then [''No checks registered.'']
      else concat (map render_report reports) @
        [[], ''Summary  info: '' @ show_nat (dt_info totals) @ ''  warn: '' @ show_nat (dt_warn totals) @
           ''  error: '' @ show_nat (dt_error totals) @ ''  fixable: '' @ show_nat (dt_fixable totals)] @
        (if \<not> fix \<and> 0 < dt_fixable totals then [''Re-run with --fix to apply auto-fixes.''] else []))"

text \<open>A row of the dashboard without its colours: tag, check, counts, duration, sample.\<close>

definition watch_row :: "DiagnosisReport \<Rightarrow> watch_tag \<times> string \<times> string \<times> string \<times> string" where
  "watch_row r =
     (let dur = show_int (dr_durationMs r) @ ''ms'' in
      case truthy (dr_error r) of
        Some e \<Rightarrow> (THROW, dr_check r, ''-'', dur, e)
      | None \<Rightarrow>
          (case dr_issues r of
             [] \<Rightarrow> (OKAY, dr_check r, ''0'', dur, [])
           | i # is \<Rightarrow>
               ((if 0 < severity_count Err (i # is) then FAIL
                 else if 0 < severity_count Warn (i # is) then WARN else INFO),
                dr_check r, watch_counts (i # is), dur,
                take 80 ((case truthy (di_tenantId i) of None \<Rightarrow> [] | Some t \<Rightarrow> take 8 t @ ''... '') @ di_message i))))"

end
