(* ===== verification/Doctor_Facts.thy ===== *)
theory Doctor_Facts
  imports Doctor
begin

text \<open>
  What a run of the doctor does: one report per selected check, whatever the
  checks do; and which stored tenants the built-in checks change.
\<close>

section \<open>Running checks\<close>

text \<open>What one check contributes, as a function of the state it starts in.\<close>

definition report_of :: "('c, 'w) doctor_env \<Rightarrow> bool \<Rightarrow> ('c, 'w) DoctorCheck \<Rightarrow> ('c, 'w) clinic \<Rightarrow> DiagnosisReport" where
  "report_of env fix c s = (case dc_run c fix s of (r, t) \<Rightarrow>
     \<lparr>dr_check = dc_name c, dr_description = dc_description c,
      dr_durationMs = de_now env (d_world t) - de_now env (d_world s),
      dr_issues = (case r of Inl e \<Rightarrow> [] | Inr iss \<Rightarrow> iss),
      dr_error = (case r of Inl e \<Rightarrow> Some e | Inr iss \<Rightarrow> None)\<rparr>)"

fun states_before :: "bool \<Rightarrow> ('c, 'w) DoctorCheck list \<Rightarrow> ('c, 'w) clinic \<Rightarrow> ('c, 'w) clinic list" where
  "states_before fix [] s = []"
| "states_before fix (c # cs) s = s # states_before fix cs (snd (dc_run c fix s))"

definition state_after :: "bool \<Rightarrow> ('c, 'w) DoctorCheck list \<Rightarrow> ('c, 'w) clinic \<Rightarrow> ('c, 'w) clinic" where
  "state_after fix cs s = foldl (\<lambda>t c. snd (dc_run c fix t)) s cs"

lemma run_check_run: "run_check env fix c s = (Inr (report_of env fix c s), snd (dc_run c fix s))"
  by (auto simp add: run_check_def report_of_def clock_def run_simps split: prod.splits sum.splits)

lemma run_checks_run:
  "run_checks env fix cs rs tot s =
     (Inr (rs @ map2 (report_of env fix) cs (states_before fix cs s),
           fold count_issue (concat (map dr_issues (map2 (report_of env fix) cs (states_before fix cs s)))) tot),
      state_after fix cs s)"
  by (induction cs arbitrary: rs tot s) (simp_all add: run_simps run_check_run state_after_def)

lemma fold_count:
  "dt_info (fold count_issue iss tot) = dt_info tot + severity_count Info iss"
  "dt_warn (fold count_issue iss tot) = dt_warn tot + severity_count Warn iss"
  "dt_error (fold count_issue iss tot) = dt_error tot + severity_count Err iss"
  "dt_fixable (fold count_issue iss tot) = dt_fixable tot + length (filter di_fixable iss)"
  by (induction iss arbitrary: tot)
     (auto simp add: severity_count_def count_issue_def Let_def split: DiagnosisSeverity.split)

definition loaded :: "DoctorRunOptions \<Rightarrow> ('c, 'w) clinic \<Rightarrow> ('c, 'w) clinic" where
  "loaded opts s = s\<lparr>d_objs := filter (\<lambda>t. selected (op_tenants opts) (t_id t)) (mock_all (d_rows s) True None)\<rparr>"

definition chosen :: "DoctorRunOptions \<Rightarrow> ('c, 'w) checks \<Rightarrow> ('c, 'w) DoctorCheck list" where
  "chosen opts cs = filter (\<lambda>c. selected (op_checks opts) (dc_name c)) (jm_values cs)"

lemma doctor_run_eq:
  "doctor_run env cs opts s = run_checks env (op_fix opts) (chosen opts cs) [] zero_totals (loaded opts s)"
  by (simp add: doctor_run_def run_simps loaded_def chosen_def)

section \<open>What the checks leave alone\<close>

text \<open>Predicates that do not look at the world outside or at the connections.\<close>

definition outer_frame :: "(('c, 'w) clinic \<Rightarrow> bool) \<Rightarrow> bool" where
  "outer_frame P \<longleftrightarrow> (\<forall>s w n. P s \<longrightarrow> P (s\<lparr>d_world := w\<rparr>) \<and> P (s\<lparr>d_conns := n\<rparr>))"

definition circuit_frame :: "(('c, 'w) clinic \<Rightarrow> bool) \<Rightarrow> bool" where
  "circuit_frame P \<longleftrightarrow> (\<forall>s cc. P s \<longrightarrow> P (s\<lparr>d_circuits := cc\<rparr>))"

lemma outer_frameD:
  "outer_frame P \<Longrightarrow> P s \<Longrightarrow> P (s\<lparr>d_world := w\<rparr>)" "outer_frame P \<Longrightarrow> P s \<Longrightarrow> P (s\<lparr>d_conns := n\<rparr>)"
  by (simp_all add: outer_frame_def)

lemma keeps_on_world: "outer_frame P \<Longrightarrow> keeps P (on_world m)"
  by rule (simp add: on_world_def outer_frameD split: prod.splits)

lemma keeps_conn_query: "outer_frame P \<Longrightarrow> keeps P (conn_query env n sql args)"
  unfolding conn_query_def connection_def by (intro keeps_intros keeps_on_world)

lemma keeps_fresh_queues: "outer_frame P \<Longrightarrow> keeps P (with_fresh_queues m)"
  by rule (simp add: with_fresh_queues_def outer_frameD split: prod.splits)

lemma keeps_on_breakers:
  assumes "outer_frame P" "circuit_frame P"
  shows "keeps P (on_breakers m)"
proof
  fix s assume "P s"
  then have "P (s\<lparr>d_circuits := cc\<rparr>)" for cc using assms(2) by (simp add: circuit_frame_def)
  then have "P (s\<lparr>d_circuits := cc, d_world := w\<rparr>)" for cc w by (rule outer_frameD(1) [OF assms(1)])
  then show "P (snd (on_breakers m s))" by (simp add: on_breakers_def split: prod.splits)
qed

lemma keeps_each_tenant [keeps_intros]: "(\<And>t. keeps P (f t)) \<Longrightarrow> keeps P (each_tenant f)"
  unfolding each_tenant_def by (intro keeps_intros)

lemma keeps_close_probe:
  assumes "outer_frame P"
  shows "keeps P (close_probe env n)"
  unfolding close_probe_def swallow_def
  by (intro keeps_intros keeps_on_world assms) (erule outer_frameD(2) [OF assms])

lemma keeps_replica_turn:
  assumes "outer_frame P"
  shows "keeps P (replica_turn env base ih)"
proof -
  have add: "P (if b then s else s\<lparr>d_conns := n\<rparr>)" if "P s" for b n s
    using outer_frameD(2) [OF assms that] that by simp
  show ?thesis
    unfolding replica_turn_def Let_def prod.case_eq_if
    by (intro keeps_intros keeps_conn_query keeps_close_probe assms add)
qed

lemmas check_defs = failedTenantsCheck_def schemaDriftCheck_def migrationStateCheck_def migration_turn_def
  queueStuckCheck_def backupRecencyCheck_def backup_turn_def replicaLagCheck_def connectionPoolCheck_def
  longRunningQueriesCheck_def clock_def connection_def

lemma reading_check_cases:
  assumes "c \<in> set (builtInChecks env)" and "dc_name c \<noteq> ''provisioning_stalled''"
  shows "c \<in> {failedTenantsCheck, schemaDriftCheck env, migrationStateCheck env, circuitBreakerCheck env,
     queueStuckCheck env, backupRecencyCheck env, replicaLagCheck env, connectionPoolCheck env,
     longRunningQueriesCheck env}"
proof -
  have "c \<noteq> provisioningStalledCheck env" using assms(2) by (auto simp add: provisioningStalledCheck_def)
  then show ?thesis using assms(1) unfolding builtInChecks_def by auto
qed

lemma keeps_circuit_check:
  assumes "outer_frame P" and "fix \<Longrightarrow> circuit_frame P"
  shows "keeps P (dc_run (circuitBreakerCheck env) fix)"
proof (cases "fix")
  case True
  then have f: "keeps P (circuit_fix env i)" for i
    unfolding circuit_fix_def by (intro keeps_intros keeps_on_breakers assms) simp_all
  show ?thesis unfolding circuitBreakerCheck_def DoctorCheck.simps
    by (intro keeps_intros f)
qed (simp add: circuitBreakerCheck_def keeps_intros)

lemma keeps_server_checks:
  assumes "outer_frame P"
  shows "keeps P (dc_run (schemaDriftCheck env) fix)" "keeps P (dc_run (migrationStateCheck env) fix)"
    "keeps P (dc_run (replicaLagCheck env) fix)" "keeps P (dc_run (connectionPoolCheck env) fix)"
    "keeps P (dc_run (longRunningQueriesCheck env) fix)" "keeps P (dc_run (backupRecencyCheck env) fix)"
    "keeps P (dc_run (queueStuckCheck env) fix)" "keeps P (dc_run failedTenantsCheck fix)"
  unfolding check_defs DoctorCheck.simps Let_def
  by (intro keeps_intros keeps_conn_query keeps_on_world keeps_fresh_queues keeps_replica_turn assms)+

lemma keeps_reading_checks:
  assumes "outer_frame P" and "c \<in> set (builtInChecks env)" and "dc_name c \<noteq> ''provisioning_stalled''"
    and "fix \<Longrightarrow> circuit_frame P"
  shows "keeps P (dc_run c fix)"
  using reading_check_cases [OF assms(2,3)] keeps_server_checks [OF assms(1)]
    keeps_circuit_check [OF assms(1,4)] by fastforce

section \<open>The stalled tenants\<close>

lemma failed_not_stalled [simp]: "\<not> stalled cutoff (t\<lparr>t_status := failed\<rparr>)"
  by (simp add: stalled_def isProvisioning_def)

text \<open>One turn on a loaded object: nothing, or the object becomes failed and, if the save is accepted, its row.\<close>

lemma stalled_turn_run:
  fixes s :: "('c, 'w) clinic"
  obtains iss w where "stalled_turn env fix cutoff k s = (Inr iss, s\<lparr>d_world := w\<rparr>)"
      "\<not> (fix \<and> stalled cutoff (d_objs s ! k))"
  | iss w where "stalled_turn env fix cutoff k s = (Inr iss,
        s\<lparr>d_objs := (d_objs s)[k := (d_objs s ! k)\<lparr>t_status := failed\<rparr>], d_world := w\<rparr>)"
      "fix" "stalled cutoff (d_objs s ! k)" "\<exists>t v. isl (fst (de_save env t v))"
  | iss w where "stalled_turn env fix cutoff k s = (Inr iss,
        s\<lparr>d_rows := mock_add ((d_objs s ! k)\<lparr>t_status := failed\<rparr>) (d_rows s),
          d_objs := (d_objs s)[k := (d_objs s ! k)\<lparr>t_status := failed\<rparr>], d_world := w\<rparr>)"
      "fix" "stalled cutoff (d_objs s ! k)"
proof (cases "fix \<and> stalled cutoff (d_objs s ! k)")
  case False
  then have "\<exists>iss. stalled_turn env fix cutoff k s = (Inr iss, s)"
    by (auto simp add: stalled_turn_def clock_def run_simps Let_def)
  then obtain iss where "stalled_turn env fix cutoff k s = (Inr iss, s\<lparr>d_world := d_world s\<rparr>)" by auto
  then show ?thesis using that(1) False by blast
next
  case True
  let ?t = "(d_objs s ! k)\<lparr>t_status := failed\<rparr>"
  obtain r w where sv: "de_save env ?t (d_world s) = (r, w)" by fastforce
  show ?thesis
  proof (cases r)
    case (Inl e)
    then have "\<exists>t v. isl (fst (de_save env t v))" using sv by (metis fst_conv sum.disc(1))
    moreover have "\<exists>iss. stalled_turn env fix cutoff k s =
        (Inr iss, s\<lparr>d_objs := (d_objs s)[k := ?t], d_world := w\<rparr>)"
      using True sv Inl
      by (auto simp add: stalled_turn_def stalled_fix_def doc_save_def on_world_def clock_def run_simps Let_def)
    ultimately show ?thesis using that(2) True by blast
  next
    case (Inr u)
    then have "\<exists>iss. stalled_turn env fix cutoff k s =
        (Inr iss, s\<lparr>d_rows := mock_add ?t (d_rows s), d_objs := (d_objs s)[k := ?t], d_world := w\<rparr>)"
      using True sv
      by (auto simp add: stalled_turn_def stalled_fix_def doc_save_def on_world_def clock_def run_simps Let_def)
    then show ?thesis using that(3) True by blast
  qed
qed

text \<open>
  The loop as a whole, from objects \<open>O\<close> with distinct ids and rows \<open>R\<close>: each object
  is as loaded or failed, and each row as before or the failed version of a
  stalled object.
\<close>

definition half_fixed :: "bool \<Rightarrow> int \<Rightarrow> tenant list \<Rightarrow> mock_repo \<Rightarrow> ('c, 'w) clinic \<Rightarrow> bool" where
  "half_fixed fix cutoff ts R s \<longleftrightarrow> length (d_objs s) = length ts \<and>
     (\<forall>k < length ts. d_objs s ! k = ts ! k \<or> d_objs s ! k = (ts ! k)\<lparr>t_status := failed\<rparr>) \<and>
     (\<forall>i. jm_get i (d_rows s) = jm_get i R \<or>
        (fix \<and> (\<exists>t \<in> set ts. t_id t = i \<and> stalled cutoff t \<and>
           jm_get i (d_rows s) = Some (t\<lparr>t_status := failed\<rparr>))))"

lemma half_fixed_turn:
  assumes "half_fixed fix cutoff ts R s" and "k < length ts"
  shows "half_fixed fix cutoff ts R (snd (stalled_turn env fix cutoff k s))"
proof -
  have len: "length (d_objs s) = length ts"
    and objs: "\<And>j. j < length ts \<Longrightarrow> d_objs s ! j = ts ! j \<or> d_objs s ! j = (ts ! j)\<lparr>t_status := failed\<rparr>"
    and rows: "\<And>i. jm_get i (d_rows s) = jm_get i R \<or> (fix \<and> (\<exists>t \<in> set ts. t_id t = i \<and> stalled cutoff t \<and>
           jm_get i (d_rows s) = Some (t\<lparr>t_status := failed\<rparr>)))"
    using assms(1) unfolding half_fixed_def by blast+
  have k: "d_objs s ! k = ts ! k" if "stalled cutoff (d_objs s ! k)"
    using objs [OF assms(2)] that failed_not_stalled by metis
  show ?thesis
  proof (rule stalled_turn_run [of env "fix" cutoff k s])
    fix iss w
    assume "stalled_turn env fix cutoff k s = (Inr iss, s\<lparr>d_world := w\<rparr>)"
    then show ?thesis using assms(1) by (simp add: half_fixed_def)
  next
    fix iss w
    assume e: "stalled_turn env fix cutoff k s = (Inr iss,
        s\<lparr>d_objs := (d_objs s)[k := (d_objs s ! k)\<lparr>t_status := failed\<rparr>], d_world := w\<rparr>)"
      and st: "stalled cutoff (d_objs s ! k)"
    show ?thesis unfolding e half_fixed_def
      using len objs rows k [OF st] assms(2) by (auto simp add: nth_list_update)
  next
    fix iss w
    assume e: "stalled_turn env fix cutoff k s = (Inr iss,
        s\<lparr>d_rows := mock_add ((d_objs s ! k)\<lparr>t_status := failed\<rparr>) (d_rows s),
          d_objs := (d_objs s)[k := (d_objs s ! k)\<lparr>t_status := failed\<rparr>], d_world := w\<rparr>)"
      and st: "stalled cutoff (d_objs s ! k)" and f: "fix"
    have "ts ! k \<in> set ts" using assms(2) by simp
    then show ?thesis unfolding e half_fixed_def
      using len objs rows k [OF st] st f assms(2) by (auto simp add: nth_list_update mock_add_def js_map.get_put)
  qed
qed

lemma half_fixed_check:
  assumes "half_fixed fix (de_now env (d_world s) - STALL_MINUTES * 60000) (d_objs s) R s"
  shows "half_fixed fix (de_now env (d_world s) - STALL_MINUTES * 60000) (d_objs s) R
     (snd (dc_run (provisioningStalledCheck env) fix s))"
proof -
  let ?c = "de_now env (d_world s) - STALL_MINUTES * 60000" and ?ts = "d_objs s"
  have "keeps (half_fixed fix ?c ?ts R) (mapM [0..<length ?ts] (stalled_turn env fix ?c))"
    by (rule keeps_mapM, rule keepsI, rule half_fixed_turn) simp_all
  then have "keeps (half_fixed fix ?c ?ts R)
      (bindM (mapM [0..<length ?ts] (stalled_turn env fix ?c)) (\<lambda>iss. returnM (concat iss)))"
    by (rule keeps_bindM) (rule keeps_basic)
  from keepsD [OF this assms] show ?thesis
    by (simp add: provisioningStalledCheck_def clock_def run_simps)
qed

text \<open>
  With saves that succeed, every stalled object's row ends up failed: its own turn
  makes it so, and the turns of the other objects concern other rows.
\<close>

lemma snd_mapM_Cons: "no_throw (f x) \<Longrightarrow> snd (mapM (x # xs) f s) = snd (mapM xs f (snd (f x s)))"
  by (cases "f x s"; cases "fst (f x s)")
     (auto simp add: run_simps no_throw_def split: prod.splits sum.splits, metis fst_conv sum.disc(1))

lemma snd_mapM_append:
  "(\<And>x. no_throw (f x)) \<Longrightarrow> snd (mapM (xs @ ys) f s) = snd (mapM ys f (snd (mapM xs f s)))"
proof (induction xs arbitrary: s)
  case (Cons x xs)
  then show ?case unfolding append_Cons snd_mapM_Cons [OF Cons.prems] by blast
qed (simp add: run_simps)

lemma no_throw_stalled_turn: "no_throw (stalled_turn env fix cutoff k)"
  unfolding no_throw_def
proof
  fix s :: "('a, 'b) clinic"
  show "\<not> isl (fst (stalled_turn env fix cutoff k s))"
    by (rule stalled_turn_run [of env "fix" cutoff k s]) simp_all
qed

definition has_ids :: "string list \<Rightarrow> ('c, 'w) clinic \<Rightarrow> bool" where
  "has_ids ids s \<longleftrightarrow> map t_id (d_objs s) = ids"

lemma failed_ids: "map t_id (ts[j := (ts ! j)\<lparr>t_status := failed\<rparr>]) = map t_id ts"
  by (cases "j < length ts") (simp_all add: list_eq_iff_nth_eq nth_list_update)

lemma has_ids_nth: "has_ids ids s \<Longrightarrow> j < length ids \<Longrightarrow> t_id (d_objs s ! j) = ids ! j"
  by (auto simp add: has_ids_def)

lemma turn_ids: "keeps (has_ids ids) (stalled_turn env fix cutoff j)"
proof
  fix s :: "('a, 'b) clinic"
  assume "has_ids ids s"
  then show "has_ids ids (snd (stalled_turn env fix cutoff j s))"
    by (rule_tac stalled_turn_run [of env "fix" cutoff j s]) (simp_all add: has_ids_def failed_ids)
qed

lemma turn_other_object: "j \<noteq> k \<Longrightarrow> keeps (\<lambda>s. d_objs s ! k = t) (stalled_turn env fix cutoff j)"
proof
  fix s :: "('a, 'b) clinic"
  assume "j \<noteq> k" "d_objs s ! k = t"
  then show "d_objs (snd (stalled_turn env fix cutoff j s)) ! k = t"
    by (rule_tac stalled_turn_run [of env "fix" cutoff j s]) simp_all
qed

lemma turn_other_row:
  assumes "distinct ids" "j \<noteq> k" "j < length ids" "k < length ids"
  shows "keeps (\<lambda>s. has_ids ids s \<and> jm_get (ids ! k) (d_rows s) = Some u) (stalled_turn env fix cutoff j)"
proof
  fix s :: "('a, 'b) clinic"
  assume a: "has_ids ids s \<and> jm_get (ids ! k) (d_rows s) = Some u"
  have "has_ids ids (snd (stalled_turn env fix cutoff j s))"
    using a turn_ids [of ids env "fix" cutoff j] by (blast dest: keepsD)
  moreover have "ids ! j \<noteq> ids ! k" using assms by (simp add: nth_eq_iff_index_eq)
  then have "jm_get (ids ! k) (d_rows (snd (stalled_turn env fix cutoff j s))) = Some u"
    using a has_ids_nth [of ids s j] assms(3)
    by (rule_tac stalled_turn_run [of env "fix" cutoff j s]) (simp_all add: mock_add_def js_map.get_put)
  ultimately show "has_ids ids (snd (stalled_turn env fix cutoff j s)) \<and>
      jm_get (ids ! k) (d_rows (snd (stalled_turn env fix cutoff j s))) = Some u" by blast
qed

lemma own_turn:
  assumes ok: "\<And>t v. fst (de_save env t v) = Inr ()" and st: "stalled cutoff (d_objs s ! k)"
  shows "jm_get (t_id (d_objs s ! k)) (d_rows (snd (stalled_turn env True cutoff k s))) =
     Some ((d_objs s ! k)\<lparr>t_status := failed\<rparr>)"
proof -
  have "\<not> (\<exists>t v. isl (fst (de_save env t v)))" using ok by simp
  then show ?thesis using st by (rule_tac stalled_turn_run [of env True cutoff k s]) (simp_all add: mock_add_def)
qed

lemma stalled_check_fixes:
  assumes ok: "\<And>t v. fst (de_save env t v) = Inr ()" and d: "distinct (map t_id (d_objs s))"
    and t: "t \<in> set (d_objs s)" "stalled (de_now env (d_world s) - STALL_MINUTES * 60000) t"
  shows "jm_get (t_id t) (d_rows (snd (dc_run (provisioningStalledCheck env) True s))) = Some (t\<lparr>t_status := failed\<rparr>)"
proof -
  define f where "f = stalled_turn env True (de_now env (d_world s) - STALL_MINUTES * 60000)"
  define ids where "ids = map t_id (d_objs s)"
  obtain k where k: "k < length (d_objs s)" "d_objs s ! k = t" using t(1) by (auto simp add: in_set_conv_nth)
  let ?u = "snd (mapM [0..<k] f s)" and ?n = "length (d_objs s)"
  have idk: "ids ! k = t_id t" and n: "length ids = ?n" using k by (simp_all add: ids_def)
  have "keeps (\<lambda>s. d_objs s ! k = t) (mapM [0..<k] f)"
    by (rule keeps_mapM) (simp add: f_def turn_other_object)
  then have u: "d_objs ?u ! k = t" using k(2) by (rule keepsD)
  have "keeps (has_ids ids) (mapM [0..<k] f)" by (rule keeps_mapM) (simp add: f_def turn_ids)
  then have "has_ids ids ?u" by (rule keepsD) (simp add: has_ids_def ids_def)
  then have "has_ids ids (snd (f k ?u))" using turn_ids [of ids env True _ k] by (simp add: f_def keepsD)
  moreover have "jm_get (ids ! k) (d_rows (snd (f k ?u))) = Some (t\<lparr>t_status := failed\<rparr>)"
    using own_turn [where s = ?u and k = k, OF ok] u t(2) by (simp add: f_def idk)
  moreover have "keeps (\<lambda>s. has_ids ids s \<and> jm_get (ids ! k) (d_rows s) = Some (t\<lparr>t_status := failed\<rparr>)) (mapM [Suc k..<?n] f)"
    unfolding f_def by (rule keeps_mapM, rule turn_other_row) (use d k n in \<open>auto simp add: ids_def\<close>)
  ultimately have "jm_get (ids ! k) (d_rows (snd (mapM [Suc k..<?n] f (snd (f k ?u))))) = Some (t\<lparr>t_status := failed\<rparr>)"
    by (blast dest: keepsD)
  moreover have "[0..<?n] = [0..<k] @ k # [Suc k..<?n]"
    using k(1) by (metis le_add1 plus_nat.add_0 upt_add_eq_append less_imp_le_nat le_add_diff_inverse upt_conv_Cons)
  moreover have "no_throw (f j)" for j by (simp add: f_def no_throw_stalled_turn)
  ultimately have "jm_get (t_id t) (d_rows (snd (mapM [0..<?n] f s))) = Some (t\<lparr>t_status := failed\<rparr>)"
    using idk by (simp add: snd_mapM_append snd_mapM_Cons del: mapM.simps)
  moreover obtain q v where "mapM [0..<?n] f s = (q, v)" by fastforce
  ultimately show ?thesis
    by (cases q) (simp_all add: provisioningStalledCheck_def clock_def run_simps f_def)
qed

section \<open>A run of the built-in checks\<close>

text \<open>The registry the provider makes.\<close>

definition doctor_registry :: "('c, 'w) doctor_env \<Rightarrow> ('c, 'w) checks" where
  "doctor_registry env = fold doctor_register (builtInChecks env) []"

lemmas check_names = failedTenantsCheck_def provisioningStalledCheck_def schemaDriftCheck_def
  migrationStateCheck_def circuitBreakerCheck_def queueStuckCheck_def backupRecencyCheck_def
  replicaLagCheck_def connectionPoolCheck_def longRunningQueriesCheck_def

lemma builtin_names:
  "dc_name failedTenantsCheck = ''failed_tenants''"
  "dc_name (provisioningStalledCheck env) = ''provisioning_stalled''"
  "dc_name (schemaDriftCheck env) = ''schema_drift''"
  "dc_name (migrationStateCheck env) = ''migration_state''"
  "dc_name (circuitBreakerCheck env) = ''circuit_breakers''"
  "dc_name (queueStuckCheck env) = ''queue_health''"
  "dc_name (backupRecencyCheck env) = ''backup_recency''"
  "dc_name (replicaLagCheck env) = ''replica_lag''"
  "dc_name (connectionPoolCheck env) = ''connection_pool''"
  "dc_name (longRunningQueriesCheck env) = ''long_running_queries''"
  by (simp_all add: check_names)

lemma registry_values: "jm_values (doctor_registry env) = builtInChecks env"
  by (simp add: doctor_registry_def builtInChecks_def doctor_register_def builtin_names jm_values_def)

lemma state_after_Cons: "state_after fix (c # cs) s = state_after fix cs (snd (dc_run c fix s))"
  by (simp add: state_after_def)

lemma state_after_Nil [simp]: "state_after fix [] s = s"
  by (simp add: state_after_def)

lemma state_after_reading:
  assumes "outer_frame P" and "fix \<Longrightarrow> circuit_frame P"
  shows "set cs \<subseteq> {c \<in> set (builtInChecks env). dc_name c \<noteq> ''provisioning_stalled''} \<Longrightarrow> P s \<Longrightarrow> P (state_after fix cs s)"
proof (induction cs arbitrary: s)
  case (Cons c cs)
  then have "keeps P (dc_run c fix)"
    by (intro keeps_reading_checks [where env = env] assms) simp_all
  then have "P (snd (dc_run c fix s))" using Cons.prems(2) by (rule keepsD)
  then show ?case using Cons by (simp add: state_after_Cons)
qed simp

text \<open>The state after a run: the stalled tenants first, on the state as loaded, then checks that only read.\<close>

lemma doctor_run_state:
  obtains cs where "snd (doctor_run env (doctor_registry env) opts s) = state_after (op_fix opts) cs
      (if selected (op_checks opts) ''provisioning_stalled''
       then snd (dc_run (provisioningStalledCheck env) (op_fix opts) (loaded opts s)) else loaded opts s)"
    "set cs \<subseteq> {c \<in> set (builtInChecks env). dc_name c \<noteq> ''provisioning_stalled''}"
proof -
  let ?Q = "\<lambda>c. selected (op_checks opts) (dc_name c)"
  obtain rest where b: "builtInChecks env = failedTenantsCheck # provisioningStalledCheck env # rest"
      "\<forall>c \<in> set rest. dc_name c \<noteq> ''provisioning_stalled''"
    by (simp add: builtInChecks_def builtin_names)
  have noop: "snd (dc_run failedTenantsCheck fx t) = t" for fx and t :: "('a, 'b) clinic"
    by (simp add: failedTenantsCheck_def run_simps)
  have "snd (doctor_run env (doctor_registry env) opts s) = state_after (op_fix opts) (filter ?Q rest)
      (if selected (op_checks opts) ''provisioning_stalled''
       then snd (dc_run (provisioningStalledCheck env) (op_fix opts) (loaded opts s)) else loaded opts s)"
    by (simp add: doctor_run_eq run_checks_run chosen_def registry_values b(1) state_after_Cons builtin_names noop)
  then show ?thesis by (rule that) (use b in auto)
qed

lemma loaded_objects:
  assumes "mock_inv (d_rows s)"
  shows "t \<in> set (d_objs (loaded opts s)) \<longleftrightarrow> jm_get (t_id t) (d_rows s) = Some t \<and> selected (op_tenants opts) (t_id t)"
    and "distinct (map t_id (d_objs (loaded opts s)))"
    and "half_fixed fix cutoff (d_objs (loaded opts s)) (d_rows s) (loaded opts s)"
proof -
  show "t \<in> set (d_objs (loaded opts s)) \<longleftrightarrow> jm_get (t_id t) (d_rows s) = Some t \<and> selected (op_tenants opts) (t_id t)"
    using mock_get_value [OF assms, of t] by (auto simp add: loaded_def mock_all_def status_ok_def)
  show "distinct (map t_id (d_objs (loaded opts s)))"
    using mock.all_ids [OF assms] by (simp add: loaded_def distinct_map_filter)
  show "half_fixed fix cutoff (d_objs (loaded opts s)) (d_rows s) (loaded opts s)"
    by (simp add: half_fixed_def loaded_def)
qed

text \<open>Where the state of a run comes from, in the parts the theorem is about.\<close>

lemma doctor_quiet:
  assumes "\<not> op_fix opts"
  shows "d_rows (snd (doctor_run env (doctor_registry env) opts s)) = d_rows s \<and>
    d_circuits (snd (doctor_run env (doctor_registry env) opts s)) = d_circuits s"
proof -
  let ?P = "\<lambda>u :: ('a, 'b) clinic. d_rows u = d_rows s \<and> d_circuits u = d_circuits s"
  have turn: "keeps ?P (stalled_turn env False c k)" for c k
  proof (rule keepsI)
    fix u :: "('a, 'b) clinic"
    assume u: "?P u"
    show "?P (snd (stalled_turn env False c k u))"
      by (rule stalled_turn_run [of env False c k u]) (simp_all add: u)
  qed
  have check: "keeps ?P (dc_run (provisioningStalledCheck env) False)"
    unfolding provisioningStalledCheck_def DoctorCheck.simps clock_def by (intro keeps_intros turn)
  have l: "?P (loaded opts s)" by (simp add: loaded_def)
  then have m: "?P (if selected (op_checks opts) ''provisioning_stalled''
       then snd (dc_run (provisioningStalledCheck env) (op_fix opts) (loaded opts s)) else loaded opts s)"
    using keepsD [OF check l] assms by simp
  obtain cs where cs: "set cs \<subseteq> {c \<in> set (builtInChecks env). dc_name c \<noteq> ''provisioning_stalled''}"
    and s': "snd (doctor_run env (doctor_registry env) opts s) = state_after (op_fix opts) cs
      (if selected (op_checks opts) ''provisioning_stalled''
       then snd (dc_run (provisioningStalledCheck env) (op_fix opts) (loaded opts s)) else loaded opts s)"
    by (rule doctor_run_state [of env opts s])
  show ?thesis unfolding s'
    by (rule state_after_reading [of ?P, OF _ _ cs m]) (simp_all add: outer_frame_def assms)
qed

text \<open>
  C24. A run of the built-in checks changes nothing that is stored unless it was
  asked to fix; with --fix, a stored tenant is left as it is or goes from
  provisioning to failed, and only when it is in the scope of the run and was
  created at least thirty minutes ago. When the saves succeed, every such tenant
  is failed afterwards.
\<close>

theorem doctor_fixes_only_stalled:
  assumes inv: "mock_inv (d_rows s)" and run: "doctor_run env (doctor_registry env) opts s = (r, s')"
  shows "(\<not> op_fix opts \<longrightarrow> d_rows s' = d_rows s \<and> d_circuits s' = d_circuits s) \<and>
    (jm_get i (d_rows s') = jm_get i (d_rows s) \<or>
     op_fix opts \<and> selected (op_tenants opts) i \<and>
       (\<exists>t. jm_get i (d_rows s) = Some t \<and> isProvisioning t \<and> t_createdAt t \<le> de_now env (d_world s) - 1800000 \<and>
            jm_get i (d_rows s') = Some (t\<lparr>t_status := failed\<rparr>))) \<and>
    (op_fix opts \<and> selected (op_checks opts) ''provisioning_stalled'' \<and> selected (op_tenants opts) i \<and>
       (\<forall>t w. fst (de_save env t w) = Inr ()) \<and> jm_get i (d_rows s) = Some t \<and> isProvisioning t \<and>
       t_createdAt t \<le> de_now env (d_world s) - 1800000 \<longrightarrow>
     jm_get i (d_rows s') = Some (t\<lparr>t_status := failed\<rparr>))"
proof -
  let ?l = "loaded opts s" and ?fix = "op_fix opts"
  let ?c = "de_now env (d_world ?l) - STALL_MINUTES * 60000"
  have l: "d_rows ?l = d_rows s" "d_circuits ?l = d_circuits s" "d_world ?l = d_world s"
    by (simp_all add: loaded_def)
  define m where "m = (if selected (op_checks opts) ''provisioning_stalled''
       then snd (dc_run (provisioningStalledCheck env) ?fix ?l) else ?l)"
  obtain cs where s': "s' = state_after ?fix cs m"
    and cs: "set cs \<subseteq> {c \<in> set (builtInChecks env). dc_name c \<noteq> ''provisioning_stalled''}"
    by (rule doctor_run_state [of env opts s]) (simp add: run m_def)
  have rows: "d_rows s' = d_rows m"
    unfolding s' by (rule state_after_reading [OF _ _ cs]) (simp_all add: outer_frame_def circuit_frame_def)
  have quiet: "d_rows s' = d_rows s \<and> d_circuits s' = d_circuits s" if "\<not> ?fix"
    using doctor_quiet [OF that, of env s] run by simp
  have "half_fixed ?fix ?c (d_objs ?l) (d_rows s) m"
    unfolding m_def using loaded_objects(3) [OF inv, of ?fix ?c opts] half_fixed_check [of ?fix env ?l "d_rows s"] by simp
  then have "jm_get i (d_rows m) = jm_get i (d_rows s) \<or> (?fix \<and> (\<exists>t \<in> set (d_objs ?l). t_id t = i \<and>
      stalled ?c t \<and> jm_get i (d_rows m) = Some (t\<lparr>t_status := failed\<rparr>)))"
    unfolding half_fixed_def by blast
  then have some: "jm_get i (d_rows s') = jm_get i (d_rows s) \<or>
     op_fix opts \<and> selected (op_tenants opts) i \<and>
       (\<exists>t. jm_get i (d_rows s) = Some t \<and> isProvisioning t \<and> t_createdAt t \<le> de_now env (d_world s) - 1800000 \<and>
            jm_get i (d_rows s') = Some (t\<lparr>t_status := failed\<rparr>))"
    unfolding rows loaded_objects(1) [OF inv] Bex_def stalled_def l STALL_MINUTES_def by auto
  have full: "jm_get i (d_rows s') = Some (t\<lparr>t_status := failed\<rparr>)"
    if h: "op_fix opts" "selected (op_checks opts) ''provisioning_stalled''" "selected (op_tenants opts) i"
      "\<forall>t w. fst (de_save env t w) = Inr ()" "jm_get i (d_rows s) = Some t" "isProvisioning t"
      "t_createdAt t \<le> de_now env (d_world s) - 1800000"
  proof -
    have i: "t_id t = i" using mock_get_id [OF inv h(5)] .
    have "t \<in> set (d_objs ?l)" unfolding loaded_objects(1) [OF inv] i using h by blast
    moreover have "stalled ?c t" using h by (simp add: stalled_def l STALL_MINUTES_def)
    ultimately have "jm_get (t_id t) (d_rows m) = Some (t\<lparr>t_status := failed\<rparr>)"
      unfolding m_def using stalled_check_fixes [of env ?l t] h(1,2,4) loaded_objects(2) [OF inv] by simp
    then show ?thesis by (simp add: rows i)
  qed
  show ?thesis using quiet some full by blast
qed

section \<open>Reports of a run\<close>

definition reports_of :: "('c, 'w) doctor_env \<Rightarrow> ('c, 'w) checks \<Rightarrow> DoctorRunOptions \<Rightarrow> ('c, 'w) clinic \<Rightarrow> DiagnosisReport list" where
  "reports_of env cs opts s = map2 (report_of env (op_fix opts)) (chosen opts cs)
     (states_before (op_fix opts) (chosen opts cs) (loaded opts s))"

definition totals_of :: "DiagnosisIssue list \<Rightarrow> doctor_totals" where
  "totals_of iss = \<lparr>dt_info = severity_count Info iss, dt_warn = severity_count Warn iss,
     dt_error = severity_count Err iss, dt_fixable = length (filter di_fixable iss)\<rparr>"

lemma fold_count_issue: "fold count_issue iss zero_totals = totals_of iss"
  by (rule doctor_totals.equality) (simp_all add: totals_of_def fold_count zero_totals_def)

lemma doctor_run_eval:
  "doctor_run env cs opts s = (Inr (reports_of env cs opts s, totals_of (concat (map dr_issues (reports_of env cs opts s)))),
     state_after (op_fix opts) (chosen opts cs) (loaded opts s))"
  by (simp add: doctor_run_eq run_checks_run reports_of_def fold_count_issue)

lemma length_states_before [simp]: "length (states_before fix cs s) = length cs"
  by (induction cs arbitrary: s) simp_all

lemma report_check [simp]: "dr_check (report_of env fix c s) = dc_name c"
  by (simp add: report_of_def split: prod.splits)

lemma reports_checks: "map dr_check (map2 (report_of env fix) cs (states_before fix cs s)) = map dc_name cs"
  by (induction cs arbitrary: s) simp_all

definition checks_named :: "('c, 'w) checks \<Rightarrow> bool" where
  "checks_named cs \<longleftrightarrow> list_all (\<lambda>(n, c). dc_name c = n) cs"

lemma chosen_unregister:
  "checks_named cs \<Longrightarrow> chosen opts (doctor_unregister n cs) = filter (\<lambda>c. dc_name c \<noteq> n) (chosen opts cs)"
  by (induction cs) (auto simp add: checks_named_def chosen_def doctor_unregister_def jm_values_def)

lemma quiet_check_reports:
  assumes "\<forall>c \<in> set cs. dc_name c = n \<longrightarrow> (\<forall>t. \<exists>e. dc_run c fix t = (Inl e, t))"
  shows "map2 (report_of env fix) (filter (\<lambda>c. dc_name c \<noteq> n) cs) (states_before fix (filter (\<lambda>c. dc_name c \<noteq> n) cs) s) =
      filter (\<lambda>r. dr_check r \<noteq> n) (map2 (report_of env fix) cs (states_before fix cs s)) \<and>
    concat (map dr_issues (filter (\<lambda>r. dr_check r \<noteq> n) (map2 (report_of env fix) cs (states_before fix cs s)))) =
      concat (map dr_issues (map2 (report_of env fix) cs (states_before fix cs s)))"
  using assms
proof (induction cs arbitrary: s)
  case (Cons c cs)
  show ?case
  proof (cases "dc_name c = n")
    case True
    then have "\<forall>t. \<exists>e. dc_run c fix t = (Inl e, t)" using Cons.prems by simp
    then obtain e where "dc_run c fix s = (Inl e, s)" by metis
    then show ?thesis using Cons True by (simp add: report_of_def)
  next
    case False
    then show ?thesis using Cons by simp
  qed
qed simp


text \<open>
  C25. A run answers one report per selected check, in the order of registration,
  each with the issues or the error its check gave in the state the checks before
  it left; the totals count all issues by severity. A check that throws changes
  nothing but its own report: without it the other reports and the totals are the
  same.
\<close>

theorem doctor_run_reports:
  assumes "checks_named cs"
  shows "fst (doctor_run env cs opts s) =
      Inr (reports_of env cs opts s, totals_of (concat (map dr_issues (reports_of env cs opts s)))) \<and>
    map dr_check (reports_of env cs opts s) = map dc_name (chosen opts cs) \<and>
    ((\<forall>c \<in> set (jm_values cs). dc_name c = n \<longrightarrow> (\<forall>t. \<exists>e. dc_run c (op_fix opts) t = (Inl e, t))) \<longrightarrow>
     fst (doctor_run env (doctor_unregister n cs) opts s) =
       Inr (filter (\<lambda>r. dr_check r \<noteq> n) (reports_of env cs opts s),
            totals_of (concat (map dr_issues (reports_of env cs opts s)))))"
proof (intro conjI impI)
  assume "\<forall>c \<in> set (jm_values cs). dc_name c = n \<longrightarrow> (\<forall>t. \<exists>e. dc_run c (op_fix opts) t = (Inl e, t))"
  then have q: "\<forall>c \<in> set (chosen opts cs). dc_name c = n \<longrightarrow> (\<forall>t. \<exists>e. dc_run c (op_fix opts) t = (Inl e, t))"
    by (simp add: chosen_def)
  have l: "loaded opts (s :: ('a, 'b) clinic) = loaded opts s" by simp
  show "fst (doctor_run env (doctor_unregister n cs) opts s) =
       Inr (filter (\<lambda>r. dr_check r \<noteq> n) (reports_of env cs opts s),
            totals_of (concat (map dr_issues (reports_of env cs opts s))))"
    using quiet_check_reports [OF q, of env "loaded opts s"]
    by (simp add: doctor_run_eval reports_of_def chosen_unregister [OF assms])
qed (simp_all only: doctor_run_eval reports_of_def reports_checks fst_conv)

section \<open>Schema drift\<close>

text \<open>
  The schema check accuses exactly: it reports a tenant in scope as missing its
  schema when the tenant is live and the schema is not in the database, and a
  schema of the database as an orphan when no live tenant in scope has it.
\<close>

theorem schema_drift_exact:
  "di_code i = ''schema_missing'' \<and> i \<in> set (drift_issues env ts physical) \<longleftrightarrow>
     (\<exists>t \<in> set ts. \<not> isDeleted t \<and> de_schemaName env t \<notin> set physical \<and> i = schema_missing env t)"
  by (auto simp add: drift_issues_def Let_def schema_missing_def schema_orphan_def issue_def)

text \<open>
  The scope of a run is also the scope of what counts as a known schema: with
  --tenant, the schemas of all other tenants are reported as orphans. So are the
  schemas of soft-deleted tenants, which a kept schema leaves in place.
\<close>

lemma drift_reports_tenants_out_of_scope:
  assumes "sch \<in> set physical" "sch \<notin> de_schemaName env ` set ts"
  shows "schema_orphan sch \<in> set (drift_issues env ts physical)"
    and "isDeleted t \<Longrightarrow> de_schemaName env t \<in> set physical \<Longrightarrow>
      schema_orphan (de_schemaName env t) \<in> set (drift_issues env [t] physical)"
  using assms by (auto simp add: drift_issues_def Let_def)

section \<open>The command\<close>

text \<open>The exit code counts issues: a run in which checks throw and report no error issue exits with 0.\<close>

lemma doctor_exit_code:
  assumes "''list'' \<notin> set (op_checks opts)"
  shows "fst (doctor_command env cs opts s) =
    Inr (Reported (reports_of env cs opts s) (totals_of (concat (map dr_issues (reports_of env cs opts s))))
      (if list_ex (\<lambda>r. list_ex (\<lambda>i. di_severity i = Err) (dr_issues r)) (reports_of env cs opts s) then 1 else 0))"
proof -
  have "0 < severity_count Err (concat (map dr_issues rs)) \<longleftrightarrow>
      list_ex (\<lambda>r. list_ex (\<lambda>i. di_severity i = Err) (dr_issues r)) rs" for rs
    by (induction rs) (auto simp add: severity_count_def filter_empty_conv list_ex_iff)
  note this [symmetric, simp]
  show ?thesis using assms by (simp add: doctor_command_def run_simps doctor_run_eval totals_of_def)
qed

definition broken_check :: "('c, 'w) DoctorCheck" where
  "broken_check = \<lparr>dc_name = ''broken'', dc_description = [], dc_run = (\<lambda>fix. throwM ''database unreachable'')\<rparr>"

lemma thrown_checks_exit_zero:
  "fst (doctor_command env (doctor_register broken_check []) \<lparr>op_tenants = [], op_checks = [], op_fix = False\<rparr> s) =
   Inr (Reported [\<lparr>dr_check = ''broken'', dr_description = [], dr_durationMs = 0, dr_issues = [],
     dr_error = Some ''database unreachable''\<rparr>] zero_totals 0)"
  by (simp add: doctor_exit_code reports_of_def doctor_register_def chosen_def jm_values_def selected_def
      report_of_def broken_check_def run_simps totals_of_def zero_totals_def severity_count_def)

text \<open>A check that throws an error without a message is shown as fine.\<close>

lemma empty_message_looks_fine:
  "dr_issues r = [] \<Longrightarrow> dr_error r = Some [] \<Longrightarrow> fst (watch_row r) = OKAY \<and> last (render_report r) = ''  OK''"
  by (simp add: watch_row_def render_report_def truthy_def Let_def)

text \<open>
  The migration check looks at the status only: a destroyed tenant whose row stayed
  active is reported for ever.
\<close>

lemma migration_check_reports_destroyed:
  assumes "isActive t" "isDeleted t" "jm_has (dg_central (de_cfg env)) (d_conns s)"
    and "de_query env (dg_central (de_cfg env)) ADONIS_SCHEMA_SQL [CText (de_schemaName env t)] (d_world s) = (Inr [], w)"
  shows "\<exists>i. fst (migration_turn env t s) = Inr [i] \<and> di_code i = ''migrations_never_ran'' \<and> di_severity i = Err"
  using assms by (auto simp add: migration_turn_def conn_query_def connection_def on_world_def run_simps issue_def)

text \<open>The watch loop waits at least the rest of a second and never fixes.\<close>

lemma watch_never_fixes:
  assumes run: "watch_turn env (doctor_registry env) opts v s = (Inr (r, pause), s')"
  shows "d_rows s' = d_rows s \<and> d_circuits s' = d_circuits s \<and> 0 \<le> pause"
proof -
  have "snd (doctor_run env (doctor_registry env) (opts\<lparr>op_fix := False\<rparr>) s) = s'" "0 \<le> pause"
    using run by (auto simp add: watch_turn_def clock_def run_simps doctor_run_eval)
  then show ?thesis using doctor_quiet [of "opts\<lparr>op_fix := False\<rparr>" env s] by simp
qed

section \<open>A concrete clinic\<close>

text \<open>A world that is only a clock, in which every library answers at once.\<close>

definition calm_backup :: "int backup_ops" where
  "calm_backup = \<lparr>bo_iso = (\<lambda>w. []), bo_mkdir = (\<lambda>d. returnM ()), bo_stat = (\<lambda>f. returnM 0), bo_unlink = (\<lambda>f. returnM ()),
     bo_readFile = (\<lambda>f. throwM ''ENOENT''), bo_writeFile = (\<lambda>f c. returnM ()), bo_spawn = (\<lambda>c a e w. (Closed (Some 0) [], w)),
     bo_redis = None, bo_putObject = (\<lambda>k f. returnM ()), bo_getObject = (\<lambda>k. throwM ''NoSuchKey''),
     bo_deleteObject = (\<lambda>k. returnM ()), bo_pipeline = (\<lambda>a b. returnM ()), bo_stringify = (\<lambda>l. []), bo_parse = (\<lambda>t. Some [])\<rparr>"

definition calm_bull :: "int bull" where
  "calm_bull = \<lparr>bq_open = (\<lambda>q opt w. w), bq_counts = (\<lambda>q. returnM (\<lambda>c. None)), bq_add = (\<lambda>q j p. returnM ()),
     bq_obliterate = (\<lambda>q. returnM ()), bq_close = (\<lambda>q. returnM ())\<rparr>"

definition calm_env :: "(bool, int) doctor_env" where
  "calm_env = \<lparr>de_cfg = \<lparr>dg_central = ''pg'', dg_backoffice = ''bo'', dg_schemaPrefix = ''tenant_'', dg_connPrefix = ''tenant_'',
       dg_replicas = None, dg_queueStalledMinutes = None, dg_replicaLagWarn = None, dg_replicaLagError = None,
       dg_longQueryWarn = None, dg_longQueryError = None, dg_poolWarnRatio = None\<rparr>,
     de_now = (\<lambda>w. w), de_iso = show_int, de_fixed1 = (\<lambda>q. []), de_text = text_of, de_pgcode = Some, de_lucid = True,
     de_query = (\<lambda>n q a. returnM []), de_save = (\<lambda>t. returnM ()), de_schemaName = t_id, de_opossum = bool_breaker,
     de_kv = None, de_bull = calm_bull, de_qcfg = \<lparr>queuePrefix = [], queueAttempts = 3\<rparr>, de_getActive = (\<lambda>q a b. returnM []),
     de_backup = calm_backup,
     de_bcfg = \<lparr>bc_storagePath = ''/b'', bc_pg = \<lparr>pt_host = [], pt_port = 5432, pt_user = [], pt_database = [], pt_password = []\<rparr>,
       bc_s3 = False, bc_metadataTtl = 60\<rparr>,
     de_parseDate = (\<lambda>t. None), de_close = (\<lambda>n. returnM ()), de_pools = (\<lambda>w. None)\<rparr>"

definition slow_tenant :: tenant where
  "slow_tenant = \<lparr>t_id = ''a'', t_name = ''n'', t_email = ''e'', t_status = provisioning, t_customDomain = None,
     t_createdAt = 0, t_deletedAt = None, t_maintenance = False, t_maintenanceMessage = None\<rparr>"

definition demo_clinic :: "(bool, int) clinic" where
  "demo_clinic = \<lparr>d_rows = mock_new [slow_tenant], d_objs = [], d_circuits = [], d_conns = [], d_world = 2000000\<rparr>"

definition fix_all :: DoctorRunOptions where
  "fix_all = \<lparr>op_tenants = [], op_checks = [], op_fix = True\<rparr>"

theorem doctor_fixes_only_stalled_witness:
  "mock_inv (d_rows demo_clinic) \<and>
   jm_get ''a'' (d_rows (snd (doctor_run calm_env (doctor_registry calm_env) fix_all demo_clinic))) =
     Some (slow_tenant\<lparr>t_status := failed\<rparr>)"
proof -
  have inv: "mock_inv (d_rows demo_clinic)" by (simp add: demo_clinic_def mock_inv_new)
  have row: "jm_get ''a'' (d_rows demo_clinic) = Some slow_tenant"
    by (simp add: demo_clinic_def mock_new_def mock_add_def slow_tenant_def)
  have "de_now calm_env (d_world demo_clinic) = 2000000" by (simp add: calm_env_def demo_clinic_def)
  moreover have "isProvisioning slow_tenant" "t_createdAt slow_tenant = 0"
    by (simp_all add: slow_tenant_def isProvisioning_def)
  moreover have "fst (de_save calm_env t w) = Inr ()" for t w by (simp add: calm_env_def run_simps)
  moreover have "op_fix fix_all" "selected (op_checks fix_all) n" "selected (op_tenants fix_all) n" for n
    by (simp_all add: fix_all_def selected_def)
  ultimately show ?thesis
    using doctor_fixes_only_stalled [OF inv prod.collapse [symmetric], where env = calm_env and opts = fix_all
        and i = "''a''" and t = slow_tenant] inv row
    by simp
qed

theorem doctor_run_reports_witness:
  "fst (doctor_run calm_env (doctor_unregister ''broken'' [(''broken'', broken_check), (''failed_tenants'', failedTenantsCheck)])
      fix_all demo_clinic) =
   Inr (filter (\<lambda>r. dr_check r \<noteq> ''broken'')
        (reports_of calm_env [(''broken'', broken_check), (''failed_tenants'', failedTenantsCheck)] fix_all demo_clinic),
      totals_of (concat (map dr_issues
        (reports_of calm_env [(''broken'', broken_check), (''failed_tenants'', failedTenantsCheck)] fix_all demo_clinic))))"
  using doctor_run_reports [of "[(''broken'', broken_check), (''failed_tenants'', failedTenantsCheck)]" calm_env fix_all
      demo_clinic "''broken''"]
  by (simp add: checks_named_def broken_check_def builtin_names jm_values_def run_simps)

end
