(* ===== verification/Commands.thy ===== *)
theory Commands
  imports Bootstrap Backup Sql_Import Webhook Impersonation Redirect Lifecycle
begin

text \<open>
  The commands that walk over tenants: tenant:migrate, migrate:rollback,
  migrate:fresh, migration:tenant:run and rollback, tenant:seed, tenant:exec,
  tenant:backup, backup:list, restore, import, impersonate, webhooks:retry, list
  and backoffice:setup. The driver, Lucid's migrator, other Ace commands and the
  services' libraries act on one state \<open>'w\<close> of the world; the rows are those the
  command reads when it starts. Of the output the counts, the exit code and the
  outcome are kept.
\<close>

section \<open>Environment and outcome\<close>

datatype direction = Up | Down

record 'w cmd_env =
  ce_connect :: "tenant \<Rightarrow> ('w, string, unit) M"
  ce_migrate :: "tenant \<Rightarrow> direction \<Rightarrow> bool \<Rightarrow> bool \<Rightarrow> ('w, string, unit) M"
  ce_reset :: "tenant \<Rightarrow> ('w, string, unit) M"
  ce_hooks :: "(tenant \<times> direction, 'w, string) hook_registry"
  ce_hooklog :: "phase \<Rightarrow> lifecycle_event \<Rightarrow> string \<Rightarrow> 'w \<Rightarrow> 'w"
  ce_migrated :: "tenant \<Rightarrow> direction \<Rightarrow> ('w, string, unit) M"
  ce_exec :: "string \<Rightarrow> string list \<Rightarrow> ('w, string, int option) M"
  ce_connPrefix :: string
  ce_boot :: "('w, string) boot_registry"
  ce_bootlog :: "string \<Rightarrow> string \<Rightarrow> 'w \<Rightarrow> 'w"

text \<open>What a walk ends with: nothing to do, a refused prompt, or counts and the exit code.\<close>

datatype walk_result = NoTenants | Declined | Done nat nat int

text \<open>A task: its exception is shown and turned into a failure.\<close>

definition attempt :: "('w, string, unit) M \<Rightarrow> ('w, string, bool) M" where
  "attempt m = catchM (thenM m (returnM True)) (\<lambda>e. returnM False)"

text \<open>The loop that counts; with \<open>stop\<close> the first failure ends it.\<close>

fun walk :: "bool \<Rightarrow> (tenant \<Rightarrow> ('w, string, bool) M) \<Rightarrow> tenant list \<Rightarrow> nat \<Rightarrow> nat \<Rightarrow> ('w, string, nat \<times> nat) M" where
  "walk stop f [] succeeded bad = returnM (succeeded, bad)"
| "walk stop f (t # ts) succeeded bad =
     bindM (f t) (\<lambda>ok.
       if ok then walk stop f ts (Suc succeeded) bad
       else if stop then returnM (succeeded, Suc bad)
       else walk stop f ts succeeded (Suc bad))"

definition pick_tenants :: "mock_repo \<Rightarrow> string list \<Rightarrow> bool \<Rightarrow> tenant list" where
  "pick_tenants r ids withDeleted =
     (if ids \<noteq> [] then mock_whereIn r ids withDeleted else mock_all r withDeleted None)"

section \<open>Migrations\<close>

definition migrate_hooks :: "'w cmd_env \<Rightarrow> phase \<Rightarrow> tenant \<Rightarrow> direction \<Rightarrow> ('w, string, unit) M" where
  "migrate_hooks env ph t d = run_hooks (ce_hooklog env) (ce_hooks env) ph migrate (t, d)"

text \<open>The task of one tenant, the same in four commands up to the direction.\<close>

definition migrate_task :: "'w cmd_env \<Rightarrow> direction \<Rightarrow> bool \<Rightarrow> bool \<Rightarrow> tenant \<Rightarrow> ('w, string, unit) M" where
  "migrate_task env d disableLocks dryRun t =
     thenM (ce_connect env t)
     (thenM (if dryRun then returnM () else migrate_hooks env Before t d)
     (thenM (ce_migrate env t d disableLocks dryRun)
        (if dryRun then returnM ()
         else thenM (migrate_hooks env After t d) (ce_migrated env t d))))"

definition cmd_migrate :: "'w cmd_env \<Rightarrow> mock_repo \<Rightarrow> string list \<Rightarrow> bool \<Rightarrow> bool \<Rightarrow> ('w, string, walk_result) M" where
  "cmd_migrate env r ids disableLocks dryRun =
     (let ts = pick_tenants r ids True in
      if ts = [] then returnM NoTenants
      else bindM (walk False (\<lambda>t. attempt (migrate_task env Up disableLocks dryRun t)) ts 0 0) (\<lambda>(ok, bad).
             returnM (Done ok bad 0)))"

definition cmd_migrate_rollback :: "'w cmd_env \<Rightarrow> mock_repo \<Rightarrow> string list \<Rightarrow> bool \<Rightarrow> bool \<Rightarrow> ('w, string, walk_result) M" where
  "cmd_migrate_rollback env r ids disableLocks dryRun =
     (let ts = pick_tenants r ids False in
      if ts = [] then returnM NoTenants
      else bindM (walk False (\<lambda>t. attempt (migrate_task env Down disableLocks dryRun t)) ts 0 0) (\<lambda>(ok, bad).
             returnM (Done ok bad 0)))"

text \<open>The older commands, which count nothing.\<close>

definition run_tenant_migrations :: "'w cmd_env \<Rightarrow> mock_repo \<Rightarrow> string list \<Rightarrow> bool \<Rightarrow> bool \<Rightarrow> ('w, string, unit) M" where
  "run_tenant_migrations env r ids disableLocks dryRun =
     forM (pick_tenants r ids True) (\<lambda>t.
       bindM (attempt (migrate_task env Up disableLocks dryRun t)) (\<lambda>ok. returnM ()))"

definition rollback_tenant_migrations :: "'w cmd_env \<Rightarrow> mock_repo \<Rightarrow> string list \<Rightarrow> bool \<Rightarrow> bool \<Rightarrow> ('w, string, unit) M" where
  "rollback_tenant_migrations env r ids disableLocks dryRun =
     forM (pick_tenants r ids True) (\<lambda>t.
       bindM (attempt (migrate_task env Down disableLocks dryRun t)) (\<lambda>ok. returnM ()))"

definition conn_name :: "'w cmd_env \<Rightarrow> tenant \<Rightarrow> string" where
  "conn_name env t = ce_connPrefix env @ t_id t"

definition run_seeder :: "'w cmd_env \<Rightarrow> tenant \<Rightarrow> ('w, string, int) M" where
  "run_seeder env t =
     bindM (ce_exec env ''db:seed'' [''--connection'', conn_name env t]) (\<lambda>c. returnM (or_else c 0))"

definition refresh_one :: "'w cmd_env \<Rightarrow> bool \<Rightarrow> bool \<Rightarrow> tenant \<Rightarrow> ('w, string, bool) M" where
  "refresh_one env disableLocks seed t = attempt
     (thenM (ce_reset env t)
     (thenM (migrate_hooks env Before t Up)
     (thenM (ce_migrate env t Up disableLocks False)
     (thenM (migrate_hooks env After t Up)
     (thenM (ce_migrated env t Up)
        (if seed then bindM (run_seeder env t) (\<lambda>c.
           if c \<noteq> 0 then throwM (''db:seed exited with code '' @ show_int c) else returnM ())
         else returnM ()))))))"

definition cmd_migrate_fresh ::
  "'w cmd_env \<Rightarrow> mock_repo \<Rightarrow> string list \<Rightarrow> bool \<Rightarrow> bool \<Rightarrow> bool \<Rightarrow> bool \<Rightarrow> ('w, string, walk_result) M"
where
  "cmd_migrate_fresh env r ids force confirmed disableLocks seed =
     (let ts = pick_tenants r ids True in
      if ts = [] then returnM NoTenants
      else if \<not> force \<and> \<not> confirmed then returnM Declined
      else bindM (walk False (refresh_one env disableLocks seed) ts 0 0) (\<lambda>(ok, bad).
             returnM (Done ok bad (if 0 < bad then 1 else 0))))"

section \<open>Seeding\<close>

text \<open>Only the connection is inside the try: an exception of the seeder itself ends the command.\<close>

definition seed_tenant :: "'w cmd_env \<Rightarrow> string list \<Rightarrow> tenant \<Rightarrow> ('w, string, bool) M" where
  "seed_tenant env files t =
     bindM (attempt (ce_connect env t)) (\<lambda>ok.
       if \<not> ok then returnM False
       else bindM (ce_exec env ''db:seed'' ([''--connection'', conn_name env t] @ concat (map (\<lambda>f. [''--files'', f]) files)))
              (\<lambda>c. returnM (c = Some 0)))"

definition cmd_seed :: "'w cmd_env \<Rightarrow> mock_repo \<Rightarrow> string list \<Rightarrow> string list \<Rightarrow> bool \<Rightarrow> ('w, string, walk_result) M" where
  "cmd_seed env r ids files continueOnError =
     (let actives = mock_all r False (Some [active]);
          ts = (if ids \<noteq> [] then filter (\<lambda>t. t_id t \<in> set ids) actives else actives)
      in if ts = [] then returnM NoTenants
         else bindM (walk (\<not> continueOnError) (seed_tenant env files) ts 0 0) (\<lambda>(ok, bad).
                returnM (Done ok bad (if 0 < bad then 1 else 0))))"

section \<open>tenant:exec\<close>

text \<open>\<open>#parseStatuses\<close>: the statuses named, with comma lists taken apart.\<close>

definition parse_statuses :: "string list \<Rightarrow> TenantStatus list option" where
  "parse_statuses ss =
     (if ss = [] then None
      else Some (filter (\<lambda>st. status_name st \<in> set (map js_trim (concat (map (js_split (CHR '','')) ss))))
                   [provisioning, active, suspended, failed, deleted]))"

definition hitLimit :: "int option \<Rightarrow> nat \<Rightarrow> bool" where
  "hitLimit limit visited = (case limit of None \<Rightarrow> False | Some l \<Rightarrow> 0 \<le> l \<and> l \<le> int visited)"

record exec_flags =
  ef_command :: string
  ef_args :: "string list"
  ef_ids :: "string list"
  ef_statuses :: "string list"
  ef_includeDeleted :: bool
  ef_limit :: "int option"
  ef_continue :: bool
  ef_dryRun :: bool

record exec_tally =
  et_succeeded :: nat
  et_failed :: nat
  et_visited :: nat
  et_aborted :: bool

text \<open>\<open>handle\<close> without its first line: what one tenant's turn does to the world.\<close>

definition exec_one :: "'w cmd_env \<Rightarrow> exec_flags \<Rightarrow> tenant \<Rightarrow> ('w, string, bool) M" where
  "exec_one env fl t =
     (if ef_dryRun fl then returnM True
      else attempt (tenancy_run (ce_bootlog env) (ce_boot env) t (\<lambda>current.
             bindM (ce_exec env (ef_command fl) (ef_args fl)) (\<lambda>c.
               case c of None \<Rightarrow> returnM ()
               | Some n \<Rightarrow> if n \<noteq> 0 then throwM (''exit code '' @ show_int n) else returnM ()))))"

text \<open>The loop over named tenants.\<close>

fun exec_named :: "'w cmd_env \<Rightarrow> exec_flags \<Rightarrow> tenant list \<Rightarrow> exec_tally \<Rightarrow> ('w, string, exec_tally) M" where
  "exec_named env fl [] ta = returnM ta"
| "exec_named env fl (t # ts) ta =
     (if hitLimit (ef_limit fl) (et_visited ta) then returnM ta
      else bindM (exec_one env fl t) (\<lambda>ok.
        let ta1 = ta\<lparr>et_visited := Suc (et_visited ta)\<rparr> in
        if ok then exec_named env fl ts (ta1\<lparr>et_succeeded := Suc (et_succeeded ta1)\<rparr>)
        else if \<not> ef_continue fl then returnM (ta1\<lparr>et_failed := Suc (et_failed ta1), et_aborted := True\<rparr>)
        else exec_named env fl ts (ta1\<lparr>et_failed := Suc (et_failed ta1)\<rparr>)))"

text \<open>
  The walk over everyone: the callback of \<open>repo.each\<close> counts in variables outside
  it and leaves the iteration by throwing a sentinel.
\<close>

definition on_fst :: "('w, string, 'a) M \<Rightarrow> ('w \<times> 'v, string, 'a) M" where
  "on_fst m = (\<lambda>(w, v). case m w of (r, w') \<Rightarrow> (r, (w', v)))"

definition LIMIT_REACHED :: string where "LIMIT_REACHED = ''__limit_reached__''"
definition ABORT_ON_ERROR :: string where "ABORT_ON_ERROR = ''__abort_on_error__''"

definition on_tally :: "(exec_tally \<Rightarrow> exec_tally) \<Rightarrow> ('w \<times> exec_tally, string, unit) M" where
  "on_tally f = modM (\<lambda>(w, ta). (w, f ta))"

definition exec_callback :: "'w cmd_env \<Rightarrow> exec_flags \<Rightarrow> tenant \<Rightarrow> ('w \<times> exec_tally, string, unit) M" where
  "exec_callback env fl t = bindM (getM snd) (\<lambda>ta.
     if hitLimit (ef_limit fl) (et_visited ta) then throwM LIMIT_REACHED
     else thenM (on_tally (\<lambda>ta. ta\<lparr>et_visited := Suc (et_visited ta)\<rparr>))
       (bindM (on_fst (exec_one env fl t)) (\<lambda>ok.
         if ok then on_tally (\<lambda>ta. ta\<lparr>et_succeeded := Suc (et_succeeded ta)\<rparr>)
         else thenM (on_tally (\<lambda>ta. ta\<lparr>et_failed := Suc (et_failed ta)\<rparr>))
           (if ef_continue fl then returnM ()
            else thenM (on_tally (\<lambda>ta. ta\<lparr>et_aborted := True\<rparr>)) (throwM ABORT_ON_ERROR)))))"

definition zero_tally :: exec_tally where
  "zero_tally = \<lparr>et_succeeded = 0, et_failed = 0, et_visited = 0, et_aborted = False\<rparr>"

definition exec_everyone :: "'w cmd_env \<Rightarrow> exec_flags \<Rightarrow> mock_repo \<Rightarrow> ('w, string, exec_tally) M" where
  "exec_everyone env fl r = (\<lambda>w.
     case catchM (mock_each r (exec_callback env fl) (ef_includeDeleted fl) (parse_statuses (ef_statuses fl)))
            (\<lambda>e. if e \<noteq> ABORT_ON_ERROR \<and> e \<noteq> LIMIT_REACHED then throwM e else returnM ()) (w, zero_tally) of
       (Inl e, (w', ta)) \<Rightarrow> (Inl e, w') | (Inr _, (w', ta)) \<Rightarrow> (Inr ta, w'))"

definition cmd_exec :: "'w cmd_env \<Rightarrow> exec_flags \<Rightarrow> mock_repo \<Rightarrow> ('w, string, exec_tally \<times> int) M" where
  "cmd_exec env fl r =
     bindM (if ef_ids fl \<noteq> []
            then exec_named env fl
                   (filter (status_ok (parse_statuses (ef_statuses fl))) (mock_whereIn r (ef_ids fl) (ef_includeDeleted fl)))
                   zero_tally
            else exec_everyone env fl r) (\<lambda>ta.
       returnM (ta, if 0 < et_failed ta then 1 else 0))"

section \<open>Commands around one service\<close>

definition cmd_backup ::
  "'w backup_ops \<Rightarrow> backup_config \<Rightarrow> (tenant \<Rightarrow> string) \<Rightarrow> mock_repo \<Rightarrow> string list \<Rightarrow> ('w, string, walk_result) M"
where
  "cmd_backup ops cfg schemaName r ids =
     (let actives = mock_all r False (Some [active]);
          ts = (if ids \<noteq> [] then filter (\<lambda>t. t_id t \<in> set ids) actives else actives)
      in if ts = [] then returnM NoTenants
         else bindM (walk False (\<lambda>t. attempt (bindM (service_backup ops cfg t (schemaName t)) (\<lambda>meta. returnM ()))) ts 0 0)
                (\<lambda>(ok, bad). returnM (Done ok bad 0)))"

definition or_fail :: "mock_repo \<Rightarrow> string \<Rightarrow> ('w, string, tenant) M" where
  "or_fail r i = (case mock_findByIdOrFail r i False of Inl e \<Rightarrow> throwM (''Tenant not found: '' @ i) | Inr t \<Rightarrow> returnM t)"

definition cmd_backup_list ::
  "'w backup_ops \<Rightarrow> backup_config \<Rightarrow> mock_repo \<Rightarrow> string option \<Rightarrow> ('w, string, (string \<times> string \<times> BackupMetadata) list) M"
where
  "cmd_backup_list ops cfg r tenantId =
     bindM (case truthy tenantId of Some i \<Rightarrow> bindM (or_fail r i) (\<lambda>t. returnM [t]) | None \<Rightarrow> returnM (mock_all r False None)) (\<lambda>ts.
     bindM (mapM ts (\<lambda>t. bindM (listBackups ops cfg (t_id t)) (\<lambda>bs. returnM (map (\<lambda>b. (t_id t, t_name t, b)) bs)))) (\<lambda>rows.
       returnM (concat rows)))"

text \<open>The restore itself is a task: its exception is shown, and the success line follows anyway.\<close>

definition cmd_restore ::
  "'w backup_ops \<Rightarrow> backup_config \<Rightarrow> (tenant \<Rightarrow> string) \<Rightarrow> mock_repo \<Rightarrow> bool \<Rightarrow> string \<Rightarrow> string \<Rightarrow> ('w, string, cmd_outcome) M"
where
  "cmd_restore ops cfg schemaName r confirmed tenantId file =
     bindM (or_fail r tenantId) (\<lambda>t.
       if \<not> confirmed then returnM CmdAborted
       else bindM (attempt (service_restore ops cfg t (schemaName t) file)) (\<lambda>shown. returnM CmdDone))"

datatype import_outcome = ImportRefused | ImportThrew | Imported SqlImportResult

definition import_exit :: "import_outcome \<Rightarrow> int" where
  "import_exit res = (case res of ImportRefused \<Rightarrow> 1 | ImportThrew \<Rightarrow> 0
     | Imported r \<Rightarrow> if errors r \<noteq> [] then 1 else 0)"

definition cmd_import ::
  "'w host_ops \<Rightarrow> (string \<Rightarrow> 'w \<Rightarrow> (string + unit) \<times> 'w) \<Rightarrow> 'w tx \<Rightarrow> PgConnection option \<Rightarrow> (tenant \<Rightarrow> string) \<Rightarrow>
   (string \<Rightarrow> string) \<Rightarrow> mock_repo \<Rightarrow> string \<Rightarrow> string \<Rightarrow> string \<Rightarrow> bool \<Rightarrow> bool \<Rightarrow> 'w \<Rightarrow> import_outcome \<times> 'w"
where
  "cmd_import ops db transaction pg schemaName resolve r tenantId file schemaReplace dryRun force w =
     (case mock_findByIdOrFail r tenantId False of
        Inl e \<Rightarrow> (ImportRefused, w)
      | Inr t \<Rightarrow>
          if \<not> isActive t \<and> \<not> force then (ImportRefused, w)
          else (case h_access ops (resolve file) w of
              (Inl e, w1) \<Rightarrow> (ImportRefused, w1)
            | (Inr _, w1) \<Rightarrow>
                (case import_sql ops db transaction pg (t_id t) (schemaName t) (resolve file) schemaReplace dryRun w1 of
                   (Inl e, w2) \<Rightarrow> (ImportThrew, w2)
                 | (Inr res, w2) \<Rightarrow> (Imported res, w2))))"

definition cmd_impersonate ::
  "'w imp_ops \<Rightarrow> impersonation_config option \<Rightarrow> string \<Rightarrow> mock_repo \<Rightarrow> string \<Rightarrow> string \<Rightarrow> string option \<Rightarrow> int option \<Rightarrow>
   string option \<Rightarrow> string option \<Rightarrow> 'w \<Rightarrow> (ImpersonationStartResult \<times> string) option \<times> 'w"
where
  "cmd_impersonate ops cfg base r tenantId userId admin duration reason path w =
     (case mock_findByIdOrFail r tenantId False of
        Inl e \<Rightarrow> (None, w)
      | Inr t \<Rightarrow>
          (case start_session ops cfg \<lparr>so_tenantId = t_id t, so_targetUserId = userId, so_adminId = or_else admin ''cli'',
                  so_adminType = Some ActorAdmin, so_reason = reason, so_durationSeconds = duration, so_ipAddress = None\<rparr> w of
             (Inl e, w1) \<Rightarrow> (None, w1)
           | (Inr res, w1) \<Rightarrow>
               let p = or_else path ''/'';
                   sep = (if CHR ''?'' \<in> set p then ''&'' else ''?'')
               in (case toTenant base t (p @ sep @ ''__impersonate='' @ sr_token res)
                          \<lparr>preserveQuery = False, protocol = None, u_port = None\<rparr> of
                     Inl e \<Rightarrow> (None, w1) | Inr url \<Rightarrow> (Some (res, url), w1))))"

definition cmd_webhooks_retry :: "'p wh_env \<Rightarrow> ('p, unit) W" where
  "cmd_webhooks_retry env = processRetries env"

text \<open>tenant:list prints a row per tenant; the date's rendering is a parameter.\<close>

definition cmd_list :: "(int \<Rightarrow> string) \<Rightarrow> mock_repo \<Rightarrow> bool \<Rightarrow> string list list" where
  "cmd_list toFormat r withDeleted =
     map (\<lambda>t. [t_id t, t_name t, t_email t, status_name (t_status t), toFormat (t_createdAt t),
               if isDeleted t then ''yes'' else ''no'']) (mock_all r withDeleted None)"

text \<open>backoffice:setup; the migrator answers whether it ended without an error.\<close>

definition setup_backoffice ::
  "(string \<Rightarrow> ('w, string, unit) M) \<Rightarrow> (string \<Rightarrow> ('w, string, bool) M) \<Rightarrow> string \<Rightarrow> string \<Rightarrow> ('w, string, int) M"
where
  "setup_backoffice rawQuery migrator schemaName connectionName =
     thenM (rawQuery (''CREATE SCHEMA IF NOT EXISTS '' @ [DQ] @ schemaName @ [DQ]))
       (bindM (migrator connectionName) (\<lambda>fine. returnM (if fine then 0 else 1)))"

section \<open>Walks\<close>

lemma no_throw_attempt [simp]: "no_throw (attempt m)"
  unfolding attempt_def by (rule no_throw_catch) simp

lemma no_throwE:
  assumes "no_throw m"
  obtains x t where "m s = (Inr x, t)"
proof -
  have "\<not> isl (fst (m s))" using assms by (simp add: no_throw_def)
  then obtain x where "fst (m s) = Inr x" by (cases "fst (m s)") auto
  then show ?thesis using that [of x "snd (m s)"] by (cases "m s") simp
qed

lemma snd_attempt [simp]: "snd (attempt m s) = snd (m s)"
  by (auto simp add: attempt_def run_simps split: prod.splits sum.splits)

definition run_each :: "(tenant \<Rightarrow> ('w, 'e, 'a) M) \<Rightarrow> tenant list \<Rightarrow> 'w \<Rightarrow> 'w" where
  "run_each f ts w = fold (\<lambda>t w. snd (f t w)) ts w"

lemma run_each_simps [simp]: "run_each f [] w = w" "run_each f (t # ts) w = run_each f ts (snd (f t w))"
  by (simp_all add: run_each_def)

lemma run_each_attempt [simp]: "run_each (\<lambda>t. attempt (f t)) ts w = run_each f ts w"
  by (simp add: run_each_def)

lemma walk_all:
  assumes nt: "\<And>t. no_throw (f t)"
  shows "\<exists>ok bad. walk False f ts a b w = (Inr (a + ok, b + bad), run_each f ts w) \<and> ok + bad = length ts"
proof (induction ts arbitrary: a b w)
  case Nil
  then show ?case by (simp add: run_simps)
next
  case (Cons t ts)
  obtain x u where f: "f t w = (Inr x, u)" by (rule no_throwE [OF nt])
  show ?case
  proof (cases x)
    case True
    obtain ok bad where "walk False f ts (Suc a) b u = (Inr (Suc a + ok, b + bad), run_each f ts u)" "ok + bad = length ts"
      using Cons by blast
    then show ?thesis using True f by (intro exI [of _ "Suc ok"] exI [of _ bad]) (simp add: run_simps)
  next
    case False
    obtain ok bad where "walk False f ts a (Suc b) u = (Inr (a + ok, Suc b + bad), run_each f ts u)" "ok + bad = length ts"
      using Cons by blast
    then show ?thesis using False f by (intro exI [of _ ok] exI [of _ "Suc bad"]) (simp add: run_simps)
  qed
qed

lemma forM_attempts: "forM ts (\<lambda>t. bindM (attempt (f t)) (\<lambda>ok. returnM ())) w = (Inr (), run_each f ts w)"
proof (induction ts arbitrary: w)
  case (Cons t ts)
  obtain x u where "attempt (f t) w = (Inr x, u)" by (rule no_throwE [OF no_throw_attempt])
  moreover have "u = snd (f t w)" using calculation snd_attempt [of "f t" w] by simp
  ultimately show ?case using Cons by (simp add: run_simps)
qed (simp add: run_simps)

text \<open>
  tenant:migrate tries every tenant it selects, whatever happens to the others,
  and its counts add up to their number; its effect is that of the older command
  migration:tenant:run, as documented. A dry run runs no hook and fires no event.
\<close>

theorem migrate_tries_every_tenant:
  assumes "cmd_migrate env r ids locks dry w = (res, w')"
  shows "w' = run_each (migrate_task env Up locks dry) (pick_tenants r ids True) w \<and>
    w' = snd (run_tenant_migrations env r ids locks dry w) \<and>
    (\<exists>ok bad. ok + bad = length (pick_tenants r ids True) \<and>
       res = Inr (if pick_tenants r ids True = [] then NoTenants else Done ok bad 0)) \<and>
    cmd_migrate (env\<lparr>ce_hooks := h, ce_migrated := m\<rparr>) r ids locks True w = cmd_migrate env r ids locks True w"
proof -
  let ?ts = "pick_tenants r ids True" and ?f = "migrate_task env Up locks dry"
  obtain ok bad where "walk False (\<lambda>t. attempt (?f t)) ?ts 0 0 w = (Inr (0 + ok, 0 + bad), run_each ?f ?ts w)"
      "ok + bad = length ?ts"
    using walk_all [OF no_throw_attempt, of ?f ?ts 0 0 w] by auto
  moreover have "migrate_task (env\<lparr>ce_hooks := h, ce_migrated := m\<rparr>) Up locks True = migrate_task env Up locks True"
    by (simp add: migrate_task_def fun_eq_iff)
  ultimately show ?thesis using assms
    by (auto simp add: cmd_migrate_def run_tenant_migrations_def Let_def run_simps forM_attempts split: if_splits)
qed

section \<open>tenant:exec\<close>

lemma no_throw_exec_one: "no_throw (exec_one env fl t)"
  by (simp add: exec_one_def)

lemma no_throw_exec_named: "no_throw (exec_named env fl ts ta)"
proof -
  have "\<not> isl (fst (exec_named env fl ts ta w))" for w
  proof (induction ts arbitrary: ta w)
    case (Cons t ts)
    obtain x u where "exec_one env fl t w = (Inr x, u)" by (rule no_throwE [OF no_throw_exec_one])
    then show ?case using Cons by (simp add: run_simps Let_def)
  qed (simp add: run_simps)
  then show ?thesis by (simp add: no_throw_def)
qed

text \<open>The two ways of walking, with and without sentinels, do and count the same.\<close>

lemma exec_walks_agree:
  "\<exists>ta' w'. exec_named env fl ts ta w = (Inr ta', w') \<and>
     catchM (forM ts (exec_callback env fl))
       (\<lambda>e. if e \<noteq> ABORT_ON_ERROR \<and> e \<noteq> LIMIT_REACHED then throwM e else returnM ()) (w, ta) = (Inr (), (w', ta'))"
proof (induction ts arbitrary: ta w)
  case (Cons t ts)
  obtain x u where f: "exec_one env fl t w = (Inr x, u)" by (rule no_throwE [OF no_throw_exec_one])
  show ?case
  proof (cases "hitLimit (ef_limit fl) (et_visited ta)")
    case True
    then show ?thesis by (simp add: exec_callback_def run_simps)
  next
    case False
    define ta1 where "ta1 = (if x then ta\<lparr>et_visited := Suc (et_visited ta), et_succeeded := Suc (et_succeeded ta)\<rparr>
        else ta\<lparr>et_visited := Suc (et_visited ta), et_failed := Suc (et_failed ta)\<rparr>)"
    obtain ta' w' where "exec_named env fl ts ta1 u = (Inr ta', w')"
      "catchM (forM ts (exec_callback env fl))
       (\<lambda>e. if e \<noteq> ABORT_ON_ERROR \<and> e \<noteq> LIMIT_REACHED then throwM e else returnM ()) (u, ta1) = (Inr (), (w', ta'))"
      using Cons by blast
    then show ?thesis using f False unfolding ta1_def run_catch
      by (cases x; cases "ef_continue fl") (simp_all add: exec_callback_def on_fst_def on_tally_def run_simps)
  qed
qed (simp add: run_simps)

lemma exec_everyone_eq:
  "exec_everyone env fl r w =
     exec_named env fl (mock_all r (ef_includeDeleted fl) (parse_statuses (ef_statuses fl))) zero_tally w"
  using exec_walks_agree [of env fl "mock_all r (ef_includeDeleted fl) (parse_statuses (ef_statuses fl))" zero_tally w]
  by (auto simp add: exec_everyone_def mock_each_def)

definition exec_targets :: "exec_flags \<Rightarrow> mock_repo \<Rightarrow> tenant list" where
  "exec_targets fl r =
     (if ef_ids fl \<noteq> []
      then filter (status_ok (parse_statuses (ef_statuses fl))) (mock_whereIn r (ef_ids fl) (ef_includeDeleted fl))
      else mock_all r (ef_includeDeleted fl) (parse_statuses (ef_statuses fl)))"

lemma exec_named_run:
  assumes "exec_named env fl ts ta w = (Inr ta', w')"
  shows "\<exists>k \<le> length ts. et_visited ta' = et_visited ta + k \<and> w' = run_each (exec_one env fl) (take k ts) w \<and>
    et_succeeded ta' + et_failed ta' + et_visited ta = et_succeeded ta + et_failed ta + et_visited ta' \<and>
    et_failed ta \<le> et_failed ta' \<and> (\<not> ef_continue fl \<longrightarrow> et_failed ta' \<le> Suc (et_failed ta)) \<and>
    (ef_dryRun fl \<longrightarrow> et_failed ta' = et_failed ta) \<and>
    (0 < k \<longrightarrow> \<not> hitLimit (ef_limit fl) (et_visited ta' - 1)) \<and>
    (k < length ts \<longrightarrow> hitLimit (ef_limit fl) (et_visited ta') \<or> \<not> ef_continue fl \<and> et_failed ta < et_failed ta')"
  using assms
proof (induction ts arbitrary: ta w)
  case Nil
  then show ?case by (simp add: run_simps)
next
  case (Cons t ts)
  obtain x u where f: "exec_one env fl t w = (Inr x, u)" by (rule no_throwE [OF no_throw_exec_one])
  have dry: "ef_dryRun fl \<Longrightarrow> x" using f by (simp add: exec_one_def run_simps)
  show ?case
  proof (cases "hitLimit (ef_limit fl) (et_visited ta)")
    case True
    then show ?thesis using Cons.prems by (intro exI [of _ 0]) (auto simp add: run_simps)
  next
    case False
    define ta1 where "ta1 = (if x then ta\<lparr>et_visited := Suc (et_visited ta), et_succeeded := Suc (et_succeeded ta)\<rparr>
        else ta\<lparr>et_visited := Suc (et_visited ta), et_failed := Suc (et_failed ta)\<rparr>)"
    show ?thesis
    proof (cases "x \<or> ef_continue fl")
      case True
      then have "exec_named env fl ts ta1 u = (Inr ta', w')"
        using Cons.prems f False by (auto simp add: run_simps ta1_def)
      from Cons.IH [OF this] obtain k where k: "k \<le> length ts" "et_visited ta' = et_visited ta1 + k"
        "w' = run_each (exec_one env fl) (take k ts) u"
        "et_succeeded ta' + et_failed ta' + et_visited ta1 = et_succeeded ta1 + et_failed ta1 + et_visited ta'"
        "et_failed ta1 \<le> et_failed ta'" "\<not> ef_continue fl \<longrightarrow> et_failed ta' \<le> Suc (et_failed ta1)"
        "ef_dryRun fl \<longrightarrow> et_failed ta' = et_failed ta1"
        "0 < k \<longrightarrow> \<not> hitLimit (ef_limit fl) (et_visited ta' - 1)"
        "k < length ts \<longrightarrow> hitLimit (ef_limit fl) (et_visited ta') \<or> \<not> ef_continue fl \<and> et_failed ta1 < et_failed ta'"
        by blast
      show ?thesis
        by (rule exI [of _ "Suc k"], cases k)
           (use k f dry False True in \<open>auto simp add: ta1_def split: if_splits\<close>)
    next
      case stop: False
      then show ?thesis using Cons.prems f False dry
        by (intro exI [of _ 1]) (auto simp add: run_simps)
    qed
  qed
qed


section \<open>Concrete runs\<close>

text \<open>A world that is the trace of what was asked of it; migrating tenant b fails.\<close>

definition trace :: "string \<Rightarrow> (string list, string, unit) M" where
  "trace what = modM (\<lambda>w. w @ [what])"

definition trace_env :: "(string list) cmd_env" where
  "trace_env = \<lparr>ce_connect = (\<lambda>t. trace (''connect '' @ t_id t)),
     ce_migrate = (\<lambda>t d l dry. if t_id t = ''b'' then throwM ''syntax error'' else trace (''migrate '' @ t_id t)),
     ce_reset = (\<lambda>t. trace (''reset '' @ t_id t)), ce_hooks = [], ce_hooklog = (\<lambda>ph ev e w. w),
     ce_migrated = (\<lambda>t d. returnM ()), ce_exec = (\<lambda>c a. returnM (Some 0)), ce_connPrefix = ''tenant_'',
     ce_boot = empty_boot, ce_bootlog = (\<lambda>n e w. w)\<rparr>"

definition some_tenant :: "string \<Rightarrow> int option \<Rightarrow> tenant" where
  "some_tenant i del = \<lparr>t_id = i, t_name = i, t_email = i, t_status = active, t_customDomain = None,
     t_createdAt = 0, t_deletedAt = del, t_maintenance = False, t_maintenanceMessage = None\<rparr>"

definition two_tenants :: mock_repo where
  "two_tenants = mock_new [some_tenant ''a'' None, some_tenant ''b'' None]"

lemma two_tenants_rows: "two_tenants = [(''a'', some_tenant ''a'' None), (''b'', some_tenant ''b'' None)]"
  by (simp add: two_tenants_def mock_new_def mock_add_def some_tenant_def)

definition exec_all :: exec_flags where
  "exec_all = \<lparr>ef_command = ''db:seed'', ef_args = [], ef_ids = [], ef_statuses = [], ef_includeDeleted = False,
     ef_limit = Some 1, ef_continue = True, ef_dryRun = False\<rparr>"

theorem migrate_tries_every_tenant_witness:
  "snd (cmd_migrate trace_env two_tenants [] False False []) =
     run_each (migrate_task trace_env Up False False) (pick_tenants two_tenants [] True) []"
  using migrate_tries_every_tenant [OF prod.collapse [symmetric], where env = trace_env and r = two_tenants
      and ids = "[]" and locks = False and dry = False and w = "[]"] by blast


text \<open>A migration that fails is counted, and the command exits with 0; migrate:fresh exits with 1.\<close>

lemma failed_migration_exits_zero:
  "cmd_migrate trace_env two_tenants [''b''] False False [] = (Inr (Done 0 1 0), [''connect b'']) \<and>
   fst (cmd_migrate_fresh trace_env two_tenants [''b''] True False False False []) = Inr (Done 0 1 1)"
  by (simp add: cmd_migrate_def cmd_migrate_fresh_def refresh_one_def migrate_task_def migrate_hooks_def run_hooks_def
      hooks_of_def or_else_def pick_tenants_def two_tenants_rows mock_whereIn_def jm_values_def some_tenant_def trace_env_def
      trace_def attempt_def run_simps)

text \<open>Without --tenant the storage of destroyed tenants is made anew.\<close>

lemma fresh_recreates_destroyed:
  "snd (cmd_migrate_fresh trace_env (mock_new [some_tenant ''a'' (Some 0)]) [] True False False False []) =
     [''reset a'', ''migrate a'']"
  by (simp add: cmd_migrate_fresh_def refresh_one_def migrate_hooks_def run_hooks_def hooks_of_def or_else_def
      pick_tenants_def mock_new_def mock_add_def mock_all_def status_ok_def jm_values_def some_tenant_def trace_env_def
      trace_def attempt_def run_simps)

text \<open>A seeder that throws ends the command, --continue-on-error or not.\<close>

lemma throwing_seeder_ends_command:
  "cmd_seed (trace_env\<lparr>ce_exec := \<lambda>c a. throwM ''boom''\<rparr>) two_tenants [] [] True [] = (Inl ''boom'', [''connect a''])"
  by (simp add: cmd_seed_def seed_tenant_def two_tenants_rows mock_all_def status_ok_def isDeleted_def jm_values_def
      some_tenant_def trace_env_def trace_def attempt_def run_simps)

text \<open>A refused or failed restore is reported as a success; a failed import exits with 0.\<close>

lemma failed_restore_reported_done:
  assumes "mock_findByIdOrFail r i False = Inr t" "\<not> FILE_PATTERN file"
  shows "cmd_restore ops cfg sn r True i file w = (Inr CmdDone, w) \<and>
    isl (fst (service_restore ops cfg t (sn t) file w)) \<and> import_exit ImportThrew = 0"
  using assms by (simp add: cmd_restore_def or_fail_def attempt_def service_restore_def import_exit_def run_simps)

text \<open>
  The link of an impersonation is built after the session is started: when the
  tenant's host or the path is refused, the command reports a failure and leaves
  a live session behind.
\<close>

lemma failed_impersonation_leaves_session:
  assumes "mock_findByIdOrFail r i False = Inr t"
    and "start_session ops cfg \<lparr>so_tenantId = t_id t, so_targetUserId = u, so_adminId = ''cli'', so_adminType = Some ActorAdmin,
           so_reason = None, so_durationSeconds = None, so_ipAddress = None\<rparr> w = (Inr res, w')"
    and "toTenant base t (''/?__impersonate='' @ sr_token res) \<lparr>preserveQuery = False, protocol = None, u_port = None\<rparr> = Inl e"
  shows "cmd_impersonate ops cfg base r i u None None None None w = (None, w')"
  using assms by (simp add: cmd_impersonate_def or_else_def)

end
