(* ===== verification/Clone.thy ===== *)
theory Clone
  imports Lifecycle
begin

text \<open>
  services/clone_service.ts, jobs/clone_tenant.ts and commands/tenant_clone.ts: a
  tenant is provisioned and migrated, the rows of another are copied into it in one
  transaction, and it becomes active; on any failure it becomes failed and its
  storage is dropped. The driver, the database and what a save does outside are
  parameters acting on a state \<open>'w\<close>; the stored rows are kept beside it.
\<close>

section \<open>State and parameters\<close>

record CloneOptions =
  co_schemaOnly :: bool
  co_clearSessions :: bool

record CloneResult =
  cr_source :: tenant
  cr_destination :: tenant
  cr_tablesCopied :: nat
  cr_rowsCopied :: nat

record 'w clone_state =
  cl_rows :: mock_repo
  cl_world :: 'w

text \<open>
  \<open>cn_query\<close> is a statement inside the transaction and answers its row count;
  \<open>cn_tables\<close> is the query of pg_tables on the central connection.
\<close>

record 'w clone_env =
  cn_provision :: "tenant \<Rightarrow> ('w, string, unit) M"
  cn_migrate :: "tenant \<Rightarrow> ('w, string, unit) M"
  cn_disconnect :: "tenant \<Rightarrow> ('w, string, unit) M"
  cn_destroy :: "tenant \<Rightarrow> ('w, string, unit) M"
  cn_save :: "tenant \<Rightarrow> ('w, string, unit) M"
  cn_schemaName :: "tenant \<Rightarrow> string"
  cn_tables :: "string \<Rightarrow> ('w, string, string list) M"
  cn_query :: "string \<Rightarrow> string list \<Rightarrow> ('w, string, nat) M"
  cn_begin :: "('w, string, unit) M"
  cn_commit :: "('w, string, unit) M"
  cn_rollback :: "'w \<Rightarrow> 'w"
  cn_hooks :: "(tenant \<times> tenant \<times> CloneResult option, 'w, string) hook_registry"
  cn_hooklog :: "phase \<Rightarrow> lifecycle_event \<Rightarrow> string \<Rightarrow> 'w \<Rightarrow> 'w"
  cn_cloned :: "tenant \<Rightarrow> tenant \<Rightarrow> CloneResult \<Rightarrow> ('w, string, unit) M"
  cn_openQueue :: "string \<Rightarrow> ('w, string, unit) M"

definition cl_on :: "('w, string, 'a) M \<Rightarrow> ('w clone_state, string, 'a) M" where
  "cl_on m = (\<lambda>s. case m (cl_world s) of (r, w) \<Rightarrow> (r, s\<lparr>cl_world := w\<rparr>))"

definition cl_save :: "'w clone_env \<Rightarrow> tenant \<Rightarrow> ('w clone_state, string, unit) M" where
  "cl_save env t = thenM (cl_on (cn_save env t)) (modM (\<lambda>s. s\<lparr>cl_rows := mock_add t (cl_rows s)\<rparr>))"

section \<open>The copy\<close>

definition MIGRATION_TABLES :: "string list" where
  "MIGRATION_TABLES = [''adonis_schema'', ''adonis_schema_versions'']"

definition dquoted :: "string \<Rightarrow> string" where
  "dquoted s = [DQ] @ s @ [DQ]"

definition insert_sql :: "string \<Rightarrow> string \<Rightarrow> string \<Rightarrow> string" where
  "insert_sql dst src table = ''INSERT INTO '' @ dquoted dst @ ''.'' @ dquoted table @ '' SELECT * FROM '' @
     dquoted src @ ''.'' @ dquoted table"

definition truncate_sql :: "string \<Rightarrow> string" where
  "truncate_sql schema = ''TRUNCATE TABLE '' @ dquoted schema @ ''.'' @ dquoted ''auth_access_tokens''"

definition SETVAL_SQL :: string where
  "SETVAL_SQL = ''DO $$ DECLARE seq text; BEGIN seq := pg_get_serial_sequence(format('%I.%I', $1::text, $2::text), 'id'); IF seq IS NOT NULL THEN EXECUTE format( 'SELECT setval(%L, COALESCE((SELECT MAX(id) FROM %I.%I), 1))', seq, $1::text, $2::text ); END IF; END $$''"

definition SET_REPLICA :: string where "SET_REPLICA = ''SET LOCAL session_replication_role = replica''"
definition SET_DEFAULT :: string where "SET_DEFAULT = ''SET LOCAL session_replication_role = DEFAULT''"

definition run_sql :: "'w clone_env \<Rightarrow> string \<Rightarrow> ('w, string, unit) M" where
  "run_sql env q = bindM (cn_query env q []) (\<lambda>n. returnM ())"

definition savepoint_name :: "string \<Rightarrow> string" where
  "savepoint_name name = ''sp_'' @ take 40 (map (\<lambda>c. if is_alnum c \<or> c = CHR ''_'' then c else CHR ''_'') name)"

definition runWithSavepoint :: "'w clone_env \<Rightarrow> string \<Rightarrow> ('w, string, nat) M \<Rightarrow> ('w, string, unit) M" where
  "runWithSavepoint env name act =
     (let sp = savepoint_name name in
      thenM (run_sql env (''SAVEPOINT '' @ sp))
        (catchM (thenM act (run_sql env (''RELEASE SAVEPOINT '' @ sp)))
           (\<lambda>e. run_sql env (''ROLLBACK TO SAVEPOINT '' @ sp))))"

definition clearAccessTokens :: "'w clone_env \<Rightarrow> string \<Rightarrow> ('w, string, unit) M" where
  "clearAccessTokens env schema = runWithSavepoint env ''clear_tokens'' (cn_query env (truncate_sql schema) [])"

definition resetIntegerSequences :: "'w clone_env \<Rightarrow> string \<Rightarrow> string list \<Rightarrow> ('w, string, unit) M" where
  "resetIntegerSequences env schema tables =
     forM tables (\<lambda>t. runWithSavepoint env (''seq_'' @ t) (cn_query env SETVAL_SQL [schema, t]))"

text \<open>The loop over the tables; it answers the number of rows copied.\<close>

fun copy_tables :: "'w clone_env \<Rightarrow> string \<Rightarrow> string \<Rightarrow> string list \<Rightarrow> string list \<Rightarrow> nat \<Rightarrow> ('w, string, nat) M" where
  "copy_tables env src dst dstTables [] rowsCopied = returnM rowsCopied"
| "copy_tables env src dst dstTables (t # ts) rowsCopied =
     (if t \<notin> set dstTables then copy_tables env src dst dstTables ts rowsCopied
      else bindM (cn_query env (insert_sql dst src t) []) (\<lambda>n.
             copy_tables env src dst dstTables ts (rowsCopied + n)))"

text \<open>\<open>conn.transaction\<close>: commit when the callback returns, roll back and rethrow when it throws.\<close>

definition transaction :: "'w clone_env \<Rightarrow> ('w, string, 'a) M \<Rightarrow> ('w, string, 'a) M" where
  "transaction env body =
     thenM (cn_begin env)
       (bindM (catchM body (\<lambda>e. thenM (modM (cn_rollback env)) (throwM e))) (\<lambda>x.
          thenM (cn_commit env) (returnM x)))"

definition copyData :: "'w clone_env \<Rightarrow> tenant \<Rightarrow> tenant \<Rightarrow> bool \<Rightarrow> ('w, string, nat \<times> nat) M" where
  "copyData env source dest clearSessions =
     (let src = cn_schemaName env source; dst = cn_schemaName env dest in
      bindM (cn_tables env src) (\<lambda>srcTables.
      bindM (cn_tables env dst) (\<lambda>dstTables.
        let copyable = filter (\<lambda>t. t \<notin> set MIGRATION_TABLES) srcTables in
        bindM (transaction env
          (thenM (run_sql env SET_REPLICA)
          (bindM (copy_tables env src dst dstTables copyable 0) (\<lambda>n.
           thenM (run_sql env SET_DEFAULT)
          (thenM (if clearSessions then clearAccessTokens env dst else returnM ())
          (thenM (resetIntegerSequences env dst copyable)
             (returnM n))))))) (\<lambda>n.
          returnM (length copyable, n)))))"

section \<open>The service, the job and the command\<close>

definition clone_try ::
  "'w clone_env \<Rightarrow> tenant \<Rightarrow> tenant \<Rightarrow> CloneOptions \<Rightarrow> ('w clone_state, string, CloneResult) M"
where
  "clone_try env source dest opts =
     thenM (cl_on (cn_provision env dest))
     (thenM (cl_on (cn_migrate env dest))
     (bindM (if co_schemaOnly opts then returnM (0, 0) else cl_on (copyData env source dest (co_clearSessions opts)))
        (\<lambda>(tables, copied).
      thenM (cl_on (swallow (cn_disconnect env dest)))
      (thenM (cl_save env (dest\<lparr>t_status := active\<rparr>))
         (returnM \<lparr>cr_source = source, cr_destination = dest\<lparr>t_status := active\<rparr>,
                   cr_tablesCopied = tables, cr_rowsCopied = copied\<rparr>)))))"

definition clone_service ::
  "'w clone_env \<Rightarrow> tenant \<Rightarrow> tenant \<Rightarrow> CloneOptions \<Rightarrow> ('w clone_state, string, CloneResult) M"
where
  "clone_service env source dest opts =
     catchM (clone_try env source dest opts) (\<lambda>e.
       thenM (cl_save env (dest\<lparr>t_status := failed\<rparr>))
       (thenM (cl_on (swallow (cn_destroy env (dest\<lparr>t_status := failed\<rparr>))))
          (throwM e)))"

definition cl_hooks ::
  "'w clone_env \<Rightarrow> phase \<Rightarrow> tenant \<times> tenant \<times> CloneResult option \<Rightarrow> ('w clone_state, string, unit) M"
where
  "cl_hooks env ph ctx = cl_on (run_hooks (cn_hooklog env) (cn_hooks env) ph clone ctx)"

definition cl_find :: "string \<Rightarrow> ('w clone_state, string, tenant) M" where
  "cl_find i = bindM (getM (\<lambda>s. mock_findByIdOrFail (cl_rows s) i False)) (\<lambda>r.
     case r of Inl e \<Rightarrow> throwM (''Tenant not found: '' @ i) | Inr t \<Rightarrow> returnM t)"

definition clone_execute ::
  "'w clone_env \<Rightarrow> string \<Rightarrow> string \<Rightarrow> CloneOptions \<Rightarrow> ('w clone_state, string, unit) M"
where
  "clone_execute env sourceId destinationId opts =
     bindM (cl_find sourceId) (\<lambda>source.
     bindM (cl_find destinationId) (\<lambda>dest.
     thenM (cl_hooks env Before (source, dest, None))
     (bindM (clone_service env source dest opts) (\<lambda>result.
      thenM (cl_on (cn_openQueue env (t_id (cr_destination result))))
      (thenM (cl_hooks env After (source, cr_destination result, Some result))
         (cl_on (cn_cloned env source (cr_destination result) result)))))))"

datatype clone_outcome = CloneRefused | CloneThrew | Cloned CloneResult

definition clone_exit :: "clone_outcome \<Rightarrow> int" where
  "clone_exit res = (case res of CloneRefused \<Rightarrow> 1 | CloneThrew \<Rightarrow> 0 | Cloned r \<Rightarrow> 0)"

definition cmd_clone ::
  "'w clone_env \<Rightarrow> string \<Rightarrow> int \<Rightarrow> string \<Rightarrow> string \<Rightarrow> string \<Rightarrow> CloneOptions \<Rightarrow> ('w clone_state, string, clone_outcome) M"
where
  "cmd_clone env uuid now sourceId name email opts =
     bindM (getM (\<lambda>s. mock_findById (cl_rows s) sourceId False)) (\<lambda>found.
       case found of
         None \<Rightarrow> returnM CloneRefused
       | Some source \<Rightarrow>
           if \<not> isActive source then returnM CloneRefused
           else (let dest = fst (mock_create uuid now name email provisioning []) in
             thenM (cl_save env dest)
               (catchM (bindM (clone_service env source dest opts) (\<lambda>r. returnM (Cloned r)))
                  (\<lambda>e. returnM CloneThrew))))"

section \<open>What the copy relies on\<close>

text \<open>
  \<open>contents w s t\<close> are the rows of table \<open>t\<close> of schema \<open>s\<close>; names carry no quotes,
  which the code does not escape. An INSERT of a SELECT appends; the statements that steer the transaction and the setting of a sequence
  change no row; going back to a savepoint undoes what came after it.
\<close>

definition plain_name :: "string \<Rightarrow> bool" where
  "plain_name n \<longleftrightarrow> DQ \<notin> set n"

definition quiet_sql :: "string \<Rightarrow> bool" where
  "quiet_sql q \<longleftrightarrow> q \<in> {SET_REPLICA, SET_DEFAULT, SETVAL_SQL} \<or> starts_with ''SAVEPOINT '' q \<or>
     starts_with ''RELEASE SAVEPOINT '' q"

definition savepoint_laws :: "'w clone_env \<Rightarrow> ('w \<Rightarrow> string \<Rightarrow> string \<Rightarrow> 'r list) \<Rightarrow> bool" where
  "savepoint_laws env contents \<longleftrightarrow>
     (\<forall>sp q a w w1 w2 w3 e. run_sql env (''SAVEPOINT '' @ sp) w = (Inr (), w1) \<and> cn_query env q a w1 = (Inl e, w2) \<and>
        run_sql env (''ROLLBACK TO SAVEPOINT '' @ sp) w2 = (Inr (), w3) \<longrightarrow> contents w3 = contents w) \<and>
     (\<forall>sp q a w w1 w2 w3 w4 n e. run_sql env (''SAVEPOINT '' @ sp) w = (Inr (), w1) \<and> cn_query env q a w1 = (Inr n, w2) \<and>
        run_sql env (''RELEASE SAVEPOINT '' @ sp) w2 = (Inl e, w3) \<and>
        run_sql env (''ROLLBACK TO SAVEPOINT '' @ sp) w3 = (Inr (), w4) \<longrightarrow> contents w4 = contents w)"

definition copy_laws :: "'w clone_env \<Rightarrow> ('w \<Rightarrow> string \<Rightarrow> string \<Rightarrow> 'r list) \<Rightarrow> bool" where
  "copy_laws env contents \<longleftrightarrow> savepoint_laws env contents \<and>
     (\<forall>d s t w n w'. cn_query env (insert_sql d s t) [] w = (Inr n, w') \<and> plain_name d \<and> plain_name s \<and> plain_name t \<longrightarrow>
        n = length (contents w s t) \<and>
        contents w' = (contents w)(d := (contents w d)(t := contents w d t @ contents w s t))) \<and>
     (\<forall>d w n w'. cn_query env (truncate_sql d) [] w = (Inr n, w') \<and> plain_name d \<longrightarrow>
        contents w' = (contents w)(d := (contents w d)(''auth_access_tokens'' := []))) \<and>
     (\<forall>q a w n w'. quiet_sql q \<and> cn_query env q a w = (Inr n, w') \<longrightarrow> contents w' = contents w) \<and>
     (\<forall>s w r w'. cn_tables env s w = (r, w') \<longrightarrow> contents w' = contents w) \<and>
     (\<forall>s w ts w'. cn_tables env s w = (Inr ts, w') \<longrightarrow> distinct ts \<and> list_all plain_name ts) \<and>
     (\<forall>w r w'. cn_begin env w = (r, w') \<longrightarrow> contents w' = contents w) \<and>
     (\<forall>w r w'. cn_commit env w = (r, w') \<longrightarrow> contents w' = contents w) \<and>
     (\<forall>t w r w'. cn_disconnect env t w = (r, w') \<longrightarrow> contents w' = contents w) \<and>
     (\<forall>t w r w'. cn_save env t w = (r, w') \<longrightarrow> contents w' = contents w)"

lemma copy_lawsD:
  assumes "copy_laws env contents"
  shows "cn_query env (insert_sql d s t) [] w = (Inr n, w') \<Longrightarrow> plain_name d \<Longrightarrow> plain_name s \<Longrightarrow> plain_name t \<Longrightarrow> n = length (contents w s t) \<and>
        contents w' = (contents w)(d := (contents w d)(t := contents w d t @ contents w s t))"
    and "cn_query env (truncate_sql d) [] w = (Inr n, w') \<Longrightarrow> plain_name d \<Longrightarrow>
        contents w' = (contents w)(d := (contents w d)(''auth_access_tokens'' := []))"
    and "cn_query env q a w = (Inr n, w') \<Longrightarrow> quiet_sql q \<Longrightarrow> contents w' = contents w"
    and "cn_tables env s w = (r, w') \<Longrightarrow> contents w' = contents w"
    and "cn_tables env s w = (Inr ts, w') \<Longrightarrow> distinct ts \<and> list_all plain_name ts"
    and "cn_begin env w = (r1, w') \<Longrightarrow> contents w' = contents w"
    and "cn_commit env w = (r1, w') \<Longrightarrow> contents w' = contents w"
    and "cn_disconnect env u w = (r1, w') \<Longrightarrow> contents w' = contents w"
    and "cn_save env u w = (r1, w') \<Longrightarrow> contents w' = contents w"
    and "savepoint_laws env contents"
proof -
  note L = assms [unfolded copy_laws_def]
  note c = L [THEN conjunct2]
  show "savepoint_laws env contents" using L by (rule conjunct1)
  show "cn_query env (insert_sql d s t) [] w = (Inr n, w') \<Longrightarrow> plain_name d \<Longrightarrow> plain_name s \<Longrightarrow> plain_name t \<Longrightarrow> n = length (contents w s t) \<and>
        contents w' = (contents w)(d := (contents w d)(t := contents w d t @ contents w s t))"
    using c [THEN conjunct1] by blast
  show "cn_query env (truncate_sql d) [] w = (Inr n, w') \<Longrightarrow> plain_name d \<Longrightarrow>
        contents w' = (contents w)(d := (contents w d)(''auth_access_tokens'' := []))"
    using c [THEN conjunct2, THEN conjunct1] by blast
  note c = c [THEN conjunct2, THEN conjunct2]
  show "cn_query env q a w = (Inr n, w') \<Longrightarrow> quiet_sql q \<Longrightarrow> contents w' = contents w"
    using c [THEN conjunct1] by blast
  note c = c [THEN conjunct2]
  show "cn_tables env s w = (r, w') \<Longrightarrow> contents w' = contents w" using c [THEN conjunct1] by blast
  note c = c [THEN conjunct2]
  show "cn_tables env s w = (Inr ts, w') \<Longrightarrow> distinct ts \<and> list_all plain_name ts" using c [THEN conjunct1] by blast
  note c = c [THEN conjunct2]
  show "cn_begin env w = (r1, w') \<Longrightarrow> contents w' = contents w" using c [THEN conjunct1] by blast
  note c = c [THEN conjunct2]
  show "cn_commit env w = (r1, w') \<Longrightarrow> contents w' = contents w" using c [THEN conjunct1] by blast
  note c = c [THEN conjunct2]
  show "cn_disconnect env u w = (r1, w') \<Longrightarrow> contents w' = contents w" using c [THEN conjunct1] by blast
  show "cn_save env u w = (r1, w') \<Longrightarrow> contents w' = contents w" using c [THEN conjunct2] by blast
qed

lemma run_sql_quiet:
  assumes "copy_laws env contents" "quiet_sql q" "run_sql env q w = (Inr u, w')"
  shows "contents w' = contents w"
proof -
  obtain n where "cn_query env q [] w = (Inr n, w')"
    using assms(3) unfolding run_sql_def by (auto elim!: bindM_InrE simp add: run_basic)
  then show ?thesis using copy_lawsD(3) [OF assms(1) _ assms(2)] by simp
qed

lemma quiet_sqls: "quiet_sql SET_REPLICA" "quiet_sql SET_DEFAULT" "quiet_sql SETVAL_SQL"
  "quiet_sql (''SAVEPOINT '' @ sp)" "quiet_sql (''RELEASE SAVEPOINT '' @ sp)"
  unfolding quiet_sql_def by (blast intro: starts_with_append)+

text \<open>A statement in a savepoint either happened or left no trace.\<close>

lemma savepoint_run:
  assumes laws: "copy_laws env contents" and run: "runWithSavepoint env nm (cn_query env q a) w = (Inr u, w')"
  shows "contents w' = contents w \<or>
    (\<exists>w1 w2 n. contents w1 = contents w \<and> cn_query env q a w1 = (Inr n, w2) \<and> contents w' = contents w2)"
proof -
  let ?sp = "savepoint_name nm"
  note sl = copy_lawsD(10) [OF laws, unfolded savepoint_laws_def]
  obtain w1 where w1: "run_sql env (''SAVEPOINT '' @ ?sp) w = (Inr (), w1)"
    and c: "catchM (thenM (cn_query env q a) (run_sql env (''RELEASE SAVEPOINT '' @ ?sp)))
       (\<lambda>e. run_sql env (''ROLLBACK TO SAVEPOINT '' @ ?sp)) w1 = (Inr u, w')"
    using run unfolding runWithSavepoint_def Let_def by (auto elim!: thenM_InrE)
  have same: "contents w1 = contents w" using run_sql_quiet [OF laws quiet_sqls(4) w1] .
  obtain r w2 where q: "cn_query env q a w1 = (r, w2)" by fastforce
  show ?thesis
  proof (cases r)
    case (Inl e)
    then have "run_sql env (''ROLLBACK TO SAVEPOINT '' @ ?sp) w2 = (Inr (), w')"
      using c q by (simp add: run_simps)
    then show ?thesis using sl w1 q Inl by blast
  next
    case (Inr n)
    obtain r2 w3 where rel: "run_sql env (''RELEASE SAVEPOINT '' @ ?sp) w2 = (r2, w3)" by fastforce
    show ?thesis
    proof (cases r2)
      case (Inl e)
      then have "run_sql env (''ROLLBACK TO SAVEPOINT '' @ ?sp) w3 = (Inr (), w')"
        using c q rel Inr by (simp add: run_simps)
      then show ?thesis using sl w1 q Inr rel Inl by blast
    next
      case (Inr x)
      then have "w' = w3" using c q rel \<open>r = Inr n\<close> by (simp add: run_simps)
      then have "contents w' = contents w2" using run_sql_quiet [OF laws quiet_sqls(5)] rel Inr by blast
      then show ?thesis using same q \<open>r = Inr n\<close> by blast
    qed
  qed
qed

lemma sequences_keep_rows:
  assumes laws: "copy_laws env contents"
  shows "resetIntegerSequences env sch ts w = (Inr u, w') \<Longrightarrow> contents w' = contents w"
proof (induction ts arbitrary: w)
  case (Cons t ts)
  then obtain x v where v: "runWithSavepoint env (''seq_'' @ t) (cn_query env SETVAL_SQL [sch, t]) w = (Inr x, v)"
    and rest: "resetIntegerSequences env sch ts v = (Inr u, w')"
    by (auto simp add: resetIntegerSequences_def elim!: thenM_InrE)
  have "contents v = contents w"
    using savepoint_run [OF laws v] copy_lawsD(3) [OF laws _ quiet_sqls(3)] by metis
  then show ?case using Cons.IH [OF rest] by simp
qed (simp add: resetIntegerSequences_def run_simps)

definition merged :: "(string \<Rightarrow> string \<Rightarrow> 'r list) \<Rightarrow> string \<Rightarrow> string \<Rightarrow> string list \<Rightarrow> string \<Rightarrow> string \<Rightarrow> 'r list" where
  "merged c src dst ts = (\<lambda>x y. if x = dst \<and> y \<in> set ts then c dst y @ c src y else c x y)"

lemma copy_tables_run:
  assumes laws: "copy_laws env contents" and ne: "src \<noteq> dst" and pl: "plain_name src" "plain_name dst"
  shows "distinct ts \<Longrightarrow> list_all plain_name ts \<Longrightarrow> copy_tables env src dst D ts k w = (Inr n, w') \<Longrightarrow>
    contents w' = merged (contents w) src dst (filter (\<lambda>t. t \<in> set D) ts) \<and>
    n = k + sum_list (map (\<lambda>t. length (contents w src t)) (filter (\<lambda>t. t \<in> set D) ts))"
proof (induction ts arbitrary: k w)
  case Nil
  then show ?case by (simp add: run_simps merged_def)
next
  case (Cons t ts)
  show ?case
  proof (cases "t \<in> set D")
    case False
    then show ?thesis using Cons by simp
  next
    case True
    then obtain m v where m: "cn_query env (insert_sql dst src t) [] w = (Inr m, v)"
      and rest: "copy_tables env src dst D ts (k + m) v = (Inr n, w')"
      using Cons.prems by (auto elim!: bindM_InrE)
    have ins: "m = length (contents w src t) \<and>
        contents v = (contents w)(dst := (contents w dst)(t := contents w dst t @ contents w src t))"
      using copy_lawsD(1) [OF laws m] pl Cons.prems(2) by simp
    have IH: "contents w' = merged (contents v) src dst (filter (\<lambda>t. t \<in> set D) ts)"
      "n = k + m + sum_list (map (\<lambda>t. length (contents v src t)) (filter (\<lambda>t. t \<in> set D) ts))"
      using Cons.IH [OF _ _ rest] Cons.prems(1,2) by simp_all
    have "contents v src = contents w src" using ins ne by simp
    then show ?thesis using IH ins True Cons.prems(1) ne by (auto simp add: merged_def fun_eq_iff)
  qed
qed

text \<open>The whole copy.\<close>

lemma copyData_run:
  assumes laws: "copy_laws env contents" and ne: "cn_schemaName env a \<noteq> cn_schemaName env b"
    and pl: "plain_name (cn_schemaName env a)" "plain_name (cn_schemaName env b)"
    and run: "copyData env a b clear w = (Inr (k, n), w')"
  shows "\<exists>srcT dstT w2 C. cn_tables env (cn_schemaName env a) w = (Inr srcT, w2) \<and>
    fst (cn_tables env (cn_schemaName env b) w2) = Inr dstT \<and>
    C = merged (contents w) (cn_schemaName env a) (cn_schemaName env b)
          (filter (\<lambda>t. t \<in> set dstT) (filter (\<lambda>t. t \<notin> set MIGRATION_TABLES) srcT)) \<and>
    k = length (filter (\<lambda>t. t \<notin> set MIGRATION_TABLES) srcT) \<and>
    n = sum_list (map (\<lambda>t. length (contents w (cn_schemaName env a) t))
          (filter (\<lambda>t. t \<in> set dstT) (filter (\<lambda>t. t \<notin> set MIGRATION_TABLES) srcT))) \<and>
    (contents w' = C \<or>
     clear \<and> contents w' = C(cn_schemaName env b := (C (cn_schemaName env b))(''auth_access_tokens'' := [])))"
proof -
  let ?src = "cn_schemaName env a" and ?dst = "cn_schemaName env b"
  obtain srcT w2 where t1: "cn_tables env ?src w = (Inr srcT, w2)"
    and run1: "bindM (cn_tables env ?dst) (\<lambda>dstTables.
        let copyable = filter (\<lambda>t. t \<notin> set MIGRATION_TABLES) srcT in
        bindM (transaction env
          (thenM (run_sql env SET_REPLICA)
          (bindM (copy_tables env ?src ?dst dstTables copyable 0) (\<lambda>n.
           thenM (run_sql env SET_DEFAULT)
          (thenM (if clear then clearAccessTokens env ?dst else returnM ())
          (thenM (resetIntegerSequences env ?dst copyable)
             (returnM n))))))) (\<lambda>n.
          returnM (length copyable, n))) w2 = (Inr (k, n), w')"
    using run unfolding copyData_def Let_def by (rule bindM_InrE)
  define copyable where "copyable = filter (\<lambda>t. t \<notin> set MIGRATION_TABLES) srcT"
  from run1 obtain dstT w3 where t2: "cn_tables env ?dst w2 = (Inr dstT, w3)"
    and run2: "bindM (transaction env
          (thenM (run_sql env SET_REPLICA)
          (bindM (copy_tables env ?src ?dst dstT copyable 0) (\<lambda>n.
           thenM (run_sql env SET_DEFAULT)
          (thenM (if clear then clearAccessTokens env ?dst else returnM ())
          (thenM (resetIntegerSequences env ?dst copyable)
             (returnM n))))))) (\<lambda>n.
          returnM (length copyable, n)) w3 = (Inr (k, n), w')"
    unfolding Let_def copyable_def by (rule bindM_InrE)
  have w3: "contents w3 = contents w" using copy_lawsD(4) [OF laws] t1 t2 by metis
  from run2 obtain v4 where tr: "transaction env
          (thenM (run_sql env SET_REPLICA)
          (bindM (copy_tables env ?src ?dst dstT copyable 0) (\<lambda>n.
           thenM (run_sql env SET_DEFAULT)
          (thenM (if clear then clearAccessTokens env ?dst else returnM ())
          (thenM (resetIntegerSequences env ?dst copyable)
             (returnM n)))))) w3 = (Inr n, w')" and k: "k = length copyable"
    by (auto elim!: bindM_InrE simp add: run_basic)
  obtain w5 w6 w7 w8 w9 w10 where b: "cn_begin env w3 = (Inr (), w5)"
    and s1: "run_sql env SET_REPLICA w5 = (Inr (), w7)"
    and cp: "copy_tables env ?src ?dst dstT copyable 0 w7 = (Inr n, w8)"
    and s2: "run_sql env SET_DEFAULT w8 = (Inr (), w9)"
    and cl: "(if clear then clearAccessTokens env ?dst else returnM ()) w9 = (Inr (), w10)"
    and sq: "resetIntegerSequences env ?dst copyable w10 = (Inr (), w6)"
    and c: "cn_commit env w6 = (Inr (), w')"
    using tr unfolding transaction_def
    by (auto elim!: thenM_InrE bindM_InrE simp add: run_basic catchM_Inr)
  have d: "distinct copyable" "list_all plain_name copyable"
    using copy_lawsD(5) [OF laws t1] by (auto simp add: copyable_def list_all_iff)
  have w7: "contents w7 = contents w"
    using run_sql_quiet [OF laws quiet_sqls(1) s1] copy_lawsD(6) [OF laws b] w3 by simp
  let ?ts = "filter (\<lambda>t. t \<in> set dstT) copyable"
  have C: "contents w8 = merged (contents w) ?src ?dst ?ts"
    "n = sum_list (map (\<lambda>t. length (contents w ?src t)) ?ts)"
    using copy_tables_run [OF laws ne pl d cp] by (simp_all add: w7)
  have w9: "contents w9 = contents w8" using run_sql_quiet [OF laws quiet_sqls(2) s2] .
  have w10: "contents w10 = contents w9 \<or>
      clear \<and> contents w10 = (contents w9)(?dst := (contents w9 ?dst)(''auth_access_tokens'' := []))"
  proof (cases clear)
    case True
    then have "runWithSavepoint env ''clear_tokens'' (cn_query env (truncate_sql ?dst) []) w9 = (Inr (), w10)"
      using cl by (simp add: clearAccessTokens_def)
    from savepoint_run [OF laws this] show ?thesis
    proof (elim disjE exE conjE)
      fix v1 v2 m
      assume "contents v1 = contents w9" "cn_query env (truncate_sql ?dst) [] v1 = (Inr m, v2)" "contents w10 = contents v2"
      then show ?thesis using copy_lawsD(2) [OF laws, of ?dst v1 m v2] pl True by simp
    qed simp
  qed (use cl in \<open>simp add: run_simps\<close>)
  have "contents w6 = contents w10" using sequences_keep_rows [OF laws sq] .
  moreover have "contents w' = contents w6" using copy_lawsD(7) [OF laws c] .
  ultimately have "contents w' = contents w8 \<or>
      clear \<and> contents w' = (contents w8)(?dst := (contents w8 ?dst)(''auth_access_tokens'' := []))"
    using w9 w10 by metis
  then have rows: "contents w' = merged (contents w) ?src ?dst (filter (\<lambda>t. t \<in> set dstT) (filter (\<lambda>t. t \<notin> set MIGRATION_TABLES) srcT)) \<or>
     clear \<and> contents w' = (merged (contents w) ?src ?dst (filter (\<lambda>t. t \<in> set dstT) (filter (\<lambda>t. t \<notin> set MIGRATION_TABLES) srcT)))
       (?dst := (merged (contents w) ?src ?dst (filter (\<lambda>t. t \<in> set dstT) (filter (\<lambda>t. t \<notin> set MIGRATION_TABLES) srcT)) ?dst)
         (''auth_access_tokens'' := []))"
    unfolding C(1) copyable_def .
  have f: "fst (cn_tables env ?dst w2) = Inr dstT" using t2 by simp
  show ?thesis
    by (intro exI conjI, rule t1, rule f, rule refl, rule k [unfolded copyable_def], rule C(2) [unfolded copyable_def],
        rule rows)
qed

section \<open>The outcome of a clone\<close>

lemma cl_on_Inr: "cl_on m s = (Inr x, s') \<longleftrightarrow> (\<exists>w. m (cl_world s) = (Inr x, w) \<and> s' = s\<lparr>cl_world := w\<rparr>)"
  by (auto simp add: cl_on_def split: prod.splits)

lemma cl_save_Inr:
  "cl_save env t s = (Inr u, s') \<longleftrightarrow>
     (\<exists>w. cn_save env t (cl_world s) = (Inr (), w) \<and> s' = s\<lparr>cl_world := w, cl_rows := mock_add t (cl_rows s)\<rparr>)"
  by (auto simp add: cl_save_def cl_on_def run_simps split: prod.splits sum.splits)


lemma clone_try_throws:
  "clone_try env a b opts s = (Inl e, s1) \<Longrightarrow> cl_rows s1 = cl_rows s"
proof -
  let ?P = "\<lambda>u. cl_rows u = cl_rows s"
  have on: "hoare ?P (cl_on m) (\<lambda>_. ?P) ?P" for m :: "('a, string, 'c) M"
    by (rule hoareI) (auto simp add: cl_on_def split: prod.splits)
  have save: "hoare ?P (cl_save env t) (\<lambda>_ _. True) ?P" for t
    by (rule hoareI) (auto simp add: cl_save_def cl_on_def run_simps split: prod.splits sum.splits)
  have copy: "hoare ?P (if co_schemaOnly opts then returnM (0, 0) else cl_on (copyData env a b c)) (\<lambda>_. ?P) ?P" for c
    by (auto intro!: hoare_basic on)
  have end_: "hoare ?P (thenM (cl_on (swallow (cn_disconnect env b))) (thenM (cl_save env (b\<lparr>t_status := active\<rparr>)) (returnM x)))
      (\<lambda>_ _. True) ?P" for x :: CloneResult
    by (rule hoare_then [OF on]) (rule hoare_then [OF save], simp add: hoare_basic)
  have "hoare ?P (clone_try env a b opts) (\<lambda>_ _. True) ?P"
    unfolding clone_try_def prod.case_eq_if
    by (rule hoare_then [OF on], rule hoare_then [OF on], rule hoare_bind [OF copy], rule end_)
  then show "clone_try env a b opts s = (Inl e, s1) \<Longrightarrow> cl_rows s1 = cl_rows s"
    by (auto dest: hoare_Inl)
qed

lemma clone_failure_run:
  assumes ok: "\<forall>t w. fst (cn_save env t w) = Inr ()" and run: "clone_service env a b opts s = (Inl e, s')"
  shows "fst (clone_try env a b opts s) = Inl e \<and> cl_rows s' = mock_add (b\<lparr>t_status := failed\<rparr>) (cl_rows s) \<and>
    (\<exists>w. cl_world s' = snd (cn_destroy env (b\<lparr>t_status := failed\<rparr>) w))"
proof -
  let ?f = "b\<lparr>t_status := failed\<rparr>"
  obtain e1 s1 where t: "clone_try env a b opts s = (Inl e1, s1)"
    and h: "thenM (cl_save env ?f) (thenM (cl_on (swallow (cn_destroy env ?f))) (throwM e1)) s1 = (Inl e :: string + CloneResult, s')"
    using run unfolding clone_service_def catchM_Inl by blast
  obtain w where w: "cn_save env ?f (cl_world s1) = (Inr (), w)" using ok by (metis prod.collapse)
  have "cl_save env ?f s1 = (Inr (), s1\<lparr>cl_world := w, cl_rows := mock_add ?f (cl_rows s1)\<rparr>)"
    using w by (auto simp add: cl_save_def cl_on_def run_simps)
  then have "e1 = e" "s' = s1\<lparr>cl_rows := mock_add ?f (cl_rows s1), cl_world := snd (cn_destroy env ?f w)\<rparr>"
    using h by (auto simp add: run_simps cl_on_def)
  then show ?thesis using t clone_try_throws [OF t] by auto
qed


section \<open>A concrete database\<close>

text \<open>One table, one source and one destination; other inserts and truncations fail.\<close>

type_synonym demo_rows = "string \<Rightarrow> string \<Rightarrow> string list"

definition demo_query :: "string \<Rightarrow> string list \<Rightarrow> (demo_rows, string, nat) M" where
  "demo_query q args = (\<lambda>w.
     if q = insert_sql ''d'' ''s'' ''users''
     then (Inr (length (w ''s'' ''users'')), w(''d'' := (w ''d'')(''users'' := w ''d'' ''users'' @ w ''s'' ''users'')))
     else if starts_with ''INSERT'' q \<or> starts_with ''TRUNCATE'' q then (Inl ''permission denied'', w)
     else (Inr 0, w))"

definition clone_demo :: "demo_rows clone_env" where
  "clone_demo = \<lparr>cn_provision = (\<lambda>t. returnM ()), cn_migrate = (\<lambda>t. returnM ()), cn_disconnect = (\<lambda>t. returnM ()),
     cn_destroy = (\<lambda>t. modM (\<lambda>w. w(t_id t := (\<lambda>y. [])))), cn_save = (\<lambda>t. returnM ()), cn_schemaName = t_id,
     cn_tables = (\<lambda>s. returnM [''adonis_schema'', ''users'']), cn_query = demo_query, cn_begin = returnM (),
     cn_commit = returnM (), cn_rollback = (\<lambda>w. w), cn_hooks = [], cn_hooklog = (\<lambda>ph ev e w. w),
     cn_cloned = (\<lambda>a b r. returnM ()), cn_openQueue = (\<lambda>i. returnM ())\<rparr>"

lemma quote_split:
  "plain_name a \<Longrightarrow> plain_name b \<Longrightarrow> dquoted a @ x = dquoted b @ y \<longleftrightarrow> a = b \<and> x = y"
  unfolding dquoted_def plain_name_def using slash_split [of DQ a b x y] by simp

lemma insert_sql_inj:
  assumes "plain_name d" "plain_name s" "plain_name t" "plain_name d'" "plain_name s'" "plain_name t'"
  shows "insert_sql d s t = insert_sql d' s' t' \<longleftrightarrow> d = d' \<and> s = s' \<and> t = t'"
  unfolding insert_sql_def append_assoc same_append_eq
  using quote_split [OF assms(1,4)] quote_split [OF assms(3,6)] quote_split [OF assms(2,5)] by auto

lemma quiet_not_write: "quiet_sql q \<Longrightarrow> \<not> starts_with ''INSERT'' q \<and> \<not> starts_with ''TRUNCATE'' q"
  by (auto simp add: quiet_sql_def SET_REPLICA_def SET_DEFAULT_def SETVAL_SQL_def starts_with_iff)

lemma insert_starts: "starts_with ''INSERT'' (insert_sql d s t)" "starts_with ''TRUNCATE'' (truncate_sql d)"
  "\<not> starts_with ''TRUNCATE'' (insert_sql d s t)" "\<not> starts_with ''INSERT'' (truncate_sql d)"
  by (simp_all add: insert_sql_def truncate_sql_def)

lemma clone_demo_laws: "copy_laws clone_demo (\<lambda>w. w)"
proof -
  have sp: "run_sql clone_demo (''SAVEPOINT '' @ p) w = (Inr (), w)" "run_sql clone_demo (''RELEASE SAVEPOINT '' @ p) w = (Inr (), w)"
    "run_sql clone_demo (''ROLLBACK TO SAVEPOINT '' @ p) w = (Inr (), w)" for p w
    by (simp_all add: run_sql_def clone_demo_def demo_query_def insert_sql_def run_simps)
  have keep: "demo_query q a w = (Inl e, w') \<Longrightarrow> w' = w" for q a w e w'
    by (auto simp add: demo_query_def split: if_splits)
  have "savepoint_laws clone_demo (\<lambda>w. w)"
    unfolding savepoint_laws_def sp using keep by (auto simp add: clone_demo_def)
  moreover have "plain_name ''d''" "plain_name ''s''" "plain_name ''users''" "plain_name ''adonis_schema''"
    by (simp_all add: plain_name_def DQ_def)
  moreover have "quiet_sql q \<Longrightarrow> demo_query q a w = (Inr n, w') \<Longrightarrow> w' = w" for q a w n w'
    using quiet_not_write [of q] insert_starts(1) [of "''d''" "''s''" "''users''"]
    by (auto simp add: demo_query_def split: if_splits)
  moreover have "truncate_sql d \<noteq> insert_sql d' s t" for d d' s t using insert_starts by metis
  ultimately show ?thesis
    unfolding copy_laws_def
    by (auto simp add: clone_demo_def run_simps demo_query_def insert_sql_inj insert_starts split: if_splits)
qed

definition demo_tenant :: "string \<Rightarrow> tenant" where
  "demo_tenant i = \<lparr>t_id = i, t_name = i, t_email = i, t_status = provisioning, t_customDomain = None, t_createdAt = 0,
     t_deletedAt = None, t_maintenance = False, t_maintenanceMessage = None\<rparr>"

definition demo_start :: "demo_rows clone_state" where
  "demo_start = \<lparr>cl_rows = [], cl_world = (\<lambda>x y. if x = ''s'' \<and> y = ''users'' then [''ann'', ''bob''] else [])\<rparr>"

lemma demo_fields:
  "cn_provision clone_demo t = returnM ()" "cn_migrate clone_demo t = returnM ()" "cn_disconnect clone_demo t = returnM ()"
  "cn_save clone_demo t = returnM ()" "cn_schemaName clone_demo = t_id" "cn_begin clone_demo = returnM ()"
  "cn_commit clone_demo = returnM ()" "cn_tables clone_demo x = returnM [''adonis_schema'', ''users'']"
  "cn_query clone_demo = demo_query" "cn_rollback clone_demo w = w"
  "cn_destroy clone_demo t = modM (\<lambda>w. w(t_id t := (\<lambda>y. [])))"
  by (simp_all add: clone_demo_def)

lemma demo_insert:
  "demo_query (insert_sql ''d'' ''s'' ''users'') [] w =
     (Inr (length (w ''s'' ''users'')), w(''d'' := (w ''d'')(''users'' := w ''d'' ''users'' @ w ''s'' ''users'')))"
  "demo_query (insert_sql ''s'' ''s'' ''users'') [] w = (Inl ''permission denied'', w)"
  by (simp_all add: demo_query_def insert_starts insert_sql_inj plain_name_def DQ_def)

lemma demo_quiet: "quiet_sql q \<Longrightarrow> demo_query q a w = (Inr 0, w)"
  using quiet_not_write [of q] insert_starts(1) [of "''d''" "''s''" "''users''"] by (auto simp add: demo_query_def)

lemma demo_run_quiet: "quiet_sql q \<Longrightarrow> run_sql clone_demo q w = (Inr (), w)"
  by (simp add: run_sql_def demo_fields demo_quiet run_simps)

lemma demo_rollback: "run_sql clone_demo (''ROLLBACK TO SAVEPOINT '' @ sp) w = (Inr (), w)"
  by (simp add: run_sql_def demo_fields demo_query_def insert_sql_def run_simps)

lemma demo_savepoint: "runWithSavepoint clone_demo nm act w = (Inr (), snd (act w))"
  unfolding runWithSavepoint_def Let_def run_bind run_catch demo_run_quiet [OF quiet_sqls(4)]
    demo_run_quiet [OF quiet_sqls(5)] demo_rollback
  by (auto split: prod.splits sum.splits)

lemma demo_truncate: "snd (demo_query (truncate_sql x) a w) = w"
  using insert_starts(3,4) [of x] insert_starts(2) [of x] insert_starts(1,3) [of "''d''" "''s''" "''users''"]
  by (auto simp add: demo_query_def)

lemmas demo_runs = clone_service_def clone_try_def cl_on_def cl_save_def copyData_def transaction_def run_simps
  demo_fields clearAccessTokens_def resetIntegerSequences_def demo_savepoint demo_run_quiet quiet_sqls demo_truncate
  demo_quiet demo_insert MIGRATION_TABLES_def Let_def

lemma demo_clone_succeeds:
  "\<exists>res s'. clone_service clone_demo (demo_tenant ''s'') (demo_tenant ''d'') \<lparr>co_schemaOnly = False, co_clearSessions = True\<rparr>
     demo_start = (Inr res, s')"
  by (simp add: demo_runs demo_tenant_def)

lemma demo_clone_fails:
  "\<exists>e s'. clone_service clone_demo (demo_tenant ''s'') (demo_tenant ''s'') \<lparr>co_schemaOnly = False, co_clearSessions = True\<rparr>
     demo_start = (Inl e, s')"
  by (simp add: demo_runs demo_tenant_def)



section \<open>Where cloning goes wrong\<close>

text \<open>
  The job takes any two tenants. With the same one twice the copy fails on its keys,
  and the clean-up drops the storage of the tenant that was to be copied.
\<close>

lemma clone_onto_itself_drops_source:
  "\<exists>e s'. clone_service clone_demo (demo_tenant ''s'') (demo_tenant ''s'') \<lparr>co_schemaOnly = False, co_clearSessions = True\<rparr>
     demo_start = (Inl e, s') \<and> cl_world demo_start ''s'' ''users'' = [''ann'', ''bob''] \<and> cl_world s' ''s'' ''users'' = []"
  by (simp add: demo_runs demo_tenant_def demo_start_def)

text \<open>
  A statement that fails inside its savepoint is a success of the clone: sequences
  that were not set and tokens that were not cleared go unreported.
\<close>

lemma failed_savepoint_is_silent:
  assumes "run_sql env (''SAVEPOINT '' @ savepoint_name nm) w = (Inr (), w1)" "act w1 = (Inl e, w2)"
    and "run_sql env (''ROLLBACK TO SAVEPOINT '' @ savepoint_name nm) w2 = (Inr (), w3)"
  shows "runWithSavepoint env nm act w = (Inr (), w3)"
  using assms by (simp add: runWithSavepoint_def Let_def run_simps)

text \<open>When the save of the failed status is refused too, the storage is not dropped.\<close>

lemma refused_save_keeps_storage:
  assumes "clone_try env a b opts s = (Inl e, s1)" "cn_save env (b\<lparr>t_status := failed\<rparr>) (cl_world s1) = (Inl m, w)"
  shows "clone_service env a b opts s = (Inl m, s1\<lparr>cl_world := w\<rparr>)"
  using assms by (simp add: clone_service_def cl_save_def cl_on_def run_simps)

text \<open>A table the destination lacks is skipped and counted as copied.\<close>

lemma skipped_tables_are_counted:
  assumes "cn_tables env (cn_schemaName env a) w = (Inr [''users''], w)" "cn_tables env (cn_schemaName env b) w = (Inr [], w)"
    and "copyData env a b False w = (Inr (k, n), w')"
  shows "k = 1 \<and> n = 0"
  using assms by (auto simp add: copyData_def MIGRATION_TABLES_def Let_def run_basic transaction_def catchM_Inr
      elim!: bindM_InrE thenM_InrE)

end
