(* ===== verification/Provider.thy ===== *)
theory Provider
  imports Resolvers Hooks Bootstrap Isolation
begin

text \<open>
  providers/multitenancy_provider.ts, config.ts, extensions/router.ts and
  services/isolation/active_driver.ts: what happens when an application starts.
  \<open>fresh_app\<close> is the container after \<open>register\<close>; \<open>boot\<close> checks the configuration
  and fills the registries; \<open>start\<close> installs the route helpers and loads the route
  files; \<open>shutdown\<close> forgets the cached singletons. The configuration is the one
  the program reads at run time, so its fields may be absent and its names may be
  any string. The peer services bound in the container, the files on disk and the
  application's hooks are parameters.
\<close>

section \<open>The configuration\<close>

record isolation_block =
  ib_driver :: "string option"
  ib_template :: "string option"
  ib_databasePrefix :: "string option"
  ib_rowScopeTables :: "string list option"
  ib_rowScopeColumn :: "string option"

text \<open>A chain that is set is an array, or some other truthy value.\<close>

datatype chain_value = ChainArray "string list" | ChainNotArray

record routing_block =
  rb_autoLoad :: "bool option"
  rb_tenantRoutesFile :: "string option"
  rb_universalRoutesFile :: "string option"

record ('c, 's, 'e) mt_config =
  mc_backofficeConnection :: "string option"
  mc_centralConnection :: "string option"
  mc_tenantConnectionPrefix :: "string option"
  mc_tenantSchemaPrefix :: "string option"
  mc_resolverStrategy :: "string option"
  mc_resolverChain :: "chain_value option"
  mc_headerKey :: string
  mc_baseDomain :: string
  mc_ignorePaths :: "string list"
  mc_queryKey :: "string option"
  mc_bodyKey :: "string option"
  mc_isolation :: "isolation_block option"
  mc_routing :: "routing_block option"
  mc_impersonation :: "string option option"
  mc_hooks :: "(phase \<times> lifecycle_event \<Rightarrow> ('c, 's, 'e) hook option) option"

datatype boot_failure =
    ConfigMissing
  | FieldMissing string
  | StrategyUnknown string "string list"
  | ChainEmpty
  | DriverConfigUnsafe ident_error
  | ChainRefused registry_error
  | BootstrapperRefused boot_error
  | SecretTooShort

definition js_filled :: "string option \<Rightarrow> bool" where
  "js_filled v \<longleftrightarrow> (case v of None \<Rightarrow> False | Some x \<Rightarrow> x \<noteq> [])"

definition required_fields :: "('c, 's, 'e) mt_config \<Rightarrow> (string \<times> string option) list" where
  "required_fields c =
     [(''backofficeConnectionName'', mc_backofficeConnection c),
      (''centralConnectionName'', mc_centralConnection c),
      (''tenantConnectionNamePrefix'', mc_tenantConnectionPrefix c),
      (''tenantSchemaPrefix'', mc_tenantSchemaPrefix c),
      (''resolverStrategy'', mc_resolverStrategy c)]"

definition knownStrategies :: "string list" where
  "knownStrategies = [''subdomain'', ''header'', ''path'', ''domain-or-subdomain'', ''request-data'']"

definition assertConfigShape :: "('c, 's, 'e) mt_config option \<Rightarrow> boot_failure + ('c, 's, 'e) mt_config" where
  "assertConfigShape config =
     (case config of
        None \<Rightarrow> Inl ConfigMissing
      | Some c \<Rightarrow>
          (case find (\<lambda>(k, v). \<not> js_filled v) (required_fields c) of
             Some (k, v) \<Rightarrow> Inl (FieldMissing k)
           | None \<Rightarrow>
               if the (mc_resolverStrategy c) \<notin> set knownStrategies
               then Inl (StrategyUnknown (the (mc_resolverStrategy c)) knownStrategies)
               else (case mc_resolverChain c of
                       None \<Rightarrow> Inr c
                     | Some ChainNotArray \<Rightarrow> Inl ChainEmpty
                     | Some (ChainArray ns) \<Rightarrow> if ns = [] then Inl ChainEmpty else Inr c)))"

definition validateImpersonationConfig :: "('c, 's, 'e) mt_config \<Rightarrow> boot_failure option" where
  "validateImpersonationConfig c =
     (case mc_impersonation c of
        None \<Rightarrow> None
      | Some secret \<Rightarrow>
          if \<not> js_filled secret \<or> length (the secret) < 32 then Some SecretTooShort else None)"

section \<open>The container's singletons\<close>

text \<open>The drivers, with the options their constructors keep and the prefixes they read from the configuration.\<close>

datatype driver_instance =
    SchemaPgDriver iso_config
  | DatabasePgDriver iso_config
  | RowScopePgDriver iso_config
  | SqliteMemoryDriver iso_config

record ('c, 's, 'e, 'bs, 'be) app_state =
  ap_config :: "('c, 's, 'e) mt_config option"
  ap_backofficeConnection :: "string option"
  ap_centralConnection :: "string option"
  ap_adapters :: bool
  ap_drivers :: "driver_instance driver_registry"
  ap_resolvers :: registry
  ap_hooks :: "('c, 's, 'e) hook_registry"
  ap_boots :: "('bs, 'be) boot_registry"

definition fresh_app :: "('c, 's, 'e, 'bs, 'be) app_state" where
  "fresh_app =
     \<lparr>ap_config = None, ap_backofficeConnection = None, ap_centralConnection = None, ap_adapters = False,
      ap_drivers = \<lparr>d_drivers = [], d_active = None\<rparr>, ap_resolvers = empty_registry, ap_hooks = [],
      ap_boots = empty_boot\<rparr>"

type_synonym ('c, 's, 'e, 'bs, 'be, 'a) boot_step = "(('c, 's, 'e, 'bs, 'be) app_state, boot_failure, 'a) M"

definition setConfig :: "('c, 's, 'e) mt_config \<Rightarrow> ('c, 's, 'e, 'bs, 'be, unit) boot_step" where
  "setConfig c = modM (\<lambda>s. s\<lparr>ap_config := Some c\<rparr>)"

definition getConfig :: "('c, 's, 'e, 'bs, 'be) app_state \<Rightarrow> ('c, 's, 'e) mt_config option" where
  "getConfig s = ap_config s"

section \<open>Booting\<close>

definition driver_choice :: "('c, 's, 'e) mt_config \<Rightarrow> string" where
  "driver_choice c =
     (case mc_isolation c of
        None \<Rightarrow> ''schema-pg''
      | Some b \<Rightarrow> (case ib_driver b of None \<Rightarrow> ''schema-pg'' | Some d \<Rightarrow> d))"

definition iso_settings :: "('c, 's, 'e) mt_config \<Rightarrow> iso_config" where
  "iso_settings c =
     \<lparr>connPrefix = or_else (mc_tenantConnectionPrefix c) [], schemaPrefix = or_else (mc_tenantSchemaPrefix c) [],
      templateName = ''tenant'', databasePrefix = None, centralName = ''tenant'', scopedTables = [],
      scopeColumn = ''tenant_id''\<rparr>"

definition build_driver :: "('c, 's, 'e) mt_config \<Rightarrow> (ident_error + driver_instance) option" where
  "build_driver c =
     (let opt = (\<lambda>f. Option.bind (mc_isolation c) f);
          tables = Option.bind (mc_isolation c) ib_rowScopeTables;
          template = or_else (opt ib_template) ''tenant'';
          cfg = iso_settings c; choice = driver_choice c in
      if choice = ''schema-pg'' then Some (Inr (SchemaPgDriver (cfg\<lparr>templateName := template\<rparr>)))
      else if choice = ''database-pg''
      then Some (Inr (DatabasePgDriver (cfg\<lparr>templateName := template, databasePrefix := opt ib_databasePrefix\<rparr>)))
      else if choice = ''rowscope-pg''
      then Some (map_sum id RowScopePgDriver (rowscope_new (opt ib_template) tables (opt ib_rowScopeColumn) cfg))
      else if choice = ''sqlite-memory'' then Some (Inr (SqliteMemoryDriver cfg))
      else None)"

definition register_configured_driver :: "('c, 's, 'e) mt_config \<Rightarrow> ('c, 's, 'e, 'bs, 'be, unit) boot_step" where
  "register_configured_driver c =
     bindM (getM (\<lambda>s. s)) (\<lambda>s.
       if jm_has (driver_choice c) (d_drivers (ap_drivers s)) then returnM ()
       else (case build_driver c of
               None \<Rightarrow> returnM ()
             | Some (Inl e) \<Rightarrow> throwM (DriverConfigUnsafe e)
             | Some (Inr d) \<Rightarrow>
                 modM (\<lambda>s. s\<lparr>ap_drivers := register_driver (driver_choice c) d True (ap_drivers s)\<rparr>)))"

definition resolver_settings :: "('c, 's, 'e) mt_config \<Rightarrow> resolver_config" where
  "resolver_settings c =
     \<lparr>resolverStrategy =
        (case find (\<lambda>st. Some (strategy_name st) = mc_resolverStrategy c)
                [S_header, S_subdomain, S_path, S_domain_or_subdomain, S_request_data] of
           Some st \<Rightarrow> st | None \<Rightarrow> S_header),
      tenantHeaderKey = mc_headerKey c, baseDomain = mc_baseDomain c, ignorePaths = mc_ignorePaths c,
      queryKey = mc_queryKey c, bodyKey = mc_bodyKey c\<rparr>"

definition seed_resolvers :: "('c, 's, 'e) mt_config \<Rightarrow> registry \<Rightarrow> registry" where
  "seed_resolvers c g =
     fold (\<lambda>(n, f) g. if has_resolver g n then g else register n f g) (builtInResolvers (resolver_settings c)) g"

definition configured_chain :: "('c, 's, 'e) mt_config \<Rightarrow> string list" where
  "configured_chain c =
     (case mc_resolverChain c of
        Some (ChainArray ns) \<Rightarrow> if ns = [] then [the (mc_resolverStrategy c)] else ns
      | _ \<Rightarrow> [the (mc_resolverStrategy c)])"

definition install_resolvers :: "('c, 's, 'e) mt_config \<Rightarrow> ('c, 's, 'e, 'bs, 'be, unit) boot_step" where
  "install_resolvers c =
     thenM (modM (\<lambda>s. s\<lparr>ap_resolvers := seed_resolvers c (ap_resolvers s)\<rparr>))
     (bindM (getM (\<lambda>s. s)) (\<lambda>s.
        case setChain (configured_chain c) (ap_resolvers s) of
          Inl e \<Rightarrow> throwM (ChainRefused e)
        | Inr g \<Rightarrow> modM (\<lambda>s. s\<lparr>ap_resolvers := g\<rparr>)))"

definition add_bootstrapper ::
  "string \<Rightarrow> ('bs, 'be) bootstrapper \<Rightarrow> ('c, 's, 'e, 'bs, 'be, unit) boot_step"
where
  "add_bootstrapper name b =
     bindM (getM (\<lambda>s. s)) (\<lambda>s.
       case register_boot name b (ap_boots s) of
         Inl e \<Rightarrow> throwM (BootstrapperRefused e)
       | Inr g \<Rightarrow> modM (\<lambda>s. s\<lparr>ap_boots := g\<rparr>))"

record ('bs, 'be) peers =
  pe_bound :: "string \<Rightarrow> bool"
  pe_cache :: "('bs, 'be) bootstrapper"
  pe_drive :: "('bs, 'be) bootstrapper"
  pe_mail :: "('bs, 'be) bootstrapper"
  pe_session :: "('bs, 'be) bootstrapper"
  pe_transmit :: "('bs, 'be) bootstrapper"

definition candidates :: "('bs, 'be) peers \<Rightarrow> (string \<times> string \<times> ('bs, 'be) bootstrapper) list" where
  "candidates p =
     [(''drive'', ''drive.manager'', pe_drive p), (''mail'', ''mail.manager'', pe_mail p),
      (''session'', ''session'', pe_session p), (''transmit'', ''transmit'', pe_transmit p)]"

definition has_boot :: "('c, 's, 'e, 'bs, 'be) app_state \<Rightarrow> string \<Rightarrow> bool" where
  "has_boot s n = jm_has n (items (ap_boots s))"

definition registerOptionalBootstrappers :: "('bs, 'be) peers \<Rightarrow> ('c, 's, 'e, 'bs, 'be, unit) boot_step" where
  "registerOptionalBootstrappers p =
     forM (candidates p) (\<lambda>(n, binding, b).
       bindM (getM (\<lambda>s. s)) (\<lambda>s.
         if has_boot s n then returnM ()
         else if pe_bound p binding then add_bootstrapper n b
         else returnM ()))"

definition boot :: "('bs, 'be) peers \<Rightarrow> ('c, 's, 'e) mt_config option \<Rightarrow> ('c, 's, 'e, 'bs, 'be, unit) boot_step" where
  "boot p config =
     (case assertConfigShape config of
        Inl e \<Rightarrow> throwM e
      | Inr c \<Rightarrow>
          thenM (setConfig c)
          (thenM (modM (\<lambda>s. s\<lparr>ap_backofficeConnection := mc_backofficeConnection c,
                               ap_centralConnection := mc_centralConnection c\<rparr>))
          (thenM (register_configured_driver c)
          (thenM (modM (\<lambda>s. s\<lparr>ap_adapters := True\<rparr>))
          (thenM (install_resolvers c)
          (thenM (modM (\<lambda>s. s\<lparr>ap_hooks := loadDeclarative (mc_hooks c) (ap_hooks s)\<rparr>))
          (thenM (bindM (getM (\<lambda>s. s)) (\<lambda>s. if has_boot s ''cache'' then returnM () else add_bootstrapper ''cache'' (pe_cache p)))
          (thenM (registerOptionalBootstrappers p)
          (case validateImpersonationConfig c of Some e \<Rightarrow> throwM e | None \<Rightarrow> returnM ())))))))))"

section \<open>The active driver\<close>

definition driver_name :: "driver_instance \<Rightarrow> string" where
  "driver_name d = (case d of
      SchemaPgDriver _ \<Rightarrow> ''schema-pg'' | DatabasePgDriver _ \<Rightarrow> ''database-pg''
    | RowScopePgDriver _ \<Rightarrow> ''rowscope-pg'' | SqliteMemoryDriver _ \<Rightarrow> ''sqlite-memory'')"

text \<open>The methods of the driver interface, dispatched on the instance.\<close>

fun driver_connect :: "driver_instance \<Rightarrow> tenant \<Rightarrow> ('m, unit) D" where
  "driver_connect (SchemaPgDriver cfg) = schema_connect cfg"
| "driver_connect (DatabasePgDriver cfg) = database_connect cfg"
| "driver_connect (RowScopePgDriver cfg) = rowscope_connect cfg"
| "driver_connect (SqliteMemoryDriver cfg) = sqlite_connect cfg"

fun driver_disconnect :: "driver_instance \<Rightarrow> tenant \<Rightarrow> ('m, unit) D" where
  "driver_disconnect (SchemaPgDriver cfg) = schema_disconnect cfg"
| "driver_disconnect (DatabasePgDriver cfg) = database_disconnect cfg"
| "driver_disconnect (RowScopePgDriver cfg) = rowscope_disconnect cfg"
| "driver_disconnect (SqliteMemoryDriver cfg) = sqlite_disconnect cfg"

fun driver_provision :: "driver_instance \<Rightarrow> tenant \<Rightarrow> ('m, unit) D" where
  "driver_provision (SchemaPgDriver cfg) = schema_provision cfg"
| "driver_provision (DatabasePgDriver cfg) = database_provision cfg"
| "driver_provision (RowScopePgDriver cfg) = rowscope_provision cfg"
| "driver_provision (SqliteMemoryDriver cfg) = sqlite_provision cfg"

fun driver_destroy :: "driver_instance \<Rightarrow> bool \<Rightarrow> tenant \<Rightarrow> ('m, unit) D" where
  "driver_destroy (SchemaPgDriver cfg) = schema_destroy cfg"
| "driver_destroy (DatabasePgDriver cfg) = database_destroy cfg"
| "driver_destroy (RowScopePgDriver cfg) = rowscope_destroy cfg"
| "driver_destroy (SqliteMemoryDriver cfg) = sqlite_destroy cfg"

fun driver_reset :: "driver_instance \<Rightarrow> tenant \<Rightarrow> ('m, unit) D" where
  "driver_reset (SchemaPgDriver cfg) = schema_reset cfg"
| "driver_reset (DatabasePgDriver cfg) = database_reset cfg"
| "driver_reset (RowScopePgDriver cfg) = rowscope_reset cfg"
| "driver_reset (SqliteMemoryDriver cfg) = sqlite_reset cfg"

text \<open>
  The registries live in the containers, by address; the module keeps the address
  of the one it resolved first.
\<close>

record lookup_cache =
  lk_registries :: "nat \<Rightarrow> driver_instance driver_registry"
  lk_container :: nat
  lk_cached :: "nat option"

definition getActiveDriver :: "lookup_cache \<Rightarrow> (driver_registry_error + driver_instance) \<times> lookup_cache" where
  "getActiveDriver k =
     (let a = or_else (lk_cached k) (lk_container k) in
      (active_driver (lk_registries k a), k\<lparr>lk_cached := Some a\<rparr>))"

definition resetActiveDriverCache :: "lookup_cache \<Rightarrow> lookup_cache" where
  "resetActiveDriverCache k = k\<lparr>lk_cached := None\<rparr>"

definition setActiveDriverRegistryForTests :: "nat \<Rightarrow> lookup_cache \<Rightarrow> lookup_cache" where
  "setActiveDriverRegistryForTests a k = k\<lparr>lk_cached := Some a\<rparr>"

section \<open>Starting: route helpers and route files\<close>

datatype route_scope = TenantGuardScope | CentralOnlyScope | UniversalScope

text \<open>A helper of the router is the application's own or a group with one of the middlewares.\<close>

datatype route_helper = OwnHelper | GroupUsing route_scope

record router_state =
  ro_installed :: bool
  ro_helpers :: "(string, route_helper) jmap"

definition add_helper :: "string \<Rightarrow> route_scope \<Rightarrow> router_state \<Rightarrow> router_state" where
  "add_helper n sc r =
     (if jm_has n (ro_helpers r) then r else r\<lparr>ro_helpers := jm_set n (GroupUsing sc) (ro_helpers r)\<rparr>)"

definition installRouterMacros :: "router_state \<Rightarrow> router_state" where
  "installRouterMacros r =
     (if ro_installed r then r
      else add_helper ''universal'' UniversalScope
             (add_helper ''central'' CentralOnlyScope
               (add_helper ''tenant'' TenantGuardScope (r\<lparr>ro_installed := True\<rparr>))))"

definition js_path :: "string \<Rightarrow> string" where
  "js_path p = (if ends_with ''.ts'' p then take (length p - 3) p @ ''.js'' else p)"

definition route_target :: "(string \<Rightarrow> bool) \<Rightarrow> (string \<Rightarrow> string) \<Rightarrow> string \<Rightarrow> string option" where
  "route_target exists startPath candidate =
     (let ts = startPath candidate in
      if exists ts then Some ts else if exists (js_path ts) then Some (js_path ts) else None)"

text \<open>\<open>import\<close> runs a module on the state of the application and may throw.\<close>

definition autoLoadScopedRouteFiles ::
  "(string \<Rightarrow> bool) \<Rightarrow> (string \<Rightarrow> string) \<Rightarrow> (string \<Rightarrow> ('w, string, unit) M) \<Rightarrow> string option \<Rightarrow> string option \<Rightarrow>
   ('w, string, unit) M"
where
  "autoLoadScopedRouteFiles exists startPath import tenantFile universalFile =
     forM [or_else tenantFile ''tenant.ts'', or_else universalFile ''universal.ts''] (\<lambda>candidate.
       case route_target exists startPath candidate of None \<Rightarrow> returnM () | Some target \<Rightarrow> import target)"

definition start_app ::
  "(string \<Rightarrow> bool) \<Rightarrow> (string \<Rightarrow> string) \<Rightarrow> (string \<Rightarrow> (router_state \<times> 'w, string, unit) M) \<Rightarrow>
   ('c, 's, 'e) mt_config \<Rightarrow> (router_state \<times> 'w, string, unit) M"
where
  "start_app exists startPath import c =
     thenM (modM (\<lambda>(r, w). (installRouterMacros r, w)))
       (let b = mc_routing c in
        if Option.bind b rb_autoLoad = Some False then returnM ()
        else autoLoadScopedRouteFiles exists startPath import
               (Option.bind b rb_tenantRoutesFile) (Option.bind b rb_universalRoutesFile))"

text \<open>\<open>shutdown\<close> clears the module caches: of \<open>tenancy\<close> (a log context and a registry) and of the driver lookup.\<close>

definition shutdown :: "(nat option \<times> nat option) \<times> lookup_cache \<Rightarrow> (nat option \<times> nat option) \<times> lookup_cache" where
  "shutdown m = ((None, None), resetActiveDriverCache (snd m))"

section \<open>Booted applications\<close>

definition driver_names :: "string list" where
  "driver_names = [''schema-pg'', ''database-pg'', ''rowscope-pg'', ''sqlite-memory'']"

text \<open>The invariant of the singletons, in whatever order the application's providers use them.\<close>

definition app_typed :: "('c, 's, 'e, 'bs, 'be) app_state \<Rightarrow> bool" where
  "app_typed s \<longleftrightarrow>
     boot_inv (ap_boots s) \<and>
     (\<forall>n d. jm_get n (d_drivers (ap_drivers s)) = Some d \<longrightarrow> driver_name d = n) \<and>
     (case d_active (ap_drivers s) of None \<Rightarrow> True | Some n \<Rightarrow> n \<noteq> [] \<longrightarrow> jm_has n (d_drivers (ap_drivers s))) \<and>
     (\<forall>n \<in> set (g_chain (ap_resolvers s)). has_resolver (ap_resolvers s) n)"

text \<open>What the rest of the package relies on after \<open>boot\<close>.\<close>

definition app_ready :: "('c, 's, 'e) mt_config \<Rightarrow> ('c, 's, 'e, 'bs, 'be) app_state \<Rightarrow> bool" where
  "app_ready c s \<longleftrightarrow>
     getConfig s = Some c \<and> ap_adapters s \<and>
     ap_backofficeConnection s = mc_backofficeConnection c \<and> js_filled (ap_backofficeConnection s) \<and>
     ap_centralConnection s = mc_centralConnection c \<and> js_filled (ap_centralConnection s) \<and>
     g_chain (ap_resolvers s) \<noteq> [] \<and> has_boot s ''cache'' \<and>
     (\<forall>n \<in> set knownStrategies. has_resolver (ap_resolvers s) n) \<and>
     (driver_choice c \<in> set driver_names \<longrightarrow> jm_has (driver_choice c) (d_drivers (ap_drivers s))) \<and>
     validateImpersonationConfig c = None"

text \<open>The configurations a fresh application accepts.\<close>

definition scoping_ok :: "isolation_block \<Rightarrow> bool" where
  "scoping_ok b \<longleftrightarrow>
     (\<forall>table \<in> set (or_else (ib_rowScopeTables b) []). \<forall>p \<in> set (js_split (CHR ''.'') table). SAFE_IDENT p) \<and>
     SAFE_IDENT (or_else (ib_rowScopeColumn b) ''tenant_id'')"

definition config_ok :: "('c, 's, 'e) mt_config \<Rightarrow> bool" where
  "config_ok c \<longleftrightarrow>
     js_filled (mc_backofficeConnection c) \<and> js_filled (mc_centralConnection c) \<and>
     js_filled (mc_tenantConnectionPrefix c) \<and> js_filled (mc_tenantSchemaPrefix c) \<and>
     (\<exists>st \<in> set knownStrategies. mc_resolverStrategy c = Some st) \<and>
     (case mc_resolverChain c of
        None \<Rightarrow> True | Some ChainNotArray \<Rightarrow> False
      | Some (ChainArray ns) \<Rightarrow> ns \<noteq> [] \<and> set ns \<subseteq> set knownStrategies) \<and>
     (case mc_isolation c of
        None \<Rightarrow> True | Some b \<Rightarrow> ib_driver b = Some ''rowscope-pg'' \<longrightarrow> scoping_ok b) \<and>
     (case mc_impersonation c of None \<Rightarrow> True | Some s \<Rightarrow> js_filled s \<and> 32 \<le> length (the s))"


section \<open>Facts\<close>

lemma js_filled_iff: "js_filled v \<longleftrightarrow> (\<exists>x. v = Some x \<and> x \<noteq> [])"
  by (cases v) (simp_all add: js_filled_def)

lemma find_None_all: "find P xs = None \<longleftrightarrow> (\<forall>x \<in> set xs. \<not> P x)"
  by (auto simp add: find_None_iff)

lemma find_SomeD: "find P xs = Some x \<Longrightarrow> x \<in> set xs \<and> P x"
  by (induction xs) (auto split: if_splits)

lemma shape_Inr:
  "assertConfigShape config = Inr c \<longleftrightarrow>
     config = Some c \<and> js_filled (mc_backofficeConnection c) \<and> js_filled (mc_centralConnection c) \<and>
     js_filled (mc_tenantConnectionPrefix c) \<and> js_filled (mc_tenantSchemaPrefix c) \<and>
     (\<exists>st \<in> set knownStrategies. mc_resolverStrategy c = Some st) \<and>
     (case mc_resolverChain c of
        None \<Rightarrow> True | Some ChainNotArray \<Rightarrow> False | Some (ChainArray ns) \<Rightarrow> ns \<noteq> [])"
proof (cases config)
  case (Some d)
  have known: "js_filled (Some st)" if "st \<in> set knownStrategies" for st
    using that by (auto simp add: knownStrategies_def js_filled_def)
  show ?thesis
  proof (cases "find (\<lambda>(k, v). \<not> js_filled v) (required_fields d)")
    case None
    then have "js_filled (mc_backofficeConnection d)" "js_filled (mc_centralConnection d)"
      "js_filled (mc_tenantConnectionPrefix d)" "js_filled (mc_tenantSchemaPrefix d)"
      "js_filled (mc_resolverStrategy d)"
      unfolding find_None_all by (simp_all add: required_fields_def)
    then show ?thesis
      using Some None
      by (auto simp add: assertConfigShape_def js_filled_iff split: option.splits chain_value.splits if_splits)
  next
    case (Some kv)
    then have "\<exists>v \<in> snd ` set (required_fields d). \<not> js_filled v"
      using find_SomeD [OF Some] by force
    then have "\<not> (js_filled (mc_backofficeConnection d) \<and> js_filled (mc_centralConnection d) \<and>
      js_filled (mc_tenantConnectionPrefix d) \<and> js_filled (mc_tenantSchemaPrefix d) \<and>
      (\<exists>st \<in> set knownStrategies. mc_resolverStrategy d = Some st))"
      using known by (auto simp add: required_fields_def)
    then show ?thesis
      using Some \<open>config = Some d\<close>
      by (auto simp add: assertConfigShape_def split: prod.splits)
  qed
qed (simp add: assertConfigShape_def)

lemma has_register: "has_resolver (register n f g) m \<longleftrightarrow> m = n \<or> has_resolver g m"
  by (auto simp add: has_resolver_def register_def jm_has_def js_map.get_put split: if_splits)

lemma chain_register: "g_chain (register n f g) = g_chain g"
  by (simp add: register_def)

lemma seed_fold:
  "(has_resolver (fold (\<lambda>(n, f) g. if has_resolver g n then g else register n f g) xs g) m \<longleftrightarrow>
      m \<in> fst ` set xs \<or> has_resolver g m) \<and>
   g_chain (fold (\<lambda>(n, f) g. if has_resolver g n then g else register n f g) xs g) = g_chain g"
  by (induction xs arbitrary: g) (auto simp add: has_register chain_register split: if_splits)

lemma seeded_names: "has_resolver (seed_resolvers c g) m \<longleftrightarrow> m \<in> set knownStrategies \<or> has_resolver g m"
  unfolding seed_resolvers_def seed_fold [THEN conjunct1]
  by (auto simp add: builtInResolvers_def knownStrategies_def)

lemma seeded_chain: "g_chain (seed_resolvers c g) = g_chain g"
  unfolding seed_resolvers_def by (rule seed_fold [THEN conjunct2])

lemma setChain_Inr:
  "setChain ns g = Inr g' \<longleftrightarrow> (\<forall>n \<in> set ns. has_resolver g n) \<and> g' = g\<lparr>g_chain := ns\<rparr>"
proof (cases "find (\<lambda>n. \<not> has_resolver g n) ns")
  case None
  then have "\<forall>n \<in> set ns. has_resolver g n" unfolding find_None_all by simp
  then show ?thesis using None by (auto simp add: setChain_def)
next
  case (Some n)
  then show ?thesis using find_SomeD [OF Some] by (auto simp add: setChain_def)
qed

lemma rowscope_new_Inr:
  "(\<exists>cfg'. rowscope_new central tables column cfg = Inr cfg') \<longleftrightarrow>
     (\<forall>table \<in> set (or_else tables []). \<forall>p \<in> set (js_split (CHR ''.'') table). SAFE_IDENT p) \<and>
     SAFE_IDENT (or_else column ''tenant_id'')"
proof -
  let ?ps = "concat (map (\<lambda>table. map (\<lambda>p. (table, p)) (js_split (CHR ''.'') table)) (or_else tables []))"
  have all: "(\<forall>table \<in> set (or_else tables []). \<forall>p \<in> set (js_split (CHR ''.'') table). SAFE_IDENT p) \<longleftrightarrow>
    (\<forall>x \<in> set ?ps. SAFE_IDENT (snd x))" by auto
  show ?thesis
  proof (cases "find (\<lambda>(table, p). \<not> SAFE_IDENT p) ?ps")
    case None
    then have "\<forall>x \<in> set ?ps. SAFE_IDENT (snd x)" unfolding find_None_all by auto
    then show ?thesis using None unfolding all by (simp add: rowscope_new_def Let_def)
  next
    case (Some tp)
    then have "\<exists>x \<in> set ?ps. \<not> SAFE_IDENT (snd x)"
      by (intro bexI [of _ tp]) (use find_SomeD [OF Some] in \<open>simp_all add: case_prod_beta\<close>)
    moreover have "\<nexists>cfg'. rowscope_new central tables column cfg = Inr cfg'"
      unfolding rowscope_new_def Let_def Some by (cases tp) simp
    ultimately show ?thesis unfolding all by blast
  qed
qed

lemma built_name: "build_driver c = Some (Inr d) \<Longrightarrow> driver_name d = driver_choice c"
  by (auto simp add: build_driver_def Let_def driver_name_def map_sum_def split: if_splits sum.splits)

lemma built_some: "build_driver c = None \<longleftrightarrow> driver_choice c \<notin> set driver_names"
  by (auto simp add: build_driver_def Let_def driver_names_def)

lemma built_unsafe:
  "(\<exists>e. build_driver c = Some (Inl e)) \<longleftrightarrow>
     driver_choice c = ''rowscope-pg'' \<and>
     (\<forall>b. mc_isolation c = Some b \<longrightarrow> \<not> scoping_ok b)"
proof (cases "driver_choice c = ''rowscope-pg''")
  case True
  then obtain b where b: "mc_isolation c = Some b"
    by (auto simp add: driver_choice_def split: option.splits)
  let ?r = "rowscope_new (ib_template b) (ib_rowScopeTables b) (ib_rowScopeColumn b) (iso_settings c)"
  have "build_driver c = Some (map_sum id RowScopePgDriver ?r)"
    using True b by (simp add: build_driver_def Let_def)
  moreover have "(\<exists>cfg. ?r = Inr cfg) \<longleftrightarrow> scoping_ok b"
    unfolding scoping_ok_def by (rule rowscope_new_Inr)
  ultimately show ?thesis using True b by (cases ?r) auto
qed (auto simp add: build_driver_def Let_def)


text \<open>The bootstrapper steps only ever add.\<close>

definition boots_grow :: "('bs, 'be) boot_registry \<Rightarrow> ('bs, 'be) boot_registry \<Rightarrow> bool" where
  "boots_grow g g' \<longleftrightarrow>
     (boot_inv g \<longrightarrow> boot_inv g') \<and> (\<forall>n. jm_has n (items g) \<longrightarrow> jm_has n (items g'))"

lemma boots_grow_refl: "boots_grow g g"
  by (simp add: boots_grow_def)

lemma boots_grow_trans: "boots_grow g h \<Longrightarrow> boots_grow h k \<Longrightarrow> boots_grow g k"
  by (simp add: boots_grow_def)

lemma boots_grow_register:
  "register_boot n b g = Inr g' \<Longrightarrow> boots_grow g g' \<and> jm_has n (items g')"
  using register_boot_inv [of g n b g']
  by (auto simp add: boots_grow_def register_boot_def jm_has_def js_map.get_put split: if_splits)

lemma boot_unless_present:
  fixes s :: "('c, 's, 'e, 'bs, 'be) app_state"
  shows "\<exists>g. bindM (getM (\<lambda>s. s)) (\<lambda>s. if has_boot s n then returnM () else add_bootstrapper n b) s =
      (Inr (), s\<lparr>ap_boots := g\<rparr>) \<and> boots_grow (ap_boots s) g \<and> jm_has n (items g)"
proof (cases "has_boot s n")
  case True
  then show ?thesis
    by (intro exI [of _ "ap_boots s"]) (simp add: run_simps boots_grow_refl has_boot_def)
next
  case False
  then obtain g where g: "register_boot n b (ap_boots s) = Inr g"
    by (simp add: register_boot_def has_boot_def)
  then show ?thesis
    using False boots_grow_register [OF g]
    by (intro exI [of _ g]) (simp add: run_simps add_bootstrapper_def)
qed

lemma forM_step: "f x s = (Inr (), s1) \<Longrightarrow> forM xs f s1 = r \<Longrightarrow> forM (x # xs) f s = r"
  by (simp add: run_simps)

lemma candidate_steps:
  fixes s :: "('c, 's, 'e, 'bs, 'be) app_state"
  shows "\<exists>g. forM cs (\<lambda>(n, binding, b).
       bindM (getM (\<lambda>s. s)) (\<lambda>s.
         if has_boot s n then returnM ()
         else if pe_bound p binding then add_bootstrapper n b
         else returnM ())) s = (Inr (), s\<lparr>ap_boots := g\<rparr>) \<and> boots_grow (ap_boots s) g"
proof (induction cs arbitrary: s)
  case Nil
  show ?case by (intro exI [of _ "ap_boots s"]) (simp add: run_simps boots_grow_refl)
next
  case (Cons x cs)
  obtain n binding b where x: "x = (n, binding, b)" by (cases x)
  let ?step = "bindM (getM (\<lambda>s. s)) (\<lambda>s. if has_boot s n then returnM ()
     else if pe_bound p binding then add_bootstrapper n b else returnM ())"
  have "\<exists>g. ?step s = (Inr (), s\<lparr>ap_boots := g\<rparr>) \<and> boots_grow (ap_boots s) g"
  proof (cases "pe_bound p binding")
    case True
    then show ?thesis using boot_unless_present [of n b s] by auto
  next
    case False
    then show ?thesis
      by (intro exI [of _ "ap_boots s"]) (simp add: run_simps boots_grow_refl)
  qed
  then obtain g where g: "?step s = (Inr (), s\<lparr>ap_boots := g\<rparr>)" "boots_grow (ap_boots s) g" by blast
  obtain k where k: "forM cs (\<lambda>(n, binding, b). bindM (getM (\<lambda>s. s)) (\<lambda>s. if has_boot s n then returnM ()
         else if pe_bound p binding then add_bootstrapper n b
         else returnM ())) (s\<lparr>ap_boots := g\<rparr>) = (Inr (), s\<lparr>ap_boots := g, ap_boots := k\<rparr>)" "boots_grow g k"
    using Cons.IH [of "s\<lparr>ap_boots := g\<rparr>"] by auto
  show ?case
    unfolding x
    by (intro exI [of _ k] conjI forM_step [where ?s1.0 = "s\<lparr>ap_boots := g\<rparr>"])
      (use g k boots_grow_trans [OF g(2) k(2)] in simp_all)
qed

lemma optional_run:
  fixes s :: "('c, 's, 'e, 'bs, 'be) app_state"
  shows "\<exists>g. registerOptionalBootstrappers p s = (Inr (), s\<lparr>ap_boots := g\<rparr>) \<and> boots_grow (ap_boots s) g"
  unfolding registerOptionalBootstrappers_def by (rule candidate_steps)

lemma driver_choice_run:
  "register_configured_driver c s =
     (if jm_has (driver_choice c) (d_drivers (ap_drivers s)) then (Inr (), s)
      else (case build_driver c of
              None \<Rightarrow> (Inr (), s)
            | Some (Inl e) \<Rightarrow> (Inl (DriverConfigUnsafe e), s)
            | Some (Inr d) \<Rightarrow>
                (Inr (), s\<lparr>ap_drivers := register_driver (driver_choice c) d True (ap_drivers s)\<rparr>)))"
  by (simp add: register_configured_driver_def run_simps split: option.splits sum.splits)

lemma resolvers_run:
  "install_resolvers c s =
     (if \<forall>n \<in> set (configured_chain c). has_resolver (seed_resolvers c (ap_resolvers s)) n
      then (Inr (), s\<lparr>ap_resolvers := (seed_resolvers c (ap_resolvers s))\<lparr>g_chain := configured_chain c\<rparr>\<rparr>)
      else (Inl (ChainRefused (projl (setChain (configured_chain c) (seed_resolvers c (ap_resolvers s))))),
            s\<lparr>ap_resolvers := seed_resolvers c (ap_resolvers s)\<rparr>))"
proof (cases "setChain (configured_chain c) (seed_resolvers c (ap_resolvers s))")
  case (Inl e)
  then have "\<not> (\<forall>n \<in> set (configured_chain c). has_resolver (seed_resolvers c (ap_resolvers s)) n)"
    using setChain_Inr [of "configured_chain c" "seed_resolvers c (ap_resolvers s)"] by fastforce
  then show ?thesis using Inl by (simp add: install_resolvers_def run_simps)
next
  case (Inr g)
  then show ?thesis
    using setChain_Inr [of "configured_chain c" "seed_resolvers c (ap_resolvers s)" g]
    by (simp add: install_resolvers_def run_simps)
qed


definition drivers_after :: "('c, 's, 'e) mt_config \<Rightarrow> driver_instance driver_registry \<Rightarrow> driver_instance driver_registry" where
  "drivers_after c g =
     (if jm_has (driver_choice c) (d_drivers g) then g
      else (case build_driver c of
              Some (Inr d) \<Rightarrow> register_driver (driver_choice c) d True g | _ \<Rightarrow> g))"

definition driver_refused :: "('c, 's, 'e) mt_config \<Rightarrow> driver_instance driver_registry \<Rightarrow> bool" where
  "driver_refused c g \<longleftrightarrow>
     \<not> jm_has (driver_choice c) (d_drivers g) \<and> (case build_driver c of Some (Inl e) \<Rightarrow> True | _ \<Rightarrow> False)"

definition booted :: "('c, 's, 'e) mt_config \<Rightarrow> ('bs, 'be) boot_registry \<Rightarrow> ('c, 's, 'e, 'bs, 'be) app_state \<Rightarrow>
  ('c, 's, 'e, 'bs, 'be) app_state" where
  "booted c g s =
     s\<lparr>ap_config := Some c, ap_backofficeConnection := mc_backofficeConnection c,
       ap_centralConnection := mc_centralConnection c, ap_adapters := True,
       ap_drivers := drivers_after c (ap_drivers s),
       ap_resolvers := (seed_resolvers c (ap_resolvers s))\<lparr>g_chain := configured_chain c\<rparr>,
       ap_hooks := loadDeclarative (mc_hooks c) (ap_hooks s), ap_boots := g\<rparr>"

lemma driver_outcome:
  "\<not> driver_refused c (ap_drivers s) \<Longrightarrow>
     register_configured_driver c s = (Inr (), s\<lparr>ap_drivers := drivers_after c (ap_drivers s)\<rparr>)"
  "driver_refused c (ap_drivers s) \<Longrightarrow> \<exists>e. register_configured_driver c s = (Inl e, s)"
  by (auto simp add: driver_refused_def drivers_after_def driver_choice_run split: option.splits sum.splits)

lemma boot_bad_shape: "assertConfigShape config = Inl e \<Longrightarrow> boot p config s = (Inl e, s)"
  by (simp add: boot_def run_simps)

text \<open>A configuration of the right shape is refused exactly for its driver, its chain or its secret.\<close>

lemma boot_outcome:
  fixes s :: "('c, 's, 'e, 'bs, 'be) app_state"
  assumes shape: "assertConfigShape config = Inr c"
  shows "if \<not> driver_refused c (ap_drivers s) \<and>
            (\<forall>n \<in> set (configured_chain c). has_resolver (seed_resolvers c (ap_resolvers s)) n) \<and>
            validateImpersonationConfig c = None
         then \<exists>g. boot p config s = (Inr (), booted c g s) \<and> boots_grow (ap_boots s) g \<and> jm_has ''cache'' (items g)
         else isl (fst (boot p config s))"
proof -
  let ?s1 = "s\<lparr>ap_config := Some c, ap_backofficeConnection := mc_backofficeConnection c,
       ap_centralConnection := mc_centralConnection c\<rparr>"
  let ?s2 = "?s1\<lparr>ap_drivers := drivers_after c (ap_drivers s), ap_adapters := True\<rparr>"
  let ?s3 = "?s2\<lparr>ap_resolvers := (seed_resolvers c (ap_resolvers s))\<lparr>g_chain := configured_chain c\<rparr>,
       ap_hooks := loadDeclarative (mc_hooks c) (ap_hooks s)\<rparr>"
  show ?thesis
  proof (cases "driver_refused c (ap_drivers s)")
    case True
    then obtain e where "register_configured_driver c ?s1 = (Inl e, ?s1)"
      using driver_outcome(2) [of c ?s1] by auto
    then show ?thesis using True shape by (simp add: boot_def setConfig_def run_simps)
  next
    case False
    then have d: "register_configured_driver c ?s1 = (Inr (), ?s1\<lparr>ap_drivers := drivers_after c (ap_drivers s)\<rparr>)"
      using driver_outcome(1) [of c ?s1] by simp
    show ?thesis
    proof (cases "\<forall>n \<in> set (configured_chain c). has_resolver (seed_resolvers c (ap_resolvers s)) n")
      case False
      then have "isl (fst (install_resolvers c ?s2))" by (simp add: resolvers_run)
      then show ?thesis
        using False shape d by (auto simp add: boot_def setConfig_def run_simps split: prod.splits sum.splits)
    next
      case True
      obtain g where g: "bindM (getM (\<lambda>s. s)) (\<lambda>s. if has_boot s ''cache'' then returnM ()
          else add_bootstrapper ''cache'' (pe_cache p)) ?s3 = (Inr (), ?s3\<lparr>ap_boots := g\<rparr>)"
        "boots_grow (ap_boots s) g" "jm_has ''cache'' (items g)"
        using boot_unless_present [of "''cache''" "pe_cache p" ?s3] by auto
      obtain h where h: "registerOptionalBootstrappers p (?s3\<lparr>ap_boots := g\<rparr>) = (Inr (), ?s3\<lparr>ap_boots := h\<rparr>)"
        "boots_grow g h"
        using optional_run [of p "?s3\<lparr>ap_boots := g\<rparr>"] by auto
      have run: "boot p config s =
          (case validateImpersonationConfig c of None \<Rightarrow> (Inr (), booted c h s) | Some e \<Rightarrow> (Inl e, booted c h s))"
        using shape d True g(1) h(1)
        by (simp add: boot_def setConfig_def run_basic thenM_def bindM_def resolvers_run booted_def split: option.splits)
      have "boots_grow (ap_boots s) h" "jm_has ''cache'' (items h)"
        using boots_grow_trans [OF g(2) h(2)] h(2) g(3) by (auto simp add: boots_grow_def)
      then show ?thesis using run True False by (auto split: option.splits)
    qed
  qed
qed

lemma boot_Inr:
  fixes s :: "('c, 's, 'e, 'bs, 'be) app_state"
  assumes "boot p config s = (Inr (), s')"
  obtains c g where "assertConfigShape config = Inr c" "\<not> driver_refused c (ap_drivers s)"
    "\<forall>n \<in> set (configured_chain c). has_resolver (seed_resolvers c (ap_resolvers s)) n"
    "validateImpersonationConfig c = None" "s' = booted c g s" "boots_grow (ap_boots s) g"
    "jm_has ''cache'' (items g)"
proof (cases "assertConfigShape config")
  case (Inl e)
  then show ?thesis using assms boot_bad_shape [of config e p s] by simp
next
  case (Inr c)
  then show ?thesis using boot_outcome [OF Inr, of s p] assms that [of c] by (auto split: if_splits)
qed


section \<open>The drivers behind the active one\<close>

fun driver_config :: "driver_instance \<Rightarrow> iso_config" where
  "driver_config (SchemaPgDriver cfg) = cfg"
| "driver_config (DatabasePgDriver cfg) = cfg"
| "driver_config (RowScopePgDriver cfg) = cfg"
| "driver_config (SqliteMemoryDriver cfg) = cfg"

fun driver_inv :: "driver_instance \<Rightarrow> 'm iso_state \<Rightarrow> bool" where
  "driver_inv (SchemaPgDriver cfg) w = pool_inv cfg (own_schema cfg) w"
| "driver_inv (DatabasePgDriver cfg) w = pool_inv cfg (own_database cfg) w"
| "driver_inv (RowScopePgDriver cfg) w = db_laws (handle w)"
| "driver_inv (SqliteMemoryDriver cfg) w = db_laws (handle w)"

definition driver_connected :: "driver_instance \<Rightarrow> tenant \<Rightarrow> 'm iso_state \<Rightarrow> bool" where
  "driver_connected d t w \<longleftrightarrow> driver_name d = ''rowscope-pg'' \<or> tenant_connected (driver_config d) t w"

lemma inv_funs: 
  "driver_inv (SchemaPgDriver cfg) = pool_inv cfg (own_schema cfg)"
  "driver_inv (DatabasePgDriver cfg) = pool_inv cfg (own_database cfg)"
  "driver_inv (RowScopePgDriver cfg) = (\<lambda>w. db_laws (handle w))"
  "driver_inv (SqliteMemoryDriver cfg) = (\<lambda>w. db_laws (handle w))"
  by (simp_all add: fun_eq_iff)

lemma connected_funs:
  "driver_connected (SchemaPgDriver cfg) = tenant_connected cfg"
  "driver_connected (DatabasePgDriver cfg) = tenant_connected cfg"
  "driver_connected (RowScopePgDriver cfg) = (\<lambda>t w. True)"
  "driver_connected (SqliteMemoryDriver cfg) = tenant_connected cfg"
  by (simp_all add: fun_eq_iff driver_connected_def driver_name_def)

text \<open>Whichever driver the configuration chooses, the active one keeps the contract of the interface.\<close>

interpretation instance_driver: isolation_driver "driver_connect d" "driver_disconnect d" "driver_provision d"
    "driver_destroy d" "driver_reset d" "driver_connected d" "driver_inv d" for d
proof (cases d)
  case (SchemaPgDriver cfg)
  then show "isolation_driver (driver_connect d) (driver_disconnect d) (driver_provision d)
      (driver_destroy d) (driver_reset d) (driver_connected d) (driver_inv d)"
    using schema.isolation_driver_axioms [of cfg]
    by (simp add: inv_funs connected_funs)
next
  case (DatabasePgDriver cfg)
  then show "isolation_driver (driver_connect d) (driver_disconnect d) (driver_provision d)
      (driver_destroy d) (driver_reset d) (driver_connected d) (driver_inv d)"
    using database.isolation_driver_axioms [of cfg]
    by (simp add: inv_funs connected_funs)
next
  case (RowScopePgDriver cfg)
  then show "isolation_driver (driver_connect d) (driver_disconnect d) (driver_provision d)
      (driver_destroy d) (driver_reset d) (driver_connected d) (driver_inv d)"
    using rowscope.isolation_driver_axioms [of cfg]
    by (simp add: inv_funs connected_funs)
next
  case (SqliteMemoryDriver cfg)
  then show "isolation_driver (driver_connect d) (driver_disconnect d) (driver_provision d)
      (driver_destroy d) (driver_reset d) (driver_connected d) (driver_inv d)"
    using sqlite.isolation_driver_axioms [of cfg]
    by (simp add: inv_funs connected_funs)
qed


section \<open>Booting and serving\<close>

lemma register_driver_get:
  "jm_get n (d_drivers (register_driver m d act g)) = (if n = m then Some d else jm_get n (d_drivers g))"
  by (simp add: register_driver_def js_map.get_put)

lemma drivers_after_typed:
  assumes "\<And>n d. jm_get n (d_drivers g) = Some d \<Longrightarrow> driver_name d = n"
    and "jm_get n (d_drivers (drivers_after c g)) = Some d"
  shows "driver_name d = n"
  using assms(2)
  by (auto simp add: drivers_after_def register_driver_get built_name assms(1)
      split: if_splits option.splits sum.splits)

lemma drivers_after_has:
  assumes "driver_choice c \<in> set driver_names" "\<not> driver_refused c g"
  shows "jm_has (driver_choice c) (d_drivers (drivers_after c g))"
  using assms built_some [of c]
  by (auto simp add: drivers_after_def driver_refused_def jm_has_def register_driver_get split: option.splits sum.splits)

lemma drivers_after_active:
  assumes "case d_active g of None \<Rightarrow> True | Some n \<Rightarrow> n \<noteq> [] \<longrightarrow> jm_has n (d_drivers g)"
  shows "case d_active (drivers_after c g) of
           None \<Rightarrow> True | Some n \<Rightarrow> n \<noteq> [] \<longrightarrow> jm_has n (d_drivers (drivers_after c g))"
  using assms
  by (auto simp add: drivers_after_def register_driver_def jm_has_def js_map.get_put split: option.splits sum.splits)

lemma validated: "validateImpersonationConfig c = None \<longleftrightarrow>
    (case mc_impersonation c of None \<Rightarrow> True | Some s \<Rightarrow> js_filled s \<and> 32 \<le> length (the s))"
  by (auto simp add: validateImpersonationConfig_def split: option.splits)

lemma chain_nonempty: "configured_chain c \<noteq> []"
  by (simp add: configured_chain_def split: option.splits chain_value.splits)


lemma config_ok_shape: "config_ok c \<Longrightarrow> assertConfigShape (Some c) = Inr c"
  unfolding shape_Inr by (auto simp add: config_ok_def split: option.splits chain_value.splits)

lemma fresh_conditions:
  assumes "assertConfigShape config = Inr c"
  shows "config_ok c \<longleftrightarrow> \<not> driver_refused c \<lparr>d_drivers = [], d_active = None\<rparr> \<and>
      (\<forall>n \<in> set (configured_chain c). has_resolver (seed_resolvers c empty_registry) n) \<and>
      validateImpersonationConfig c = None"
proof -
  note shape = assms [unfolded shape_Inr]
  have seeded: "has_resolver (seed_resolvers c empty_registry) n \<longleftrightarrow> n \<in> set knownStrategies" for n
    unfolding seeded_names by (simp add: has_resolver_def empty_registry_def jm_has_def)
  have chain: "(\<forall>n \<in> set (configured_chain c). n \<in> set knownStrategies) \<longleftrightarrow>
      (case mc_resolverChain c of Some (ChainArray ns) \<Rightarrow> set ns \<subseteq> set knownStrategies | _ \<Rightarrow> True)"
    using shape by (auto simp add: configured_chain_def split: option.splits chain_value.splits)
  have refused: "driver_refused c \<lparr>d_drivers = [], d_active = None\<rparr> \<longleftrightarrow>
      \<not> (case mc_isolation c of None \<Rightarrow> True | Some b \<Rightarrow> ib_driver b = Some ''rowscope-pg'' \<longrightarrow> scoping_ok b)"
    using built_unsafe [of c]
    by (auto simp add: driver_refused_def jm_has_def driver_choice_def split: option.splits sum.splits)
  show ?thesis
    unfolding refused seeded chain validated using shape
    by (auto simp add: config_ok_def split: option.splits chain_value.splits)
qed

lemma config_ok_boots:
  assumes "config_ok c"
  shows "\<exists>g. boot p (Some c) fresh_app = (Inr (), booted c g fresh_app)"
  using boot_outcome [OF config_ok_shape [OF assms], of fresh_app p] fresh_conditions [OF config_ok_shape [OF assms]] assms
  by (auto simp add: fresh_app_def split: if_splits)

text \<open>
  C14. A fresh application boots exactly on the configurations \<open>config_ok\<close>
  describes: the five required fields filled, a known resolver strategy, no chain
  or a non-empty one of built-in resolvers, for the row-scoping driver tables and a
  column that are safe identifiers, and no impersonation block or one with a secret
  of 32 characters. The name of the isolation driver is not among the conditions.
\<close>

theorem boot_accepts_exactly:
  "isl (fst (boot p config (fresh_app :: ('c, 's, 'e, 'bs, 'be) app_state))) \<longleftrightarrow>
     \<not> (\<exists>c. config = Some c \<and> config_ok c)"
proof (cases "assertConfigShape config")
  case (Inl e)
  then have "\<not> (\<exists>c. config = Some c \<and> config_ok c)"
    using config_ok_shape by fastforce
  then show ?thesis using boot_bad_shape [OF Inl, of p fresh_app] by simp
next
  case (Inr c)
  then show ?thesis
    using fresh_conditions [OF Inr] boot_outcome [OF Inr, of fresh_app p]
    by (auto simp add: fresh_app_def shape_Inr split: if_splits)
qed

lemma rowscope_new_prefixes:
  "rowscope_new a b k cfg = Inr cfg' \<Longrightarrow> connPrefix cfg' = connPrefix cfg \<and> schemaPrefix cfg' = schemaPrefix cfg"
  by (auto simp add: rowscope_new_def Let_def split: option.splits if_splits)

lemma built_config:
  assumes "build_driver c = Some (Inr d)"
  shows "connPrefix (driver_config d) = or_else (mc_tenantConnectionPrefix c) [] \<and>
         schemaPrefix (driver_config d) = or_else (mc_tenantSchemaPrefix c) []"
  using assms rowscope_new_prefixes
  by (auto simp add: build_driver_def Let_def iso_settings_def map_sum_def split: if_splits sum.splits)

lemma fresh_driver:
  assumes run: "boot p (Some c) fresh_app = (Inr (), s')" and known: "driver_choice c \<in> set driver_names"
  obtains d where "active_driver (ap_drivers s') = Inr d" "driver_name d = driver_choice c"
    "connPrefix (driver_config d) = the (mc_tenantConnectionPrefix c)"
    "schemaPrefix (driver_config d) = the (mc_tenantSchemaPrefix c)"
proof (rule boot_Inr [OF run])
  fix c' g
  assume shape: "assertConfigShape (Some c) = Inr c'" and ok: "\<not> driver_refused c' (ap_drivers fresh_app)"
    and s': "s' = booted c' g fresh_app"
  have c': "c' = c" and filled: "js_filled (mc_tenantConnectionPrefix c)" "js_filled (mc_tenantSchemaPrefix c)"
    using shape by (auto simp add: shape_Inr)
  obtain d where d: "build_driver c = Some (Inr d)"
    using ok known built_some [of c] unfolding c'
    by (auto simp add: driver_refused_def fresh_app_def jm_has_def split: option.splits sum.splits)
  have "driver_choice c \<noteq> []" using known by (auto simp add: driver_names_def)
  then have "active_driver (ap_drivers s') = Inr d"
    by (simp add: s' c' booted_def fresh_app_def drivers_after_def d jm_has_def active_driver_def register_driver_def)
  then show thesis
    using that [of d] built_name [OF d] built_config [OF d] filled by (auto simp add: js_filled_iff or_else_def)
qed

lemma provision_safe: "schema_provision cfg t w = (Inr (), w') \<Longrightarrow> SAFE_IDENT (t_id t)"
  by (auto simp add: schema_provision_def schemaName_def safe_id_def assertSafeIdentifier_def run_simps split: if_splits)


section \<open>What booting does not check\<close>

text \<open>The name of the isolation driver is not checked: an unknown one boots an application without an active driver.\<close>

lemma unknown_driver_boots:
  assumes "config_ok c" "driver_choice c \<notin> set driver_names"
  shows "\<exists>s'. boot p (Some c) fresh_app = (Inr (), s') \<and> active_driver (ap_drivers s') = Inl NoActiveDriver"
  using config_ok_boots [OF assms(1), of p] assms(2) built_some [of c]
  by (auto simp add: booted_def fresh_app_def drivers_after_def jm_has_def active_driver_def)

text \<open>
  A chain that names a resolver of the application is refused when the resolver is
  registered after this provider's \<open>boot\<close>, as its comment suggests.
\<close>

lemma custom_chain_refused:
  assumes "mc_resolverChain c = Some (ChainArray ns)" "n \<in> set ns" "n \<notin> set knownStrategies"
  shows "isl (fst (boot p (Some c) (fresh_app :: ('c, 's, 'e, 'bs, 'be) app_state)))"
proof (cases "assertConfigShape (Some c)")
  case (Inl e)
  then show ?thesis using boot_bad_shape [OF Inl, of p fresh_app] by simp
next
  case (Inr c')
  moreover have "c' = c" using Inr by (simp add: shape_Inr)
  moreover have "\<not> config_ok c" using assms by (auto simp add: config_ok_def)
  ultimately show ?thesis
    using fresh_conditions [of "Some c" c] boot_outcome [of "Some c" c fresh_app p]
    by (auto simp add: fresh_app_def split: if_splits)
qed

text \<open>A driver that another provider registered under the configured name without activating it stays inactive.\<close>

lemma registered_driver_not_activated:
  assumes "boot p (Some c) s = (Inr (), s')" "jm_has (driver_choice c) (d_drivers (ap_drivers s))"
  shows "d_active (ap_drivers s') = d_active (ap_drivers s)"
proof (rule boot_Inr [OF assms(1)])
  fix c' g assume "assertConfigShape (Some c) = Inr c'" "s' = booted c' g s"
  then show ?thesis using assms(2) by (simp add: shape_Inr booted_def drivers_after_def)
qed

text \<open>
  The route helpers are installed once per process: the flag is not reset by
  \<open>shutdown\<close>, so the router of the next application gets none of them.
\<close>

lemma helpers_once_per_process:
  "ro_helpers (installRouterMacros \<lparr>ro_installed = False, ro_helpers = []\<rparr>) =
     [(''tenant'', GroupUsing TenantGuardScope), (''central'', GroupUsing CentralOnlyScope),
      (''universal'', GroupUsing UniversalScope)]"
  "ro_helpers (installRouterMacros (installRouterMacros r\<lparr>ro_helpers := []\<rparr>)) = []"
  by (simp_all add: installRouterMacros_def add_helper_def jm_has_def)

text \<open>Without \<open>shutdown\<close> the driver lookup keeps answering from the first container.\<close>

lemma stale_until_shutdown:
  "fst (getActiveDriver ((snd (getActiveDriver k))\<lparr>lk_container := a\<rparr>)) = fst (getActiveDriver k)"
  "fst (getActiveDriver (snd (shutdown (m, (snd (getActiveDriver k))\<lparr>lk_container := a\<rparr>)))) =
     active_driver (lk_registries k a)"
  by (simp_all add: getActiveDriver_def shutdown_def resetActiveDriverCache_def or_else_def Let_def)

section \<open>Witnesses\<close>

definition demo_mt_config :: "(unit, unit, unit) mt_config" where
  "demo_mt_config =
     \<lparr>mc_backofficeConnection = Some ''backoffice'', mc_centralConnection = Some ''central'',
      mc_tenantConnectionPrefix = Some ''tenant_'', mc_tenantSchemaPrefix = Some ''s_'',
      mc_resolverStrategy = Some ''subdomain'', mc_resolverChain = None, mc_headerKey = ''x-tenant-id'',
      mc_baseDomain = ''example.com'', mc_ignorePaths = [], mc_queryKey = None, mc_bodyKey = None,
      mc_isolation = Some \<lparr>ib_driver = None, ib_template = Some ''base'', ib_databasePrefix = None,
        ib_rowScopeTables = None, ib_rowScopeColumn = None\<rparr>, mc_routing = None, mc_impersonation = None, mc_hooks = None\<rparr>"

definition demo_peers :: "(unit, unit) peers" where
  "demo_peers =
     (let b = \<lparr>b_enter = (\<lambda>t. returnM ()), b_leave = None\<rparr> in
      \<lparr>pe_bound = (\<lambda>n. n = ''session''), pe_cache = b, pe_drive = b, pe_mail = b, pe_session = b, pe_transmit = b\<rparr>)"

definition demo_booted :: "(unit, unit, unit, unit, unit) app_state" where
  "demo_booted = snd (boot demo_peers (Some demo_mt_config) fresh_app)"

lemma demo_config_ok: "config_ok demo_mt_config"
  by (simp add: config_ok_def demo_mt_config_def js_filled_def knownStrategies_def)

lemma demo_boots: "boot demo_peers (Some demo_mt_config) fresh_app = (Inr (), demo_booted)"
  using config_ok_boots [OF demo_config_ok, of demo_peers] by (auto simp add: demo_booted_def)

lemma fresh_typed: "app_typed fresh_app"
  by (simp add: app_typed_def fresh_app_def empty_boot_inv empty_registry_def jm_has_def)


lemma demo_choice: "driver_choice demo_mt_config \<in> set driver_names"
  by (simp add: driver_choice_def demo_mt_config_def driver_names_def)

definition demo_driver :: driver_instance where
  "demo_driver = SchemaPgDriver (demo_iso_config\<lparr>centralName := ''tenant''\<rparr>)"

lemma demo_active: "active_driver (ap_drivers demo_booted) = Inr demo_driver"
  by code_simp

lemma demo_provisioned: "fst (driver_provision demo_driver (iso_tenant ''a'') demo_iso) = Inr ()"
  by code_simp

lemma demo_driver_inv: "driver_inv demo_driver demo_iso"
  using no_tenant_inv [OF demo_iso_start(1), of "demo_iso_config\<lparr>centralName := ''tenant''\<rparr>"] demo_iso_start(2)
  by (simp add: demo_driver_def no_tenant_connections_def)


end
