(* ===== verification/Admin_Spec.thy ===== *)
theory Admin_Spec
  imports Prelude
begin

text \<open>
  admin/openapi.ts: the OpenAPI document of the admin interface, entry by entry,
  as JSON values whose objects keep the order of the source. \<open>base\<close> is the prefix
  the document was asked for, without a trailing slash.
\<close>

section \<open>JSON values and the document's helpers\<close>

datatype spec_json =
    SNull
  | SBool bool
  | SNum int
  | SStr string
  | SArr "spec_json list"
  | SObj "(string \<times> spec_json) list"

definition TAG_TENANTS :: string where
  "TAG_TENANTS = ''Tenants''"

definition TAG_OBSERVABILITY :: string where
  "TAG_OBSERVABILITY = ''Observability''"

definition TAG_IMPERSONATION :: string where
  "TAG_IMPERSONATION = ''Impersonation''"

definition TAG_SATELLITES :: string where
  "TAG_SATELLITES = ''Satellites''"

definition ref :: "string \<Rightarrow> spec_json" where
  "ref name = SObj [(''$ref'', SStr (''#/components/schemas/'' @ name))]"

definition paramRef :: "string \<Rightarrow> spec_json" where
  "paramRef name = SObj [(''$ref'', SStr (''#/components/parameters/'' @ name))]"

definition jsonBody :: "spec_json \<Rightarrow> bool \<Rightarrow> spec_json" where
  "jsonBody schemaRef required =
     SObj [(''required'', SBool required),
           (''content'', SObj [(''application/json'', SObj [(''schema'', schemaRef)])])]"

text \<open>The entries of a responses object; \<open>spread\<close> merges such entries, later ones last.\<close>

definition jsonResponse :: "string \<Rightarrow> spec_json option \<Rightarrow> nat \<Rightarrow> (string \<times> spec_json) list" where
  "jsonResponse description schemaRef status =
     [(show_nat status,
       SObj ((''description'', SStr description) #
             (case schemaRef of
                None \<Rightarrow> []
              | Some r \<Rightarrow> [(''content'', SObj [(''application/json'', SObj [(''schema'', r)])])])))]"

definition notFound :: "string \<Rightarrow> (string \<times> spec_json) list" where
  "notFound resource = jsonResponse (resource @ '' not found'') (Some (ref ''Error'')) 404"

definition spread :: "(string \<times> spec_json) list list \<Rightarrow> (string \<times> spec_json) list" where
  "spread parts = fold (\<lambda>(k, v) m. jm_set k v m) (concat parts) []"

section \<open>Schemas and parameters\<close>

definition tenant_schemas :: "(string \<times> spec_json) list" where
  "tenant_schemas =
    [
      (''Tenant'',
        SObj [
          (''type'', SStr ''object''),
          (''properties'',
            SObj [
              (''id'', SObj [(''type'', SStr ''string''), (''format'', SStr ''uuid'')]),
              (''name'', SObj [(''type'', SStr ''string'')]),
              (''email'', SObj [(''type'', SStr ''string''), (''format'', SStr ''email'')]),
              (''status'',
                SObj [
                  (''type'', SStr ''string''),
                  (''enum'',
                    SArr [
                      SStr ''provisioning'',
                      SStr ''active'',
                      SStr ''suspended'',
                      SStr ''failed'',
                      SStr ''deleted''])]),
              (''customDomain'', SObj [(''type'', SArr [SStr ''string'', SStr ''null''])]),
              (''schemaName'', SObj [(''type'', SStr ''string'')]),
              (''createdAt'',
                SObj [(''type'', SArr [SStr ''string'', SStr ''null'']), (''format'', SStr ''date-time'')]),
              (''deletedAt'',
                SObj [(''type'', SArr [SStr ''string'', SStr ''null'']), (''format'', SStr ''date-time'')]),
              (''isActive'', SObj [(''type'', SStr ''boolean'')]),
              (''isDeleted'', SObj [(''type'', SStr ''boolean'')]),
              (''metadata'', SObj [(''type'', SArr [SStr ''object'', SStr ''null''])])]),
          (''required'', SArr [SStr ''id'', SStr ''name'', SStr ''email'', SStr ''status''])]),
      (''TenantList'',
        SObj [
          (''type'', SStr ''object''),
          (''properties'',
            SObj [
              (''data'', SObj [(''type'', SStr ''array''), (''items'', ref ''Tenant'')]),
              (''total'', SObj [(''type'', SStr ''integer'')])])]),
      (''TenantSingle'',
        SObj [(''type'', SStr ''object''), (''properties'', SObj [(''data'', ref ''Tenant'')])]),
      (''TenantCreate'',
        SObj [
          (''type'', SStr ''object''),
          (''required'', SArr [SStr ''name'', SStr ''email'']),
          (''properties'',
            SObj [
              (''name'', SObj [(''type'', SStr ''string'')]),
              (''email'', SObj [(''type'', SStr ''string''), (''format'', SStr ''email'')])])])]"

definition webhook_schemas :: "(string \<times> spec_json) list" where
  "webhook_schemas =
    [
      (''AuditLog'',
        SObj [
          (''type'', SStr ''object''),
          (''properties'',
            SObj [
              (''id'', SObj [(''type'', SStr ''string'')]),
              (''tenantId'', SObj [(''type'', SArr [SStr ''string'', SStr ''null''])]),
              (''actorType'', SObj [(''type'', SStr ''string'')]),
              (''actorId'', SObj [(''type'', SArr [SStr ''string'', SStr ''null''])]),
              (''action'', SObj [(''type'', SStr ''string'')]),
              (''metadata'', SObj [(''type'', SArr [SStr ''object'', SStr ''null''])]),
              (''ipAddress'', SObj [(''type'', SArr [SStr ''string'', SStr ''null''])]),
              (''createdAt'', SObj [(''type'', SStr ''string''), (''format'', SStr ''date-time'')])])]),
      (''Webhook'',
        SObj [
          (''type'', SStr ''object''),
          (''properties'',
            SObj [
              (''id'', SObj [(''type'', SStr ''string'')]),
              (''tenantId'', SObj [(''type'', SStr ''string'')]),
              (''url'', SObj [(''type'', SStr ''string''), (''format'', SStr ''uri'')]),
              (''events'',
                SObj [(''type'', SStr ''array''), (''items'', SObj [(''type'', SStr ''string'')])]),
              (''enabled'', SObj [(''type'', SStr ''boolean'')]),
              (''hasSecret'', SObj [(''type'', SStr ''boolean'')]),
              (''createdAt'',
                SObj [(''type'', SArr [SStr ''string'', SStr ''null'']), (''format'', SStr ''date-time'')]),
              (''updatedAt'',
                SObj [(''type'', SArr [SStr ''string'', SStr ''null'']), (''format'', SStr ''date-time'')])])]),
      (''WebhookCreate'',
        SObj [
          (''type'', SStr ''object''),
          (''required'', SArr [SStr ''url'', SStr ''events'']),
          (''properties'',
            SObj [
              (''url'', SObj [(''type'', SStr ''string''), (''format'', SStr ''uri'')]),
              (''events'',
                SObj [
                  (''type'', SStr ''array''),
                  (''items'', SObj [(''type'', SStr ''string'')]),
                  (''minItems'', SNum 1)]),
              (''secret'',
                SObj [
                  (''type'', SStr ''string''),
                  (''description'', SStr ''Plain-text shared secret. Stored encrypted.'')])])]),
      (''WebhookUpdate'',
        SObj [
          (''type'', SStr ''object''),
          (''properties'',
            SObj [
              (''url'', SObj [(''type'', SStr ''string''), (''format'', SStr ''uri'')]),
              (''events'',
                SObj [(''type'', SStr ''array''), (''items'', SObj [(''type'', SStr ''string'')])]),
              (''enabled'', SObj [(''type'', SStr ''boolean'')])])]),
      (''WebhookDelivery'',
        SObj [
          (''type'', SStr ''object''),
          (''properties'',
            SObj [
              (''id'', SObj [(''type'', SStr ''string'')]),
              (''webhookId'', SObj [(''type'', SStr ''string'')]),
              (''event'', SObj [(''type'', SStr ''string'')]),
              (''status'',
                SObj [
                  (''type'', SStr ''string''),
                  (''enum'',
                    SArr [SStr ''pending'', SStr ''success'', SStr ''failed'', SStr ''retrying''])]),
              (''statusCode'', SObj [(''type'', SArr [SStr ''integer'', SStr ''null''])]),
              (''attempt'', SObj [(''type'', SStr ''integer'')]),
              (''nextRetryAt'',
                SObj [(''type'', SArr [SStr ''string'', SStr ''null'']), (''format'', SStr ''date-time'')]),
              (''createdAt'',
                SObj [(''type'', SArr [SStr ''string'', SStr ''null'']), (''format'', SStr ''date-time'')])])])]"

definition flag_branding_schemas :: "(string \<times> spec_json) list" where
  "flag_branding_schemas =
    [
      (''FeatureFlag'',
        SObj [
          (''type'', SStr ''object''),
          (''properties'',
            SObj [
              (''id'', SObj [(''type'', SStr ''string'')]),
              (''tenantId'', SObj [(''type'', SStr ''string'')]),
              (''flag'', SObj [(''type'', SStr ''string'')]),
              (''enabled'', SObj [(''type'', SStr ''boolean'')]),
              (''config'', SObj [(''type'', SArr [SStr ''object'', SStr ''null''])]),
              (''createdAt'',
                SObj [(''type'', SArr [SStr ''string'', SStr ''null'']), (''format'', SStr ''date-time'')]),
              (''updatedAt'',
                SObj [(''type'', SArr [SStr ''string'', SStr ''null'']), (''format'', SStr ''date-time'')])])]),
      (''FeatureFlagInput'',
        SObj [
          (''type'', SStr ''object''),
          (''required'', SArr [SStr ''flag'', SStr ''enabled'']),
          (''properties'',
            SObj [
              (''flag'', SObj [(''type'', SStr ''string'')]),
              (''enabled'', SObj [(''type'', SStr ''boolean'')]),
              (''config'', SObj [(''type'', SStr ''object'')])])]),
      (''Branding'',
        SObj [
          (''type'', SStr ''object''),
          (''properties'',
            SObj [
              (''tenantId'', SObj [(''type'', SStr ''string'')]),
              (''fromName'', SObj [(''type'', SArr [SStr ''string'', SStr ''null''])]),
              (''fromEmail'', SObj [(''type'', SArr [SStr ''string'', SStr ''null''])]),
              (''logoUrl'',
                SObj [(''type'', SArr [SStr ''string'', SStr ''null'']), (''format'', SStr ''uri'')]),
              (''primaryColor'',
                SObj [
                  (''type'', SArr [SStr ''string'', SStr ''null'']),
                  (''description'', SStr ''CSS hex color, e.g. `#3b82f6`.'')]),
              (''supportUrl'',
                SObj [(''type'', SArr [SStr ''string'', SStr ''null'']), (''format'', SStr ''uri'')]),
              (''emailFooter'', SObj [(''type'', SArr [SStr ''object'', SStr ''null''])]),
              (''createdAt'',
                SObj [(''type'', SArr [SStr ''string'', SStr ''null'']), (''format'', SStr ''date-time'')]),
              (''updatedAt'',
                SObj [(''type'', SArr [SStr ''string'', SStr ''null'']), (''format'', SStr ''date-time'')])])]),
      (''BrandingUpdate'',
        SObj [
          (''type'', SStr ''object''),
          (''properties'',
            SObj [
              (''fromName'', SObj [(''type'', SStr ''string'')]),
              (''fromEmail'', SObj [(''type'', SStr ''string''), (''format'', SStr ''email'')]),
              (''logoUrl'', SObj [(''type'', SStr ''string''), (''format'', SStr ''uri'')]),
              (''primaryColor'', SObj [(''type'', SStr ''string'')]),
              (''supportUrl'', SObj [(''type'', SStr ''string''), (''format'', SStr ''uri'')]),
              (''emailFooter'', SObj [(''type'', SStr ''object'')])])])]"

definition sso_metric_schemas :: "(string \<times> spec_json) list" where
  "sso_metric_schemas =
    [
      (''SsoConfig'',
        SObj [
          (''type'', SStr ''object''),
          (''properties'',
            SObj [
              (''id'', SObj [(''type'', SStr ''string'')]),
              (''tenantId'', SObj [(''type'', SStr ''string'')]),
              (''provider'', SObj [(''type'', SStr ''string'')]),
              (''clientId'', SObj [(''type'', SStr ''string'')]),
              (''issuerUrl'', SObj [(''type'', SStr ''string''), (''format'', SStr ''uri'')]),
              (''redirectUri'', SObj [(''type'', SStr ''string''), (''format'', SStr ''uri'')]),
              (''scopes'',
                SObj [(''type'', SStr ''array''), (''items'', SObj [(''type'', SStr ''string'')])]),
              (''enabled'', SObj [(''type'', SStr ''boolean'')]),
              (''hasClientSecret'', SObj [(''type'', SStr ''boolean'')]),
              (''createdAt'',
                SObj [(''type'', SArr [SStr ''string'', SStr ''null'']), (''format'', SStr ''date-time'')]),
              (''updatedAt'',
                SObj [(''type'', SArr [SStr ''string'', SStr ''null'']), (''format'', SStr ''date-time'')])])]),
      (''SsoConfigUpdate'',
        SObj [
          (''type'', SStr ''object''),
          (''required'',
            SArr [SStr ''clientId'', SStr ''clientSecret'', SStr ''issuerUrl'', SStr ''redirectUri'']),
          (''properties'',
            SObj [
              (''clientId'', SObj [(''type'', SStr ''string'')]),
              (''clientSecret'', SObj [(''type'', SStr ''string'')]),
              (''issuerUrl'', SObj [(''type'', SStr ''string''), (''format'', SStr ''uri'')]),
              (''redirectUri'', SObj [(''type'', SStr ''string''), (''format'', SStr ''uri'')]),
              (''scopes'',
                SObj [(''type'', SStr ''array''), (''items'', SObj [(''type'', SStr ''string'')])])])]),
      (''Metric'',
        SObj [
          (''type'', SStr ''object''),
          (''properties'',
            SObj [
              (''tenantId'', SObj [(''type'', SStr ''string'')]),
              (''period'', SObj [(''type'', SStr ''string''), (''description'', SStr ''YYYY-MM-DD'')]),
              (''requestCount'', SObj [(''type'', SStr ''integer'')]),
              (''errorCount'', SObj [(''type'', SStr ''integer'')]),
              (''bandwidthBytes'', SObj [(''type'', SStr ''integer'')])])]),
      (''QuotaSnapshot'',
        SObj [
          (''type'', SStr ''object''),
          (''properties'',
            SObj [
              (''plan'', SObj [(''type'', SStr ''string'')]),
              (''limits'',
                SObj [
                  (''type'', SStr ''object''),
                  (''additionalProperties'', SObj [(''type'', SStr ''number'')])]),
              (''usage'',
                SObj [
                  (''type'', SStr ''object''),
                  (''additionalProperties'', SObj [(''type'', SStr ''number'')])])])]),
      (''QueueStats'',
        SObj [
          (''type'', SStr ''object''),
          (''properties'',
            SObj [
              (''tenantId'', SObj [(''type'', SStr ''string'')]),
              (''queueName'', SObj [(''type'', SStr ''string'')]),
              (''waiting'', SObj [(''type'', SStr ''integer'')]),
              (''active'', SObj [(''type'', SStr ''integer'')]),
              (''completed'', SObj [(''type'', SStr ''integer'')]),
              (''failed'', SObj [(''type'', SStr ''integer'')]),
              (''delayed'', SObj [(''type'', SStr ''integer'')])])])]"

definition report_schemas :: "(string \<times> spec_json) list" where
  "report_schemas =
    [
      (''HealthReport'',
        SObj [
          (''type'', SStr ''object''),
          (''properties'',
            SObj [
              (''reports'',
                SObj [
                  (''type'', SStr ''array''),
                  (''items'',
                    SObj [
                      (''type'', SStr ''object''),
                      (''properties'',
                        SObj [
                          (''check'', SObj [(''type'', SStr ''string'')]),
                          (''description'', SObj [(''type'', SStr ''string'')]),
                          (''durationMs'', SObj [(''type'', SStr ''number'')]),
                          (''issues'', SObj [(''type'', SStr ''array''), (''items'', ref ''Issue'')]),
                          (''error'', SObj [(''type'', SStr ''string'')])])])]),
              (''totals'',
                SObj [
                  (''type'', SStr ''object''),
                  (''properties'',
                    SObj [
                      (''info'', SObj [(''type'', SStr ''integer'')]),
                      (''warn'', SObj [(''type'', SStr ''integer'')]),
                      (''error'', SObj [(''type'', SStr ''integer'')]),
                      (''fixable'', SObj [(''type'', SStr ''integer'')])])])])]),
      (''Issue'',
        SObj [
          (''type'', SStr ''object''),
          (''properties'',
            SObj [
              (''code'', SObj [(''type'', SStr ''string'')]),
              (''severity'',
                SObj [
                  (''type'', SStr ''string''),
                  (''enum'', SArr [SStr ''info'', SStr ''warn'', SStr ''error''])]),
              (''message'', SObj [(''type'', SStr ''string'')]),
              (''tenantId'', SObj [(''type'', SStr ''string'')]),
              (''fixable'', SObj [(''type'', SStr ''boolean'')]),
              (''meta'', SObj [(''type'', SStr ''object'')])])]),
      (''Impersonation'',
        SObj [
          (''type'', SStr ''object''),
          (''properties'',
            SObj [
              (''sessionId'', SObj [(''type'', SStr ''string'')]),
              (''token'', SObj [(''type'', SStr ''string'')]),
              (''expiresAt'', SObj [(''type'', SStr ''string''), (''format'', SStr ''date-time'')])])]),
      (''ImpersonationStart'',
        SObj [
          (''type'', SStr ''object''),
          (''required'', SArr [SStr ''userId'']),
          (''properties'',
            SObj [
              (''userId'', SObj [(''type'', SStr ''string'')]),
              (''durationSeconds'', SObj [(''type'', SStr ''number'')]),
              (''reason'', SObj [(''type'', SStr ''string'')])])]),
      (''Error'',
        SObj [
          (''type'', SStr ''object''),
          (''properties'',
            SObj [
              (''error'', SObj [(''type'', SStr ''string'')]),
              (''message'', SObj [(''type'', SStr ''string'')]),
              (''hint'', SObj [(''type'', SStr ''string'')])]),
          (''required'', SArr [SStr ''error''])])]"

definition spec_parameters :: "(string \<times> spec_json) list" where
  "spec_parameters =
    [
      (''TenantId'',
        SObj [
          (''name'', SStr ''id''),
          (''in'', SStr ''path''),
          (''required'', SBool True),
          (''schema'', SObj [(''type'', SStr ''string''), (''format'', SStr ''uuid'')])]),
      (''WebhookId'',
        SObj [
          (''name'', SStr ''webhookId''),
          (''in'', SStr ''path''),
          (''required'', SBool True),
          (''schema'', SObj [(''type'', SStr ''string''), (''format'', SStr ''uuid'')])]),
      (''DeliveryId'',
        SObj [
          (''name'', SStr ''deliveryId''),
          (''in'', SStr ''path''),
          (''required'', SBool True),
          (''schema'', SObj [(''type'', SStr ''string''), (''format'', SStr ''uuid'')])]),
      (''FlagKey'',
        SObj [
          (''name'', SStr ''flagKey''),
          (''in'', SStr ''path''),
          (''required'', SBool True),
          (''schema'', SObj [(''type'', SStr ''string'')])]),
      (''Page'',
        SObj [
          (''name'', SStr ''page''),
          (''in'', SStr ''query''),
          (''schema'', SObj [(''type'', SStr ''integer''), (''minimum'', SNum 1)])]),
      (''Limit'',
        SObj [
          (''name'', SStr ''limit''),
          (''in'', SStr ''query''),
          (''schema'',
            SObj [(''type'', SStr ''integer''), (''minimum'', SNum 1), (''maximum'', SNum 200)])])]"

section \<open>Paths\<close>

definition tenant_paths :: "string \<Rightarrow> (string \<times> spec_json) list" where
  "tenant_paths base =
    [
      (base @ ''/tenants'',
        SObj [
          (''get'',
            SObj [
              (''tags'', SArr [SStr TAG_TENANTS]),
              (''summary'', SStr ''List tenants''),
              (''parameters'',
                SArr [
                  SObj [
                    (''name'', SStr ''status''),
                    (''in'', SStr ''query''),
                    (''schema'', SObj [(''type'', SStr ''string'')])],
                  SObj [
                    (''name'', SStr ''includeDeleted''),
                    (''in'', SStr ''query''),
                    (''schema'', SObj [(''type'', SStr ''boolean'')])]]),
              (''responses'', SObj (jsonResponse ''OK'' (Some (ref ''TenantList'')) 200))]),
          (''post'',
            SObj [
              (''tags'', SArr [SStr TAG_TENANTS]),
              (''summary'', SStr ''Create tenant''),
              (''requestBody'', jsonBody (ref ''TenantCreate'') True),
              (''responses'',
                SObj (spread
                        [jsonResponse ''Created'' (Some (ref ''TenantSingle'')) 201,
                         jsonResponse ''Bad request'' (Some (ref ''Error'')) 400]))])]),
      (base @ ''/tenants/{id}'',
        SObj [
          (''get'',
            SObj [
              (''tags'', SArr [SStr TAG_TENANTS]),
              (''summary'', SStr ''Show tenant''),
              (''parameters'', SArr [paramRef ''TenantId'']),
              (''responses'',
                SObj (spread [jsonResponse ''OK'' (Some (ref ''TenantSingle'')) 200, notFound ''Tenant'']))])]),
      (base @ ''/tenants/{id}/activate'',
        SObj [
          (''post'',
            SObj [
              (''tags'', SArr [SStr TAG_TENANTS]),
              (''parameters'', SArr [paramRef ''TenantId'']),
              (''responses'',
                SObj (spread [jsonResponse ''OK'' (Some (ref ''TenantSingle'')) 200, notFound ''Tenant'']))])]),
      (base @ ''/tenants/{id}/suspend'',
        SObj [
          (''post'',
            SObj [
              (''tags'', SArr [SStr TAG_TENANTS]),
              (''parameters'', SArr [paramRef ''TenantId'']),
              (''responses'',
                SObj (spread [jsonResponse ''OK'' (Some (ref ''TenantSingle'')) 200, notFound ''Tenant'']))])]),
      (base @ ''/tenants/{id}/destroy'',
        SObj [
          (''post'',
            SObj [
              (''tags'', SArr [SStr TAG_TENANTS]),
              (''parameters'',
                SArr [
                  paramRef ''TenantId'',
                  SObj [
                    (''name'', SStr ''keepSchema''),
                    (''in'', SStr ''query''),
                    (''schema'', SObj [(''type'', SStr ''boolean'')])]]),
              (''responses'',
                SObj (spread [jsonResponse ''OK'' (Some (ref ''TenantSingle'')) 200, notFound ''Tenant'']))])]),
      (base @ ''/tenants/{id}/restore'',
        SObj [
          (''post'',
            SObj [
              (''tags'', SArr [SStr TAG_TENANTS]),
              (''parameters'', SArr [paramRef ''TenantId'']),
              (''responses'',
                SObj (spread [jsonResponse ''OK'' (Some (ref ''TenantSingle'')) 200, notFound ''Tenant'']))])]),
      (base @ ''/tenants/{id}/maintenance'',
        SObj [
          (''post'',
            SObj [
              (''tags'', SArr [SStr TAG_TENANTS]),
              (''summary'', SStr ''Enter maintenance mode''),
              (''parameters'', SArr [paramRef ''TenantId'']),
              (''requestBody'',
                jsonBody (SObj [
                            (''type'', SStr ''object''),
                            (''properties'', SObj [(''message'', SObj [(''type'', SStr ''string'')])])]) False),
              (''responses'',
                SObj (spread [jsonResponse ''OK'' (Some (ref ''TenantSingle'')) 200, notFound ''Tenant'']))]),
          (''delete'',
            SObj [
              (''tags'', SArr [SStr TAG_TENANTS]),
              (''summary'', SStr ''Exit maintenance mode''),
              (''parameters'', SArr [paramRef ''TenantId'']),
              (''responses'',
                SObj (spread [jsonResponse ''OK'' (Some (ref ''TenantSingle'')) 200, notFound ''Tenant'']))])])]"

definition observability_paths :: "string \<Rightarrow> (string \<times> spec_json) list" where
  "observability_paths base =
    [
      (base @ ''/tenants/{id}/queue/stats'',
        SObj [
          (''get'',
            SObj [
              (''tags'', SArr [SStr TAG_OBSERVABILITY]),
              (''parameters'', SArr [paramRef ''TenantId'']),
              (''responses'',
                SObj (jsonResponse ''OK''
                        (Some (SObj [
                          (''type'', SStr ''object''),
                          (''properties'', SObj [(''data'', ref ''QueueStats'')])])) 200))])]),
      (base @ ''/health/report'',
        SObj [
          (''get'',
            SObj [
              (''tags'', SArr [SStr TAG_OBSERVABILITY]),
              (''summary'', SStr ''Run all doctor checks''),
              (''responses'',
                SObj (spread
                        [jsonResponse ''OK'' (Some (ref ''HealthReport'')) 200,
                         jsonResponse ''At least one check reported errors''
                           (Some (ref ''HealthReport'')) 503]))])]),
      (base @ ''/openapi.json'',
        SObj [
          (''get'',
            SObj [
              (''tags'', SArr [SStr TAG_OBSERVABILITY]),
              (''summary'', SStr ''OpenAPI 3.1 spec for this admin API''),
              (''responses'', SObj (jsonResponse ''OK'' (Some (SObj [(''type'', SStr ''object'')])) 200))])]),
      (base @ ''/docs'',
        SObj [
          (''get'',
            SObj [
              (''tags'', SArr [SStr TAG_OBSERVABILITY]),
              (''summary'', SStr ''Swagger UI''),
              (''responses'', SObj [(''200'', SObj [(''description'', SStr ''HTML page'')])])])])]"

definition impersonation_paths :: "string \<Rightarrow> (string \<times> spec_json) list" where
  "impersonation_paths base =
    [
      (base @ ''/tenants/{id}/impersonations'',
        SObj [
          (''post'',
            SObj [
              (''tags'', SArr [SStr TAG_IMPERSONATION]),
              (''parameters'', SArr [paramRef ''TenantId'']),
              (''requestBody'', jsonBody (ref ''ImpersonationStart'') True),
              (''responses'',
                SObj (spread
                        [jsonResponse ''Created''
                           (Some (SObj [
                             (''type'', SStr ''object''),
                             (''properties'', SObj [(''data'', ref ''Impersonation'')])])) 201,
                         jsonResponse ''Admin actor resolver not configured'' (Some (ref ''Error'')) 501,
                         jsonResponse ''Admin actor unresolved'' (Some (ref ''Error'')) 401]))])]),
      (base @ ''/impersonations/{token}'',
        SObj [
          (''delete'',
            SObj [
              (''tags'', SArr [SStr TAG_IMPERSONATION]),
              (''parameters'',
                SArr [
                  SObj [
                    (''name'', SStr ''token''),
                    (''in'', SStr ''path''),
                    (''required'', SBool True),
                    (''schema'', SObj [(''type'', SStr ''string'')])]]),
              (''responses'',
                SObj (jsonResponse ''OK''
                        (Some (SObj [
                          (''type'', SStr ''object''),
                          (''properties'', SObj [(''revoked'', SObj [(''type'', SStr ''boolean'')])])])) 200))])]),
      (base @ ''/impersonations/by-id/{sessionId}'',
        SObj [
          (''delete'',
            SObj [
              (''tags'', SArr [SStr TAG_IMPERSONATION]),
              (''parameters'',
                SArr [
                  SObj [
                    (''name'', SStr ''sessionId''),
                    (''in'', SStr ''path''),
                    (''required'', SBool True),
                    (''schema'', SObj [(''type'', SStr ''string'')])]]),
              (''responses'',
                SObj (jsonResponse ''OK''
                        (Some (SObj [
                          (''type'', SStr ''object''),
                          (''properties'', SObj [(''revoked'', SObj [(''type'', SStr ''boolean'')])])])) 200))])])]"

definition webhook_paths :: "string \<Rightarrow> (string \<times> spec_json) list" where
  "webhook_paths base =
    [
      (base @ ''/tenants/{id}/audit-logs'',
        SObj [
          (''get'',
            SObj [
              (''tags'', SArr [SStr TAG_SATELLITES]),
              (''parameters'',
                SArr [
                  paramRef ''TenantId'',
                  paramRef ''Page'',
                  paramRef ''Limit'',
                  SObj [
                    (''name'', SStr ''from''),
                    (''in'', SStr ''query''),
                    (''description'', SStr ''ISO 8601 lower bound on `created_at` (inclusive).''),
                    (''required'', SBool False),
                    (''schema'', SObj [(''type'', SStr ''string''), (''format'', SStr ''date-time'')])],
                  SObj [
                    (''name'', SStr ''to''),
                    (''in'', SStr ''query''),
                    (''description'', SStr ''ISO 8601 upper bound on `created_at` (inclusive).''),
                    (''required'', SBool False),
                    (''schema'', SObj [(''type'', SStr ''string''), (''format'', SStr ''date-time'')])]]),
              (''responses'',
                SObj (jsonResponse ''OK''
                        (Some (SObj [
                          (''type'', SStr ''object''),
                          (''properties'',
                            SObj [
                              (''data'',
                                SObj [(''type'', SStr ''array''), (''items'', ref ''AuditLog'')]),
                              (''meta'', SObj [(''type'', SStr ''object'')])])])) 200))])]),
      (base @ ''/tenants/{id}/webhooks'',
        SObj [
          (''get'',
            SObj [
              (''tags'', SArr [SStr TAG_SATELLITES]),
              (''parameters'', SArr [paramRef ''TenantId'']),
              (''responses'',
                SObj (jsonResponse ''OK''
                        (Some (SObj [
                          (''type'', SStr ''object''),
                          (''properties'',
                            SObj [
                              (''data'', SObj [(''type'', SStr ''array''), (''items'', ref ''Webhook'')])])])) 200))]),
          (''post'',
            SObj [
              (''tags'', SArr [SStr TAG_SATELLITES]),
              (''parameters'', SArr [paramRef ''TenantId'']),
              (''requestBody'', jsonBody (ref ''WebhookCreate'') True),
              (''responses'',
                SObj (spread
                        [jsonResponse ''Created''
                           (Some (SObj [
                             (''type'', SStr ''object''),
                             (''properties'', SObj [(''data'', ref ''Webhook'')])])) 201,
                         jsonResponse ''Bad request'' (Some (ref ''Error'')) 400]))])]),
      (base @ ''/tenants/{id}/webhooks/{webhookId}'',
        SObj [
          (''put'',
            SObj [
              (''tags'', SArr [SStr TAG_SATELLITES]),
              (''parameters'', SArr [paramRef ''TenantId'', paramRef ''WebhookId'']),
              (''requestBody'', jsonBody (ref ''WebhookUpdate'') False),
              (''responses'',
                SObj (spread
                        [jsonResponse ''OK''
                           (Some (SObj [
                             (''type'', SStr ''object''),
                             (''properties'', SObj [(''data'', ref ''Webhook'')])])) 200,
                         notFound ''Webhook'']))]),
          (''delete'',
            SObj [
              (''tags'', SArr [SStr TAG_SATELLITES]),
              (''parameters'', SArr [paramRef ''TenantId'', paramRef ''WebhookId'']),
              (''responses'',
                SObj (spread
                        [[(''204'', SObj [(''description'', SStr ''No content'')])],
                         notFound ''Tenant'']))])]),
      (base @ ''/tenants/{id}/webhooks/{webhookId}/deliveries'',
        SObj [
          (''get'',
            SObj [
              (''tags'', SArr [SStr TAG_SATELLITES]),
              (''parameters'', SArr [paramRef ''TenantId'', paramRef ''WebhookId'']),
              (''responses'',
                SObj (jsonResponse ''OK''
                        (Some (SObj [
                          (''type'', SStr ''object''),
                          (''properties'',
                            SObj [
                              (''data'',
                                SObj [(''type'', SStr ''array''), (''items'', ref ''WebhookDelivery'')])])])) 200))])]),
      (base @ ''/tenants/{id}/webhooks/deliveries/{deliveryId}/retry'',
        SObj [
          (''post'',
            SObj [
              (''tags'', SArr [SStr TAG_SATELLITES]),
              (''parameters'', SArr [paramRef ''TenantId'', paramRef ''DeliveryId'']),
              (''responses'',
                SObj (jsonResponse ''OK''
                        (Some (SObj [
                          (''type'', SStr ''object''),
                          (''properties'', SObj [(''data'', ref ''WebhookDelivery'')])])) 200))])])]"

definition flag_branding_paths :: "string \<Rightarrow> (string \<times> spec_json) list" where
  "flag_branding_paths base =
    [
      (base @ ''/tenants/{id}/feature-flags'',
        SObj [
          (''get'',
            SObj [
              (''tags'', SArr [SStr TAG_SATELLITES]),
              (''parameters'', SArr [paramRef ''TenantId'']),
              (''responses'',
                SObj (jsonResponse ''OK''
                        (Some (SObj [
                          (''type'', SStr ''object''),
                          (''properties'',
                            SObj [
                              (''data'',
                                SObj [(''type'', SStr ''array''), (''items'', ref ''FeatureFlag'')])])])) 200))]),
          (''post'',
            SObj [
              (''tags'', SArr [SStr TAG_SATELLITES]),
              (''parameters'', SArr [paramRef ''TenantId'']),
              (''requestBody'', jsonBody (ref ''FeatureFlagInput'') True),
              (''responses'',
                SObj (jsonResponse ''Created''
                        (Some (SObj [
                          (''type'', SStr ''object''),
                          (''properties'', SObj [(''data'', ref ''FeatureFlag'')])])) 201))])]),
      (base @ ''/tenants/{id}/feature-flags/{flagKey}'',
        SObj [
          (''put'',
            SObj [
              (''tags'', SArr [SStr TAG_SATELLITES]),
              (''parameters'', SArr [paramRef ''TenantId'', paramRef ''FlagKey'']),
              (''requestBody'',
                jsonBody (SObj [
                            (''type'', SStr ''object''),
                            (''required'', SArr [SStr ''enabled'']),
                            (''properties'',
                              SObj [
                                (''enabled'', SObj [(''type'', SStr ''boolean'')]),
                                (''config'', SObj [(''type'', SStr ''object'')])])]) False),
              (''responses'',
                SObj (jsonResponse ''OK''
                        (Some (SObj [
                          (''type'', SStr ''object''),
                          (''properties'', SObj [(''data'', ref ''FeatureFlag'')])])) 200))]),
          (''delete'',
            SObj [
              (''tags'', SArr [SStr TAG_SATELLITES]),
              (''parameters'', SArr [paramRef ''TenantId'', paramRef ''FlagKey'']),
              (''responses'', SObj [(''204'', SObj [(''description'', SStr ''No content'')])])])]),
      (base @ ''/tenants/{id}/branding'',
        SObj [
          (''get'',
            SObj [
              (''tags'', SArr [SStr TAG_SATELLITES]),
              (''parameters'', SArr [paramRef ''TenantId'']),
              (''responses'',
                SObj (jsonResponse ''OK''
                        (Some (SObj [
                          (''type'', SStr ''object''),
                          (''properties'', SObj [(''data'', ref ''Branding'')])])) 200))]),
          (''put'',
            SObj [
              (''tags'', SArr [SStr TAG_SATELLITES]),
              (''parameters'', SArr [paramRef ''TenantId'']),
              (''requestBody'', jsonBody (ref ''BrandingUpdate'') False),
              (''responses'',
                SObj (jsonResponse ''OK''
                        (Some (SObj [
                          (''type'', SStr ''object''),
                          (''properties'', SObj [(''data'', ref ''Branding'')])])) 200))])])]"

definition sso_metric_paths :: "string \<Rightarrow> (string \<times> spec_json) list" where
  "sso_metric_paths base =
    [
      (base @ ''/tenants/{id}/sso'',
        SObj [
          (''get'',
            SObj [
              (''tags'', SArr [SStr TAG_SATELLITES]),
              (''parameters'', SArr [paramRef ''TenantId'']),
              (''responses'',
                SObj (jsonResponse ''OK''
                        (Some (SObj [
                          (''type'', SStr ''object''),
                          (''properties'', SObj [(''data'', ref ''SsoConfig'')])])) 200))]),
          (''put'',
            SObj [
              (''tags'', SArr [SStr TAG_SATELLITES]),
              (''parameters'', SArr [paramRef ''TenantId'']),
              (''requestBody'', jsonBody (ref ''SsoConfigUpdate'') True),
              (''responses'',
                SObj (jsonResponse ''OK''
                        (Some (SObj [
                          (''type'', SStr ''object''),
                          (''properties'', SObj [(''data'', ref ''SsoConfig'')])])) 200))])]),
      (base @ ''/tenants/{id}/sso/disable'',
        SObj [
          (''post'',
            SObj [
              (''tags'', SArr [SStr TAG_SATELLITES]),
              (''parameters'', SArr [paramRef ''TenantId'']),
              (''responses'',
                SObj (spread
                        [jsonResponse ''OK''
                           (Some (SObj [
                             (''type'', SStr ''object''),
                             (''properties'', SObj [(''data'', ref ''SsoConfig'')])])) 200,
                         notFound ''SSO config'']))])]),
      (base @ ''/tenants/{id}/metrics'',
        SObj [
          (''get'',
            SObj [
              (''tags'', SArr [SStr TAG_SATELLITES]),
              (''parameters'',
                SArr [
                  paramRef ''TenantId'',
                  SObj [
                    (''name'', SStr ''days''),
                    (''in'', SStr ''query''),
                    (''schema'',
                      SObj [(''type'', SStr ''integer''), (''minimum'', SNum 1), (''maximum'', SNum 365)])]]),
              (''responses'',
                SObj (jsonResponse ''OK''
                        (Some (SObj [
                          (''type'', SStr ''object''),
                          (''properties'',
                            SObj [
                              (''data'', SObj [(''type'', SStr ''array''), (''items'', ref ''Metric'')]),
                              (''days'', SObj [(''type'', SStr ''integer'')])])])) 200))])]),
      (base @ ''/tenants/{id}/quotas'',
        SObj [
          (''get'',
            SObj [
              (''tags'', SArr [SStr TAG_SATELLITES]),
              (''parameters'', SArr [paramRef ''TenantId'']),
              (''responses'',
                SObj (spread
                        [jsonResponse ''OK''
                           (Some (SObj [
                             (''type'', SStr ''object''),
                             (''properties'', SObj [(''data'', ref ''QuotaSnapshot'')])])) 200,
                         jsonResponse ''Quotas not configured'' (Some (ref ''Error'')) 503]))])]),
      (base @ ''/tenants/{id}/quotas/usage'',
        SObj [
          (''put'',
            SObj [
              (''tags'', SArr [SStr TAG_SATELLITES]),
              (''parameters'', SArr [paramRef ''TenantId'']),
              (''requestBody'',
                jsonBody (SObj [
                            (''type'', SStr ''object''),
                            (''required'', SArr [SStr ''quota'', SStr ''value'']),
                            (''properties'',
                              SObj [
                                (''quota'', SObj [(''type'', SStr ''string'')]),
                                (''value'', SObj [(''type'', SStr ''number''), (''minimum'', SNum 0)])])]) False),
              (''responses'', SObj (jsonResponse ''OK'' (Some (SObj [(''type'', SStr ''object'')])) 200))])]),
      (base @ ''/tenants/{id}/quotas/reset'',
        SObj [
          (''post'',
            SObj [
              (''tags'', SArr [SStr TAG_SATELLITES]),
              (''parameters'', SArr [paramRef ''TenantId'']),
              (''requestBody'',
                jsonBody (SObj [
                            (''type'', SStr ''object''),
                            (''properties'', SObj [(''quota'', SObj [(''type'', SStr ''string'')])])]) False),
              (''responses'', SObj (jsonResponse ''OK'' (Some (SObj [(''type'', SStr ''object'')])) 200))])])]"

section \<open>The document\<close>

record openapi_document =
  od_version :: string
  od_title :: string
  od_apiVersion :: string
  od_paths :: "(string \<times> spec_json) list"
  od_schemas :: "(string \<times> spec_json) list"
  od_parameters :: "(string \<times> spec_json) list"

definition spec_schemas :: "(string \<times> spec_json) list" where
  "spec_schemas = tenant_schemas @ webhook_schemas @ flag_branding_schemas @ sso_metric_schemas @ report_schemas"

definition spec_base :: "string \<Rightarrow> string" where
  "spec_base prefix = (if ends_with ''/'' prefix then butlast prefix else prefix)"

definition spec_paths :: "string \<Rightarrow> (string \<times> spec_json) list" where
  "spec_paths base = tenant_paths base @ observability_paths base @ impersonation_paths base @
     webhook_paths base @ flag_branding_paths base @ sso_metric_paths base"

definition getOpenAPISpec :: "string \<Rightarrow> openapi_document" where
  "getOpenAPISpec prefix =
     \<lparr>od_version = ''3.1.0'', od_title = ''Lasagna Multitenancy Admin API'', od_apiVersion = ''2.0.0'',
      od_paths = spec_paths (spec_base prefix), od_schemas = spec_schemas, od_parameters = spec_parameters\<rparr>"

definition listSpecPaths :: "string \<Rightarrow> string list" where
  "listSpecPaths prefix = map fst (od_paths (getOpenAPISpec prefix))"

end
