(* ===== verification/Admin_Api.thy ===== *)
theory Admin_Api
  imports Admin_Spec Tenant_Model
begin

text \<open>
  admin/routes.ts and admin/swagger_html.ts: the routes the admin interface
  mounts, the page that shows its document, and what relates the routes to the
  document of \<open>Admin_Spec\<close>. How the router joins a group's prefix and a pattern is
  a parameter, \<open>join\<close>. Handlers are named by controller and method.
\<close>

section \<open>The routes\<close>

datatype http_method = GET | POST | PUT | DELETE

record 'm mounted_route =
  mr_method :: http_method
  mr_pattern :: string
  mr_handler :: string
  mr_middleware :: "'m option"

record ('m, 'r) admin_options =
  ao_prefix :: "string option"
  ao_middleware :: "'m option"
  ao_resolveAdminActor :: "'r option"
  ao_docsAuth :: "bool option"

definition DEFAULT_PREFIX :: string where
  "DEFAULT_PREFIX = ''/admin/multitenancy''"

definition admin_routes :: "(http_method \<times> string \<times> string) list" where
  "admin_routes =
     [(GET, ''/tenants'', ''admin.list''),
      (POST, ''/tenants'', ''admin.create''),
      (GET, ''/tenants/:id'', ''admin.show''),
      (POST, ''/tenants/:id/activate'', ''admin.activate''),
      (POST, ''/tenants/:id/suspend'', ''admin.suspend''),
      (POST, ''/tenants/:id/destroy'', ''admin.destroy''),
      (POST, ''/tenants/:id/restore'', ''admin.restore''),
      (GET, ''/tenants/:id/queue/stats'', ''admin.queueStats''),
      (POST, ''/tenants/:id/maintenance'', ''admin.enterMaintenance''),
      (DELETE, ''/tenants/:id/maintenance'', ''admin.exitMaintenance''),
      (POST, ''/tenants/:id/impersonations'', ''admin.startImpersonation''),
      (DELETE, ''/impersonations/:token'', ''admin.stopImpersonation''),
      (DELETE, ''/impersonations/by-id/:sessionId'', ''admin.stopImpersonation''),
      (GET, ''/health/report'', ''admin.healthReport'')]"

definition satellite_routes :: "(http_method \<times> string \<times> string) list" where
  "satellite_routes =
     [(GET, ''/tenants/:id/audit-logs'', ''audit.list''),
      (GET, ''/tenants/:id/webhooks'', ''webhooks.list''),
      (POST, ''/tenants/:id/webhooks'', ''webhooks.create''),
      (PUT, ''/tenants/:id/webhooks/:webhookId'', ''webhooks.update''),
      (DELETE, ''/tenants/:id/webhooks/:webhookId'', ''webhooks.destroy''),
      (GET, ''/tenants/:id/webhooks/:webhookId/deliveries'', ''webhooks.listDeliveries''),
      (POST, ''/tenants/:id/webhooks/deliveries/:deliveryId/retry'', ''webhooks.retryDelivery''),
      (GET, ''/tenants/:id/feature-flags'', ''flags.list''),
      (POST, ''/tenants/:id/feature-flags'', ''flags.create''),
      (PUT, ''/tenants/:id/feature-flags/:flagKey'', ''flags.update''),
      (DELETE, ''/tenants/:id/feature-flags/:flagKey'', ''flags.destroy''),
      (GET, ''/tenants/:id/branding'', ''branding.show''),
      (PUT, ''/tenants/:id/branding'', ''branding.update''),
      (GET, ''/tenants/:id/sso'', ''sso.show''),
      (PUT, ''/tenants/:id/sso'', ''sso.update''),
      (POST, ''/tenants/:id/sso/disable'', ''sso.disable''),
      (GET, ''/tenants/:id/metrics'', ''metrics.list''),
      (GET, ''/tenants/:id/quotas'', ''quotas.show''),
      (PUT, ''/tenants/:id/quotas/usage'', ''quotas.setUsage''),
      (POST, ''/tenants/:id/quotas/reset'', ''quotas.reset'')]"

definition docs_routes :: "(http_method \<times> string \<times> string) list" where
  "docs_routes = [(GET, ''/openapi.json'', ''docs.spec''), (GET, ''/docs'', ''docs.page'')]"

text \<open>A group: an empty prefix is not applied, and a middleware only when there is one.\<close>

definition route_group ::
  "(string \<Rightarrow> string \<Rightarrow> string) \<Rightarrow> string \<Rightarrow> 'm option \<Rightarrow> (http_method \<times> string \<times> string) list \<Rightarrow> 'm mounted_route list"
where
  "route_group join prefix middleware rs =
     map (\<lambda>(m, pattern, h).
       \<lparr>mr_method = m, mr_pattern = (if prefix \<noteq> [] then join prefix pattern else pattern),
        mr_handler = h, mr_middleware = middleware\<rparr>) rs"

text \<open>The mounted routes, and the actor resolver that is then in force.\<close>

definition multitenancyAdminRoutes ::
  "(string \<Rightarrow> string \<Rightarrow> string) \<Rightarrow> ('m, 'r) admin_options \<Rightarrow> 'r option \<Rightarrow> 'm mounted_route list \<times> 'r option"
where
  "multitenancyAdminRoutes join options resolver =
     (let prefix = or_else (ao_prefix options) DEFAULT_PREFIX;
          middleware = ao_middleware options;
          docsAuth = or_else (ao_docsAuth options) True
      in (route_group join prefix middleware (admin_routes @ satellite_routes) @
          route_group join prefix (if docsAuth then middleware else None) docs_routes,
          case ao_resolveAdminActor options of Some r \<Rightarrow> Some r | None \<Rightarrow> resolver))"

text \<open>The address of the document that the page is given.\<close>

definition docs_spec_url :: "('m, 'r) admin_options \<Rightarrow> string" where
  "docs_spec_url options = or_else (ao_prefix options) DEFAULT_PREFIX @ ''/openapi.json''"

section \<open>The page of the document\<close>

definition DEFAULT_CDN :: string where
  "DEFAULT_CDN = ''https://unpkg.com/swagger-ui-dist@5/''"

definition html_replace :: "char \<Rightarrow> string \<Rightarrow> string \<Rightarrow> string" where
  "html_replace c by s = concat (map (\<lambda>x. if x = c then by else [x]) s)"

definition htmlEscape :: "string \<Rightarrow> string" where
  "htmlEscape value =
     html_replace DQ ''&quot;'' (html_replace SQ ''&#39;'' (html_replace (CHR ''>'') ''&gt;''
       (html_replace (CHR ''<'') ''&lt;'' (html_replace (CHR ''&'') ''&amp;'' value))))"

definition cdn_host_char :: "char \<Rightarrow> bool" where
  "cdn_host_char c \<longleftrightarrow> is_alnum c \<or> c = CHR ''.'' \<or> c = CHR ''-''"

text \<open>The test matches a host of at least one character and a slash after it.\<close>

definition https_host :: "string \<Rightarrow> bool" where
  "https_host v \<longleftrightarrow>
     starts_with ''https://'' v \<and>
     (let rest = drop 8 v; host = takeWhile cdn_host_char rest in
      host \<noteq> [] \<and> starts_with ''/'' (drop (length host) rest))"

definition safeCdnBase :: "string option \<Rightarrow> string" where
  "safeCdnBase value =
     (let v = or_else value DEFAULT_CDN in
      if starts_with ''/'' v then v else if https_host v then v else DEFAULT_CDN)"

record swagger_options =
  so_cdnBase :: "string option"
  so_title :: "string option"

text \<open>The page as its pieces: constant text, and the three values put between them.\<close>

definition page_top :: "string list" where
  "page_top = [''<!doctype html>'', ''<html lang='' @ [DQ] @ ''en'' @ [DQ] @ ''>'', ''<head>'',
     ''<meta charset='' @ [DQ] @ ''utf-8'' @ [DQ] @ ''>'',
     ''<meta name='' @ [DQ] @ ''viewport'' @ [DQ] @ '' content='' @ [DQ] @ ''width=device-width, initial-scale=1'' @ [DQ] @ ''>'']"

definition page_script :: "string \<Rightarrow> string list" where
  "page_script safeSpec =
     [''<script>'',
      ''window.addEventListener('' @ [SQ] @ ''load'' @ [SQ] @ '', function () {'',
      ''  window.ui = SwaggerUIBundle({'',
      ''    url: '' @ [SQ] @ safeSpec @ [SQ] @ '','',
      ''    dom_id: '' @ [SQ] @ ''#swagger-ui'' @ [SQ] @ '','',
      ''    deepLinking: true,'',
      ''    presets: [SwaggerUIBundle.presets.apis, SwaggerUIStandalonePreset.slice(1)],'',
      ''    plugins: [SwaggerUIBundle.plugins.DownloadUrl],'',
      ''    layout: '' @ [SQ] @ ''StandaloneLayout'' @ [SQ] @ '','',
      ''  });'', ''});'', ''</script>'', ''</body>'', ''</html>'']"

definition page_lines :: "string \<Rightarrow> string \<Rightarrow> string \<Rightarrow> string list" where
  "page_lines cdn title safeSpec =
     page_top @
     [''<title>'' @ title @ ''</title>'',
      ''<link rel='' @ [DQ] @ ''stylesheet'' @ [DQ] @ '' href='' @ [DQ] @ cdn @ ''swagger-ui.css'' @ [DQ] @ ''>'',
      ''<style>body { margin: 0; padding: 0; }</style>'', ''</head>'', ''<body>'',
      ''<div id='' @ [DQ] @ ''swagger-ui'' @ [DQ] @ ''></div>'',
      ''<script src='' @ [DQ] @ cdn @ ''swagger-ui-bundle.js'' @ [DQ] @ '' crossorigin></script>'',
      ''<script src='' @ [DQ] @ cdn @ ''swagger-ui-standalone-preset.js'' @ [DQ] @ '' crossorigin></script>''] @
     page_script safeSpec"

definition renderSwaggerHtml :: "string \<Rightarrow> swagger_options \<Rightarrow> string" where
  "renderSwaggerHtml specUrl options =
     js_join [NL]
       (page_lines (htmlEscape (safeCdnBase (so_cdnBase options)))
          (htmlEscape (or_else (so_title options) ''Lasagna Multitenancy Admin API''))
          (htmlEscape specUrl))"

section \<open>Routes and document compared\<close>

text \<open>A pattern of the router in the notation of the document.\<close>

function braced :: "string \<Rightarrow> string" where
  "braced [] = []"
| "braced (c # s) =
     (if c = CHR '':''
      then ''{'' @ takeWhile (\<lambda>x. x \<noteq> CHR ''/'') s @ ''}'' @ braced (dropWhile (\<lambda>x. x \<noteq> CHR ''/'') s)
      else c # braced s)"
  by pat_completeness auto

termination
  by (relation "measure length") (auto simp add: length_dropWhile_le le_imp_less_Suc)

definition method_name :: "http_method \<Rightarrow> string" where
  "method_name m = (case m of GET \<Rightarrow> ''get'' | POST \<Rightarrow> ''post'' | PUT \<Rightarrow> ''put'' | DELETE \<Rightarrow> ''delete'')"

fun spec_entries :: "spec_json \<Rightarrow> (string \<times> spec_json) list" where
  "spec_entries (SObj es) = es"
| "spec_entries _ = []"

definition documented_operations :: "openapi_document \<Rightarrow> (string \<times> string) list" where
  "documented_operations d =
     concat (map (\<lambda>(path, item). map (\<lambda>(method, _). (method, path)) (spec_entries item)) (od_paths d))"

text \<open>The references of a value, at any depth.\<close>

fun spec_refs :: "spec_json \<Rightarrow> string list" where
  "spec_refs (SObj es) =
     concat (map (\<lambda>(k, v). (case v of SStr r \<Rightarrow> if k = ''$ref'' then [r] else [] | _ \<Rightarrow> []) @ spec_refs v) es)"
| "spec_refs (SArr vs) = concat (map spec_refs vs)"
| "spec_refs _ = []"

definition declared_refs :: "openapi_document \<Rightarrow> string list" where
  "declared_refs d =
     map (\<lambda>(k, _). ''#/components/schemas/'' @ k) (od_schemas d) @
     map (\<lambda>(k, _). ''#/components/parameters/'' @ k) (od_parameters d)"

definition document_refs :: "openapi_document \<Rightarrow> string list" where
  "document_refs d = concat (map (spec_refs \<circ> snd) (od_paths d @ od_schemas d @ od_parameters d))"


section \<open>Facts\<close>

lemma paths_relative: "spec_paths base = map (\<lambda>(k, v). (base @ k, v)) (spec_paths [])"
  by (simp only: spec_paths_def tenant_paths_def observability_paths_def impersonation_paths_def webhook_paths_def
      flag_branding_paths_def sso_metric_paths_def list.map map_append prod.case append_Nil)

definition relative_operations :: "(string \<times> string) list" where
  "relative_operations = concat (map (\<lambda>(path, item). map (\<lambda>(method, _). (method, path)) (spec_entries item)) (spec_paths []))"

definition all_routes :: "(http_method \<times> string \<times> string) list" where
  "all_routes = admin_routes @ satellite_routes @ docs_routes"

lemma operations_relative:
  "documented_operations d = map (\<lambda>(m, k). (m, base @ k)) relative_operations"
  if "od_paths d = spec_paths base"
  unfolding documented_operations_def that relative_operations_def paths_relative [of base]
  by (simp add: map_concat comp_def split_def)

lemma routes_match:
  "list_all (\<lambda>x. x \<in> set (map (\<lambda>(m, k, h). (method_name m, braced k)) all_routes)) relative_operations"
  "list_all (\<lambda>x. x \<in> set relative_operations) (map (\<lambda>(m, k, h). (method_name m, braced k)) all_routes)"
  by code_simp+


lemma operations_are_routes:
  "set relative_operations = (\<lambda>(m, k, h). (method_name m, braced k)) ` set all_routes"
proof -
  have "set relative_operations \<subseteq> set (map (\<lambda>(m, k, h). (method_name m, braced k)) all_routes)"
    using routes_match(1) by (simp only: list_all_iff subset_iff) blast
  moreover have "set (map (\<lambda>(m, k, h). (method_name m, braced k)) all_routes) \<subseteq> set relative_operations"
    using routes_match(2) by (simp only: list_all_iff subset_iff) blast
  ultimately show ?thesis by (simp only: set_map subset_antisym)
qed

lemma braced_prefix: "CHR '':'' \<notin> set p \<Longrightarrow> braced (p @ q) = p @ braced q"
  by (induction p) auto

lemma group_operations:
  assumes "\<And>p q. join p q = p @ q"
  shows "(\<lambda>r. (mr_method r, mr_pattern r)) ` set (route_group join p m rs) = (\<lambda>(m, k, h). (m, p @ k)) ` set rs"
  by (cases "p = []") (simp_all add: route_group_def assms image_image split_def)

lemma mounted_routes:
  assumes "\<And>p q. join p q = p @ q"
  shows "(\<lambda>r. (mr_method r, mr_pattern r)) ` set (fst (multitenancyAdminRoutes join options resolver)) =
    (\<lambda>(m, k, h). (m, or_else (ao_prefix options) DEFAULT_PREFIX @ k)) ` set all_routes"
  by (simp add: multitenancyAdminRoutes_def Let_def image_Un group_operations [OF assms] all_routes_def Un_assoc)



definition relative_refs :: "string list" where
  "relative_refs = document_refs (getOpenAPISpec [])"

lemma refs_do_not_depend_on_prefix: "document_refs (getOpenAPISpec p) = relative_refs"
proof -
  have eq: "map (spec_refs \<circ> snd) (spec_paths b) = map (spec_refs \<circ> snd) (spec_paths [])" for b
    using paths_relative [of b] by (simp add: comp_def split_def)
  show ?thesis
    using eq [of "spec_base p"] eq [of "spec_base []"]
    by (simp add: document_refs_def getOpenAPISpec_def relative_refs_def)
qed

lemma refs_declared: "list_all (\<lambda>r. r \<in> set (declared_refs (getOpenAPISpec []))) relative_refs"
  by code_simp

text \<open>Every reference of the document, at whatever prefix, names a schema or a parameter it declares.\<close>

lemma every_reference_resolves:
  "set (document_refs (getOpenAPISpec p)) \<subseteq> set (declared_refs (getOpenAPISpec p))"
proof -
  have "declared_refs (getOpenAPISpec p) = declared_refs (getOpenAPISpec [])"
    by (simp add: declared_refs_def getOpenAPISpec_def)
  then show ?thesis
    using refs_declared unfolding refs_do_not_depend_on_prefix by (auto simp add: list_all_iff)
qed

text \<open>
  With a middleware and unless \<open>docsAuth\<close> is switched off, every mounted route carries the middleware.
\<close>

lemma admin_routes_guarded:
  assumes "ao_middleware options = Some m" "ao_docsAuth options \<noteq> Some False"
  shows "\<forall>r \<in> set (fst (multitenancyAdminRoutes join options resolver)). mr_middleware r = Some m"
  using assms by (auto simp add: multitenancyAdminRoutes_def route_group_def Let_def or_else_def split: option.splits)


section \<open>The page cannot be broken out of\<close>

definition esc_char :: "char \<Rightarrow> string" where
  "esc_char c =
     (if c = CHR ''&'' then ''&amp;'' else if c = CHR ''<'' then ''&lt;'' else if c = CHR ''>'' then ''&gt;''
      else if c = SQ then ''&#39;'' else if c = DQ then ''&quot;'' else [c])"

definition markup_char :: "char \<Rightarrow> bool" where
  "markup_char c \<longleftrightarrow> c = CHR ''<'' \<or> c = CHR ''>'' \<or> c = SQ \<or> c = DQ"

text \<open>What a reader of HTML makes of escaped text.\<close>

function html_unescape :: "string \<Rightarrow> string" where
  "html_unescape [] = []"
| "html_unescape (c # s) =
     (if c \<noteq> CHR ''&'' then c # html_unescape s
      else if starts_with ''amp;'' s then CHR ''&'' # html_unescape (drop 4 s)
      else if starts_with ''lt;'' s then CHR ''<'' # html_unescape (drop 3 s)
      else if starts_with ''gt;'' s then CHR ''>'' # html_unescape (drop 3 s)
      else if starts_with ''#39;'' s then SQ # html_unescape (drop 4 s)
      else if starts_with ''quot;'' s then DQ # html_unescape (drop 5 s)
      else c # html_unescape s)"
  by pat_completeness auto

termination
  by (relation "measure length") auto

text \<open>The replacements one after the other are one replacement per character, since ampersands come first.\<close>

lemma html_replace_append: "html_replace c by (s @ t) = html_replace c by s @ html_replace c by t"
  by (simp add: html_replace_def)

lemma escape_append: "htmlEscape (s @ t) = htmlEscape s @ htmlEscape t"
  by (simp add: htmlEscape_def html_replace_append)

lemma escape_char: "htmlEscape [c] = esc_char c"
  by (simp add: htmlEscape_def html_replace_def esc_char_def SQ_def DQ_def)

lemma htmlEscape_Nil: "htmlEscape [] = []"
  by (simp add: htmlEscape_def html_replace_def)

lemma htmlEscape_Cons: "htmlEscape (c # s) = esc_char c @ htmlEscape s"
  using escape_append [of "[c]" s] by (simp add: escape_char)

lemma esc_char_markup: "filter markup_char (esc_char c) = []"
  by (simp add: esc_char_def markup_char_def SQ_def DQ_def)

lemma escape_markup: "filter markup_char (htmlEscape s) = []"
  by (induction s) (simp_all add: htmlEscape_Nil htmlEscape_Cons esc_char_markup)

lemma unescape_char: "html_unescape (esc_char c @ s) = c # html_unescape s"
  by (simp add: esc_char_def SQ_def DQ_def)

lemma unescape_escape: "html_unescape (htmlEscape s) = s"
  by (induction s) (simp_all add: htmlEscape_Nil htmlEscape_Cons unescape_char)

lemma cdn_default: "https_host DEFAULT_CDN"
  by code_simp

lemma safe_cdn: "starts_with ''/'' (safeCdnBase v) \<or> https_host (safeCdnBase v)"
  by (simp add: safeCdnBase_def Let_def cdn_default)

lemma filter_join: "filter P sep = [] \<Longrightarrow> filter P (js_join sep xs) = concat (map (filter P) xs)"
  by (induction sep xs rule: js_join.induct) simp_all


text \<open>A protocol-relative address starts with a slash: the scripts may come from any host.\<close>

lemma protocol_relative_cdn: "safeCdnBase (Some ''//evil.example/'') = ''//evil.example/''"
  by (simp add: safeCdnBase_def or_else_def)

text \<open>
  Inside a script element entities are not decoded and a backslash is not escaped:
  an ampersand of the address becomes other text there, and a final backslash
  escapes the closing quote.
\<close>

lemma address_in_the_script:
  "htmlEscape ''?a&b'' = ''?a&amp;b''"
  "htmlEscape [CHR 92] = [CHR 92]"
  by code_simp+

text \<open>With a prefix that ends in a slash the page asks for an address with two.\<close>

lemma page_address_doubles_the_slash:
  "docs_spec_url \<lparr>ao_prefix = Some ''/api/'', ao_middleware = (None :: unit option),
     ao_resolveAdminActor = (None :: unit option), ao_docsAuth = None\<rparr> = ''/api//openapi.json''"
  by (simp add: docs_spec_url_def or_else_def)

end
