(* ===== verification/Health.thy ===== *)
theory Health
  imports Runtime
begin

text \<open>
  health/: the registry of readiness checks and its report, the default checks,
  the endpoints, the snapshot of counters and its text form for Prometheus. How
  long a check runs and what it comes to is a parameter, as are the answers of the
  database and of Redis.
\<close>

section \<open>Checks\<close>

datatype CheckStatus = CheckPass | CheckFail

datatype check_meta = MetaReply string | MetaCircuits nat | MetaOpen "string list" | MetaOther string

record CheckResult =
  ck_status :: CheckStatus
  ck_durationMs :: int
  ck_message :: "string option"
  ck_meta :: "check_meta option"

text \<open>A check within its time: it answers, throws an error with or without a message, or runs out of time.\<close>

datatype check_outcome = Answered CheckResult | CheckThrew "string option" | RanOut

type_synonym 'w HealthCheckFn = "'w \<Rightarrow> check_outcome \<times> int"

datatype report_status = HealthOk | HealthDegraded | HealthFail

text \<open>The checks of a report are in the order of registration; in the code that of their ends.\<close>

record HealthReport =
  hr_status :: report_status
  hr_uptime :: int
  hr_checks :: "(string \<times> CheckResult) list"

record 'w health_service =
  hs_startedAt :: int
  hs_checks :: "(string, 'w HealthCheckFn) jmap"

definition DEFAULT_TIMEOUT_MS :: nat where
  "DEFAULT_TIMEOUT_MS = 2000"

definition addCheck :: "string \<Rightarrow> 'w HealthCheckFn \<Rightarrow> 'w health_service \<Rightarrow> 'w health_service" where
  "addCheck name f h = h\<lparr>hs_checks := jm_set name f (hs_checks h)\<rparr>"

definition removeCheck :: "string \<Rightarrow> 'w health_service \<Rightarrow> 'w health_service" where
  "removeCheck name h = h\<lparr>hs_checks := jm_delete name (hs_checks h)\<rparr>"

definition hasCheck :: "'w health_service \<Rightarrow> string \<Rightarrow> bool" where
  "hasCheck h name = jm_has name (hs_checks h)"

definition uptime :: "int \<Rightarrow> 'w health_service \<Rightarrow> int" where
  "uptime now h = (now - hs_startedAt h) div 1000"

definition liveness :: "int \<Rightarrow> 'w health_service \<Rightarrow> report_status \<times> int" where
  "liveness now h = (HealthOk, uptime now h)"

definition runWithTimeout :: "'w HealthCheckFn \<Rightarrow> nat \<Rightarrow> 'w \<Rightarrow> CheckResult" where
  "runWithTimeout f timeoutMs w =
     (case f w of
        (Answered r, took) \<Rightarrow> r\<lparr>ck_durationMs := took\<rparr>
      | (CheckThrew m, took) \<Rightarrow>
          \<lparr>ck_status = CheckFail, ck_durationMs = took, ck_message = Some (or_else m ''check threw''), ck_meta = None\<rparr>
      | (RanOut, took) \<Rightarrow>
          \<lparr>ck_status = CheckFail, ck_durationMs = took,
           ck_message = Some (''timeout after '' @ show_nat timeoutMs @ ''ms''), ck_meta = None\<rparr>)"

definition readiness :: "nat \<Rightarrow> int \<Rightarrow> 'w \<Rightarrow> 'w health_service \<Rightarrow> HealthReport" where
  "readiness timeoutMs now w h =
     (let results = map (\<lambda>(n, f). (n, runWithTimeout f timeoutMs w)) (hs_checks h);
          total = length (hs_checks h);
          passed = length (filter (\<lambda>(n, r). ck_status r = CheckPass) results)
      in \<lparr>hr_status = (if total = 0 \<or> passed = total then HealthOk
                       else if passed = 0 then HealthFail else HealthDegraded),
          hr_uptime = uptime now h, hr_checks = results\<rparr>)"

section \<open>Default checks\<close>

definition probe_result :: "CheckStatus \<Rightarrow> string option \<Rightarrow> check_meta option \<Rightarrow> check_outcome" where
  "probe_result st m meta =
     Answered \<lparr>ck_status = st, ck_durationMs = 0, ck_message = m, ck_meta = meta\<rparr>"

text \<open>
  The services a check asks: absent when the package is not installed. A query
  throws an error with or without a message, or succeeds.
\<close>

record 'w probes =
  pr_db :: "'w \<Rightarrow> (string option + unit) option"
  pr_redis :: "'w \<Rightarrow> (string option + string) option"
  pr_circuits :: "'w \<Rightarrow> (string, CircuitMetrics) jmap option"
  pr_took :: "string \<Rightarrow> 'w \<Rightarrow> int"

definition backofficeDbCheck :: "'w probes \<Rightarrow> 'w \<Rightarrow> check_outcome" where
  "backofficeDbCheck p w =
     (case pr_db p w of
        None \<Rightarrow> probe_result CheckFail (Some ''@adonisjs/lucid not available'') None
      | Some (Inl m) \<Rightarrow> probe_result CheckFail (Some (or_else m ''query failed'')) None
      | Some (Inr _) \<Rightarrow> probe_result CheckPass None None)"

definition redisCheck :: "'w probes \<Rightarrow> 'w \<Rightarrow> check_outcome" where
  "redisCheck p w =
     (case pr_redis p w of
        None \<Rightarrow> probe_result CheckFail (Some ''@adonisjs/redis not available'') None
      | Some (Inl m) \<Rightarrow> probe_result CheckFail (Some (or_else m ''ping failed'')) None
      | Some (Inr reply) \<Rightarrow>
          probe_result (if reply = ''PONG'' then CheckPass else CheckFail) None (Some (MetaReply reply)))"

definition makeCircuitBreakerCheck :: "('w \<Rightarrow> (string, CircuitMetrics) jmap) \<Rightarrow> 'w \<Rightarrow> check_outcome" where
  "makeCircuitBreakerCheck circuitMetrics w =
     (let metrics = circuitMetrics w;
          opened = filter (\<lambda>(i, m). cm_state m = OPEN) metrics in
      if opened = [] then probe_result CheckPass None (Some (MetaCircuits (length metrics)))
      else probe_result CheckFail (Some (show_nat (length opened) @ '' circuit(s) OPEN''))
             (Some (MetaOpen (map fst opened))))"

section \<open>The endpoints\<close>

text \<open>The default checks are added once, where no check of their name is registered.\<close>

definition add_missing :: "string \<Rightarrow> 'w HealthCheckFn \<Rightarrow> 'w health_service \<Rightarrow> 'w health_service" where
  "add_missing name f h = (if hasCheck h name then h else addCheck name f h)"

definition bootstrapDefaultChecks :: "'w probes \<Rightarrow> bool \<times> 'w health_service \<Rightarrow> bool \<times> 'w health_service" where
  "bootstrapDefaultChecks p s =
     (case s of (bootstrapped, h) \<Rightarrow>
        if bootstrapped then (bootstrapped, h)
        else (True,
          add_missing ''circuit_breakers''
            (\<lambda>w. (makeCircuitBreakerCheck (\<lambda>w. or_else (pr_circuits p w) []) w, pr_took p ''circuit_breakers'' w))
          (add_missing ''redis'' (\<lambda>w. (redisCheck p w, pr_took p ''redis'' w))
          (add_missing ''backoffice_db'' (\<lambda>w. (backofficeDbCheck p w, pr_took p ''backoffice_db'' w)) h))))"

definition livez :: "'w probes \<Rightarrow> int \<Rightarrow> bool \<times> 'w health_service \<Rightarrow> (nat \<times> report_status \<times> int) \<times> bool \<times> 'w health_service" where
  "livez p now s = (let s' = bootstrapDefaultChecks p s in ((200, liveness now (snd s')), s'))"

definition readyz ::
  "'w probes \<Rightarrow> int \<Rightarrow> 'w \<Rightarrow> bool \<times> 'w health_service \<Rightarrow> (nat \<times> HealthReport) \<times> bool \<times> 'w health_service"
where
  "readyz p now w s =
     (let s' = bootstrapDefaultChecks p s; report = readiness DEFAULT_TIMEOUT_MS now w (snd s')
      in ((if hr_status report = HealthFail then 503 else 200, report), s'))"

definition healthz ::
  "'w probes \<Rightarrow> int \<Rightarrow> 'w \<Rightarrow> bool \<times> 'w health_service \<Rightarrow> (nat \<times> HealthReport) \<times> bool \<times> 'w health_service"
where
  "healthz p now w s = readyz p now w s"

definition multitenancyRoutes ::
  "(string \<Rightarrow> string \<Rightarrow> string) \<Rightarrow> string option \<Rightarrow> bool option \<Rightarrow> bool option \<Rightarrow> (string \<times> string) list"
where
  "multitenancyRoutes join prefix health metrics =
     (let p = or_else prefix [];
          rs = (if or_else health True
                then [(''/livez'', ''livez''), (''/readyz'', ''readyz''), (''/healthz'', ''healthz'')] else []) @
               (if or_else metrics True then [(''/metrics'', ''metrics'')] else [])
      in if p \<noteq> [] then map (\<lambda>(pattern, h). (join p pattern, h)) rs else rs)"

section \<open>The snapshot\<close>

definition SNAPSHOT_STATUSES :: "TenantStatus list" where
  "SNAPSHOT_STATUSES = [provisioning, active, suspended, failed, deleted]"

record MetricsSnapshot =
  ms_tenantsTotal :: nat
  ms_tenantsByStatus :: "(string, nat) jmap"
  ms_circuits :: "(string, CircuitMetrics) jmap"
  ms_queues :: "TenantQueueStats list"
  ms_uptimeSeconds :: int

definition count_status :: "tenant \<Rightarrow> (string, nat) jmap \<Rightarrow> (string, nat) jmap" where
  "count_status t m =
     jm_set (status_name (t_status t)) (or_else (jm_get (status_name (t_status t)) m) 0 + 1) m"

text \<open>
  Each source of the snapshot may be unavailable, which leaves its zeros. The
  queues are those of a service made for the snapshot.
\<close>

definition collectSnapshot ::
  "'b bull \<Rightarrow> queue_config \<Rightarrow> 'b \<Rightarrow> bool option \<Rightarrow> bool option \<Rightarrow> mock_repo option \<Rightarrow>
   (string, CircuitMetrics) jmap option \<Rightarrow> int \<Rightarrow> int \<Rightarrow> MetricsSnapshot"
where
  "collectSnapshot b cfg redis includeTenants includeQueues repo breakers startedAt now =
     (let zeros = map (\<lambda>st. (status_name st, 0)) SNAPSHOT_STATUSES;
          tenants = (if or_else includeTenants True then map_option (\<lambda>r. mock_all r True None) repo else None)
      in \<lparr>ms_tenantsTotal = length (or_else tenants []),
          ms_tenantsByStatus = fold count_status (or_else tenants []) zeros,
          ms_circuits = or_else breakers [],
          ms_queues =
            (if or_else includeQueues True
             then (case fst (queue_getAllStats b cfg (new_queue_service redis)) of Inl e \<Rightarrow> [] | Inr qs \<Rightarrow> qs) else []),
          ms_uptimeSeconds = (now - startedAt) div 1000\<rparr>)"

section \<open>The text form\<close>

definition BS :: char where
  "BS = CHR 92"

definition replace_with :: "char \<Rightarrow> string \<Rightarrow> string \<Rightarrow> string" where
  "replace_with c by s = concat (map (\<lambda>x. if x = c then by else [x]) s)"

definition escapeLabel :: "string \<Rightarrow> string" where
  "escapeLabel value = replace_with NL [BS, CHR ''n''] (replace_with DQ [BS, DQ] (replace_with BS [BS, BS] value))"

definition formatLabels :: "(string \<times> string) list \<Rightarrow> string" where
  "formatLabels labels =
     (if labels = [] then []
      else ''{'' @ js_join '','' (map (\<lambda>(k, v). k @ ''='' @ [DQ] @ escapeLabel v @ [DQ]) labels) @ ''}'')"

text \<open>A sample: its metric, its labels and its value, which is finite here.\<close>

type_synonym sample = "string \<times> (string \<times> string) list \<times> int"

definition metricLine :: "sample \<Rightarrow> string" where
  "metricLine x = (case x of (name, labels, value) \<Rightarrow> name @ formatLabels labels @ '' '' @ show_int value)"

datatype metric_line = Comment string | Sample sample

definition CIRCUIT_STATE_VALUE :: "CircuitState \<Rightarrow> int" where
  "CIRCUIT_STATE_VALUE st = (case st of CLOSED \<Rightarrow> 0 | HALF_OPEN \<Rightarrow> 1 | OPEN \<Rightarrow> 2)"

definition circuit_samples :: "string \<times> CircuitMetrics \<Rightarrow> metric_line list" where
  "circuit_samples im =
     (case im of (tenantId, m) \<Rightarrow>
        (let labels = [(''tenant_id'', tenantId)] in
         [Sample (''multitenancy_circuit_state'', labels, CIRCUIT_STATE_VALUE (cm_state m)),
          Sample (''multitenancy_circuit_failures_total'', labels, int (cm_failures m)),
          Sample (''multitenancy_circuit_successes_total'', labels, int (cm_successes m))]))"

definition queue_samples :: "TenantQueueStats \<Rightarrow> metric_line list" where
  "queue_samples q =
     (let labels = [(''tenant_id'', qs_tenantId q), (''queue'', qs_queueName q)];
          line = (\<lambda>st n. Sample (''multitenancy_queue_jobs'', labels @ [(''state'', st)], int n)) in
      [line ''waiting'' (qs_waiting q), line ''active'' (qs_active q), line ''completed'' (qs_completed q),
       line ''failed'' (qs_failed q), line ''delayed'' (qs_delayed q)])"

definition snapshot_lines :: "MetricsSnapshot \<Rightarrow> metric_line list" where
  "snapshot_lines s =
     [Comment ''# HELP multitenancy_tenants_total Total tenants registered (excluding hard-deleted).'',
      Comment ''# TYPE multitenancy_tenants_total gauge'',
      Sample (''multitenancy_tenants_total'', [], int (ms_tenantsTotal s)),
      Comment ''# HELP multitenancy_tenants_by_status Tenants partitioned by status.'',
      Comment ''# TYPE multitenancy_tenants_by_status gauge''] @
     map (\<lambda>(status, count). Sample (''multitenancy_tenants_by_status'', [(''status'', status)], int count))
       (ms_tenantsByStatus s) @
     [Comment ''# HELP multitenancy_circuit_state Circuit breaker state (0=CLOSED, 1=HALF_OPEN, 2=OPEN).'',
      Comment ''# TYPE multitenancy_circuit_state gauge'',
      Comment ''# HELP multitenancy_circuit_failures_total Failed calls observed by the circuit.'',
      Comment ''# TYPE multitenancy_circuit_failures_total counter'',
      Comment ''# HELP multitenancy_circuit_successes_total Successful calls observed by the circuit.'',
      Comment ''# TYPE multitenancy_circuit_successes_total counter''] @
     concat (map circuit_samples (ms_circuits s)) @
     [Comment ''# HELP multitenancy_queue_jobs Number of jobs in a tenant queue partitioned by state.'',
      Comment ''# TYPE multitenancy_queue_jobs gauge''] @
     concat (map queue_samples (ms_queues s)) @
     [Comment ''# HELP multitenancy_uptime_seconds Process uptime in seconds.'',
      Comment ''# TYPE multitenancy_uptime_seconds gauge'',
      Sample (''multitenancy_uptime_seconds'', [], ms_uptimeSeconds s)]"

definition print_line :: "metric_line \<Rightarrow> string" where
  "print_line l = (case l of Comment c \<Rightarrow> c | Sample x \<Rightarrow> metricLine x)"

definition renderPrometheus :: "MetricsSnapshot \<Rightarrow> string" where
  "renderPrometheus s = js_join [NL] (map print_line (snapshot_lines s)) @ [NL]"


section \<open>Reading the text form\<close>

fun read_label :: "string \<Rightarrow> (string \<times> string) option" where
  "read_label [] = None"
| "read_label (c # s) =
     (if c = DQ then Some ([], s)
      else if c = BS
      then (case s of
              [] \<Rightarrow> None
            | d # s' \<Rightarrow>
                (case read_label s' of
                   None \<Rightarrow> None | Some (v, r) \<Rightarrow> Some ((if d = CHR ''n'' then NL else d) # v, r)))
      else (case read_label s of None \<Rightarrow> None | Some (v, r) \<Rightarrow> Some (c # v, r)))"

primrec read_labels :: "nat \<Rightarrow> string \<Rightarrow> ((string \<times> string) list \<times> string) option" where
  "read_labels 0 s = None"
| "read_labels (Suc n) s =
     (let k = takeWhile (\<lambda>c. c \<noteq> CHR ''='') s in
      case read_label (drop (length k + 2) s) of
        None \<Rightarrow> None
      | Some (v, r) \<Rightarrow>
          if starts_with ''}'' r then Some ([(k, v)], drop 1 r)
          else (case read_labels n (drop 1 r) of None \<Rightarrow> None | Some (ls, r') \<Rightarrow> Some ((k, v) # ls, r')))"

definition read_int :: "string \<Rightarrow> int" where
  "read_int s = (if starts_with ''-'' s then - int (dec_value (drop 1 s)) else int (dec_value s))"

definition read_sample :: "string \<Rightarrow> sample option" where
  "read_sample line =
     (let name = takeWhile (\<lambda>c. c \<noteq> CHR ''{'' \<and> c \<noteq> CHR '' '') line; rest = drop (length name) line in
      if starts_with '' '' rest then Some (name, [], read_int (drop 1 rest))
      else (case read_labels (length rest) (drop 1 rest) of
              None \<Rightarrow> None | Some (ls, r) \<Rightarrow> Some (name, ls, read_int (drop 1 r))))"

definition read_prometheus :: "string \<Rightarrow> sample option list" where
  "read_prometheus text =
     map read_sample (filter (\<lambda>l. l \<noteq> [] \<and> \<not> starts_with ''#'' l) (js_split NL text))"

definition line_samples :: "metric_line list \<Rightarrow> sample list" where
  "line_samples ls = concat (map (\<lambda>l. case l of Comment c \<Rightarrow> [] | Sample x \<Rightarrow> [x]) ls)"

section \<open>Facts\<close>

definition esc_label :: "char \<Rightarrow> string" where
  "esc_label c = (if c = BS then [BS, BS] else if c = DQ then [BS, DQ] else if c = NL then [BS, CHR ''n''] else [c])"

lemma escapeLabel_Nil: "escapeLabel [] = []"
  by (simp add: escapeLabel_def replace_with_def)

lemma escapeLabel_Cons: "escapeLabel (c # s) = esc_label c @ escapeLabel s"
proof -
  have "replace_with d x (s @ t) = replace_with d x s @ replace_with d x t" for d x s t
    by (simp add: replace_with_def)
  then have "escapeLabel (s @ t) = escapeLabel s @ escapeLabel t" for s t by (simp add: escapeLabel_def)
  from this [of "[c]" s] have "escapeLabel (c # s) = escapeLabel [c] @ escapeLabel s" by simp
  moreover have "escapeLabel [c] = esc_label c"
    by (simp add: escapeLabel_def replace_with_def esc_label_def BS_def DQ_def NL_def)
  ultimately show ?thesis by simp
qed

lemma read_escaped: "read_label (escapeLabel v @ DQ # r) = Some (v, r)"
  by (induction v) (simp_all add: escapeLabel_Nil escapeLabel_Cons esc_label_def BS_def DQ_def NL_def)

lemma escaped_no_newline: "NL \<notin> set (escapeLabel v)"
  by (induction v) (simp_all add: escapeLabel_Nil escapeLabel_Cons esc_label_def BS_def DQ_def NL_def)

lemma read_show_int: "read_int (show_int n) = n"
proof (cases "n < 0")
  case True
  then show ?thesis by (simp add: read_int_def show_int_def)
next
  case False
  have "\<not> is_digit (CHR ''-'')" by code_simp
  then have "\<not> starts_with ''-'' (show_nat m)" for m
    using show_nat_digits [of m] by (cases "show_nat m") auto
  then show ?thesis using False by (simp add: read_int_def show_int_def)
qed

lemma takeWhile_stop: "c \<notin> set k \<Longrightarrow> takeWhile (\<lambda>x. x \<noteq> c) (k @ c # s) = k"
  by (induction k) auto

lemma labels_read:
  assumes "labels \<noteq> []" "\<forall>(k, v) \<in> set labels. CHR ''='' \<notin> set k" "length labels \<le> n"
  shows "read_labels n (js_join '','' (map (\<lambda>(k, v). k @ ''='' @ [DQ] @ escapeLabel v @ [DQ]) labels) @ ''}'' @ r) =
    Some (labels, r)"
  using assms
proof (induction labels arbitrary: n)
  case (Cons kv labels)
  obtain k v where kv: "kv = (k, v)" by (cases kv)
  obtain m where n: "n = Suc m" using Cons.prems by (cases n) auto
  have k: "takeWhile (\<lambda>c. c \<noteq> CHR ''='') (k @ CHR ''='' # s) = k" for s
    using Cons.prems kv by (intro takeWhile_stop) auto
  show ?case
  proof (cases "labels = []")
    case True
    then show ?thesis by (simp add: n kv k read_escaped)
  next
    case False
    then have "read_labels m (js_join '','' (map (\<lambda>(k, v). k @ ''='' @ [DQ] @ escapeLabel v @ [DQ]) labels) @ ''}'' @ r) =
        Some (labels, r)"
      using Cons.IH [of m] Cons.prems n by auto
    then show ?thesis using False by (simp add: n kv k read_escaped js_join_Cons)
  qed
qed simp


definition sample_ok :: "sample \<Rightarrow> bool" where
  "sample_ok x \<longleftrightarrow>
     (case x of (name, labels, n) \<Rightarrow>
        name \<noteq> [] \<and> hd name \<noteq> CHR ''#'' \<and> CHR ''{'' \<notin> set name \<and> CHR '' '' \<notin> set name \<and> NL \<notin> set name \<and>
        (\<forall>(k, v) \<in> set labels. CHR ''='' \<notin> set k \<and> NL \<notin> set k))"

lemma name_read:
  assumes "CHR ''{'' \<notin> set name" "CHR '' '' \<notin> set name" "c = CHR ''{'' \<or> c = CHR '' ''"
  shows "takeWhile (\<lambda>c. c \<noteq> CHR ''{'' \<and> c \<noteq> CHR '' '') (name @ c # s) = name"
  using assms by (induction name) auto

lemma join_length: "length xs \<le> length (js_join sep xs) + 1" if "\<forall>x \<in> set xs. x \<noteq> []"
  using that
proof (induction sep xs rule: js_join.induct)
  case (3 sep x y ys)
  then show ?case by (cases x) auto
qed simp_all

lemma sample_read:
  assumes "sample_ok x"
  shows "read_sample (metricLine x) = Some x"
proof -
  obtain name labels n where x: "x = (name, labels, n)" by (cases x)
  note ok = assms [unfolded sample_ok_def x prod.case]
  show ?thesis
  proof (cases "labels = []")
    case True
    then show ?thesis using ok
      by (simp add: x metricLine_def formatLabels_def read_sample_def name_read read_show_int Let_def)
  next
    case False
    let ?parts = "map (\<lambda>(k, v). k @ ''='' @ [DQ] @ escapeLabel v @ [DQ]) labels"
    have "length labels \<le> length (js_join '','' ?parts) + 1"
      using join_length [of ?parts "'',''"] by (auto simp add: split_def)
    then have "read_labels (length (''{'' @ js_join '','' ?parts @ ''}'' @ '' '' @ show_int n))
        (js_join '','' ?parts @ ''}'' @ '' '' @ show_int n) = Some (labels, '' '' @ show_int n)"
      using ok False by (intro labels_read) auto
    then show ?thesis using ok False
      by (simp add: x metricLine_def formatLabels_def read_sample_def name_read read_show_int Let_def)
  qed
qed

lemma show_int_no_newline: "NL \<notin> set (show_int n)"
proof -
  have "\<not> is_digit NL" by code_simp
  then have "NL \<notin> set (show_nat m)" for m using show_nat_digits [of m] by (auto simp add: list_all_iff)
  then show ?thesis by (auto simp add: show_int_def NL_def)
qed

lemma sample_line:
  assumes "sample_ok x"
  shows "NL \<notin> set (metricLine x) \<and> metricLine x \<noteq> [] \<and> \<not> starts_with ''#'' (metricLine x)"
proof -
  obtain name labels n where x: "x = (name, labels, n)" by (cases x)
  note ok = assms [unfolded sample_ok_def x prod.case]
  have "list_all (\<lambda>c. c \<noteq> NL) (js_join '','' (map (\<lambda>(k, v). k @ ''='' @ [DQ] @ escapeLabel v @ [DQ]) labels))"
    using ok escaped_no_newline by (intro js_join_all) (auto simp add: list_all_iff DQ_def NL_def)
  then have "NL \<notin> set (formatLabels labels)"
    by (auto simp add: formatLabels_def list_all_iff NL_def)
  moreover obtain c s where "name = c # s" using ok by (cases name) auto
  ultimately show ?thesis
    using ok show_int_no_newline [of n] by (auto simp add: x metricLine_def NL_def)
qed

lemma join_snoc_empty: "xs \<noteq> [] \<Longrightarrow> js_join sep (xs @ [[]]) = js_join sep xs @ sep"
  by (induction sep xs rule: js_join.induct) (auto simp add: js_join_Cons)

definition line_ok :: "metric_line \<Rightarrow> bool" where
  "line_ok l \<longleftrightarrow> (case l of Comment c \<Rightarrow> starts_with ''#'' c \<and> NL \<notin> set c | Sample x \<Rightarrow> sample_ok x)"

lemma lines_read:
  assumes "ls \<noteq> []" "\<forall>l \<in> set ls. line_ok l"
  shows "read_prometheus (js_join [NL] (map print_line ls) @ [NL]) = map Some (line_samples ls)"
proof -
  have clean: "\<forall>l \<in> set (map print_line ls @ [[]]). NL \<notin> set l"
    using assms(2) sample_line by (auto simp add: line_ok_def print_line_def split: metric_line.splits)
  have "js_split NL (js_join [NL] (map print_line ls) @ [NL]) = map print_line ls @ [[]]"
    using js_split_join [OF _ clean] assms(1) join_snoc_empty [of "map print_line ls" "[NL]"] by simp
  moreover have "map read_sample (filter (\<lambda>l. l \<noteq> [] \<and> \<not> starts_with ''#'' l) (map print_line ls)) =
      map Some (line_samples ls)"
    using assms(2)
  proof (induction ls)
    case (Cons l ls)
    then show ?case
      using sample_line sample_read
      by (cases l) (auto simp add: line_ok_def print_line_def line_samples_def)
  qed (simp add: line_samples_def)
  ultimately show ?thesis by (simp add: read_prometheus_def)
qed


lemma fixed_lines_ok:
  "list_all line_ok (snapshot_lines \<lparr>ms_tenantsTotal = 0, ms_tenantsByStatus = [], ms_circuits = [], ms_queues = [],
     ms_uptimeSeconds = 0\<rparr>)"
  by code_simp

lemma names_ok:
  "sample_ok (''multitenancy_tenants_total'', [], n)" "sample_ok (''multitenancy_uptime_seconds'', [], n)"
  "sample_ok (''multitenancy_tenants_by_status'', [(''status'', v)], n)"
  "sample_ok (''multitenancy_circuit_state'', [(''tenant_id'', v)], n)"
  "sample_ok (''multitenancy_circuit_failures_total'', [(''tenant_id'', v)], n)"
  "sample_ok (''multitenancy_circuit_successes_total'', [(''tenant_id'', v)], n)"
  "sample_ok (''multitenancy_queue_jobs'', [(''tenant_id'', v), (''queue'', q), (''state'', st)], n)"
  by (simp_all add: sample_ok_def NL_def)

lemma snapshot_ok: "\<forall>l \<in> set (snapshot_lines s). line_ok l"
proof -
  have sample: "line_ok (Sample x) = sample_ok x" for x by (simp add: line_ok_def)
  have fixed: "line_ok (Comment c)"
    if "Comment c \<in> set (snapshot_lines \<lparr>ms_tenantsTotal = 0, ms_tenantsByStatus = [], ms_circuits = [], ms_queues = [],
     ms_uptimeSeconds = 0\<rparr>)" for c
    using that fixed_lines_ok by (auto simp only: list_all_iff)
  have comments: "Comment c \<in> set (snapshot_lines s) \<Longrightarrow>
      Comment c \<in> set (snapshot_lines \<lparr>ms_tenantsTotal = 0, ms_tenantsByStatus = [], ms_circuits = [], ms_queues = [],
        ms_uptimeSeconds = 0\<rparr>)" for c
    by (auto simp add: snapshot_lines_def circuit_samples_def queue_samples_def Let_def)
  have samples: "Sample x \<in> set (snapshot_lines s) \<Longrightarrow> sample_ok x" for x
    by (auto simp add: snapshot_lines_def circuit_samples_def queue_samples_def Let_def names_ok)
  show ?thesis
  proof
    fix l assume l: "l \<in> set (snapshot_lines s)"
    show "line_ok l"
    proof (cases l)
      case (Comment c)
      then show ?thesis using fixed comments l by blast
    next
      case (Sample x)
      then show ?thesis using samples [of x] l sample by simp
    qed
  qed
qed

text \<open>
  C26. The text for Prometheus reads back: taking the rendered text apart into
  its lines, dropping the comments and reading names, labels and values as the
  format prescribes gives exactly the snapshot's samples in order, whatever
  characters the tenants' ids and queue names contain.
\<close>

theorem prometheus_text_reads_back:
  "read_prometheus (renderPrometheus s) = map Some (line_samples (snapshot_lines s))"
proof -
  have "snapshot_lines s \<noteq> []" by (simp add: snapshot_lines_def)
  then show ?thesis unfolding renderPrometheus_def by (rule lines_read) (rule snapshot_ok)
qed

text \<open>
  The format wants the samples of a metric in one group. With two circuits the
  samples of the three circuit metrics alternate.
\<close>

definition grouped :: "string list \<Rightarrow> bool" where
  "grouped names \<longleftrightarrow> distinct (remdups_adj names)"

definition demo_metrics :: "string \<Rightarrow> CircuitMetrics" where
  "demo_metrics i = \<lparr>cm_tenantId = i, cm_state = CLOSED, cm_failures = 0, cm_successes = 0, cm_fallbackCalls = 0\<rparr>"

lemma circuit_metrics_alternate:
  "\<not> grouped (map fst (line_samples (snapshot_lines \<lparr>ms_tenantsTotal = 0, ms_tenantsByStatus = [],
     ms_circuits = [(''a'', demo_metrics ''a''), (''b'', demo_metrics ''b'')], ms_queues = [], ms_uptimeSeconds = 0\<rparr>)))"
  by code_simp

text \<open>The snapshot asks a queue service that has opened no queue: there are never queue samples.\<close>

lemma snapshot_has_no_queues: "ms_queues (collectSnapshot b cfg redis it iq repo breakers st now) = []"
  by (simp add: collectSnapshot_def Let_def fresh_queue_destroy_does_nothing)

section \<open>Readiness\<close>

lemma length_filter_all: "length (filter P xs) = length xs \<longleftrightarrow> (\<forall>x \<in> set xs. P x)"
  by (metis filter_id_conv length_filter_less less_irrefl)

lemma readiness_status:
  "hr_status (readiness ms now w h) = HealthOk \<longleftrightarrow>
     (\<forall>(n, f) \<in> set (hs_checks h). ck_status (runWithTimeout f ms w) = CheckPass)"
  "hr_status (readiness ms now w h) = HealthFail \<longleftrightarrow>
     hs_checks h \<noteq> [] \<and> (\<forall>(n, f) \<in> set (hs_checks h). ck_status (runWithTimeout f ms w) = CheckFail)"
proof -
  let ?P = "\<lambda>(n, f). ck_status (runWithTimeout f ms w) = CheckPass"
  let ?passed = "length (filter ?P (hs_checks h))"
  have passed: "length (filter (\<lambda>(n, r). ck_status r = CheckPass)
      (map (\<lambda>(n, f). (n, runWithTimeout f ms w)) (hs_checks h))) = ?passed"
    by (simp add: filter_map comp_def split_def)
  have st: "hr_status (readiness ms now w h) =
      (if length (hs_checks h) = 0 \<or> ?passed = length (hs_checks h) then HealthOk
       else if ?passed = 0 then HealthFail else HealthDegraded)"
    unfolding readiness_def Let_def passed by simp
  have all: "?passed = length (hs_checks h) \<longleftrightarrow> (\<forall>x \<in> set (hs_checks h). ?P x)" by (rule length_filter_all)
  have none: "?passed = 0 \<longleftrightarrow> (\<forall>x \<in> set (hs_checks h). \<not> ?P x)" by (simp add: filter_empty_conv)
  have fail: "ck_status r \<noteq> CheckPass \<longleftrightarrow> ck_status r = CheckFail" for r :: CheckResult
    by (cases "ck_status r") simp_all
  show "hr_status (readiness ms now w h) = HealthOk \<longleftrightarrow>
     (\<forall>(n, f) \<in> set (hs_checks h). ck_status (runWithTimeout f ms w) = CheckPass)"
    unfolding st using all none by auto
  show "hr_status (readiness ms now w h) = HealthFail \<longleftrightarrow>
     hs_checks h \<noteq> [] \<and> (\<forall>(n, f) \<in> set (hs_checks h). ck_status (runWithTimeout f ms w) = CheckFail)"
    unfolding st using all none fail by (cases "hs_checks h") (auto simp add: split_def)
qed

text \<open>
  With neither the database nor Redis reachable the readiness endpoint still
  answers 200: no circuit is open, so that check passes and the report is only
  degraded.
\<close>

lemma ready_with_everything_down:
  assumes "pr_db p w = Some (Inl m)" "pr_redis p w = Some (Inl m')" "pr_circuits p w = Some []"
  shows "fst (fst (readyz p now w (False, \<lparr>hs_startedAt = t, hs_checks = []\<rparr>))) = 200 \<and>
    hr_status (snd (fst (readyz p now w (False, \<lparr>hs_startedAt = t, hs_checks = []\<rparr>)))) = HealthDegraded"
  using assms
  by (simp add: readyz_def Let_def bootstrapDefaultChecks_def add_missing_def hasCheck_def addCheck_def jm_has_def
      readiness_def runWithTimeout_def backofficeDbCheck_def redisCheck_def makeCircuitBreakerCheck_def
      probe_result_def or_else_def)

text \<open>\<open>/healthz\<close> answers what \<open>/readyz\<close> answers, nothing more.\<close>

lemma healthz_adds_nothing: "healthz p now w s = readyz p now w s"
  by (simp add: healthz_def)

end
