(* ===== verification/Satellites.thy ===== *)
theory Satellites
  imports Admin_Spec Url_Guard
begin

text \<open>
  services/feature_flag_service.ts, services/branding_service.ts and their admin
  controllers: the rows of a tenant's flags and branding behind a read-through
  cache. The cache is a parameter that may forget anything at any time;
  \<open>readthrough_laws\<close> says that what it answers was put there and not deleted since.
  Dates are numbers, \<open>toISO\<close> renders them.
\<close>

section \<open>The cache\<close>

record ('w, 'v) cache_ops =
  ca_get :: "string \<Rightarrow> 'w \<Rightarrow> 'v option"
  ca_put :: "string \<Rightarrow> 'v \<Rightarrow> 'w \<Rightarrow> 'w"
  ca_del :: "string \<Rightarrow> 'w \<Rightarrow> 'w"

definition readthrough_laws :: "('w, 'v) cache_ops \<Rightarrow> bool" where
  "readthrough_laws c \<longleftrightarrow>
     (\<forall>k v w x. ca_get c k (ca_put c k v w) = Some x \<longrightarrow> x = v) \<and>
     (\<forall>k k' v w x. k \<noteq> k' \<longrightarrow> ca_get c k (ca_put c k' v w) = Some x \<longrightarrow> ca_get c k w = Some x) \<and>
     (\<forall>k w. ca_get c k (ca_del c k w) = None) \<and>
     (\<forall>k k' w x. ca_get c k (ca_del c k' w) = Some x \<longrightarrow> ca_get c k w = Some x)"

section \<open>Feature flags\<close>

record flag_row =
  fr_id :: string
  fr_tenantId :: string
  fr_flag :: string
  fr_enabled :: bool
  fr_config :: spec_json
  fr_createdAt :: int
  fr_updatedAt :: int

type_synonym flag_map = "(string, bool) jmap"

record 'w flag_state =
  fs_rows :: "flag_row list"
  fs_cache :: 'w
  fs_now :: int
  fs_ids :: nat

record 'w flag_env =
  fe_cache :: "('w, flag_map) cache_ops"
  fe_id :: "nat \<Rightarrow> string"

definition mapCacheKey :: "string \<Rightarrow> string" where
  "mapCacheKey tenantId = ''ff_map:'' @ tenantId"

definition singleCacheKey :: "string \<Rightarrow> string \<Rightarrow> string" where
  "singleCacheKey tenantId flag = ''ff:'' @ tenantId @ '':'' @ flag"

definition flag_entries :: "string \<Rightarrow> flag_row list \<Rightarrow> flag_map" where
  "flag_entries tenantId rows =
     fold (\<lambda>r m. jm_set (fr_flag r) (fr_enabled r) m) (filter (\<lambda>r. fr_tenantId r = tenantId) rows) []"

text \<open>
  \<open>map[flag]\<close> on a plain object also finds what every object inherits.
\<close>

definition OBJECT_PROTOTYPE :: "string list" where
  "OBJECT_PROTOTYPE =
     [''constructor'', ''hasOwnProperty'', ''isPrototypeOf'', ''propertyIsEnumerable'', ''toLocaleString'',
      ''toString'', ''valueOf'', ''__proto__'', ''__defineGetter__'', ''__defineSetter__'',
      ''__lookupGetter__'', ''__lookupSetter__'']"

datatype flag_value = FlagIs bool | FlagInherited

definition read_flag :: "flag_map \<Rightarrow> string \<Rightarrow> flag_value" where
  "read_flag m flag =
     (case jm_get flag m of
        Some b \<Rightarrow> FlagIs b
      | None \<Rightarrow> if flag \<in> set OBJECT_PROTOTYPE then FlagInherited else FlagIs False)"

definition flag_getMap :: "'w flag_env \<Rightarrow> string \<Rightarrow> 'w flag_state \<Rightarrow> flag_map \<times> 'w flag_state" where
  "flag_getMap env tenantId s =
     (case ca_get (fe_cache env) (mapCacheKey tenantId) (fs_cache s) of
        Some m \<Rightarrow> (m, s)
      | None \<Rightarrow>
          (let m = flag_entries tenantId (fs_rows s)
           in (m, s\<lparr>fs_cache := ca_put (fe_cache env) (mapCacheKey tenantId) m (fs_cache s)\<rparr>)))"

definition isEnabled :: "'w flag_env \<Rightarrow> string \<Rightarrow> string \<Rightarrow> 'w flag_state \<Rightarrow> flag_value \<times> 'w flag_state" where
  "isEnabled env tenantId flag s = (let (m, s') = flag_getMap env tenantId s in (read_flag m flag, s'))"

definition forget_flags :: "'w flag_env \<Rightarrow> string \<Rightarrow> string \<Rightarrow> 'w flag_state \<Rightarrow> 'w flag_state" where
  "forget_flags env tenantId flag s =
     s\<lparr>fs_cache := ca_del (fe_cache env) (singleCacheKey tenantId flag)
        (ca_del (fe_cache env) (mapCacheKey tenantId) (fs_cache s))\<rparr>"

text \<open>\<open>updateOrCreate\<close>: the first row of the tenant and flag is updated, or a new row is made.\<close>

fun upsert_flag :: "string \<Rightarrow> string \<Rightarrow> (flag_row \<Rightarrow> flag_row) \<Rightarrow> flag_row \<Rightarrow> flag_row list \<Rightarrow> flag_row \<times> flag_row list" where
  "upsert_flag tenantId flag upd new [] = (new, [new])"
| "upsert_flag tenantId flag upd new (r # rs) =
     (if fr_tenantId r = tenantId \<and> fr_flag r = flag then (upd r, upd r # rs)
      else (let (row, rs') = upsert_flag tenantId flag upd new rs in (row, r # rs')))"

definition flag_set ::
  "'w flag_env \<Rightarrow> string \<Rightarrow> string \<Rightarrow> bool \<Rightarrow> spec_json option \<Rightarrow> 'w flag_state \<Rightarrow> flag_row \<times> 'w flag_state"
where
  "flag_set env tenantId flag enabled config s =
     (let cfg = or_else config SNull;
          (row, rows) = upsert_flag tenantId flag
            (\<lambda>r. r\<lparr>fr_enabled := enabled, fr_config := cfg, fr_updatedAt := fs_now s\<rparr>)
            \<lparr>fr_id = fe_id env (fs_ids s), fr_tenantId = tenantId, fr_flag = flag, fr_enabled = enabled,
             fr_config = cfg, fr_createdAt = fs_now s, fr_updatedAt = fs_now s\<rparr> (fs_rows s)
      in (row, forget_flags env tenantId flag (s\<lparr>fs_rows := rows, fs_ids := fs_ids s + 1\<rparr>)))"

text \<open>\<open>collate\<close> is the order of the database's collation.\<close>

definition flag_list :: "(string \<Rightarrow> int) \<Rightarrow> string \<Rightarrow> 'w flag_state \<Rightarrow> flag_row list" where
  "flag_list collate tenantId s =
     sort_key (\<lambda>r. collate (fr_flag r)) (filter (\<lambda>r. fr_tenantId r = tenantId) (fs_rows s))"

definition flag_delete :: "'w flag_env \<Rightarrow> string \<Rightarrow> string \<Rightarrow> 'w flag_state \<Rightarrow> 'w flag_state" where
  "flag_delete env tenantId flag s =
     forget_flags env tenantId flag
       (s\<lparr>fs_rows := filter (\<lambda>r. \<not> (fr_tenantId r = tenantId \<and> fr_flag r = flag)) (fs_rows s)\<rparr>)"

section \<open>The flag endpoints\<close>

definition json_text :: "string option \<Rightarrow> spec_json" where
  "json_text v = (case v of None \<Rightarrow> SNull | Some x \<Rightarrow> SStr x)"

definition serialize_flag :: "(int \<Rightarrow> string) \<Rightarrow> flag_row \<Rightarrow> spec_json" where
  "serialize_flag toISO f =
     SObj [(''id'', SStr (fr_id f)), (''tenantId'', SStr (fr_tenantId f)), (''flag'', SStr (fr_flag f)),
           (''enabled'', SBool (fr_enabled f)), (''config'', fr_config f),
           (''createdAt'', SStr (toISO (fr_createdAt f))), (''updatedAt'', SStr (toISO (fr_updatedAt f)))]"

text \<open>\<open>SatOk\<close> and \<open>SatCreated\<close> hold the member \<open>data\<close> of the answer.\<close>

datatype sat_reply =
    SatTenantNotFound
  | SatBad string
  | SatOk spec_json
  | SatCreated spec_json
  | SatNoContent

definition flags_index ::
  "(int \<Rightarrow> string) \<Rightarrow> (string \<Rightarrow> int) \<Rightarrow> (string \<Rightarrow> bool \<Rightarrow> tenant option) \<Rightarrow> string \<Rightarrow> 'w flag_state \<Rightarrow> sat_reply"
where
  "flags_index toISO collate findById i s =
     (case loadTenantOr404 findById i of
        NotFound404 \<Rightarrow> SatTenantNotFound
      | Found t \<Rightarrow> SatOk (SArr (map (serialize_flag toISO) (flag_list collate (t_id t) s))))"

text \<open>The inputs: a flag that is not a string and an \<open>enabled\<close> that is not a boolean are \<open>None\<close>.\<close>

definition flags_create ::
  "'w flag_env \<Rightarrow> (int \<Rightarrow> string) \<Rightarrow> (string \<Rightarrow> bool \<Rightarrow> tenant option) \<Rightarrow> string \<Rightarrow>
   string option \<Rightarrow> bool option \<Rightarrow> spec_json option \<Rightarrow> 'w flag_state \<Rightarrow> sat_reply \<times> 'w flag_state"
where
  "flags_create env toISO findById i flag enabled config s =
     (case loadTenantOr404 findById i of
        NotFound404 \<Rightarrow> (SatTenantNotFound, s)
      | Found t \<Rightarrow>
          if \<not> isNonEmptyString flag then (SatBad ''flag_required'', s)
          else (case enabled of
                  None \<Rightarrow> (SatBad ''enabled_must_be_boolean'', s)
                | Some e \<Rightarrow>
                    (let (row, s') = flag_set env (t_id t) (the flag) e config s
                     in (SatCreated (serialize_flag toISO row), s'))))"

definition flags_update ::
  "'w flag_env \<Rightarrow> (int \<Rightarrow> string) \<Rightarrow> (string \<Rightarrow> bool \<Rightarrow> tenant option) \<Rightarrow> string \<Rightarrow>
   string \<Rightarrow> bool option \<Rightarrow> spec_json option \<Rightarrow> 'w flag_state \<Rightarrow> sat_reply \<times> 'w flag_state"
where
  "flags_update env toISO findById i flagKey enabled config s =
     (case loadTenantOr404 findById i of
        NotFound404 \<Rightarrow> (SatTenantNotFound, s)
      | Found t \<Rightarrow>
          (case enabled of
             None \<Rightarrow> (SatBad ''enabled_must_be_boolean'', s)
           | Some e \<Rightarrow>
               (let (row, s') = flag_set env (t_id t) flagKey e config s
                in (SatOk (serialize_flag toISO row), s'))))"

definition flags_destroy ::
  "'w flag_env \<Rightarrow> (string \<Rightarrow> bool \<Rightarrow> tenant option) \<Rightarrow> string \<Rightarrow> string \<Rightarrow> 'w flag_state \<Rightarrow> sat_reply \<times> 'w flag_state"
where
  "flags_destroy env findById i flagKey s =
     (case loadTenantOr404 findById i of
        NotFound404 \<Rightarrow> (SatTenantNotFound, s)
      | Found t \<Rightarrow> (SatNoContent, flag_delete env (t_id t) flagKey s))"


section \<open>Branding\<close>

record branding_row =
  br_tenantId :: string
  br_fromName :: "string option"
  br_fromEmail :: "string option"
  br_logoUrl :: "string option"
  br_primaryColor :: "string option"
  br_supportUrl :: "string option"
  br_emailFooter :: "(string \<times> spec_json) list option"
  br_createdAt :: "int option"
  br_updatedAt :: "int option"

text \<open>A field to store: absent, cleared, or a value.\<close>

type_synonym 'a pick = "'a option option"

record branding_data =
  bd_fromName :: "string pick"
  bd_fromEmail :: "string pick"
  bd_logoUrl :: "string pick"
  bd_primaryColor :: "string pick"
  bd_supportUrl :: "string pick"
  bd_emailFooter :: "(string \<times> spec_json) list pick"

text \<open>
  \<open>be_revive\<close> is what the cache makes of a stored row: an instance again, or a
  new one merged from its data.
\<close>

record 'w branding_state =
  bs_rows :: "branding_row list"
  bs_cache :: 'w
  bs_now :: int

record 'w branding_env =
  be_cache :: "('w, branding_row) cache_ops"
  be_revive :: "branding_row \<Rightarrow> branding_row"

definition brandingCacheKey :: "string \<Rightarrow> string" where
  "brandingCacheKey tenantId = ''branding:'' @ tenantId"

definition getForTenant :: "'w branding_env \<Rightarrow> string \<Rightarrow> 'w branding_state \<Rightarrow> branding_row option \<times> 'w branding_state" where
  "getForTenant env tenantId s =
     (case ca_get (be_cache env) (brandingCacheKey tenantId) (bs_cache s) of
        Some b \<Rightarrow> (Some (be_revive env b), s)
      | None \<Rightarrow>
          (case find (\<lambda>b. br_tenantId b = tenantId) (bs_rows s) of
             None \<Rightarrow> (None, s)
           | Some b \<Rightarrow>
               (Some b, s\<lparr>bs_cache := ca_put (be_cache env) (brandingCacheKey tenantId) b (bs_cache s)\<rparr>)))"

definition picked :: "'a pick \<Rightarrow> 'a option \<Rightarrow> 'a option" where
  "picked p old = (case p of None \<Rightarrow> old | Some v \<Rightarrow> v)"

definition apply_branding :: "int \<Rightarrow> branding_data \<Rightarrow> branding_row \<Rightarrow> branding_row" where
  "apply_branding now d b =
     b\<lparr>br_fromName := picked (bd_fromName d) (br_fromName b), br_fromEmail := picked (bd_fromEmail d) (br_fromEmail b),
       br_logoUrl := picked (bd_logoUrl d) (br_logoUrl b),
       br_primaryColor := picked (bd_primaryColor d) (br_primaryColor b),
       br_supportUrl := picked (bd_supportUrl d) (br_supportUrl b),
       br_emailFooter := picked (bd_emailFooter d) (br_emailFooter b), br_updatedAt := Some now\<rparr>"

definition new_branding :: "string \<Rightarrow> int \<Rightarrow> branding_row" where
  "new_branding tenantId now =
     \<lparr>br_tenantId = tenantId, br_fromName = None, br_fromEmail = None, br_logoUrl = None, br_primaryColor = None,
      br_supportUrl = None, br_emailFooter = None, br_createdAt = Some now, br_updatedAt = Some now\<rparr>"

fun upsert_branding :: "string \<Rightarrow> int \<Rightarrow> branding_data \<Rightarrow> branding_row list \<Rightarrow> branding_row \<times> branding_row list" where
  "upsert_branding tenantId now d [] =
     (let b = apply_branding now d (new_branding tenantId now) in (b, [b]))"
| "upsert_branding tenantId now d (b # bs) =
     (if br_tenantId b = tenantId then (apply_branding now d b, apply_branding now d b # bs)
      else (let (row, bs') = upsert_branding tenantId now d bs in (row, b # bs')))"

definition branding_upsert ::
  "'w branding_env \<Rightarrow> string \<Rightarrow> branding_data \<Rightarrow> 'w branding_state \<Rightarrow> branding_row \<times> 'w branding_state"
where
  "branding_upsert env tenantId d s =
     (let (row, rows) = upsert_branding tenantId (bs_now s) d (bs_rows s)
      in (row, s\<lparr>bs_rows := rows, bs_cache := ca_del (be_cache env) (brandingCacheKey tenantId) (bs_cache s)\<rparr>))"

record email_context =
  ec_fromName :: string
  ec_fromEmail :: string
  ec_logoUrl :: "string option"
  ec_primaryColor :: string
  ec_supportUrl :: "string option"
  ec_footer :: "(string \<times> spec_json) list"

definition renderEmailContext :: "branding_row option \<Rightarrow> email_context" where
  "renderEmailContext b =
     \<lparr>ec_fromName = or_else (Option.bind b br_fromName) ''Platform'',
      ec_fromEmail = or_else (Option.bind b br_fromEmail) ''noreply@platform.com'',
      ec_logoUrl = Option.bind b br_logoUrl,
      ec_primaryColor = or_else (Option.bind b br_primaryColor) ''#3b82f6'',
      ec_supportUrl = Option.bind b br_supportUrl,
      ec_footer = or_else (Option.bind b br_emailFooter) []\<rparr>"

section \<open>The branding endpoints\<close>

definition HEX_COLOR :: "string \<Rightarrow> bool" where
  "HEX_COLOR v \<longleftrightarrow>
     (case v of [] \<Rightarrow> False
      | c # s \<Rightarrow> c = CHR ''#'' \<and> (length s = 3 \<or> length s = 6) \<and> list_all is_hex_ci s)"

definition looksLikeUrl :: "url_parser \<Rightarrow> spec_json \<Rightarrow> bool" where
  "looksLikeUrl parse v = (case v of SStr s \<Rightarrow> s \<noteq> [] \<and> parse s \<noteq> None | _ \<Rightarrow> False)"

text \<open>A body is an object of fields, or something without them.\<close>

definition body_field :: "spec_json option \<Rightarrow> string \<Rightarrow> spec_json option" where
  "body_field body key = (case body of Some (SObj es) \<Rightarrow> jm_get key es | _ \<Rightarrow> None)"

definition invalid_key :: "string \<Rightarrow> string" where
  "invalid_key key = ''invalid_'' @ key"

definition pickIfDefined ::
  "spec_json option \<Rightarrow> string \<Rightarrow> (spec_json \<Rightarrow> bool) \<Rightarrow> (spec_json \<Rightarrow> 'a) \<Rightarrow> string + 'a pick"
where
  "pickIfDefined input key validator value =
     (case body_field input key of
        None \<Rightarrow> Inr None
      | Some SNull \<Rightarrow> Inr (Some None)
      | Some v \<Rightarrow> if \<not> validator v then Inl (invalid_key key) else Inr (Some (Some (value v))))"

definition is_text :: "spec_json \<Rightarrow> bool" where
  "is_text v = (case v of SStr _ \<Rightarrow> True | _ \<Rightarrow> False)"

definition text_of_json :: "spec_json \<Rightarrow> string" where
  "text_of_json v = (case v of SStr s \<Rightarrow> s | _ \<Rightarrow> [])"

definition is_plain_object :: "spec_json \<Rightarrow> bool" where
  "is_plain_object v = (case v of SObj _ \<Rightarrow> True | _ \<Rightarrow> False)"

definition object_of_json :: "spec_json \<Rightarrow> (string \<times> spec_json) list" where
  "object_of_json v = (case v of SObj es \<Rightarrow> es | _ \<Rightarrow> [])"

definition bind_sum :: "'e + 'a \<Rightarrow> ('a \<Rightarrow> 'e + 'b) \<Rightarrow> 'e + 'b" where
  "bind_sum m f = (case m of Inl e \<Rightarrow> Inl e | Inr x \<Rightarrow> f x)"

definition branding_input :: "url_parser \<Rightarrow> spec_json option \<Rightarrow> string + branding_data" where
  "branding_input parse body =
     bind_sum (pickIfDefined body ''fromName'' is_text text_of_json) (\<lambda>fromName.
     bind_sum (pickIfDefined body ''fromEmail''
       (\<lambda>v. is_text v \<and> CHR ''@'' \<in> set (text_of_json v)) text_of_json) (\<lambda>fromEmail.
     bind_sum (pickIfDefined body ''logoUrl'' (looksLikeUrl parse) text_of_json) (\<lambda>logoUrl.
     bind_sum (pickIfDefined body ''primaryColor''
       (\<lambda>v. is_text v \<and> HEX_COLOR (text_of_json v)) text_of_json) (\<lambda>primaryColor.
     bind_sum (pickIfDefined body ''supportUrl'' (looksLikeUrl parse) text_of_json) (\<lambda>supportUrl.
     bind_sum (pickIfDefined body ''emailFooter'' is_plain_object object_of_json) (\<lambda>emailFooter.
       Inr \<lparr>bd_fromName = fromName, bd_fromEmail = fromEmail, bd_logoUrl = logoUrl,
            bd_primaryColor = primaryColor, bd_supportUrl = supportUrl, bd_emailFooter = emailFooter\<rparr>))))))"

definition serialize_branding :: "(int \<Rightarrow> string) \<Rightarrow> branding_row \<Rightarrow> spec_json" where
  "serialize_branding toISO b =
     SObj [(''tenantId'', SStr (br_tenantId b)), (''fromName'', json_text (br_fromName b)),
           (''fromEmail'', json_text (br_fromEmail b)), (''logoUrl'', json_text (br_logoUrl b)),
           (''primaryColor'', json_text (br_primaryColor b)), (''supportUrl'', json_text (br_supportUrl b)),
           (''emailFooter'', (case br_emailFooter b of None \<Rightarrow> SNull | Some es \<Rightarrow> SObj es)),
           (''createdAt'', json_text (map_option toISO (br_createdAt b))),
           (''updatedAt'', json_text (map_option toISO (br_updatedAt b)))]"

definition branding_show ::
  "'w branding_env \<Rightarrow> (int \<Rightarrow> string) \<Rightarrow> (string \<Rightarrow> bool \<Rightarrow> tenant option) \<Rightarrow> string \<Rightarrow>
   'w branding_state \<Rightarrow> sat_reply \<times> 'w branding_state"
where
  "branding_show env toISO findById i s =
     (case loadTenantOr404 findById i of
        NotFound404 \<Rightarrow> (SatTenantNotFound, s)
      | Found t \<Rightarrow>
          (let (b, s') = getForTenant env (t_id t) s
           in (SatOk (case b of None \<Rightarrow> SNull | Some r \<Rightarrow> serialize_branding toISO r), s')))"

definition invalid_code :: "string \<Rightarrow> string" where
  "invalid_code message =
     (if starts_with ''invalid_'' message \<and> length message > 8 \<and>
         list_all (\<lambda>c. is_upper c \<or> is_lower c) (drop 8 message)
      then message else ''invalid_branding_payload'')"

definition branding_update ::
  "'w branding_env \<Rightarrow> (int \<Rightarrow> string) \<Rightarrow> url_parser \<Rightarrow> (string \<Rightarrow> bool \<Rightarrow> tenant option) \<Rightarrow> string \<Rightarrow>
   spec_json option \<Rightarrow> 'w branding_state \<Rightarrow> sat_reply \<times> 'w branding_state"
where
  "branding_update env toISO parse findById i body s =
     (case loadTenantOr404 findById i of
        NotFound404 \<Rightarrow> (SatTenantNotFound, s)
      | Found t \<Rightarrow>
          (case branding_input parse body of
             Inl message \<Rightarrow> (SatBad (invalid_code message), s)
           | Inr d \<Rightarrow>
               (let (row, s') = branding_upsert env (t_id t) d s
                in (SatOk (serialize_branding toISO row), s'))))"


section \<open>Flags are read as they are stored\<close>

definition flags_unique :: "flag_row list \<Rightarrow> bool" where
  "flags_unique rows \<longleftrightarrow> distinct (map (\<lambda>r. (fr_tenantId r, fr_flag r)) rows)"

definition flags_cached :: "'w flag_env \<Rightarrow> 'w flag_state \<Rightarrow> bool" where
  "flags_cached env s \<longleftrightarrow>
     (\<forall>t m. ca_get (fe_cache env) (mapCacheKey t) (fs_cache s) = Some m \<longrightarrow> m = flag_entries t (fs_rows s))"

definition flags_inv :: "'w flag_env \<Rightarrow> 'w flag_state \<Rightarrow> bool" where
  "flags_inv env s \<longleftrightarrow> flags_unique (fs_rows s) \<and> flags_cached env s"

text \<open>Requests in any order; the cache may lose entries, and time passes, at any moment.\<close>

inductive flag_step :: "'w flag_env \<Rightarrow> 'w flag_state \<Rightarrow> 'w flag_state \<Rightarrow> bool" for env where
  read: "flag_step env s (snd (isEnabled env t f s))"
| set: "flag_step env s (snd (flag_set env t f e c s))"
| delete: "flag_step env s (flag_delete env t f s)"
| evict: "(\<And>k x. ca_get (fe_cache env) k w = Some x \<Longrightarrow> ca_get (fe_cache env) k (fs_cache s) = Some x) \<Longrightarrow>
    flag_step env s (s\<lparr>fs_cache := w, fs_now := now\<rparr>)"

inductive flag_steps :: "'w flag_env \<Rightarrow> 'w flag_state \<Rightarrow> 'w flag_state \<Rightarrow> bool" for env where
  none: "flag_steps env s s"
| more: "flag_steps env s s' \<Longrightarrow> flag_step env s' s'' \<Longrightarrow> flag_steps env s s''"

lemma readthrough_lawsD:
  assumes "readthrough_laws c"
  shows "ca_get c k (ca_put c k v w) = Some x \<Longrightarrow> x = v"
    and "k \<noteq> k' \<Longrightarrow> ca_get c k (ca_put c k' v w) = Some x \<Longrightarrow> ca_get c k w = Some x"
    and "ca_get c k (ca_del c k w) = None"
    and "ca_get c k (ca_del c k' w) = Some x \<Longrightarrow> ca_get c k w = Some x"
  using assms unfolding readthrough_laws_def by blast+

lemma mapKey_inj: "mapCacheKey t = mapCacheKey u \<longleftrightarrow> t = u"
  by (simp add: mapCacheKey_def)

lemma entries_fold:
  "distinct (map fr_flag xs) \<Longrightarrow>
   jm_get f (fold (\<lambda>r m. jm_set (fr_flag r) (fr_enabled r) m) xs m) =
     (case find (\<lambda>r. fr_flag r = f) xs of Some r \<Rightarrow> Some (fr_enabled r) | None \<Rightarrow> jm_get f m)"
proof (induction xs arbitrary: m)
  case (Cons r xs)
  have "find (\<lambda>r. fr_flag r = f) xs = None" if "fr_flag r = f"
    using Cons.prems that by (auto simp add: find_None_iff image_iff)
  then show ?case
    using Cons.IH [of "jm_set (fr_flag r) (fr_enabled r) m"] Cons.prems
    by (auto simp add: js_map.get_put split: option.splits)
qed simp

lemma find_present:
  assumes "distinct (map fr_flag xs)"
  shows "(case find (\<lambda>r. fr_flag r = f) xs of Some r \<Rightarrow> Some (fr_enabled r) | None \<Rightarrow> None) =
    (if \<exists>r \<in> set xs. fr_flag r = f then Some (\<exists>r \<in> set xs. fr_flag r = f \<and> fr_enabled r) else None)"
  using assms
proof (induction xs)
  case (Cons r xs)
  have "\<not> (\<exists>x \<in> set xs. fr_flag x = f)" if "fr_flag r = f"
    using Cons.prems that by (auto simp add: image_iff)
  then show ?case using Cons by auto
qed simp

lemma tenant_flags_distinct:
  "flags_unique rows \<Longrightarrow> distinct (map fr_flag (filter (\<lambda>r. fr_tenantId r = t) rows))"
  by (induction rows) (auto simp add: flags_unique_def image_iff)

lemma flag_entries_value:
  assumes "flags_unique rows" "f \<notin> set OBJECT_PROTOTYPE"
  shows "read_flag (flag_entries t rows) f =
    FlagIs (\<exists>r \<in> set rows. fr_tenantId r = t \<and> fr_flag r = f \<and> fr_enabled r)"
  using entries_fold [OF tenant_flags_distinct [OF assms(1), of t], of f "[]"]
    find_present [OF tenant_flags_distinct [OF assms(1), of t], of f] assms(2)
  by (auto simp add: read_flag_def flag_entries_def split: option.splits if_splits)

lemma upsert_flag_rows:
  assumes "\<And>r. fr_tenantId (upd r) = fr_tenantId r \<and> fr_flag (upd r) = fr_flag r"
    and "fr_tenantId new = t" "fr_flag new = f"
  shows "set (map (\<lambda>r. (fr_tenantId r, fr_flag r)) (snd (upsert_flag t f upd new rows))) =
      insert (t, f) (set (map (\<lambda>r. (fr_tenantId r, fr_flag r)) rows))"
    and "flags_unique rows \<Longrightarrow> flags_unique (snd (upsert_flag t f upd new rows))"
    and "u \<noteq> t \<Longrightarrow> filter (\<lambda>r. fr_tenantId r = u) (snd (upsert_flag t f upd new rows)) =
      filter (\<lambda>r. fr_tenantId r = u) rows"
proof -
  show keys: "set (map (\<lambda>r. (fr_tenantId r, fr_flag r)) (snd (upsert_flag t f upd new rows))) =
      insert (t, f) (set (map (\<lambda>r. (fr_tenantId r, fr_flag r)) rows))" for rows
    using assms by (induction rows) (auto simp add: split_def Let_def)
  show "flags_unique rows \<Longrightarrow> flags_unique (snd (upsert_flag t f upd new rows))"
  proof (induction rows)
    case (Cons r rows)
    then show ?case
      using keys [of rows] assms by (auto simp add: flags_unique_def split_def Let_def image_iff)
  qed (simp add: flags_unique_def)
  show "u \<noteq> t \<Longrightarrow> filter (\<lambda>r. fr_tenantId r = u) (snd (upsert_flag t f upd new rows)) =
      filter (\<lambda>r. fr_tenantId r = u) rows"
    using assms by (induction rows) (auto simp add: split_def Let_def)
qed

lemma entries_cong:
  "filter (\<lambda>r. fr_tenantId r = u) rows = filter (\<lambda>r. fr_tenantId r = u) rows' \<Longrightarrow>
   flag_entries u rows = flag_entries u rows'"
  by (simp add: flag_entries_def)

lemma flags_cached_write:
  assumes laws: "readthrough_laws (fe_cache env)" and cached: "flags_cached env s"
    and other: "\<And>u. u \<noteq> t \<Longrightarrow> filter (\<lambda>r. fr_tenantId r = u) rows = filter (\<lambda>r. fr_tenantId r = u) (fs_rows s)"
  shows "flags_cached env (forget_flags env t f (s\<lparr>fs_rows := rows, fs_ids := n\<rparr>))"
  unfolding flags_cached_def
proof (intro allI impI)
  fix u m
  assume "ca_get (fe_cache env) (mapCacheKey u) (fs_cache (forget_flags env t f (s\<lparr>fs_rows := rows, fs_ids := n\<rparr>))) = Some m"
  then have m: "ca_get (fe_cache env) (mapCacheKey u) (ca_del (fe_cache env) (mapCacheKey t) (fs_cache s)) = Some m"
    by (auto simp add: forget_flags_def dest: readthrough_lawsD(4) [OF laws])
  then have "u \<noteq> t" using readthrough_lawsD(3) [OF laws, of "mapCacheKey t" "fs_cache s"] by auto
  then show "m = flag_entries u (fs_rows (forget_flags env t f (s\<lparr>fs_rows := rows, fs_ids := n\<rparr>)))"
    using cached readthrough_lawsD(4) [OF laws m] entries_cong [OF other]
    by (simp add: flags_cached_def forget_flags_def)
qed

lemma flag_write_eq: "s\<lparr>fs_rows := rows\<rparr> = s\<lparr>fs_rows := rows, fs_ids := fs_ids s\<rparr>"
  by simp

lemma flag_step_inv:
  assumes laws: "readthrough_laws (fe_cache env)" and step: "flag_step env s s'" and inv: "flags_inv env s"
  shows "flags_inv env s'"
  using step inv
proof (induction rule: flag_step.induct)
  case (read s t f)
  show ?case
  proof (cases "ca_get (fe_cache env) (mapCacheKey t) (fs_cache s)")
    case None
    let ?s = "s\<lparr>fs_cache := ca_put (fe_cache env) (mapCacheKey t) (flag_entries t (fs_rows s)) (fs_cache s)\<rparr>"
    have "snd (isEnabled env t f s) = ?s" by (simp add: isEnabled_def flag_getMap_def None Let_def)
    moreover have "flags_cached env ?s"
      unfolding flags_cached_def
    proof (intro allI impI)
      fix u m assume m: "ca_get (fe_cache env) (mapCacheKey u) (fs_cache ?s) = Some m"
      show "m = flag_entries u (fs_rows ?s)"
      proof (cases "u = t")
        case True
        then show ?thesis using readthrough_lawsD(1) [OF laws] m by simp
      next
        case False
        then have "ca_get (fe_cache env) (mapCacheKey u) (fs_cache s) = Some m"
          using readthrough_lawsD(2) [OF laws _ m [simplified]] by (simp add: mapKey_inj)
        then show ?thesis using read by (simp add: flags_inv_def flags_cached_def)
      qed
    qed
    ultimately show ?thesis using read by (simp add: flags_inv_def)
  qed (use read in \<open>simp add: isEnabled_def flag_getMap_def Let_def\<close>)
next
  case (set s t f e c)
  let ?new = "\<lparr>fr_id = fe_id env (fs_ids s), fr_tenantId = t, fr_flag = f, fr_enabled = e,
     fr_config = or_else c SNull, fr_createdAt = fs_now s, fr_updatedAt = fs_now s\<rparr>"
  let ?upd = "\<lambda>r. r\<lparr>fr_enabled := e, fr_config := or_else c SNull, fr_updatedAt := fs_now s\<rparr>"
  let ?rows = "snd (upsert_flag t f ?upd ?new (fs_rows s))"
  have eq: "snd (flag_set env t f e c s) = forget_flags env t f (s\<lparr>fs_rows := ?rows, fs_ids := fs_ids s + 1\<rparr>)"
    by (simp add: flag_set_def split_def Let_def)
  have "flags_unique ?rows" using set by (intro upsert_flag_rows(2)) (simp_all add: flags_inv_def)
  moreover have "flags_cached env (forget_flags env t f (s\<lparr>fs_rows := ?rows, fs_ids := fs_ids s + 1\<rparr>))"
    using set by (intro flags_cached_write [OF laws] upsert_flag_rows(3)) (simp_all add: flags_inv_def)
  ultimately show ?case unfolding eq by (simp add: flags_inv_def forget_flags_def)
next
  case (delete s t f)
  let ?rows = "filter (\<lambda>r. \<not> (fr_tenantId r = t \<and> fr_flag r = f)) (fs_rows s)"
  have "flags_cached env (forget_flags env t f (s\<lparr>fs_rows := ?rows, fs_ids := fs_ids s\<rparr>))"
    using delete by (intro flags_cached_write [OF laws]) (auto simp add: flags_inv_def intro!: filter_cong)
  then show ?case
    using delete by (simp add: flags_inv_def flag_delete_def forget_flags_def flags_unique_def distinct_map_filter)
next
  case (evict w s now)
  then show ?case by (simp add: flags_inv_def flags_cached_def)
qed


lemma flag_steps_inv:
  assumes "readthrough_laws (fe_cache env)" "flag_steps env s s'" "flags_inv env s"
  shows "flags_inv env s'"
  using assms(2,3) by (induction rule: flag_steps.induct) (auto intro: flag_step_inv [OF assms(1)])

lemma isEnabled_reads:
  assumes "flags_inv env s"
  shows "fst (isEnabled env t f s) = read_flag (flag_entries t (fs_rows s)) f"
  using assms
  by (auto simp add: isEnabled_def flag_getMap_def flags_inv_def flags_cached_def Let_def split: option.splits)


text \<open>A flag that was never set but is a name every object inherits reads as something true.\<close>

lemma inherited_flag_is_truthy:
  "fst (isEnabled env t ''constructor'' \<lparr>fs_rows = [], fs_cache = w, fs_now = n, fs_ids = i\<rparr>) = FlagInherited"
  if "ca_get (fe_cache env) (mapCacheKey t) w = None"
  using that by (simp add: isEnabled_def flag_getMap_def flag_entries_def read_flag_def OBJECT_PROTOTYPE_def Let_def)

text \<open>
  A reader that has read the rows before a write, and stores them after the
  write's deletion, leaves a stale map that later reads answer from.
\<close>

lemma slow_reader_keeps_old_flag:
  assumes "\<And>k v w. ca_get (fe_cache env) k (ca_put (fe_cache env) k v w) = Some v"
    and "fs_rows s = []" and "f \<notin> set OBJECT_PROTOTYPE"
  shows "let m = flag_entries t (fs_rows s);
             s1 = snd (flag_set env t f True None s);
             s2 = s1\<lparr>fs_cache := ca_put (fe_cache env) (mapCacheKey t) m (fs_cache s1)\<rparr>
         in fst (isEnabled env t f s2) = FlagIs False"
  using assms by (simp add: Let_def isEnabled_def flag_getMap_def flag_entries_def read_flag_def)

text \<open>The configuration of a flag is stored whatever its type, although it is documented as an object.\<close>

lemma flag_config_not_checked: "fr_config (fst (flag_set env t k True (Some (SNum 1)) s)) = SNum 1"
proof -
  have "fr_config (fst (upsert_flag u k (\<lambda>r. r\<lparr>fr_enabled := e, fr_config := c, fr_updatedAt := n\<rparr>) new rows)) = c"
    if "fr_config new = c" for u e c n new rows
    using that by (induction rows) (auto simp add: split_def Let_def)
  then show ?thesis by (simp add: flag_set_def Let_def split_def or_else_def)
qed

section \<open>Branding is stored as sent\<close>

definition branding_keys :: "string list" where
  "branding_keys = [''fromName'', ''fromEmail'', ''logoUrl'', ''primaryColor'', ''supportUrl'', ''emailFooter'']"

text \<open>The check of a field that is set.\<close>

definition branding_valid :: "url_parser \<Rightarrow> string \<Rightarrow> spec_json \<Rightarrow> bool" where
  "branding_valid parse key v \<longleftrightarrow>
     v = SNull \<or>
     (if key = ''fromName'' then is_text v
      else if key = ''fromEmail'' then is_text v \<and> CHR ''@'' \<in> set (text_of_json v)
      else if key = ''primaryColor'' then is_text v \<and> HEX_COLOR (text_of_json v)
      else if key = ''emailFooter'' then is_plain_object v
      else looksLikeUrl parse v)"

definition bad_field :: "url_parser \<Rightarrow> spec_json option \<Rightarrow> string \<Rightarrow> bool" where
  "bad_field parse body key \<longleftrightarrow>
     (case body_field body key of None \<Rightarrow> False | Some v \<Rightarrow> \<not> branding_valid parse key v)"

text \<open>A field of a row, as the response shows it.\<close>

definition branding_json :: "string \<Rightarrow> branding_row \<Rightarrow> spec_json" where
  "branding_json key b = the (jm_get key (object_of_json (serialize_branding (\<lambda>_. []) b)))"

definition stored_branding :: "string \<Rightarrow> 'w branding_state \<Rightarrow> branding_row" where
  "stored_branding t s = or_else (find (\<lambda>b. br_tenantId b = t) (bs_rows s)) (new_branding t (bs_now s))"

definition pick_of :: "spec_json option \<Rightarrow> string \<Rightarrow> (spec_json \<Rightarrow> 'a) \<Rightarrow> 'a pick" where
  "pick_of body key value =
     (case body_field body key of
        None \<Rightarrow> None | Some v \<Rightarrow> if v = SNull then Some None else Some (Some (value v)))"

lemma pick_run:
  assumes "\<And>v. v \<noteq> SNull \<Longrightarrow> branding_valid parse key v \<longleftrightarrow> valid v"
  shows "pickIfDefined body key valid value =
    (if bad_field parse body key then Inl (invalid_key key) else Inr (pick_of body key value))"
proof (cases "body_field body key")
  case (Some v)
  show ?thesis
  proof (cases "v = SNull")
    case False
    then have "pickIfDefined body key valid value =
        (if \<not> valid v then Inl (invalid_key key) else Inr (Some (Some (value v))))"
      using Some by (cases v) (simp_all add: pickIfDefined_def)
    then show ?thesis using Some False assms [OF False] by (simp add: bad_field_def pick_of_def)
  qed (simp add: Some pickIfDefined_def bad_field_def pick_of_def branding_valid_def)
qed (simp add: pickIfDefined_def bad_field_def pick_of_def)

lemma bind_if:
  "bind_sum (if b then Inl e else Inr x) f = (if b then Inl e else f x)"
  by (simp add: bind_sum_def)

lemma bind_sum_Inr: "bind_sum (Inr x) f = f x"
  by (simp add: bind_sum_def)

lemma case_if:
  "(case (if b then Some k else y) of None \<Rightarrow> n | Some k \<Rightarrow> g k) =
     (if b then g k else case y of None \<Rightarrow> n | Some k \<Rightarrow> g k)"
  by simp

lemma branding_input_run:
  "branding_input parse body =
     (case find (bad_field parse body) branding_keys of
        Some key \<Rightarrow> Inl (invalid_key key)
      | None \<Rightarrow> Inr \<lparr>bd_fromName = pick_of body ''fromName'' text_of_json,
          bd_fromEmail = pick_of body ''fromEmail'' text_of_json, bd_logoUrl = pick_of body ''logoUrl'' text_of_json,
          bd_primaryColor = pick_of body ''primaryColor'' text_of_json,
          bd_supportUrl = pick_of body ''supportUrl'' text_of_json,
          bd_emailFooter = pick_of body ''emailFooter'' object_of_json\<rparr>)"
proof -
  have p: "pickIfDefined body ''fromName'' is_text conv = (if bad_field parse body ''fromName''
        then Inl (invalid_key ''fromName'') else Inr (pick_of body ''fromName'' conv))"
    "pickIfDefined body ''fromEmail'' (\<lambda>v. is_text v \<and> CHR ''@'' \<in> set (text_of_json v)) conv =
      (if bad_field parse body ''fromEmail'' then Inl (invalid_key ''fromEmail'') else Inr (pick_of body ''fromEmail'' conv))"
    "pickIfDefined body ''logoUrl'' (looksLikeUrl parse) conv =
      (if bad_field parse body ''logoUrl'' then Inl (invalid_key ''logoUrl'') else Inr (pick_of body ''logoUrl'' conv))"
    "pickIfDefined body ''primaryColor'' (\<lambda>v. is_text v \<and> HEX_COLOR (text_of_json v)) conv =
      (if bad_field parse body ''primaryColor'' then Inl (invalid_key ''primaryColor'')
       else Inr (pick_of body ''primaryColor'' conv))"
    "pickIfDefined body ''supportUrl'' (looksLikeUrl parse) conv =
      (if bad_field parse body ''supportUrl'' then Inl (invalid_key ''supportUrl'')
       else Inr (pick_of body ''supportUrl'' conv))" for conv :: "spec_json \<Rightarrow> string"
    by (rule pick_run, simp add: branding_valid_def)+
  have f: "pickIfDefined body ''emailFooter'' is_plain_object conv =
      (if bad_field parse body ''emailFooter'' then Inl (invalid_key ''emailFooter'')
       else Inr (pick_of body ''emailFooter'' conv))" for conv :: "spec_json \<Rightarrow> (string \<times> spec_json) list"
    by (rule pick_run, simp add: branding_valid_def)
  show ?thesis
    unfolding branding_input_def p f branding_keys_def
    by (simp only: bind_if find.simps case_if option.case bind_sum_Inr)
qed

lemma invalid_codes: "key \<in> set branding_keys \<Longrightarrow> invalid_code (invalid_key key) = invalid_key key"
proof -
  have "list_all (\<lambda>key. invalid_code (invalid_key key) = invalid_key key) branding_keys" by code_simp
  then show "key \<in> set branding_keys \<Longrightarrow> invalid_code (invalid_key key) = invalid_key key"
    unfolding list_all_iff by blast
qed

lemma picked_text:
  assumes "\<not> bad_field parse body key" and "\<And>v. branding_valid parse key v \<Longrightarrow> v = SNull \<or> is_text v"
  shows "json_text (picked (pick_of body key text_of_json) old) =
    (case body_field body key of None \<Rightarrow> json_text old | Some v \<Rightarrow> v)"
proof (cases "body_field body key")
  case (Some v)
  then have "v = SNull \<or> is_text v" using assms by (auto simp add: bad_field_def)
  then show ?thesis
    using Some by (auto simp add: picked_def pick_of_def json_text_def is_text_def text_of_json_def split: spec_json.splits)
qed (simp add: picked_def pick_of_def)

lemma valid_text: "key \<noteq> ''emailFooter'' \<Longrightarrow> branding_valid parse key v \<Longrightarrow> v = SNull \<or> is_text v"
  by (auto simp add: branding_valid_def is_text_def looksLikeUrl_def split: if_splits spec_json.splits)

definition footer_json :: "(string \<times> spec_json) list option \<Rightarrow> spec_json" where
  "footer_json f = (case f of None \<Rightarrow> SNull | Some es \<Rightarrow> SObj es)"

lemma picked_object:
  assumes "\<not> bad_field parse body ''emailFooter''"
  shows "footer_json (picked (pick_of body ''emailFooter'' object_of_json) old) =
    (case body_field body ''emailFooter'' of None \<Rightarrow> footer_json old | Some v \<Rightarrow> v)"
  using assms
  by (auto simp add: picked_def pick_of_def bad_field_def branding_valid_def is_plain_object_def object_of_json_def
      footer_json_def split: option.splits spec_json.splits)

lemma branding_jsons:
  "branding_json ''fromName'' b = json_text (br_fromName b)"
  "branding_json ''fromEmail'' b = json_text (br_fromEmail b)"
  "branding_json ''logoUrl'' b = json_text (br_logoUrl b)"
  "branding_json ''primaryColor'' b = json_text (br_primaryColor b)"
  "branding_json ''supportUrl'' b = json_text (br_supportUrl b)"
  "branding_json ''emailFooter'' b = footer_json (br_emailFooter b)"
  by (simp_all add: branding_json_def serialize_branding_def object_of_json_def footer_json_def)

lemma upsert_branding_run:
  "fst (upsert_branding t now d rows) = apply_branding now d (or_else (find (\<lambda>b. br_tenantId b = t) rows) (new_branding t now))"
  "find (\<lambda>b. br_tenantId b = t) (snd (upsert_branding t now d rows)) = Some (fst (upsert_branding t now d rows))"
  "u \<noteq> t \<Longrightarrow> find (\<lambda>b. br_tenantId b = u) (snd (upsert_branding t now d rows)) = find (\<lambda>b. br_tenantId b = u) rows"
proof -
  show "fst (upsert_branding t now d rows) = apply_branding now d (or_else (find (\<lambda>b. br_tenantId b = t) rows) (new_branding t now))"
    by (induction rows) (auto simp add: Let_def split_def or_else_def)
  have id: "br_tenantId (apply_branding now d b) = br_tenantId b" "br_tenantId (new_branding t now) = t" for b
    by (simp_all add: apply_branding_def new_branding_def)
  show "find (\<lambda>b. br_tenantId b = t) (snd (upsert_branding t now d rows)) = Some (fst (upsert_branding t now d rows))"
    by (induction rows) (auto simp add: Let_def split_def id)
  show "u \<noteq> t \<Longrightarrow> find (\<lambda>b. br_tenantId b = u) (snd (upsert_branding t now d rows)) = find (\<lambda>b. br_tenantId b = u) rows"
    by (induction rows) (auto simp add: Let_def split_def id)
qed


text \<open>
  C30. Updating a tenant's branding takes each field as it was sent, or nothing:
  when some field is set to a value its check refuses, the answer names the first
  such field and the state is untouched; otherwise the row afterwards holds each
  field that was sent, cleared where it was null, and keeps the others, other
  tenants' rows stay, and the next read through the cache answers the new row.
\<close>

theorem branding_update_is_exact:
  assumes laws: "readthrough_laws (be_cache env)" and found: "findById i True = Some t"
    and run: "branding_update env toISO parse findById i body s = (r, s')"
  shows "(\<forall>key. find (bad_field parse body) branding_keys = Some key \<longrightarrow>
            r = SatBad (invalid_key key) \<and> s' = s) \<and>
    (find (bad_field parse body) branding_keys = None \<longrightarrow>
       r = SatOk (serialize_branding toISO (stored_branding (t_id t) s')) \<and>
       (\<forall>key \<in> set branding_keys. branding_json key (stored_branding (t_id t) s') =
          (case body_field body key of None \<Rightarrow> branding_json key (stored_branding (t_id t) s) | Some v \<Rightarrow> v)) \<and>
       (\<forall>u. u \<noteq> t_id t \<longrightarrow> find (\<lambda>b. br_tenantId b = u) (bs_rows s') = find (\<lambda>b. br_tenantId b = u) (bs_rows s)) \<and>
       fst (getForTenant env (t_id t) s') = Some (stored_branding (t_id t) s'))"
proof (cases "find (bad_field parse body) branding_keys")
  case (Some key)
  then have "key \<in> set branding_keys" by (auto simp add: find_Some_iff)
  then show ?thesis
    using Some run found
    by (auto simp add: branding_update_def loadTenantOr404_def branding_input_run invalid_codes)
next
  case None
  let ?d = "\<lparr>bd_fromName = pick_of body ''fromName'' text_of_json,
      bd_fromEmail = pick_of body ''fromEmail'' text_of_json, bd_logoUrl = pick_of body ''logoUrl'' text_of_json,
      bd_primaryColor = pick_of body ''primaryColor'' text_of_json,
      bd_supportUrl = pick_of body ''supportUrl'' text_of_json,
      bd_emailFooter = pick_of body ''emailFooter'' object_of_json\<rparr>"
  let ?up = "upsert_branding (t_id t) (bs_now s) ?d (bs_rows s)"
  have good: "\<not> bad_field parse body key" if "key \<in> set branding_keys" for key
    using None that by (auto simp add: find_None_iff)
  have r: "r = SatOk (serialize_branding toISO (fst ?up))"
    and s': "s' = s\<lparr>bs_rows := snd ?up,
      bs_cache := ca_del (be_cache env) (brandingCacheKey (t_id t)) (bs_cache s)\<rparr>"
    using run found None
    by (auto simp add: branding_update_def loadTenantOr404_def branding_input_run branding_upsert_def Let_def split_def)
  have row: "stored_branding (t_id t) s' = fst ?up"
    using upsert_branding_run(2) [of "t_id t" "bs_now s" ?d "bs_rows s"] by (simp add: stored_branding_def s' or_else_def)
  have applied: "fst ?up = apply_branding (bs_now s) ?d (stored_branding (t_id t) s)"
    by (simp add: upsert_branding_run(1) stored_branding_def)
  have sent: "json_text (picked (pick_of body key text_of_json) old) =
      (case body_field body key of None \<Rightarrow> json_text old | Some v \<Rightarrow> v)"
    if "key = ''fromName'' \<or> key = ''fromEmail'' \<or> key = ''logoUrl'' \<or> key = ''primaryColor'' \<or> key = ''supportUrl''" for key old
    by (rule picked_text [OF good valid_text]) (use that in \<open>auto simp add: branding_keys_def\<close>)
  have fields: "\<forall>key \<in> set branding_keys. branding_json key (fst ?up) =
      (case body_field body key of None \<Rightarrow> branding_json key (stored_branding (t_id t) s) | Some v \<Rightarrow> v)"
    unfolding applied
    by (simp add: branding_keys_def branding_jsons apply_branding_def sent picked_object [OF good [of "''emailFooter''"]]
        cong: option.case_cong)
  have read: "fst (getForTenant env (t_id t) s') = Some (fst ?up)"
    using readthrough_lawsD(3) [OF laws] upsert_branding_run(2) [of "t_id t" "bs_now s" ?d "bs_rows s"]
    by (simp add: getForTenant_def s')
  show ?thesis
    unfolding row using None r fields read upsert_branding_run(3) [where now = "bs_now s" and d = ?d and rows = "bs_rows s"]
    by (simp add: s')
qed


section \<open>Witnesses\<close>

definition map_cache :: "((string, 'v) jmap, 'v) cache_ops" where
  "map_cache = \<lparr>ca_get = jm_get, ca_put = jm_set, ca_del = jm_delete\<rparr>"

lemma map_readthrough_laws: "readthrough_laws map_cache"
  by (auto simp add: readthrough_laws_def map_cache_def js_map.get_put js_map.get_del split: if_splits)

definition demo_flags :: "(string, flag_map) jmap flag_state" where
  "demo_flags = \<lparr>fs_rows = [], fs_cache = [], fs_now = 0, fs_ids = 0\<rparr>"

definition demo_flag_env :: "(string, flag_map) jmap flag_env" where
  "demo_flag_env = \<lparr>fe_cache = map_cache, fe_id = show_nat\<rparr>"

lemma demo_flags_inv: "flags_inv demo_flag_env demo_flags"
  by (simp add: flags_inv_def flags_unique_def flags_cached_def demo_flags_def demo_flag_env_def map_cache_def)

lemma demo_flag_run:
  "flag_steps demo_flag_env demo_flags (snd (flag_set demo_flag_env ''t'' ''beta'' True None
     (snd (isEnabled demo_flag_env ''t'' ''beta'' demo_flags))))"
  by (rule flag_steps.more [OF flag_steps.more [OF flag_steps.none flag_step.read] flag_step.set])


definition demo_branding :: "(string, branding_row) jmap branding_state" where
  "demo_branding = \<lparr>bs_rows = [(new_branding ''t'' 0)\<lparr>br_logoUrl := Some ''https://old/''\<rparr>], bs_cache = [], bs_now = 5\<rparr>"

definition demo_branding_env :: "(string, branding_row) jmap branding_env" where
  "demo_branding_env = \<lparr>be_cache = map_cache, be_revive = id\<rparr>"

definition demo_body :: spec_json where
  "demo_body = SObj [(''fromName'', SStr ''Acme''), (''logoUrl'', SNull), (''primaryColor'', SStr ''#0af'')]"

definition branding_tenant :: tenant where
  "branding_tenant = \<lparr>t_id = ''t'', t_name = ''n'', t_email = ''e'', t_status = active, t_customDomain = None,
     t_createdAt = 0, t_deletedAt = None, t_maintenance = False, t_maintenanceMessage = None\<rparr>"

definition demo_updated :: "sat_reply \<times> (string, branding_row) jmap branding_state" where
  "demo_updated = branding_update demo_branding_env show_int (\<lambda>s. None) (\<lambda>i d. Some branding_tenant) ''t''
     (Some demo_body) demo_branding"

theorem branding_update_is_exact_witness:
  "branding_json ''primaryColor'' (stored_branding ''t'' (snd demo_updated)) = SStr ''#0af'' \<and>
   branding_json ''logoUrl'' (stored_branding ''t'' (snd demo_updated)) = SNull"
proof -
  have laws: "readthrough_laws (be_cache demo_branding_env)" by (simp add: demo_branding_env_def map_readthrough_laws)
  have run: "branding_update demo_branding_env show_int (\<lambda>s. None) (\<lambda>i d. Some branding_tenant) ''t''
      (Some demo_body) demo_branding = (fst demo_updated, snd demo_updated)" by (simp add: demo_updated_def)
  have good: "find (bad_field (\<lambda>s. None) (Some demo_body)) branding_keys = None" by code_simp
  have i: "t_id branding_tenant = ''t''" by (simp add: branding_tenant_def)
  have "\<forall>key \<in> set branding_keys. branding_json key (stored_branding ''t'' (snd demo_updated)) =
      (case body_field (Some demo_body) key of None \<Rightarrow> branding_json key (stored_branding ''t'' demo_branding) | Some v \<Rightarrow> v)"
    using branding_update_is_exact [OF laws refl run] good unfolding i by blast
  then show ?thesis by (simp add: branding_keys_def body_field_def demo_body_def)
qed

end
