(* ===== verification/Activity.thy ===== *)
theory Activity
  imports Satellites Runtime
begin

text \<open>
  services/audit_log_service.ts, services/metrics_service.ts, their admin
  controllers and the commands \<open>tenant:metrics:flush\<close> and \<open>tenant:queue:stats\<close>.
  The order in which the database returns rows of equal date and the commands of
  Redis are parameters; \<open>counter_laws\<close> says what the counters rely on.
\<close>

section \<open>The audit log\<close>

datatype AuditActorType = ActorAdmin | ActorSystem

record audit_row =
  al_id :: string
  al_tenantId :: "string option"
  al_actorType :: AuditActorType
  al_actorId :: "string option"
  al_action :: string
  al_metadata :: spec_json
  al_ipAddress :: "string option"
  al_createdAt :: int

record LogActionOptions =
  lo_tenantId :: "string option"
  lo_actorType :: "AuditActorType option"
  lo_actorId :: "string option"
  lo_action :: string
  lo_metadata :: "spec_json option"
  lo_ipAddress :: "string option"

definition audit_log :: "string \<Rightarrow> int \<Rightarrow> LogActionOptions \<Rightarrow> audit_row list \<Rightarrow> audit_row \<times> audit_row list" where
  "audit_log newId now opts rows =
     (let row = \<lparr>al_id = newId, al_tenantId = lo_tenantId opts,
          al_actorType = or_else (lo_actorType opts) ActorSystem, al_actorId = lo_actorId opts,
          al_action = lo_action opts, al_metadata = or_else (lo_metadata opts) SNull,
          al_ipAddress = lo_ipAddress opts, al_createdAt = now\<rparr>
      in (row, rows @ [row]))"

text \<open>\<open>sorter\<close> orders by descending date; rows of one date come in any order.\<close>

definition sorter_law :: "(audit_row list \<Rightarrow> audit_row list) \<Rightarrow> bool" where
  "sorter_law srt \<longleftrightarrow>
     (\<forall>rows. mset (srt rows) = mset rows \<and> sorted (map (\<lambda>r. - al_createdAt r) (srt rows)))"

record audit_page =
  ap_data :: "audit_row list"
  ap_total :: nat
  ap_perPage :: int
  ap_currentPage :: int

definition in_audit_range :: "string \<Rightarrow> int option \<Rightarrow> int option \<Rightarrow> audit_row \<Rightarrow> bool" where
  "in_audit_range tenantId from until r \<longleftrightarrow>
     al_tenantId r = Some tenantId \<and>
     (case from of None \<Rightarrow> True | Some a \<Rightarrow> a \<le> al_createdAt r) \<and>
     (case until of None \<Rightarrow> True | Some b \<Rightarrow> al_createdAt r \<le> b)"

definition listAuditLogs ::
  "(audit_row list \<Rightarrow> audit_row list) \<Rightarrow> string \<Rightarrow> int \<Rightarrow> int \<Rightarrow> int option \<Rightarrow> int option \<Rightarrow> audit_row list \<Rightarrow> audit_page"
where
  "listAuditLogs srt tenantId page limit from until rows =
     (let q = srt (filter (in_audit_range tenantId from until) rows); perPage = min limit 200
      in \<lparr>ap_data = take (nat perPage) (drop (nat ((page - 1) * perPage)) q), ap_total = length q,
          ap_perPage = perPage, ap_currentPage = page\<rparr>)"

datatype audit_reply = AuditTenantNotFound | AuditBadRange | AuditPage audit_page

text \<open>The numbers of the query, absent when they are not finite, and its dates, absent when they do not parse.\<close>

definition audit_index ::
  "(audit_row list \<Rightarrow> audit_row list) \<Rightarrow> (string \<Rightarrow> int option) \<Rightarrow> (string \<Rightarrow> bool \<Rightarrow> tenant option) \<Rightarrow> string \<Rightarrow>
   rat option \<Rightarrow> rat option \<Rightarrow> string option \<Rightarrow> string option \<Rightarrow> audit_row list \<Rightarrow> audit_reply"
where
  "audit_index srt parseDate findById i page limit from until rows =
     (case loadTenantOr404 findById i of
        NotFound404 \<Rightarrow> AuditTenantNotFound
      | Found t \<Rightarrow>
          (let p = clamp page 1 1000 1; l = clamp limit 1 200 50;
               read = (\<lambda>d. case d of None \<Rightarrow> None | Some x \<Rightarrow> if x = [] then None else parseDate x);
               a = read from; b = read until in
           if (case (a, b) of (Some x, Some y) \<Rightarrow> y < x | _ \<Rightarrow> False) then AuditBadRange
           else AuditPage (listAuditLogs srt (t_id t) p l a b rows)))"

section \<open>Usage counters\<close>

record 'w counter_ops =
  co_incrby :: "string \<Rightarrow> int \<Rightarrow> 'w \<Rightarrow> 'w"
  co_expire :: "string \<Rightarrow> nat \<Rightarrow> 'w \<Rightarrow> 'w"
  co_get :: "string \<Rightarrow> 'w \<Rightarrow> int option"
  co_scan :: "string \<Rightarrow> string \<Rightarrow> 'w \<Rightarrow> string \<times> string list"

definition metric_key :: "string \<Rightarrow> string \<Rightarrow> string \<Rightarrow> string" where
  "metric_key tenantId metric period = ''metrics:'' @ tenantId @ '':'' @ period @ '':'' @ metric"

definition add_counter :: "'w counter_ops \<Rightarrow> string \<Rightarrow> int \<Rightarrow> 'w \<Rightarrow> 'w" where
  "add_counter ops k amount w = co_expire ops k 172800 (co_incrby ops k amount w)"

datatype metric_name = MetricRequests | MetricErrors

definition increment :: "'w counter_ops \<Rightarrow> string \<Rightarrow> string \<Rightarrow> metric_name \<Rightarrow> int \<Rightarrow> 'w \<Rightarrow> 'w" where
  "increment ops period tenantId m amount w =
     add_counter ops (metric_key tenantId (case m of MetricRequests \<Rightarrow> ''requests'' | MetricErrors \<Rightarrow> ''errors'') period)
       amount w"

definition trackBandwidth :: "'w counter_ops \<Rightarrow> string \<Rightarrow> string \<Rightarrow> int \<Rightarrow> 'w \<Rightarrow> 'w" where
  "trackBandwidth ops period tenantId bytes w = add_counter ops (metric_key tenantId ''bandwidth'' period) bytes w"

text \<open>The loop over the cursor may not end; then it has no value.\<close>

partial_function (option) scan_from :: "'w counter_ops \<Rightarrow> string \<Rightarrow> 'w \<Rightarrow> string \<Rightarrow> string list \<Rightarrow> string list option" where
  "scan_from ops pattern w cursor keys =
     (case co_scan ops pattern cursor w of
        (next_cursor, batch) \<Rightarrow>
          if next_cursor = ''0'' then Some (keys @ batch)
          else scan_from ops pattern w next_cursor (keys @ batch))"

definition scanKeys :: "'w counter_ops \<Rightarrow> string \<Rightarrow> 'w \<Rightarrow> string list option" where
  "scanKeys ops pattern w = scan_from ops pattern w ''0'' []"

record metric_counts =
  mc_requests :: int
  mc_errors :: int
  mc_bandwidth :: int

definition no_counts :: metric_counts where
  "no_counts = \<lparr>mc_requests = 0, mc_errors = 0, mc_bandwidth = 0\<rparr>"

definition set_count :: "string \<Rightarrow> int \<Rightarrow> metric_counts \<Rightarrow> metric_counts" where
  "set_count metric v c =
     (if metric = ''requests'' then c\<lparr>mc_requests := v\<rparr>
      else if metric = ''errors'' then c\<lparr>mc_errors := v\<rparr>
      else if metric = ''bandwidth'' then c\<lparr>mc_bandwidth := v\<rparr> else c)"

definition flush_key ::
  "'w counter_ops \<Rightarrow> 'w \<Rightarrow> string \<Rightarrow> (string, metric_counts) jmap \<Rightarrow> (string, metric_counts) jmap"
where
  "flush_key ops w k m =
     (let parts = js_split (CHR '':'') k; tenantId = parts ! 1; metric = parts ! 3
      in jm_set tenantId (set_count metric (or_else (co_get ops k w) 0) (or_else (jm_get tenantId m) no_counts)) m)"

record metric_row =
  me_tenantId :: string
  me_period :: string
  me_requestCount :: int
  me_errorCount :: int
  me_bandwidthBytes :: int

definition counted_row :: "string \<Rightarrow> string \<Rightarrow> metric_counts \<Rightarrow> metric_row" where
  "counted_row tenantId period c =
     \<lparr>me_tenantId = tenantId, me_period = period, me_requestCount = mc_requests c, me_errorCount = mc_errors c,
      me_bandwidthBytes = mc_bandwidth c\<rparr>"

fun upsert_metric :: "metric_row \<Rightarrow> metric_row list \<Rightarrow> metric_row list" where
  "upsert_metric n [] = [n]"
| "upsert_metric n (r # rs) =
     (if me_tenantId r = me_tenantId n \<and> me_period r = me_period n then n # rs else r # upsert_metric n rs)"

definition flush_pattern :: "string \<Rightarrow> string" where
  "flush_pattern target = ''metrics:*:'' @ target @ '':*''"

definition flush_metrics ::
  "'w counter_ops \<Rightarrow> string \<Rightarrow> string option \<Rightarrow> 'w \<Rightarrow> metric_row list \<Rightarrow> metric_row list option"
where
  "flush_metrics ops currentPeriod period w rows =
     (let target = or_else period currentPeriod in
      case scanKeys ops (flush_pattern target) w of
        None \<Rightarrow> None
      | Some keys \<Rightarrow>
          Some (fold (\<lambda>(t, c). upsert_metric (counted_row t target c)) (fold (flush_key ops w) keys []) rows))"

text \<open>\<open>since\<close> is the day that many days back; \<open>collate\<close> is the order of the database's strings.\<close>

definition metrics_getForTenant ::
  "(string \<Rightarrow> int) \<Rightarrow> (int \<Rightarrow> string) \<Rightarrow> string \<Rightarrow> int \<Rightarrow> metric_row list \<Rightarrow> metric_row list"
where
  "metrics_getForTenant collate since tenantId days rows =
     sort_key (\<lambda>r. - collate (me_period r))
       (filter (\<lambda>r. me_tenantId r = tenantId \<and> collate (since days) \<le> collate (me_period r)) rows)"

definition serialize_metric :: "metric_row \<Rightarrow> spec_json" where
  "serialize_metric m =
     SObj [(''tenantId'', SStr (me_tenantId m)), (''period'', SStr (me_period m)),
           (''requestCount'', SNum (me_requestCount m)), (''errorCount'', SNum (me_errorCount m)),
           (''bandwidthBytes'', SNum (me_bandwidthBytes m))]"

text \<open>The answer has a second member and is given whole.\<close>

definition metrics_index ::
  "(string \<Rightarrow> int) \<Rightarrow> (int \<Rightarrow> string) \<Rightarrow> (string \<Rightarrow> bool \<Rightarrow> tenant option) \<Rightarrow> string \<Rightarrow> rat option \<Rightarrow>
   metric_row list \<Rightarrow> sat_reply"
where
  "metrics_index collate since findById i days rows =
     (case loadTenantOr404 findById i of
        NotFound404 \<Rightarrow> SatTenantNotFound
      | Found t \<Rightarrow>
          (let d = clamp days 1 365 30 in
           SatOk (SObj [(''data'', SArr (map serialize_metric (metrics_getForTenant collate since (t_id t) d rows))),
                        (''days'', SNum d)])))"

text \<open>The message of the command, after a flush that returned.\<close>

definition tenant_metrics_flush ::
  "'w counter_ops \<Rightarrow> string \<Rightarrow> string option \<Rightarrow> 'w \<Rightarrow> metric_row list \<Rightarrow> (string \<times> metric_row list) option"
where
  "tenant_metrics_flush ops currentPeriod period w rows =
     map_option (\<lambda>rows'. (''Metrics flushed'' @
         (case period of None \<Rightarrow> [] | Some p \<Rightarrow> if p = [] then [] else '' for period '' @ p), rows'))
       (flush_metrics ops currentPeriod period w rows)"

definition tenant_queue_stats ::
  "'w bull \<Rightarrow> queue_config \<Rightarrow> string list option \<Rightarrow> mock_repo \<Rightarrow>
   ('w queue_service, string, TenantQueueStats list option) M"
where
  "tenant_queue_stats b cfg filter_ids repo =
     (let allTenants = mock_all repo False (Some [active, suspended]);
          tenants = (case filter_ids of
              None \<Rightarrow> allTenants
            | Some ids \<Rightarrow> if ids = [] then allTenants else filter (\<lambda>t. t_id t \<in> set ids) allTenants)
      in if tenants = [] then returnM None
         else bindM (mapM tenants (\<lambda>t. queue_getStats b cfg (t_id t))) (\<lambda>stats. returnM (Some stats)))"

section \<open>Pages of the audit log\<close>

text \<open>Rows whose dates differ are in one order only.\<close>

lemma sorter_unique:
  assumes "sorter_law srt" "distinct (map al_createdAt xs)"
  shows "srt xs = sort_key (\<lambda>r. - al_createdAt r) xs"
proof (rule sort_key_inj_key_eq [symmetric])
  show "mset xs = mset (srt xs)" "sorted (map (\<lambda>r. - al_createdAt r) (srt xs))"
    using assms(1) by (simp_all add: sorter_law_def)
  show "inj_on (\<lambda>r. - al_createdAt r) (set xs)" using assms(2) by (simp add: distinct_map inj_on_def)
qed

lemma pages_join: "concat (map (\<lambda>k. take l (drop (k * l) xs)) [0..<n]) = take (n * l) xs"
  by (induction n) (simp_all add: take_add [symmetric] add.commute)

text \<open>
  C32. Paging through the audit log loses nothing: when the dates of the tenant's
  entries in the range differ, the pages of any size up to 200, read one after the
  other by queries that each order by date as they like, together are the tenant's
  entries in the range, newest first, each once.
\<close>

theorem audit_pages_cover_the_log:
  assumes "\<And>k. sorter_law (srt k)" and "distinct (map al_createdAt (filter (in_audit_range t from until) rows))"
    and "1 \<le> l" "l \<le> 200" and "length (filter (in_audit_range t from until) rows) \<le> n * nat l"
  shows "concat (map (\<lambda>k. ap_data (listAuditLogs (srt k) t (int k + 1) l from until rows)) [0..<n]) =
    sort_key (\<lambda>r. - al_createdAt r) (filter (in_audit_range t from until) rows)"
proof -
  let ?q = "sort_key (\<lambda>r. - al_createdAt r) (filter (in_audit_range t from until) rows)"
  have "ap_data (listAuditLogs (srt k) t (int k + 1) l from until rows) = take (nat l) (drop (k * nat l) ?q)" for k
    using assms(4) sorter_unique [OF assms(1,2)] by (simp add: listAuditLogs_def Let_def nat_mult_distrib)
  then show ?thesis using pages_join [of "nat l" ?q n] assms(5) by simp
qed

text \<open>Whatever numbers a query gives, the endpoint reads at most 200 entries of the tenant, no deeper than page 1000.\<close>

lemma audit_index_bounds:
  assumes "sorter_law srt" and "audit_index srt parseDate findById i page limit from until rows = AuditPage a"
  shows "1 \<le> ap_currentPage a \<and> ap_currentPage a \<le> 1000 \<and> 1 \<le> ap_perPage a \<and> ap_perPage a \<le> 200 \<and>
    length (ap_data a) \<le> 200 \<and>
    (\<exists>t. loadTenantOr404 findById i = Found t \<and> (\<forall>r \<in> set (ap_data a). al_tenantId r = Some (t_id t)))"
proof -
  have set_srt: "set (srt xs) = set xs" for xs using assms(1) unfolding sorter_law_def by (metis set_mset_mset)
  obtain t where t: "loadTenantOr404 findById i = Found t"
    using assms(2) by (auto simp add: audit_index_def split: reply.splits)
  obtain a' b' where a: "a = listAuditLogs srt (t_id t) (clamp page 1 1000 1) (clamp limit 1 200 50) a' b' rows"
    using assms(2) t by (auto simp add: audit_index_def Let_def split: if_splits)
  have "1 \<le> clamp page 1 1000 1 \<and> clamp page 1 1000 1 \<le> 1000" "1 \<le> clamp limit 1 200 50 \<and> clamp limit 1 200 50 \<le> 200"
    by (simp_all add: clamp_range)
  then show ?thesis
    using t by (auto simp add: a listAuditLogs_def Let_def set_srt in_audit_range_def dest!: in_set_takeD in_set_dropD)
qed

text \<open>Entries of one date may be on two pages, or on none, when the queries order them differently.\<close>

lemma tied_entries_repeat:
  assumes "al_createdAt a = al_createdAt b" "al_tenantId a = Some t" "al_tenantId b = Some t"
    and "srt [a, b] = [a, b]" "srt' [a, b] = [b, a]"
  shows "ap_data (listAuditLogs srt t 1 1 None None [a, b]) = [a] \<and>
    ap_data (listAuditLogs srt' t 2 1 None None [a, b]) = [a]"
  using assms by (simp add: listAuditLogs_def in_audit_range_def)

section \<open>Flushing the counters\<close>

inductive scan_run :: "'w counter_ops \<Rightarrow> string \<Rightarrow> 'w \<Rightarrow> string \<Rightarrow> string list \<Rightarrow> bool" for ops pattern w where
  last: "co_scan ops pattern c w = (''0'', b) \<Longrightarrow> scan_run ops pattern w c b"
| more: "co_scan ops pattern c w = (c', b) \<Longrightarrow> c' \<noteq> ''0'' \<Longrightarrow> scan_run ops pattern w c' ks \<Longrightarrow>
    scan_run ops pattern w c (b @ ks)"

definition day_ok :: "string \<Rightarrow> bool" where
  "day_ok p \<longleftrightarrow> list_all (\<lambda>c. is_digit c \<or> c = CHR ''-'') p"

text \<open>
  The counters: increments add to one key, the expiry is two days away, and a
  scan returns to its start having given the existing keys of the pattern, perhaps
  some of them twice.
\<close>

definition counter_laws :: "'w counter_ops \<Rightarrow> bool" where
  "counter_laws ops \<longleftrightarrow>
     (\<forall>k k' n w. co_get ops k (co_incrby ops k' n w) =
        (if k = k' then Some (or_else (co_get ops k w) 0 + n) else co_get ops k w)) \<and>
     (\<forall>k k' n w. co_get ops k (co_expire ops k' n w) = co_get ops k w) \<and>
     (\<forall>p w. day_ok p \<longrightarrow> (\<exists>keys. scan_run ops (flush_pattern p) w ''0'' keys \<and>
        set keys = {k. (\<exists>t m. k = metric_key t m p) \<and> co_get ops k w \<noteq> None}))"

lemma counter_lawsD:
  assumes "counter_laws ops"
  shows "co_get ops k (co_incrby ops k' n w) = (if k = k' then Some (or_else (co_get ops k w) 0 + n) else co_get ops k w)"
    and "co_get ops k (co_expire ops k' s w) = co_get ops k w"
    and "day_ok p \<Longrightarrow> \<exists>keys. scan_run ops (flush_pattern p) w ''0'' keys \<and>
        set keys = {k. (\<exists>t m. k = metric_key t m p) \<and> co_get ops k w \<noteq> None}"
  using assms unfolding counter_laws_def by blast+

lemma scan_run_from: "scan_run ops pattern w c ks \<Longrightarrow> scan_from ops pattern w c acc = Some (acc @ ks)"
proof (induction arbitrary: acc rule: scan_run.induct)
  case (last c b)
  then show ?case by (subst scan_from.simps) simp
next
  case (more c c' b ks)
  then show ?case by (subst scan_from.simps) simp
qed

datatype metric_event = CountEvent metric_name string int | BandwidthEvent string int

fun metric_tenant :: "metric_event \<Rightarrow> string" where
  "metric_tenant (CountEvent m t n) = t"
| "metric_tenant (BandwidthEvent t n) = t"

fun event_metric :: "metric_event \<Rightarrow> string" where
  "event_metric (CountEvent MetricRequests t n) = ''requests''"
| "event_metric (CountEvent MetricErrors t n) = ''errors''"
| "event_metric (BandwidthEvent t n) = ''bandwidth''"

fun event_amount :: "metric_event \<Rightarrow> int" where
  "event_amount (CountEvent m t n) = n"
| "event_amount (BandwidthEvent t n) = n"

fun apply_event :: "'w counter_ops \<Rightarrow> string \<Rightarrow> metric_event \<Rightarrow> 'w \<Rightarrow> 'w" where
  "apply_event ops p (CountEvent m t n) w = increment ops p t m n w"
| "apply_event ops p (BandwidthEvent t n) w = trackBandwidth ops p t n w"

definition event_total :: "string \<Rightarrow> string \<Rightarrow> metric_event list \<Rightarrow> int" where
  "event_total t m evs =
     sum_list (map event_amount (filter (\<lambda>e. metric_tenant e = t \<and> event_metric e = m) evs))"

definition metric_names :: "string list" where
  "metric_names = [''requests'', ''errors'', ''bandwidth'']"

lemma apply_event_key:
  "apply_event ops p e w = add_counter ops (metric_key (metric_tenant e) (event_metric e) p) (event_amount e) w"
  by (cases "(ops, p, e, w)" rule: apply_event.cases) (auto simp add: increment_def trackBandwidth_def split: metric_name.splits)

lemma event_metric_name: "event_metric e \<in> set metric_names"
  by (cases e rule: event_metric.cases) (simp_all add: metric_names_def)

lemma key_parts:
  assumes "CHR '':'' \<notin> set t" "CHR '':'' \<notin> set p" "CHR '':'' \<notin> set m"
  shows "js_split (CHR '':'') (metric_key t m p) = [''metrics'', t, p, m]"
proof -
  have "metric_key t m p = js_join [CHR '':''] [''metrics'', t, p, m]"
    by (simp add: metric_key_def)
  moreover have "js_split (CHR '':'') (js_join [CHR '':''] [''metrics'', t, p, m]) = [''metrics'', t, p, m]"
    by (rule js_split_join) (use assms in auto)
  ultimately show ?thesis by (simp only:)
qed

lemma metric_key_inj:
  assumes "CHR '':'' \<notin> set t" "CHR '':'' \<notin> set p" "CHR '':'' \<notin> set m" "CHR '':'' \<notin> set t'" "CHR '':'' \<notin> set m'"
    and "metric_key t m p = metric_key t' m' p"
  shows "t = t' \<and> m = m'"
proof -
  have "[''metrics'', t, p, m] = [''metrics'', t', p, m']"
    using key_parts [OF assms(1-3)] key_parts [OF assms(4,2,5)] assms(6) by (simp only:)
  then show ?thesis by simp
qed

lemma metric_name_clean: "CHR '':'' \<notin> set (event_metric e)"
  by (cases e rule: event_metric.cases) simp_all

lemma day_ok_clean: "day_ok p \<Longrightarrow> CHR '':'' \<notin> set p"
  by (auto simp add: day_ok_def list_all_iff is_digit_def in_codes_def code_of_def)

definition event_key :: "string \<Rightarrow> metric_event \<Rightarrow> string" where
  "event_key p e = metric_key (metric_tenant e) (event_metric e) p"

text \<open>After a run of events every counter holds what was in it and the amounts of its events.\<close>

lemma get_after_events:
  assumes "counter_laws ops"
  shows "co_get ops k (fold (apply_event ops p) evs w) =
    (if k \<in> event_key p ` set evs
     then Some (or_else (co_get ops k w) 0 + sum_list (map event_amount (filter (\<lambda>e. event_key p e = k) evs)))
     else co_get ops k w)"
proof (induction evs arbitrary: w)
  case (Cons e evs)
  have "co_get ops k (apply_event ops p e w) =
      (if event_key p e = k then Some (or_else (co_get ops k w) 0 + event_amount e) else co_get ops k w)"
    using counter_lawsD(1,2) [OF assms] by (simp add: apply_event_key add_counter_def event_key_def)
  moreover have "filter (\<lambda>e. event_key p e = k) evs = []" if "k \<notin> event_key p ` set evs"
    using that by (auto simp add: filter_empty_conv)
  ultimately show ?case using Cons [of "apply_event ops p e w"] by (auto simp add: or_else_def)
qed simp

text \<open>The totals of one tenant, from keys whose parts are known.\<close>

definition counts_of :: "(string \<Rightarrow> int) \<Rightarrow> metric_counts" where
  "counts_of f = \<lparr>mc_requests = f ''requests'', mc_errors = f ''errors'', mc_bandwidth = f ''bandwidth''\<rparr>"

lemma no_counts_of: "no_counts = counts_of (\<lambda>m. 0)"
  by (simp add: no_counts_def counts_of_def)

lemma set_count_of: "set_count m v (counts_of f) = counts_of (f(m := v))"
  by (simp add: set_count_def counts_of_def)

definition held_count :: "'w counter_ops \<Rightarrow> 'w \<Rightarrow> string \<Rightarrow> (string \<times> string) list \<Rightarrow> string \<Rightarrow> string \<Rightarrow> int" where
  "held_count ops w p ps t m = (if (t, m) \<in> set ps then or_else (co_get ops (metric_key t m p) w) 0 else 0)"

lemma held_count_snoc:
  "held_count ops w p (ps @ [(t', m')]) t =
     (if t = t' then (held_count ops w p ps t)(m' := or_else (co_get ops (metric_key t' m' p) w) 0) else held_count ops w p ps t)"
  by (auto simp add: held_count_def fun_eq_iff)

lemma held_count_new: "t \<notin> fst ` set ps \<Longrightarrow> held_count ops w p ps t = (\<lambda>m. 0)"
  by (auto simp add: held_count_def fun_eq_iff image_iff)

lemma flush_keys:
  assumes clean: "\<And>t m. (t, m) \<in> set ps \<Longrightarrow> CHR '':'' \<notin> set t \<and> CHR '':'' \<notin> set m" and "CHR '':'' \<notin> set p"
  shows "jm_get t (fold (flush_key ops w) (map (\<lambda>(t, m). metric_key t m p) ps) []) =
    (if t \<in> fst ` set ps then Some (counts_of (held_count ops w p ps t)) else None)"
  using clean
proof (induction ps rule: rev_induct)
  case (snoc x ps)
  obtain t' m' where x: "x = (t', m')" by (cases x)
  let ?m = "fold (flush_key ops w) (map (\<lambda>(t, m). metric_key t m p) ps) []"
  have c: "CHR '':'' \<notin> set t'" "CHR '':'' \<notin> set m'" using snoc.prems [of t' m'] by (simp_all add: x)
  have parts: "js_split (CHR '':'') (metric_key t' m' p) = [''metrics'', t', p, m']"
    by (rule key_parts [OF c(1) assms(2) c(2)])
  have IH: "jm_get t ?m = (if t \<in> fst ` set ps then Some (counts_of (held_count ops w p ps t)) else None)"
    by (rule snoc.IH) (use snoc.prems in auto)
  have step: "jm_get t (flush_key ops w (metric_key t' m' p) ?m) =
      (if t = t' then Some (set_count m' (or_else (co_get ops (metric_key t' m' p) w) 0) (or_else (jm_get t ?m) no_counts))
       else jm_get t ?m)"
    by (simp add: flush_key_def parts js_map.get_put)
  show ?case
  proof (cases "t = t'")
    case True
    have "or_else (jm_get t ?m) no_counts = counts_of (held_count ops w p ps t)"
      by (simp add: IH or_else_def no_counts_of held_count_new)
    then show ?thesis using step True by (simp add: x set_count_of held_count_snoc)
  next
    case False
    then show ?thesis using step IH by (simp add: x held_count_snoc)
  qed
qed simp

definition metric_of :: "string \<Rightarrow> string \<Rightarrow> metric_row list \<Rightarrow> metric_row option" where
  "metric_of t q rows = find (\<lambda>r. me_tenantId r = t \<and> me_period r = q) rows"

lemma metric_of_upsert:
  "metric_of t q (upsert_metric n rows) =
     (if me_tenantId n = t \<and> me_period n = q then Some n else metric_of t q rows)"
  by (induction n rows rule: upsert_metric.induct) (auto simp add: metric_of_def)

lemma metric_of_upserts:
  assumes "jm_inv m"
  shows "metric_of t q (fold (\<lambda>(t, c). upsert_metric (counted_row t p c)) m rows) =
    (if q = p \<and> jm_get t m \<noteq> None then map_option (counted_row t p) (jm_get t m) else metric_of t q rows)"
  using assms
proof (induction m arbitrary: rows t q)
  case (Cons x m)
  obtain t' c where x: "x = (t', c)" by (cases x)
  have none: "jm_get t' m = None" and inv: "jm_inv m"
    using Cons.prems by (simp_all add: x jm_defs map_of_eq_None_iff)
  have row: "me_tenantId (counted_row t' p c) = t'" "me_period (counted_row t' p c) = p"
    by (simp_all add: counted_row_def)
  show ?case
    by (cases "t = t'") (auto simp add: x Cons.IH [OF inv] metric_of_upsert row none)
qed (simp add: jm_get_def)

lemma flush_keys_inv: "jm_inv m \<Longrightarrow> jm_inv (fold (flush_key ops w) ks m)"
  by (induction ks arbitrary: m) (simp_all add: flush_key_def Let_def js_map.inv_put)

lemma event_keys_clean:
  assumes "day_ok p" "CHR '':'' \<notin> set (metric_tenant e)" "CHR '':'' \<notin> set (metric_tenant e')"
  shows "event_key p e = event_key p e' \<longleftrightarrow> metric_tenant e = metric_tenant e' \<and> event_metric e = event_metric e'"
  unfolding event_key_def
  using metric_key_inj [OF assms(2) day_ok_clean [OF assms(1)] metric_name_clean assms(3) metric_name_clean] by auto

definition tenant_totals :: "string \<Rightarrow> metric_event list \<Rightarrow> metric_counts" where
  "tenant_totals t evs = counts_of (\<lambda>m. event_total t m evs)"

text \<open>What the keys hold after a day of events are the totals of the events.\<close>

lemma held_after_events:
  assumes "counter_laws ops" "day_ok p" and "\<And>t m. co_get ops (metric_key t m p) w = None"
    and clean: "\<And>e. e \<in> set evs \<Longrightarrow> CHR '':'' \<notin> set (metric_tenant e)"
    and ps: "set ps = (\<lambda>e. (metric_tenant e, event_metric e)) ` set evs"
  shows "held_count ops (fold (apply_event ops p) evs w) p ps t m = event_total t m evs"
proof (cases "(t, m) \<in> set ps")
  case True
  then obtain e where e: "e \<in> set evs" "t = metric_tenant e" "m = event_metric e" unfolding ps by auto
  have same: "filter (\<lambda>e'. event_key p e' = event_key p e) evs =
      filter (\<lambda>e'. metric_tenant e' = metric_tenant e \<and> event_metric e' = event_metric e) evs"
    by (rule filter_cong) (use event_keys_clean [OF assms(2)] clean e(1) in auto)
  have "co_get ops (event_key p e) (fold (apply_event ops p) evs w) =
      Some (sum_list (map event_amount (filter (\<lambda>e'. event_key p e' = event_key p e) evs)))"
    using get_after_events [OF assms(1), of "event_key p e"] e(1) assms(3) by (simp add: event_key_def or_else_def)
  then show ?thesis using True e same by (simp add: held_count_def event_total_def or_else_def event_key_def)
next
  case False
  then have "filter (\<lambda>e. metric_tenant e = t \<and> event_metric e = m) evs = []"
    unfolding ps by (auto simp add: filter_empty_conv)
  then show ?thesis using False by (simp add: held_count_def event_total_def)
qed

text \<open>
  C23. A flush at the end of a day stores exactly what the day counted: if no
  counter of the day existed before, then after any run of events of that day, in
  any order and for any tenants whose ids have no colon, the flush returns and the
  row of every tenant of the day with an event holds the totals of its requests,
  errors and bytes, while every other row of the table, of any tenant or day, is
  the row it was.
\<close>

theorem flush_counts_the_day:
  assumes "counter_laws ops" "day_ok p" and "\<And>t m. co_get ops (metric_key t m p) w = None"
    and "\<And>e. e \<in> set evs \<Longrightarrow> CHR '':'' \<notin> set (metric_tenant e)"
  shows "\<exists>rows'. flush_metrics ops now (Some p) (fold (apply_event ops p) evs w) rows = Some rows' \<and>
    (\<forall>t q. metric_of t q rows' =
      (if q = p \<and> t \<in> metric_tenant ` set evs then Some (counted_row t p (tenant_totals t evs))
       else metric_of t q rows))"
proof -
  let ?w = "fold (apply_event ops p) evs w"
  obtain keys where keys: "scan_run ops (flush_pattern p) ?w ''0'' keys"
      "set keys = {k. (\<exists>t m. k = metric_key t m p) \<and> co_get ops k ?w \<noteq> None}"
    using counter_lawsD(3) [OF assms(1,2)] by blast
  have "co_get ops (metric_key t m p) ?w \<noteq> None \<longleftrightarrow> metric_key t m p \<in> event_key p ` set evs" for t m
    using get_after_events [OF assms(1), of "metric_key t m p"] assms(3) by simp
  then have set_keys: "set keys = event_key p ` set evs"
    unfolding keys(2) by (auto simp add: event_key_def)
  define ps where "ps = map (\<lambda>k. (js_split (CHR '':'') k ! 1, js_split (CHR '':'') k ! 3)) keys"
  have parts: "js_split (CHR '':'') (event_key p e) = [''metrics'', metric_tenant e, p, event_metric e]"
    if "e \<in> set evs" for e
    unfolding event_key_def by (rule key_parts [OF assms(4) [OF that] day_ok_clean [OF assms(2)] metric_name_clean])
  have ps: "set ps = (\<lambda>e. (metric_tenant e, event_metric e)) ` set evs"
    using parts by (force simp add: ps_def set_keys image_iff)
  have keys_ps: "keys = map (\<lambda>(t, m). metric_key t m p) ps"
    unfolding ps_def map_map comp_def
    by (rule map_idI [symmetric]) (use parts in \<open>auto simp add: set_keys event_key_def\<close>)
  let ?m = "fold (flush_key ops ?w) keys []"
  have "jm_get t ?m = (if t \<in> metric_tenant ` set evs then Some (tenant_totals t evs) else None)" for t
  proof -
    have "jm_get t ?m = (if t \<in> fst ` set ps then Some (counts_of (held_count ops ?w p ps t)) else None)"
      unfolding keys_ps by (rule flush_keys [OF _ day_ok_clean [OF assms(2)]]) (use assms(4) metric_name_clean in \<open>auto simp add: ps\<close>)
    moreover have "held_count ops ?w p ps t = (\<lambda>m. event_total t m evs)"
      using held_after_events [OF assms(1-4) ps] by (rule ext)
    moreover have "fst ` set ps = metric_tenant ` set evs" unfolding ps image_image by simp
    ultimately show ?thesis by (simp add: tenant_totals_def)
  qed
  moreover have "jm_inv ?m" by (rule flush_keys_inv) simp
  ultimately have "metric_of t q (fold (\<lambda>(t, c). upsert_metric (counted_row t p c)) ?m rows) =
      (if q = p \<and> t \<in> metric_tenant ` set evs then Some (counted_row t p (tenant_totals t evs)) else metric_of t q rows)" for t q
    by (simp add: metric_of_upserts)
  moreover have "scanKeys ops (flush_pattern p) ?w = Some keys"
    using scan_run_from [OF keys(1), of "[]"] by (simp add: scanKeys_def)
  ultimately show ?thesis by (simp add: flush_metrics_def or_else_def)
qed

text \<open>A store of counters in a map, whose scan answers once.\<close>

definition demo_counters :: "(string, int) jmap counter_ops" where
  "demo_counters = \<lparr>
     co_incrby = (\<lambda>k n w. jm_set k (or_else (jm_get k w) 0 + n) w), co_expire = (\<lambda>k n w. w), co_get = jm_get,
     co_scan = (\<lambda>pattern cursor w.
       (''0'', filter (\<lambda>k. starts_with ''metrics:'' k \<and>
          js_includes (butlast (drop 9 pattern)) (drop 8 k)) (jm_keys w)))\<rparr>"

lemma metric_key_glob:
  "(starts_with ''metrics:'' k \<and> js_includes ('':'' @ p @ '':'') (drop 8 k)) \<longleftrightarrow> (\<exists>t m. k = metric_key t m p)"
proof -
  have "starts_with ''metrics:'' k \<longleftrightarrow> (\<exists>r. k = ''metrics:'' @ r)" by (rule starts_with_iff)
  then show ?thesis by (auto simp add: metric_key_def js_includes_iff; blast)
qed

lemma demo_counters_laws: "counter_laws demo_counters"
proof -
  have "\<exists>keys. scan_run demo_counters (flush_pattern p) w ''0'' keys \<and>
      set keys = {k. (\<exists>t m. k = metric_key t m p) \<and> co_get demo_counters k w \<noteq> None}" for p w
  proof (intro exI conjI)
    let ?b = "filter (\<lambda>k. starts_with ''metrics:'' k \<and> js_includes ('':'' @ p @ '':'') (drop 8 k)) (jm_keys w)"
    show "scan_run demo_counters (flush_pattern p) w ''0'' ?b"
      by (rule scan_run.last) (simp add: demo_counters_def flush_pattern_def butlast_append)
    show "set ?b = {k. (\<exists>t m. k = metric_key t m p) \<and> co_get demo_counters k w \<noteq> None}"
      unfolding metric_key_glob by (auto simp add: demo_counters_def js_map.in_keys)
  qed
  then show ?thesis by (auto simp add: counter_laws_def demo_counters_def js_map.get_put)
qed

theorem flush_counts_the_day_witness:
  "\<exists>rows'. flush_metrics demo_counters [] (Some ''2026-01-02'')
      (fold (apply_event demo_counters ''2026-01-02'') [CountEvent MetricRequests ''a'' 2, BandwidthEvent ''a'' 9] [])
      [] = Some rows' \<and>
    metric_of ''a'' ''2026-01-02'' rows' =
      Some \<lparr>me_tenantId = ''a'', me_period = ''2026-01-02'', me_requestCount = 2, me_errorCount = 0,
        me_bandwidthBytes = 9\<rparr>"
proof -
  let ?evs = "[CountEvent MetricRequests ''a'' 2, BandwidthEvent ''a'' 9]"
  have "\<exists>rows'. flush_metrics demo_counters [] (Some ''2026-01-02'')
      (fold (apply_event demo_counters ''2026-01-02'') ?evs []) [] = Some rows' \<and>
    (\<forall>t q. metric_of t q rows' =
      (if q = ''2026-01-02'' \<and> t \<in> metric_tenant ` set ?evs then Some (counted_row t ''2026-01-02'' (tenant_totals t ?evs))
       else metric_of t q []))"
    by (rule flush_counts_the_day [OF demo_counters_laws])
      (auto simp add: day_ok_def is_digit_def in_codes_def code_of_def demo_counters_def)
  moreover have "counted_row ''a'' ''2026-01-02'' (tenant_totals ''a'' ?evs) =
      \<lparr>me_tenantId = ''a'', me_period = ''2026-01-02'', me_requestCount = 2, me_errorCount = 0, me_bandwidthBytes = 9\<rparr>"
    by code_simp
  ultimately show ?thesis by auto
qed

text \<open>
  The flush of one day reads no key of another: what a day counted after its last
  flush stays in keys the scheduled command does not read.
\<close>

lemma flush_skips_other_days:
  assumes "flush_metrics ops now None w rows = Some rows'" and "q \<noteq> now"
  shows "metric_of t q rows' = metric_of t q rows"
proof -
  have "metric_of t q (fold (\<lambda>(t, c). upsert_metric (counted_row t now c)) m rows) = metric_of t q rows" for m
    using assms(2)
    by (induction m arbitrary: rows) (auto simp add: metric_of_upsert counted_row_def)
  then show ?thesis using assms(1) by (auto simp add: flush_metrics_def or_else_def split: option.splits)
qed

text \<open>
  The witness of the paging: two entries, one per page.
\<close>

theorem audit_pages_cover_the_log_witness:
  "(let row = (\<lambda>i d. \<lparr>al_id = i, al_tenantId = Some ''t'', al_actorType = ActorAdmin, al_actorId = None, al_action = ''x'',
        al_metadata = SNull, al_ipAddress = None, al_createdAt = d\<rparr>);
        srt = sort_key (\<lambda>r. - al_createdAt r) in
    concat (map (\<lambda>k. ap_data (listAuditLogs srt ''t'' (int k + 1) 1 None None [row ''a'' 1, row ''b'' 2])) [0..<2]) =
    [row ''b'' 2, row ''a'' 1])"
proof -
  define row :: "string \<Rightarrow> int \<Rightarrow> audit_row" where
    "row = (\<lambda>i d. \<lparr>al_id = i, al_tenantId = Some ''t'', al_actorType = ActorAdmin, al_actorId = None, al_action = ''x'',
        al_metadata = SNull, al_ipAddress = None, al_createdAt = d\<rparr>)"
  have "sorter_law (sort_key (\<lambda>r. - al_createdAt r))" by (simp add: sorter_law_def)
  then have "concat (map (\<lambda>k. ap_data (listAuditLogs (sort_key (\<lambda>r. - al_createdAt r)) ''t'' (int k + 1) 1 None None
      [row ''a'' 1, row ''b'' 2])) [0..<2]) =
    sort_key (\<lambda>r. - al_createdAt r) (filter (in_audit_range ''t'' None None) [row ''a'' 1, row ''b'' 2])"
    by (intro audit_pages_cover_the_log) (simp_all add: in_audit_range_def row_def)
  then show ?thesis by (simp add: Let_def in_audit_range_def row_def)
qed

end
