(* ===== verification/Responses.thy ===== *)
theory Responses
  imports Activity Webhook Sso Lifecycle
begin

text \<open>
  The objects the admin endpoints answer with, as JSON, and what it means that they
  have the shape the OpenAPI document gives them: the part of JSON Schema the
  document uses, with a bound on the number of references followed.
\<close>

section \<open>JSON Schema\<close>

definition type_ok :: "string \<Rightarrow> spec_json \<Rightarrow> bool" where
  "type_ok t v =
     (case v of
        SNull \<Rightarrow> t = ''null''
      | SBool _ \<Rightarrow> t = ''boolean''
      | SNum _ \<Rightarrow> t = ''integer'' \<or> t = ''number''
      | SStr _ \<Rightarrow> t = ''string''
      | SArr _ \<Rightarrow> t = ''array''
      | SObj _ \<Rightarrow> t = ''object'')"

definition types_ok :: "spec_json option \<Rightarrow> spec_json \<Rightarrow> bool" where
  "types_ok ty v =
     (case ty of
        None \<Rightarrow> True
      | Some (SStr t) \<Rightarrow> type_ok t v
      | Some (SArr ts) \<Rightarrow> list_ex (\<lambda>t. case t of SStr s \<Rightarrow> type_ok s v | _ \<Rightarrow> False) ts
      | _ \<Rightarrow> False)"

definition enum_ok :: "spec_json option \<Rightarrow> spec_json \<Rightarrow> bool" where
  "enum_ok en v = (case en of Some (SArr vs) \<Rightarrow> v \<in> set vs | _ \<Rightarrow> True)"

definition required_ok :: "spec_json option \<Rightarrow> spec_json \<Rightarrow> bool" where
  "required_ok rq v =
     (case (rq, v) of
        (Some (SArr rs), SObj es) \<Rightarrow> list_all (\<lambda>r. case r of SStr k \<Rightarrow> jm_has k es | _ \<Rightarrow> False) rs
      | _ \<Rightarrow> True)"

fun conforms :: "(string \<times> spec_json) list \<Rightarrow> nat \<Rightarrow> spec_json \<Rightarrow> spec_json \<Rightarrow> bool" where
  "conforms schemas 0 sch v = False"
| "conforms schemas (Suc n) sch v =
     (case sch of
        SObj ks \<Rightarrow>
          (case jm_get ''$ref'' ks of
             Some (SStr r) \<Rightarrow>
               (case jm_get (drop 21 r) schemas of None \<Rightarrow> False | Some s \<Rightarrow> conforms schemas n s v)
           | _ \<Rightarrow>
               types_ok (jm_get ''type'' ks) v \<and> enum_ok (jm_get ''enum'' ks) v \<and> required_ok (jm_get ''required'' ks) v \<and>
               (case (jm_get ''items'' ks, v) of
                  (Some s, SArr vs) \<Rightarrow> list_all (conforms schemas n s) vs
                | _ \<Rightarrow> True) \<and>
               (case (jm_get ''properties'' ks, v) of
                  (Some (SObj ps), SObj es) \<Rightarrow>
                    list_all (\<lambda>(k, x). case jm_get k ps of None \<Rightarrow> True | Some s \<Rightarrow> conforms schemas n s x) es
                | _ \<Rightarrow> True))
      | _ \<Rightarrow> False)"

text \<open>The keys a schema gives its objects.\<close>

definition schema_keys :: "spec_json \<Rightarrow> string list" where
  "schema_keys sch =
     (case sch of
        SObj ks \<Rightarrow> (case jm_get ''properties'' ks of Some (SObj ps) \<Rightarrow> jm_keys ps | _ \<Rightarrow> [])
      | _ \<Rightarrow> [])"

definition object_keys :: "spec_json \<Rightarrow> string list" where
  "object_keys v = (case v of SObj es \<Rightarrow> jm_keys es | _ \<Rightarrow> [])"

definition documented :: "string \<Rightarrow> spec_json \<Rightarrow> bool" where
  "documented name v \<longleftrightarrow>
     conforms spec_schemas 4 (ref name) v \<and>
     (case jm_get name spec_schemas of None \<Rightarrow> False | Some sch \<Rightarrow> object_keys v = schema_keys sch)"

section \<open>The answers\<close>

definition tenant_response :: "(int \<Rightarrow> string) \<Rightarrow> (tenant \<Rightarrow> string) \<Rightarrow> spec_json \<Rightarrow> tenant \<Rightarrow> spec_json" where
  "tenant_response toISO schemaName metadata t =
     (let j = serialize toISO schemaName t in
      SObj [(''id'', SStr (tj_id j)), (''name'', SStr (tj_name j)), (''email'', SStr (tj_email j)),
            (''status'', SStr (status_name (tj_status j))), (''customDomain'', json_text (tj_customDomain j)),
            (''schemaName'', SStr (tj_schemaName j)), (''createdAt'', SStr (tj_createdAt j)),
            (''deletedAt'', json_text (tj_deletedAt j)), (''isActive'', SBool (tj_isActive j)),
            (''isDeleted'', SBool (tj_isDeleted j)), (''metadata'', metadata)])"

definition webhook_response :: "(int \<Rightarrow> string) \<Rightarrow> TenantWebhook \<Rightarrow> spec_json" where
  "webhook_response toISO w =
     (let j = serialize_webhook w in
      SObj [(''id'', SStr (wj_id j)), (''tenantId'', SStr (wj_tenantId j)), (''url'', SStr (wj_url j)),
            (''events'', SArr (map SStr (wj_events j))), (''enabled'', SBool (wj_enabled j)),
            (''hasSecret'', SBool (wj_hasSecret j)), (''createdAt'', SStr (toISO (wj_createdAt j))),
            (''updatedAt'', SStr (toISO (wj_updatedAt j)))])"

fun delivery_status_name :: "DeliveryStatus \<Rightarrow> string" where
  "delivery_status_name DPending = ''pending''"
| "delivery_status_name DSuccess = ''success''"
| "delivery_status_name DFailed = ''failed''"
| "delivery_status_name DRetrying = ''retrying''"

definition delivery_response :: "(int \<Rightarrow> string) \<Rightarrow> 'p TenantWebhookDelivery \<Rightarrow> spec_json" where
  "delivery_response toISO d =
     (let j = serializeDelivery d in
      SObj [(''id'', SStr (dj_id j)), (''webhookId'', SStr (dj_webhookId j)), (''event'', SStr (dj_event j)),
            (''status'', SStr (delivery_status_name (dj_status j))),
            (''statusCode'', (case dj_statusCode j of None \<Rightarrow> SNull | Some n \<Rightarrow> SNum n)),
            (''attempt'', SNum (int (dj_attempt j))),
            (''nextRetryAt'', json_text (map_option toISO (dj_nextRetryAt j))),
            (''createdAt'', SStr (toISO (dj_createdAt j)))])"

definition sso_response :: "(int \<Rightarrow> string) \<Rightarrow> TenantSsoConfig \<Rightarrow> spec_json" where
  "sso_response toISO c =
     (let j = serialize_sso c in
      SObj [(''id'', SStr (sj_id j)), (''tenantId'', SStr (sj_tenantId j)), (''provider'', SStr (sj_provider j)),
            (''clientId'', SStr (sj_clientId j)), (''issuerUrl'', SStr (sj_issuerUrl j)),
            (''redirectUri'', SStr (sj_redirectUri j)), (''scopes'', SArr (map SStr (sj_scopes j))),
            (''enabled'', SBool (sj_enabled j)), (''hasClientSecret'', SBool (sj_hasClientSecret j)),
            (''createdAt'', SStr (toISO (sj_createdAt j))), (''updatedAt'', SStr (toISO (sj_updatedAt j)))])"

definition queue_response :: "TenantQueueStats \<Rightarrow> spec_json" where
  "queue_response q =
     SObj [(''tenantId'', SStr (qs_tenantId q)), (''queueName'', SStr (qs_queueName q)),
           (''waiting'', SNum (int (qs_waiting q))), (''active'', SNum (int (qs_active q))),
           (''completed'', SNum (int (qs_completed q))), (''failed'', SNum (int (qs_failed q))),
           (''delayed'', SNum (int (qs_delayed q)))]"

section \<open>They conform\<close>

lemmas schema_lists =
  spec_schemas_def tenant_schemas_def webhook_schemas_def flag_branding_schemas_def sso_metric_schemas_def report_schemas_def

lemmas schema_eval =
  documented_def ref_def numeral_eq_Suc types_ok_def enum_ok_def required_ok_def schema_keys_def object_keys_def
  jm_keys_def jm_has_def

lemma type_ok_simps [simp]:
  "type_ok t SNull \<longleftrightarrow> t = ''null''" "type_ok t (SBool b) \<longleftrightarrow> t = ''boolean''"
  "type_ok t (SNum n) \<longleftrightarrow> t = ''integer'' \<or> t = ''number''" "type_ok t (SStr s) \<longleftrightarrow> t = ''string''"
  "type_ok t (SArr vs) \<longleftrightarrow> t = ''array''" "type_ok t (SObj es) \<longleftrightarrow> t = ''object''"
  by (simp_all add: type_ok_def)

lemma nullable_ok [simp]: "type_ok ''string'' (json_text v) \<or> type_ok ''null'' (json_text v)"
  by (simp add: json_text_def split: option.split)

lemma webhook_documented: "documented ''Webhook'' (webhook_response toISO w)"
  by (simp add: schema_lists schema_eval webhook_response_def Let_def list_all_iff)

lemma tenant_documented:
  assumes "type_ok ''object'' metadata \<or> type_ok ''null'' metadata"
  shows "documented ''Tenant'' (tenant_response toISO schemaName metadata t)"
proof -
  have "status_name st = ''provisioning'' \<or> status_name st = ''active'' \<or> status_name st = ''suspended'' \<or>
      status_name st = ''failed'' \<or> status_name st = ''deleted''" for st
    by (cases st) simp_all
  then show ?thesis using assms
    by (simp add: schema_lists schema_eval tenant_response_def serialize_def Let_def)
qed

lemma delivery_documented: "documented ''WebhookDelivery'' (delivery_response toISO d)"
proof -
  have "delivery_status_name st = ''pending'' \<or> delivery_status_name st = ''success'' \<or>
      delivery_status_name st = ''failed'' \<or> delivery_status_name st = ''retrying''" for st
    by (cases st) simp_all
  then show ?thesis
    by (simp add: schema_lists schema_eval delivery_response_def serializeDelivery_def Let_def split: option.split)
qed

lemma flag_documented:
  assumes "type_ok ''object'' (fr_config f) \<or> type_ok ''null'' (fr_config f)"
  shows "documented ''FeatureFlag'' (serialize_flag toISO f)"
  using assms by (simp add: schema_lists schema_eval serialize_flag_def)

lemma branding_documented: "documented ''Branding'' (serialize_branding toISO b)"
  by (simp add: schema_lists schema_eval serialize_branding_def split: option.split)

lemma sso_documented: "documented ''SsoConfig'' (sso_response toISO c)"
  by (simp add: schema_lists schema_eval sso_response_def Let_def list_all_iff)

lemma metric_documented: "documented ''Metric'' (serialize_metric m)"
  by (simp add: schema_lists schema_eval serialize_metric_def)

lemma queue_documented: "documented ''QueueStats'' (queue_response q)"
  by (simp add: schema_lists schema_eval queue_response_def)


definition sample_flag :: "spec_json \<Rightarrow> flag_row" where
  "sample_flag cfg = \<lparr>fr_id = ''1'', fr_tenantId = ''a'', fr_flag = ''beta'', fr_enabled = True, fr_config = cfg,
     fr_createdAt = 0, fr_updatedAt = 0\<rparr>"


text \<open>A configuration that is no object, which the endpoint accepts, is answered against the document.\<close>

lemma stray_config_undocumented:
  "\<not> documented ''FeatureFlag'' (serialize_flag toISO (sample_flag (SNum 3)))"
  by (simp add: schema_lists schema_eval serialize_flag_def sample_flag_def)

end
