(* ===== verification/Outbound.thy ===== *)
theory Outbound
  imports Bootstrap Middleware
begin

text \<open>
  What leaves a tenant's scope: services/bootstrappers/mail_bootstrapper.ts (the
  tenant mailer and mail objects), transmit_bootstrapper.ts (broadcasts),
  services/telemetry_service.ts (spans) and services/tenant_log_context.ts (log
  bindings). The mail, broadcast and tracing packages are parameters.
\<close>

section \<open>The tenant mailer\<close>

text \<open>
  A mail object composes its own message in \<open>prepare\<close>, which gets an argument or
  none. Objects are shared, so they are addresses of a store.
\<close>

record mail_object =
  mo_message :: mail_message
  mo_prepare :: "mail_message option \<Rightarrow> mail_message \<Rightarrow> mail_message option \<times> mail_message"

type_synonym mail_heap = "nat \<Rightarrow> mail_object option"

datatype mail_arg = ComposeCallback "mail_message \<Rightarrow> mail_message" | MailObject nat | OtherMail

definition wrapped_prepare ::
  "string \<Rightarrow> (mail_message option \<Rightarrow> mail_message \<Rightarrow> mail_message option \<times> mail_message) \<Rightarrow>
   mail_message option \<Rightarrow> mail_message \<Rightarrow> mail_message option \<times> mail_message"
where
  "wrapped_prepare tenantId prepare arg own =
     (let (arg', own') = prepare arg own in (map_option (\<lambda>m. stampHeader m tenantId) arg', own'))"

definition wrap_mail :: "mail_arg \<Rightarrow> string \<Rightarrow> mail_heap \<Rightarrow> mail_arg \<times> mail_heap" where
  "wrap_mail x tenantId h =
     (case x of
        ComposeCallback f \<Rightarrow> (ComposeCallback (wrapWithTenantHeader f tenantId), h)
      | MailObject a \<Rightarrow>
          (case h a of
             None \<Rightarrow> (x, h)
           | Some mo \<Rightarrow> (x, h(a \<mapsto> mo\<lparr>mo_prepare := wrapped_prepare tenantId (mo_prepare mo)\<rparr>)))
      | OtherMail \<Rightarrow> (x, h))"

datatype mailer_call = Send mail_arg | SendLater mail_arg | OtherMember string

text \<open>The handle: its transport (the default one when no name is given) and the tenant it stamps.\<close>

definition tenantMailer :: "string option \<Rightarrow> string option \<Rightarrow> scope_error + (string option \<times> string)" where
  "tenantMailer cur transportName =
     (case current_safe cur of Inl e \<Rightarrow> Inl e | Inr i \<Rightarrow> Inr (truthy transportName, i))"

definition mailer_proxy :: "string \<Rightarrow> mailer_call \<Rightarrow> mail_heap \<Rightarrow> mailer_call \<times> mail_heap" where
  "mailer_proxy tenantId call h =
     (case call of
        Send x \<Rightarrow> (let (x', h') = wrap_mail x tenantId h in (Send x', h'))
      | SendLater x \<Rightarrow> (let (x', h') = wrap_mail x tenantId h in (SendLater x', h'))
      | OtherMember m \<Rightarrow> (OtherMember m, h))"

text \<open>
  The message the package sends. \<open>passes\<close> tells whether it hands a message to a
  mail object's \<open>prepare\<close>, which then is the message sent; otherwise \<open>prepare\<close>
  works on the object's own message.
\<close>

definition composed :: "bool \<Rightarrow> mail_message \<Rightarrow> mail_heap \<Rightarrow> mail_arg \<Rightarrow> mail_message option" where
  "composed passes fresh h x =
     (case x of
        ComposeCallback f \<Rightarrow> Some (f fresh)
      | MailObject a \<Rightarrow>
          map_option (\<lambda>mo. if passes then or_else (fst (mo_prepare mo (Some fresh) (mo_message mo))) fresh
            else snd (mo_prepare mo None (mo_message mo))) (h a)
      | OtherMail \<Rightarrow> None)"

section \<open>Broadcasts\<close>

text \<open>The prefix is a variable of the module, which every new bootstrapper sets.\<close>

definition TENANT_BROADCAST_PREFIX :: string where
  "TENANT_BROADCAST_PREFIX = ''tenants/''"

definition createTransmitBootstrapper :: "string option \<Rightarrow> string \<Rightarrow> string" where
  "createTransmitBootstrapper prefix configuredPrefix = or_else prefix TENANT_BROADCAST_PREFIX"

definition tenantBroadcast ::
  "string \<Rightarrow> string option \<Rightarrow> string \<Rightarrow> 'p \<Rightarrow> (string \<times> 'p) list \<Rightarrow> scope_error + (string \<times> 'p) list"
where
  "tenantBroadcast configuredPrefix cur channel payload wire =
     (case tenantChannel configuredPrefix cur channel of
        Inl e \<Rightarrow> Inl e
      | Inr c \<Rightarrow> Inr (wire @ [(c, payload)]))"

section \<open>Spans\<close>

datatype span_status = SpanUnset | SpanOk | SpanError string

record span =
  sp_name :: string
  sp_attributes :: "(string, string) jmap"
  sp_status :: span_status
  sp_exceptions :: "string list"
  sp_ended :: bool

record 'w traced =
  tr_world :: 'w
  tr_spans :: "span list"
  tr_active :: "nat option"

definition update_span :: "nat \<Rightarrow> (span \<Rightarrow> span) \<Rightarrow> 'w traced \<Rightarrow> 'w traced" where
  "update_span i f s = (if i < length (tr_spans s) then s\<lparr>tr_spans := (tr_spans s)[i := f (tr_spans s ! i)]\<rparr> else s)"

text \<open>\<open>show_err\<close> is \<open>String(err)\<close>.\<close>

definition withSpan ::
  "('e \<Rightarrow> string) \<Rightarrow> string \<Rightarrow> (string, string) jmap \<Rightarrow> (nat \<Rightarrow> ('w traced, 'e, 'a) M) \<Rightarrow> ('w traced, 'e, 'a) M"
where
  "withSpan show_err name attributes fn s =
     (let i = length (tr_spans s);
          opened = s\<lparr>tr_spans := tr_spans s @ [\<lparr>sp_name = name, sp_attributes = attributes, sp_status = SpanUnset,
            sp_exceptions = [], sp_ended = False\<rparr>], tr_active := Some i\<rparr>
      in case fn i opened of
           (Inr a, t) \<Rightarrow>
             (Inr a, (update_span i (\<lambda>p. p\<lparr>sp_status := SpanOk, sp_ended := True\<rparr>) t)\<lparr>tr_active := tr_active s\<rparr>)
         | (Inl e, t) \<Rightarrow>
             (Inl e, (update_span i (\<lambda>p. p\<lparr>sp_status := SpanError (show_err e),
                sp_exceptions := sp_exceptions p @ [show_err e], sp_ended := True\<rparr>) t)\<lparr>tr_active := tr_active s\<rparr>))"

definition setTenant :: "string \<Rightarrow> 'w traced \<Rightarrow> 'w traced" where
  "setTenant tenantId s =
     (case tr_active s of
        None \<Rightarrow> s
      | Some i \<Rightarrow> update_span i (\<lambda>p. p\<lparr>sp_attributes := jm_set ''tenant.id'' tenantId (sp_attributes p)\<rparr>) s)"

section \<open>Log bindings\<close>

definition log_current :: "log_ctx \<Rightarrow> string option" where
  "log_current ctx = ctx"

text \<open>\<open>child\<close> is the logger's own.\<close>

definition log_bind :: "('l \<Rightarrow> string \<Rightarrow> 'l) \<Rightarrow> log_ctx \<Rightarrow> 'l \<Rightarrow> 'l" where
  "log_bind child ctx logger = (case log_current ctx of None \<Rightarrow> logger | Some i \<Rightarrow> child logger i)"

section \<open>The header of a tenant's mail\<close>

lemma stamped:
  "m_hasHeader m \<Longrightarrow> m_headers (stampHeader m i) ''X-Tenant-Id'' =
     Some (or_else (m_headers m ''X-Tenant-Id'') i)"
  by (auto simp add: stampHeader_def or_else_def)

lemma stamped_rest: "k \<noteq> ''X-Tenant-Id'' \<Longrightarrow> m_headers (stampHeader m i) k = m_headers m k"
  by (auto simp add: stampHeader_def)

lemma stampHeader_twice:
  assumes "m_hasHeader m" shows "stampHeader (stampHeader m i) j = stampHeader m i"
  using assms by (auto simp add: stampHeader_def)

text \<open>
  A message sent through the tenant mailer says whose it is: outside a scope
  there is no mailer; inside, a composed message that has a header method is sent
  with the header of the tenant of the scope unless the callback set one, its other
  headers are those the callback set, the transport is the one asked for, and the
  mail objects of the program are left as they were.
\<close>

theorem tenant_mail_is_stamped:
  assumes "tenantMailer cur transportName = Inr (tr, i)" and "call = Send (ComposeCallback f) \<or> call = SendLater (ComposeCallback f)"
    and "m_hasHeader (f fresh)"
  shows "cur = Some i \<and> SAFE_IDENT i \<and> tr = truthy transportName \<and>
    (\<exists>g. mailer_proxy i call h \<in> {(Send (ComposeCallback g), h), (SendLater (ComposeCallback g), h)} \<and>
      composed passes fresh h (ComposeCallback g) = Some (stampHeader (f fresh) i) \<and>
      m_headers (stampHeader (f fresh) i) ''X-Tenant-Id'' = Some (or_else (m_headers (f fresh) ''X-Tenant-Id'') i))"
proof (intro conjI exI [of _ "wrapWithTenantHeader f i"])
  show "cur = Some i" "SAFE_IDENT i" "tr = truthy transportName"
    using assms(1) by (auto simp add: tenantMailer_def current_safe_Some split: sum.splits)
  show "mailer_proxy i call h \<in> {(Send (ComposeCallback (wrapWithTenantHeader f i)), h),
      (SendLater (ComposeCallback (wrapWithTenantHeader f i)), h)}"
    using assms(2) by (auto simp add: mailer_proxy_def wrap_mail_def)
  show "composed passes fresh h (ComposeCallback (wrapWithTenantHeader f i)) = Some (stampHeader (f fresh) i)"
    by (simp add: composed_def wrapWithTenantHeader_def)
qed (rule stamped [OF assms(3)])

definition blank_mail :: mail_message where
  "blank_mail = \<lparr>m_hasHeader = True, m_headers = (\<lambda>_. None)\<rparr>"

theorem tenant_mail_is_stamped_witness:
  "\<exists>g. composed False blank_mail (\<lambda>_. None) (ComposeCallback g) = Some (stampHeader blank_mail ''acme'') \<and>
     m_headers (stampHeader blank_mail ''acme'') ''X-Tenant-Id'' = Some ''acme''"
proof -
  have "tenantMailer (Some ''acme'') None = Inr (None, ''acme'')" by code_simp
  from tenant_mail_is_stamped [OF this, of "Send (ComposeCallback (\<lambda>m. m))" "\<lambda>m. m" blank_mail "\<lambda>_. None" False]
  show ?thesis by (auto simp add: blank_mail_def or_else_def)
qed

text \<open>
  A mail object whose package calls \<open>prepare\<close> without an argument, as mail classes
  that compose \<open>this.message\<close> expect, is sent without the header.
\<close>

lemma mail_object_not_stamped:
  assumes "h a = Some mo"
  shows "composed False fresh (snd (wrap_mail (MailObject a) i h)) (MailObject a) =
    Some (snd (mo_prepare mo None (mo_message mo)))"
  using assms by (simp add: composed_def wrap_mail_def wrapped_prepare_def split: prod.splits)

text \<open>
  The object is changed for good: sent again in another tenant's scope, with a
  message passed, it carries the header of the tenant that sent it first.
\<close>

lemma resent_mail_keeps_first_tenant:
  assumes "h a = Some mo" "mo_prepare mo (Some fresh) (mo_message mo) = (Some m, own)" "m_hasHeader m"
    "m_headers m ''X-Tenant-Id'' = None"
  shows "map_option (\<lambda>m. m_headers m ''X-Tenant-Id'')
    (composed True fresh (snd (wrap_mail (MailObject a) j (snd (wrap_mail (MailObject a) i h)))) (MailObject a)) =
    Some (Some i)"
  using assms by (simp add: composed_def wrap_mail_def wrapped_prepare_def or_else_def stampHeader_def)

section \<open>Broadcasts stay under the tenant\<close>

lemma broadcast_channel:
  assumes "tenantBroadcast prefix cur channel payload wire = Inr wire'"
  shows "\<exists>i rest. cur = Some i \<and> SAFE_IDENT i \<and> normalizeChannel channel = Inr rest \<and>
    wire' = wire @ [(prefix @ i @ ''/'' @ rest, payload)]"
  using assms channel_read [of prefix cur channel]
  by (auto simp add: tenantBroadcast_def split: sum.splits)

text \<open>A second bootstrapper moves the channels of those that use the first.\<close>

lemma second_bootstrapper_moves_channels:
  "createTransmitBootstrapper None (createTransmitBootstrapper (Some p) old) = TENANT_BROADCAST_PREFIX"
  by (simp add: createTransmitBootstrapper_def or_else_def)

section \<open>Spans are closed\<close>

text \<open>
  Tracing is transparent and tidy: a traced computation returns or throws what
  the computation does with the same effect on the world, its span ends on both
  paths with a status that says which, the error is recorded on it, the span that
  was active before is active again and earlier spans are only those the
  computation itself changed.
\<close>

lemma span_reports_outcome:
  assumes "fn (length (tr_spans s)) (s\<lparr>tr_spans := tr_spans s @ [\<lparr>sp_name = name, sp_attributes = attributes,
      sp_status = SpanUnset, sp_exceptions = [], sp_ended = False\<rparr>], tr_active := Some (length (tr_spans s))\<rparr>) = (r, t)"
    and "length (tr_spans s) < length (tr_spans t)"
  shows "\<exists>t'. withSpan show_err name attributes fn s = (r, t') \<and> tr_world t' = tr_world t \<and>
    tr_active t' = tr_active s \<and> length (tr_spans t') = length (tr_spans t) \<and>
    sp_ended (tr_spans t' ! length (tr_spans s)) \<and>
    sp_status (tr_spans t' ! length (tr_spans s)) = (case r of Inl e \<Rightarrow> SpanError (show_err e) | Inr _ \<Rightarrow> SpanOk) \<and>
    sp_exceptions (tr_spans t' ! length (tr_spans s)) =
      sp_exceptions (tr_spans t ! length (tr_spans s)) @ (case r of Inl e \<Rightarrow> [show_err e] | Inr _ \<Rightarrow> []) \<and>
    take (length (tr_spans s)) (tr_spans t') = take (length (tr_spans s)) (tr_spans t)"
  using assms by (cases r) (simp_all add: withSpan_def update_span_def Let_def)

end
