(* ===== verification/Adapters.thy ===== *)
theory Adapters
  imports Scoping
begin

text \<open>
  models/adapters/default_lucid_adapter.ts, backoffice_adapter.ts, the rest of
  tenant_adapter.ts, models/base/, testing/factory.ts and the command
  \<open>tenant:repl\<close>. Lucid's query builders are parameters: what a statement answers,
  and how an answer is read back into a row.
\<close>

section \<open>Rows, models and statements\<close>

record lucid_model =
  lm_name :: string
  lm_table :: string
  lm_connection :: "string option"
  lm_primaryKey :: string
  lm_columns :: "(string, string) jmap"
  lm_selfAssignPrimaryKey :: bool

type_synonym attributes = "(string, string) jmap"

record lucid_row =
  lr_trx :: "string option"
  lr_optClient :: "string option"
  lr_optConnection :: "string option"
  lr_attributes :: attributes
  lr_original :: attributes
  lr_key :: string

text \<open>Where a statement goes: its client, the schema it names, if any, and its table.\<close>

record statement_target =
  tg_client :: client
  tg_schema :: "string option"
  tg_table :: string

text \<open>An insert answers an array that starts with an object or another value, or something else.\<close>

datatype insert_result = InsertedRow attributes | InsertedKey string | NothingReturned

record 'w lucid_ops =
  lx_insert :: "statement_target \<Rightarrow> string \<Rightarrow> attributes \<Rightarrow> 'w \<Rightarrow> (string + insert_result) \<times> 'w"
  lx_update :: "statement_target \<Rightarrow> lucid_row \<Rightarrow> attributes \<Rightarrow> 'w \<Rightarrow> (string + unit) \<times> 'w"
  lx_delete :: "statement_target \<Rightarrow> lucid_row \<Rightarrow> 'w \<Rightarrow> (string + unit) \<times> 'w"
  lx_first :: "statement_target \<Rightarrow> lucid_row \<Rightarrow> 'w \<Rightarrow> (string + attributes option) \<times> 'w"
  lx_consume :: "lucid_model \<Rightarrow> attributes \<Rightarrow> lucid_row \<Rightarrow> lucid_row"

datatype lucid_error = NoClient adapter_error | StatementFailed string | RefreshFailed string

type_synonym client_of = "lucid_model \<Rightarrow> string option \<Rightarrow> string option \<Rightarrow> adapter_error + client"

section \<open>The default adapter\<close>

definition getPrimaryKeyColumnName :: "lucid_model \<Rightarrow> string" where
  "getPrimaryKeyColumnName M = or_else (jm_get (lm_primaryKey M) (lm_columns M)) (lm_primaryKey M)"

text \<open>\<open>primary\<close> is the connection the manager uses when none is named.\<close>

definition default_client :: "string \<Rightarrow> client_of" where
  "default_client primary M opt_client opt_connection =
     (case opt_client of
        Some c \<Rightarrow> Inr (GivenClient c)
      | None \<Rightarrow>
          Inr (Connection (case truthy opt_connection of Some n \<Rightarrow> n | None \<Rightarrow> or_else (lm_connection M) primary)))"

definition lucid_query :: "client_of \<Rightarrow> lucid_model \<Rightarrow> string option \<Rightarrow> string option \<Rightarrow> adapter_error + statement_target" where
  "lucid_query clientOf M opt_client opt_connection =
     map_sum id (\<lambda>c. \<lparr>tg_client = c, tg_schema = None, tg_table = lm_table M\<rparr>) (clientOf M opt_client opt_connection)"

definition modelClient :: "client_of \<Rightarrow> lucid_model \<Rightarrow> lucid_row \<Rightarrow> adapter_error + client" where
  "modelClient clientOf M r =
     (case lr_trx r of Some t \<Rightarrow> Inr (GivenClient t) | None \<Rightarrow> clientOf M (lr_optClient r) (lr_optConnection r))"

text \<open>\<open>$getQueryFor\<close>: the statement of a row names its table and no schema.\<close>

definition on_row ::
  "client_of \<Rightarrow> lucid_model \<Rightarrow> lucid_row \<Rightarrow> (statement_target \<Rightarrow> 'w \<Rightarrow> (string + 'a) \<times> 'w) \<Rightarrow>
   ('w, lucid_error, 'a) M"
where
  "on_row clientOf M r stmt w =
     (case modelClient clientOf M r of
        Inl e \<Rightarrow> (Inl (NoClient e), w)
      | Inr c \<Rightarrow>
          (case stmt \<lparr>tg_client = c, tg_schema = None, tg_table = lm_table M\<rparr> w of
             (Inl e, w') \<Rightarrow> (Inl (StatementFailed e), w')
           | (Inr a, w') \<Rightarrow> (Inr a, w')))"

definition lucid_insert ::
  "client_of \<Rightarrow> 'w lucid_ops \<Rightarrow> lucid_model \<Rightarrow> lucid_row \<Rightarrow> attributes \<Rightarrow> ('w, lucid_error, lucid_row) M"
where
  "lucid_insert clientOf ops M r attrs =
     bindM (on_row clientOf M r (\<lambda>tg. lx_insert ops tg (lm_name M) attrs)) (\<lambda>result.
       returnM (if lm_selfAssignPrimaryKey M then r
         else case result of
                InsertedRow a \<Rightarrow> lx_consume ops M a r
              | InsertedKey k \<Rightarrow> lx_consume ops M [(getPrimaryKeyColumnName M, k)] r
              | NothingReturned \<Rightarrow> r))"

definition lucid_update ::
  "client_of \<Rightarrow> 'w lucid_ops \<Rightarrow> lucid_model \<Rightarrow> lucid_row \<Rightarrow> attributes \<Rightarrow> ('w, lucid_error, unit) M"
where
  "lucid_update clientOf ops M r dirty = on_row clientOf M r (\<lambda>tg. lx_update ops tg r dirty)"

definition lucid_delete :: "client_of \<Rightarrow> 'w lucid_ops \<Rightarrow> lucid_model \<Rightarrow> lucid_row \<Rightarrow> ('w, lucid_error, unit) M" where
  "lucid_delete clientOf ops M r = on_row clientOf M r (\<lambda>tg. lx_delete ops tg r)"

definition refresh_message :: "lucid_model \<Rightarrow> string \<Rightarrow> string" where
  "refresh_message M key =
     [DQ] @ ''Model.refresh'' @ [DQ] @ '' failed. Unable to lookup '' @ [DQ] @ lm_table M @ [DQ] @ '' table where '' @
     [DQ] @ getPrimaryKeyColumnName M @ [DQ] @ '' = '' @ key"

definition lucid_refresh ::
  "client_of \<Rightarrow> 'w lucid_ops \<Rightarrow> lucid_model \<Rightarrow> lucid_row \<Rightarrow> ('w, lucid_error, lucid_row) M"
where
  "lucid_refresh clientOf ops M r =
     bindM (on_row clientOf M r (\<lambda>tg. lx_first ops tg r)) (\<lambda>fresh.
       case fresh of
         None \<Rightarrow> throwM (RefreshFailed (refresh_message M (lr_key r)))
       | Some attrs \<Rightarrow> returnM (r\<lparr>lr_attributes := attrs, lr_original := attrs\<rparr>))"

section \<open>The adapters of the package\<close>

definition backoffice_query ::
  "string \<Rightarrow> string \<Rightarrow> lucid_model \<Rightarrow> string option \<Rightarrow> string option \<Rightarrow> adapter_error + statement_target"
where
  "backoffice_query backofficeSchemaName primary M opt_client opt_connection =
     map_sum id (\<lambda>c. \<lparr>tg_client = c, tg_schema = Some backofficeSchemaName, tg_table = lm_table M\<rparr>)
       (default_client primary M opt_client opt_connection)"

definition tenant_client ::
  "(string \<Rightarrow> string + string) \<Rightarrow> string option \<Rightarrow> (resolver_config \<times> http_request) option \<Rightarrow> client_of"
where
  "tenant_client conn_name fromTenancy http M opt_client opt_connection =
     modelConstructorClient conn_name fromTenancy http opt_client opt_connection (lm_connection M)"

text \<open>The base classes: their connections before the provider sets them, and the naming of central tables.\<close>

definition BACKOFFICE_CONNECTION :: string where
  "BACKOFFICE_CONNECTION = ''backoffice''"

definition CENTRAL_CONNECTION :: string where
  "CENTRAL_CONNECTION = ''public''"

definition central_tableName :: "string \<Rightarrow> (string \<Rightarrow> string) \<Rightarrow> string \<Rightarrow> string" where
  "central_tableName centralSchemaName camelTable model = centralSchemaName @ ''.'' @ camelTable model"

section \<open>What adapters promise their rows\<close>

text \<open>A client that is given is used, and then a connection that is named.\<close>

locale lucid_adapter =
  fixes clientOf :: client_of
  assumes given: "clientOf M (Some c) n = Inr (GivenClient c)"
    and named: "truthy n = Some x \<Longrightarrow> clientOf M None n = Inr (Connection x)"
begin

lemma trx_first: "lr_trx r = Some t \<Longrightarrow> modelClient clientOf M r = Inr (GivenClient t)"
  by (simp add: modelClient_def)

lemma row_client:
  "lr_trx r = None \<Longrightarrow> lr_optClient r = None \<Longrightarrow> truthy (lr_optConnection r) = Some x \<Longrightarrow>
   modelClient clientOf M r = Inr (Connection x)"
  by (simp add: modelClient_def named)

text \<open>A row's statement is the plain statement on the client the row is bound to.\<close>

lemma on_bound_row:
  assumes "modelClient clientOf M r = Inr c"
  shows "on_row clientOf M r stmt w =
    map_prod (map_sum StatementFailed id) id (stmt \<lparr>tg_client = c, tg_schema = None, tg_table = lm_table M\<rparr> w)"
  using assms by (auto simp add: on_row_def split: prod.splits sum.splits)

lemma bound_row_query:
  "truthy (lr_optConnection r) = Some x \<Longrightarrow>
   lucid_query clientOf M None (lr_optConnection r) = Inr \<lparr>tg_client = Connection x, tg_schema = None, tg_table = lm_table M\<rparr>"
  by (simp add: lucid_query_def named)

end

interpretation plain: lucid_adapter "default_client primary" for primary
  by unfold_locales (simp_all add: default_client_def)

interpretation tenants: lucid_adapter "tenant_client conn_name fromTenancy http" for conn_name fromTenancy http
  by unfold_locales (simp_all add: tenant_client_def modelConstructorClient_def)

definition bound_to :: "lucid_row \<Rightarrow> client \<Rightarrow> bool" where
  "bound_to r c \<longleftrightarrow>
     (case lr_trx r of
        Some t \<Rightarrow> c = GivenClient t
      | None \<Rightarrow> lr_optClient r = None \<and> (\<exists>x. truthy (lr_optConnection r) = Some x \<and> c = Connection x))"

lemma bound_client:
  "bound_to r c \<Longrightarrow> modelClient (tenant_client conn_name fromTenancy http) M r = Inr c"
  using tenants.row_client by (auto simp add: bound_to_def modelClient_def split: option.splits)

text \<open>
  A row of a tenant model is written where it was read: bound to a transaction,
  or read over a named connection, it is inserted, updated, deleted and refreshed
  there and nowhere else, whatever tenant is current by then and whatever the
  request says; the outcome is the statement's own.
\<close>

theorem rows_stay_on_their_connection:
  assumes "bound_to r c" and clientOf: "clientOf = tenant_client conn_name fromTenancy http"
    and tg: "tg = \<lparr>tg_client = c, tg_schema = None, tg_table = lm_table M\<rparr>"
  shows "lucid_update clientOf ops M r dirty w = map_prod (map_sum StatementFailed id) id (lx_update ops tg r dirty w) \<and>
    lucid_delete clientOf ops M r w = map_prod (map_sum StatementFailed id) id (lx_delete ops tg r w) \<and>
    snd (lucid_insert clientOf ops M r attrs w) = snd (lx_insert ops tg (lm_name M) attrs w) \<and>
    lucid_refresh clientOf ops M r w =
      (case lx_first ops tg r w of
         (Inl e, w') \<Rightarrow> (Inl (StatementFailed e), w')
       | (Inr None, w') \<Rightarrow> (Inl (RefreshFailed (refresh_message M (lr_key r))), w')
       | (Inr (Some a), w') \<Rightarrow> (Inr (r\<lparr>lr_attributes := a, lr_original := a\<rparr>), w'))"
proof (intro conjI)
  note on = tenants.on_bound_row [OF bound_client [OF assms(1)], of conn_name fromTenancy http M, folded clientOf tg]
  show "lucid_update clientOf ops M r dirty w = map_prod (map_sum StatementFailed id) id (lx_update ops tg r dirty w)"
    by (simp add: lucid_update_def on)
  show "lucid_delete clientOf ops M r w = map_prod (map_sum StatementFailed id) id (lx_delete ops tg r w)"
    by (simp add: lucid_delete_def on)
  show "snd (lucid_insert clientOf ops M r attrs w) = snd (lx_insert ops tg (lm_name M) attrs w)"
    by (cases "lx_insert ops tg (lm_name M) attrs w") (auto simp add: lucid_insert_def run_simps on split: sum.splits)
  show "lucid_refresh clientOf ops M r w =
      (case lx_first ops tg r w of
         (Inl e, w') \<Rightarrow> (Inl (StatementFailed e), w')
       | (Inr None, w') \<Rightarrow> (Inl (RefreshFailed (refresh_message M (lr_key r))), w')
       | (Inr (Some a), w') \<Rightarrow> (Inr (r\<lparr>lr_attributes := a, lr_original := a\<rparr>), w'))"
    by (cases "lx_first ops tg r w")
      (auto simp add: lucid_refresh_def run_simps on split: sum.splits option.splits)
qed

text \<open>Statements that are recorded, one after the other.\<close>

definition recording_ops :: "(statement_target list) lucid_ops" where
  "recording_ops = \<lparr>
     lx_insert = (\<lambda>tg m a w. (Inr NothingReturned, w @ [tg])), lx_update = (\<lambda>tg r a w. (Inr (), w @ [tg])),
     lx_delete = (\<lambda>tg r w. (Inr (), w @ [tg])), lx_first = (\<lambda>tg r w. (Inr None, w @ [tg])),
     lx_consume = (\<lambda>M a r. r)\<rparr>"

definition notes_model :: lucid_model where
  "notes_model = \<lparr>lm_name = ''Note'', lm_table = ''notes'', lm_connection = None, lm_primaryKey = ''id'', lm_columns = [],
     lm_selfAssignPrimaryKey = False\<rparr>"

definition notes_row :: lucid_row where
  "notes_row = \<lparr>lr_trx = None, lr_optClient = None, lr_optConnection = Some ''tenant_a'', lr_attributes = [],
     lr_original = [], lr_key = ''1''\<rparr>"

theorem rows_stay_on_their_connection_witness:
  "snd (lucid_delete (tenant_client (\<lambda>i. Inr (''tenant_'' @ i)) (Some ''b'') None) recording_ops notes_model notes_row []) =
    [\<lparr>tg_client = Connection ''tenant_a'', tg_schema = None, tg_table = ''notes''\<rparr>]"
proof -
  have "bound_to notes_row (Connection ''tenant_a'')" by (simp add: bound_to_def notes_row_def truthy_def)
  from rows_stay_on_their_connection [OF this refl refl, of "\<lambda>i. Inr (''tenant_'' @ i)" "Some ''b''" None recording_ops notes_model
      "[]" "[]" "[]"]
  show ?thesis by (simp add: recording_ops_def notes_model_def)
qed

text \<open>
  The rows of the backoffice are queried in its schema, but saved, deleted and
  refreshed without one: those statements rely on the search path of the connection.
\<close>

lemma backoffice_rows_name_no_schema:
  assumes "lr_trx r = None" "lr_optClient r = None" "truthy (lr_optConnection r) = Some x"
  shows "backoffice_query schema primary M None (lr_optConnection r) =
      Inr \<lparr>tg_client = Connection x, tg_schema = Some schema, tg_table = lm_table M\<rparr>"
    and "lucid_delete (default_client primary) ops M r w =
      map_prod (map_sum StatementFailed id) id
        (lx_delete ops \<lparr>tg_client = Connection x, tg_schema = None, tg_table = lm_table M\<rparr> r w)"
  using plain.on_bound_row [OF plain.row_client [OF assms]] assms(3)
  by (simp_all add: backoffice_query_def default_client_def lucid_delete_def)

section \<open>Fixtures\<close>

text \<open>testing/factory.ts over the rows of the registry; \<open>like\<close> is the database's pattern match.\<close>

definition createTestTenant :: "string \<Rightarrow> int \<Rightarrow> tenant_overrides \<Rightarrow> tenant list \<Rightarrow> tenant \<times> tenant list" where
  "createTestTenant uuid now ov rows =
     (let t = buildTestTenant uuid now (ov\<lparr>o_createdAt := None, o_deletedAt := None\<rparr>) in (t, rows @ [t]))"

definition destroyTestTenant :: "string \<Rightarrow> tenant list \<Rightarrow> tenant list" where
  "destroyTestTenant i rows = filter (\<lambda>t. t_id t \<noteq> i) rows"

definition cleanup_matches :: "(string \<Rightarrow> string \<Rightarrow> bool) \<Rightarrow> string option \<Rightarrow> string option \<Rightarrow> tenant \<Rightarrow> bool" where
  "cleanup_matches like emailLike namePrefix t \<longleftrightarrow>
     (case truthy emailLike of None \<Rightarrow> True | Some p \<Rightarrow> like p (t_email t)) \<and>
     (case truthy namePrefix of None \<Rightarrow> True | Some p \<Rightarrow> like (p @ ''%'') (t_name t))"

definition cleanupTenants ::
  "(string \<Rightarrow> string \<Rightarrow> bool) \<Rightarrow> string option \<Rightarrow> string option \<Rightarrow> tenant list \<Rightarrow> nat \<times> tenant list"
where
  "cleanupTenants like emailLike namePrefix rows =
     (length (filter (cleanup_matches like emailLike namePrefix) rows),
      filter (\<lambda>t. \<not> cleanup_matches like emailLike namePrefix t) rows)"

definition updateTestTenantStatus :: "string \<Rightarrow> TenantStatus \<Rightarrow> tenant list \<Rightarrow> tenant list" where
  "updateTestTenantStatus i st rows = map (\<lambda>t. if t_id t = i then t\<lparr>t_status := st\<rparr> else t) rows"

text \<open>Without a filter every tenant goes, not only those of a test.\<close>

lemma cleanup_without_filter_wipes:
  "cleanupTenants like None None rows = (length rows, [])"
  by (simp add: cleanupTenants_def cleanup_matches_def truthy_def)

lemma fixture_is_removed:
  assumes "o_id ov = None" "\<forall>t \<in> set rows. t_id t \<noteq> uuid"
  shows "destroyTestTenant uuid (snd (createTestTenant uuid now ov rows)) = rows"
  using assms by (simp add: destroyTestTenant_def createTestTenant_def buildTestTenant_def or_else_def Let_def filter_id_conv)

section \<open>The tenant shell\<close>

datatype repl_start = ReplNoTenant string | ReplLoaded "string list" "string list"

definition REPL_CONTEXT :: "string list" where
  "REPL_CONTEXT = [''tenant'', ''db'', ''audit'', ''featureFlags'', ''webhooks'', ''branding'', ''sso'', ''metrics'',
     ''queue'', ''circuit'', ''logCtx'']"

text \<open>\<open>connect\<close> is the active driver's; the shell starts with the notices and the names it has.\<close>

definition tenant_repl :: "(string \<Rightarrow> bool \<Rightarrow> tenant option) \<Rightarrow> (tenant \<Rightarrow> 'e + 'c) \<Rightarrow> string \<Rightarrow> 'e + repl_start" where
  "tenant_repl findById connect tenantId =
     (case findById tenantId True of
        None \<Rightarrow> Inr (ReplNoTenant (''Tenant '' @ [DQ] @ tenantId @ [DQ] @ '' not found''))
      | Some t \<Rightarrow>
          (case connect t of
             Inl e \<Rightarrow> Inl e
           | Inr db \<Rightarrow>
               Inr (ReplLoaded
                 [''Loaded tenant '' @ t_id t @ '' ('' @ t_name t @ '') - status: '' @ status_name (t_status t),
                  ''Available: '' @ js_join '', '' REPL_CONTEXT] REPL_CONTEXT)))"

end
