(* ===== verification/Failures.thy ===== *)
theory Failures
  imports Middleware Quota Impersonation
begin

text \<open>
  exceptions/: what the exceptions of the package tell a client, and how the errors
  of the other theories are such exceptions. An \<open>Exception\<close> made without arguments
  takes its class's message, status and code.
\<close>

record exception =
  ex_status :: nat
  ex_code :: string
  ex_message :: string

definition CentralRouteViolationException :: exception where
  "CentralRouteViolationException = \<lparr>ex_status = 404, ex_code = ''E_CENTRAL_ROUTE_VIOLATION'',
     ex_message = ''This route is only available on the central domain''\<rparr>"

definition CircuitOpenException :: exception where
  "CircuitOpenException = \<lparr>ex_status = 503, ex_code = ''E_CIRCUIT_OPEN'',
     ex_message = ''Tenant service temporarily unavailable. Circuit is open.''\<rparr>"

definition ImpersonationInvalidException :: exception where
  "ImpersonationInvalidException = \<lparr>ex_status = 401, ex_code = ''E_IMPERSONATION_TOKEN_INVALID'',
     ex_message = ''Invalid or expired impersonation token''\<rparr>"

text \<open>The header's name is the configured one, when the configuration can be read.\<close>

definition MissingTenantHeaderException :: "string option \<Rightarrow> exception" where
  "MissingTenantHeaderException headerKey = \<lparr>ex_status = 400, ex_code = ''E_MISSING_TENANT_HEADER'',
     ex_message = (case headerKey of None \<Rightarrow> ''Missing tenant header'' | Some h \<Rightarrow> ''Missing '' @ h @ '' header'')\<rparr>"

definition TenantNotFound_exception :: exception where
  "TenantNotFound_exception = \<lparr>ex_status = 404, ex_code = ''E_TENANT_NOT_FOUND'', ex_message = ''Tenant not found''\<rparr>"

definition TenantNotReadyException :: exception where
  "TenantNotReadyException = \<lparr>ex_status = 503, ex_code = ''E_TENANT_NOT_READY'',
     ex_message = ''This tenant is not yet ready. Please try again shortly''\<rparr>"

definition TenantSuspendedException :: exception where
  "TenantSuspendedException = \<lparr>ex_status = 403, ex_code = ''E_TENANT_SUSPENDED'',
     ex_message = ''This tenant account has been suspended''\<rparr>"

definition TooManyRequestsException :: exception where
  "TooManyRequestsException = \<lparr>ex_status = 429, ex_code = ''E_TOO_MANY_REQUESTS'',
     ex_message = ''Too many requests. Please slow down and try again later''\<rparr>"

record maintenance_exception = exception +
  mx_retryAfterSeconds :: "int option"
  mx_tenantMessage :: "string option"

definition TenantMaintenanceException :: maintenance_exception where
  "TenantMaintenanceException = \<lparr>ex_status = 503, ex_code = ''E_TENANT_MAINTENANCE'',
     ex_message = ''This tenant is currently under maintenance'', mx_retryAfterSeconds = None, mx_tenantMessage = None\<rparr>"

record quota_exception = exception +
  qx_tenantId :: string
  qx_quota :: string
  qx_limit :: "int option"
  qx_current :: int
  qx_attempted :: int

definition show_limit :: "int option \<Rightarrow> string" where
  "show_limit l = (case l of None \<Rightarrow> ''Infinity'' | Some n \<Rightarrow> show_int n)"

definition QuotaExceededException :: "string \<Rightarrow> string \<Rightarrow> int option \<Rightarrow> int \<Rightarrow> int \<Rightarrow> string option \<Rightarrow> quota_exception" where
  "QuotaExceededException tenantId quota lim cur amount message =
     \<lparr>ex_status = 429, ex_code = ''E_TENANT_QUOTA_EXCEEDED'',
      ex_message = or_else message (''Tenant '' @ tenantId @ '' exceeded '' @ quota @ '': '' @ show_int cur @ ''+'' @
        show_int amount @ '' > '' @ show_limit lim),
      qx_tenantId = tenantId, qx_quota = quota, qx_limit = lim, qx_current = cur, qx_attempted = amount\<rparr>"

text \<open>The exception an error of the middlewares is, where the package has a class for it.\<close>

definition exception_of :: "string option \<Rightarrow> mw_error \<Rightarrow> exception option" where
  "exception_of headerKey e =
     (case e of
        Resolution MissingTenantHeader \<Rightarrow> Some (MissingTenantHeaderException headerKey)
      | Resolution TenantNotFoundException \<Rightarrow> Some TenantNotFound_exception
      | TenantSuspended \<Rightarrow> Some TenantSuspendedException
      | TenantNotReady \<Rightarrow> Some TenantNotReadyException
      | TenantMaintenance n m \<Rightarrow> Some (exception.truncate
          (TenantMaintenanceException\<lparr>mx_retryAfterSeconds := Some n, mx_tenantMessage := m\<rparr>))
      | CircuitOpen \<Rightarrow> Some CircuitOpenException
      | CentralRouteViolation \<Rightarrow> Some CentralRouteViolationException
      | TooManyRequests \<Rightarrow> Some TooManyRequestsException
      | _ \<Rightarrow> None)"

lemmas exception_defs =
  CentralRouteViolationException_def CircuitOpenException_def ImpersonationInvalidException_def
  MissingTenantHeaderException_def TenantNotFound_exception_def TenantNotReadyException_def
  TenantSuspendedException_def TooManyRequestsException_def TenantMaintenanceException_def QuotaExceededException_def

text \<open>The status the middlewares answer is the one of the exception.\<close>

lemma exception_status: "exception_of h e = Some x \<Longrightarrow> ex_status x = http_status e"
  by (cases e)
    (auto simp add: exception_of_def http_status_def exception_defs exception.truncate_def split: tenant_error.splits)

text \<open>A client can tell the refusals apart by their code.\<close>

lemma codes_tell_apart:
  "distinct (map ex_code [CentralRouteViolationException, CircuitOpenException, ImpersonationInvalidException,
     MissingTenantHeaderException h, TenantNotFound_exception, TenantNotReadyException, TenantSuspendedException, TooManyRequestsException,
     exception.truncate TenantMaintenanceException, exception.truncate (QuotaExceededException t q l c a m)])"
  by (simp add: exception_defs exception.truncate_def)

end
