(* ===== verification/Spec2Isabelle.thy ===== *)
theory Spec2Isabelle
  imports Sql_Import Resolvers Middleware Redirect Url_Guard Hooks Bootstrap Isolation Quota
    Scoping Life_Rows Life_Ready Backup Webhook_Retries Sso Doctor_Facts Commands Clone Provider
    Admin_Api Health Responses Outbound Adapters Failures
begin

text \<open>
  A verification library for Adonisjs-Lasagna-Multitenancy, the multi-tenancy
  package for AdonisJS under src/src.

  \<^bold>\<open>The program.\<close> A request names a tenant (a header, a host name, a path segment
  or request data); the package finds the tenant's row, connects its storage
  through an isolation driver, refuses tenants that may not be served, and runs
  the handler in a scope in which sessions, channels, disks, caches, mail and
  models see that tenant only. Around this there is an admin API, jobs and
  commands that create, install, clone, suspend, restore and destroy tenants, quotas,
  per-tenant queues, breakers and replicas, backups, webhooks, single sign-on,
  impersonation, feature flags, branding, an audit log, usage counters, health probes,
  a doctor, and the import of SQL dumps.

  \<^bold>\<open>The theories\<close>, in the order in which they build on each other:

  \<^item> Prelude: the parts of JavaScript the code uses (strings, the insertion-ordered
    Map with its locale \<open>keyed_store\<close>), the monad of state and exceptions with
    its preservation lemmas (\<open>keeps\<close>) and triples (\<open>hoare\<close>).
  \<^item> Identifier: services/isolation/identifier.ts, the names that may reach SQL.
  \<^item> Sql_Splitter, Sql_Import: utils/sql_splitter.ts as a state machine over the rest
    of the text, and services/sql_import_service.ts. Printing well-formed statements
    and splitting is the identity; a COPY block is read back whole; an import
    accounts for every statement and removes its temporary file.
  \<^item> Tenant_Model: types/contracts.ts and testing/: the tenant's row and status, the
    repository contract as a locale, interpreted by the in-memory repository.
  \<^item> Resolvers: services/resolvers/ and extensions/request.ts. The tenant of a request
    is the one it names, found by a valid id or by its domain, connected and
    memoised; the registry and the synchronous fallback agree where documented.
  \<^item> Middleware: middleware/ (guard, universal, central-only, custom domain, rate
    limit). The guard runs the handler exactly for the tenants that may be served.
  \<^item> Redirect, Url_Guard: services/cross_domain_redirect_service.ts and
    admin/controllers/helpers.ts, where URLs may lead to.
  \<^item> Hooks: services/hook_registry.ts, the hooks before and after an operation.
  \<^item> Bootstrap: services/bootstrapper_registry.ts, tenancy.ts, services/bootstrappers/.
    The counting loop of \<open>runScoped\<close> is the nesting of try and finally; sessions and
    channels of two tenants are apart.
  \<^item> Isolation: services/isolation/, four drivers as interpretations of one locale. The
    pool of connections maps each name to its own tenant and stays within its bound.
  \<^item> Quota: services/quota_service.ts with its middleware and controller.
  \<^item> Scoping: models/scoping.ts and models/adapters/tenant_adapter.ts, the queries and
    writes of models that share a table.
  \<^item> Runtime: services/tenant_queue_service.ts, circuit_breaker_service.ts and
    read_replica_service.ts.
  \<^item> Lifecycle, Life_Rows, Life_Ready: admin/admin_controller.ts, jobs/ and commands/ on
    one state (rows, driver, jobs, events, queues, breakers), the step relation of
    requests and workers in any order, and its invariants.
  \<^item> Paths, Backup: \<open>path.join\<close> and services/backup_service.ts,
    backup_retention_service.ts, their jobs and the scheduled run.
  \<^item> Impersonation: services/impersonation_service.ts and its middleware. Tokens are
    hexadecimal text over an HMAC; the two accesses of \<open>verify\<close> to the cache are
    separate definitions, so that a stop can come between them.
  \<^item> Webhook, Webhook_Retries: utils/crypto.ts, services/webhook_service.ts and
    admin/controllers/webhooks_controller.ts; where requests go, and that retrying ends.
  \<^item> Sso: services/sso_service.ts and its controller. A login that succeeds was started
    for that tenant and verified for its issuer; its state is used once.
  \<^item> Doctor, Doctor_Facts: services/doctor/ and the command. One report per selected
    check whatever the checks do, and which tenants a fix may change.
  \<^item> Commands: the commands that walk over tenants (migrate, rollback, fresh, seed, exec,
    backup, restore, import and the rest), their counts and exit codes.
  \<^item> Clone: services/clone_service.ts with its job and command. A clone that succeeds
    has the source's rows, one that fails is cleaned up.
  \<^item> Provider: providers/multitenancy_provider.ts, config.ts and extensions/router.ts, the
    start of an application: which configurations boot and what is then in place.
  \<^item> Admin_Spec, Admin_Api: admin/openapi.ts, routes.ts and swagger_html.ts. The document
    lists exactly the routes; the page cannot be broken out of.
  \<^item> Satellites: services/feature_flag_service.ts, branding_service.ts and their
    controllers, tables behind read-through caches.
  \<^item> Activity: services/audit_log_service.ts and metrics_service.ts with their
    controllers and commands. Paging loses no entry; a flush stores what was counted.
  \<^item> Health: health/. The report of the probes, and a Prometheus text that reads back.
  \<^item> Responses: the answers of the admin endpoints as JSON and a checker for the part of
    JSON Schema the document uses; the answers have the documented shape.
  \<^item> Outbound: the tenant mailer, broadcasts, services/telemetry_service.ts and
    tenant_log_context.ts.
  \<^item> Adapters: models/adapters/, models/base/, testing/factory.ts and \<open>tenant:repl\<close>. The
    locale \<open>lucid_adapter\<close> is what every adapter promises its rows: their statements go
    to the client they are bound to.
  \<^item> Failures: exceptions/, what each error tells a client.

  \<^bold>\<open>How the parts interact.\<close> \<open>request_tenant\<close> (Resolvers) uses the repository contract and
  the driver's connect; \<open>guard_handle\<close> and the other middlewares call it. The lifecycle
  operations call the driver, the hooks, the queue and breaker services; their driver is
  a parameter whose contract is what the drivers of Isolation satisfy. The backup and
  path theories use the identifier policy; webhooks use the URL guard and the
  hexadecimal coding. \<open>boot\<close> (Provider) builds one of Isolation's drivers and seeds the
  resolvers; its driver interprets the same locale. Cloning is a client of the
  driver contract and of the lifecycle's rows, the doctor of the queue and breaker
  services, the exporter of their statistics. The routes of Admin_Api lead to the
  endpoints of the other theories, and Responses relates what these answer to the
  document of Admin_Spec.

  \<^bold>\<open>Modelling.\<close> A class is a record of its fields, a method a definition from the state to
  a result (\<open>Inl\<close> an exception, \<open>Inr\<close> a value) and the state it leaves. Strings are lists
  of the UTF-16 units below 256. What runs outside the package (the database
  manager, Redis, BullMQ, opossum, S3, the file system, processes, HTTP, HMAC, AES-GCM, clocks,
  random numbers) is a parameter: a record of operations on a state of its own type. What
  the code relies on is a named predicate (\<open>db_laws\<close>, \<open>redis_laws\<close>, \<open>zset_laws\<close>,
  \<open>kv_laws\<close>, \<open>bull_laws\<close>, \<open>opossum_laws\<close>, \<open>file_laws\<close>, \<open>meta_laws\<close>, \<open>cache_laws\<close>,
  \<open>readthrough_laws\<close>, \<open>counter_laws\<close>, \<open>sorter_law\<close>, \<open>sso_laws\<close>, \<open>copy_laws\<close>,
  \<open>savepoint_laws\<close>, \<open>seal_law\<close>, \<open>driver_contract\<close>), and every theorem that assumes one has a witness on a
  concrete instance. Tasks of one \<open>Promise.all\<close> run one after the other.

  Dashes in messages are hyphens.

  \<^bold>\<open>Bounds.\<close> Loops are structural recursions or have a termination proof on the length of
  the rest of the text. Two loops follow a cursor that Redis gives: the SCAN of the quota
  reset has fuel and gives None when it is used up, the SCAN of the metrics flush is a
  partial function whose value is None when the cursor never returns to its start; that
  it returns is proved under \<open>counter_laws\<close>. The schema checker follows at most four
  references, and the document nests fewer. Replica cursors are 32-bit words. Times are
  integers in milliseconds; the backoff's arithmetic is rational, which is exact for the
  table in use up to the rounding of the random factor. The rest of the counts are
  integers, as no count in the code reaches the end of a double's exact range.

  \<^bold>\<open>Not modelled.\<close> Event classes and most of the configuration types carry fields only. The index files, the construction of the third-party cache
  (utils/cache.ts), the installation script with its stubs and the index of the commands
  have no logic of their own. The example application and the tests use the package and
  are not part of it.
\<close>

end
